(* ===== verification/Smee_Prelude.thy ===== *)
theory Smee_Prelude
  imports Main "HOL-Library.Word" "HOL-Library.Sublist"
begin

text \<open>
  Shared vocabulary of the development: the Go types every package of the program uses
  (bytes, strings, nillable slices, fixed-width integers), the functions of Go's \<open>strings\<close>,
  \<open>bytes\<close>, \<open>strconv\<close> and \<open>fmt\<close> packages that the sources call, and the
  lemmas about them that the component theories rely on.

  A Go \<open>string\<close> and a Go \<open>[]byte\<close> are both sequences of bytes, so both are \<^typ>\<open>char list\<close>
  here. Where the code tells a nil slice from an empty one, the slice is a \<^typ>\<open>char list option\<close>.
\<close>

section \<open>Types\<close>

type_synonym byte = char
type_synonym bytes = "char list"
type_synonym slice = "bytes option"  \<comment> \<open>\<^const>\<open>None\<close> is Go's \<open>nil\<close>\<close>
type_synonym u8 = "8 word"
type_synonym u16 = "16 word"
type_synonym u32 = "32 word"

text \<open>The facts that unfold the Go library functions, for proofs that compute.\<close>

named_theorems go_defs \<open>definitions of the Go library functions used by the sources\<close>
named_theorems go_length \<open>length bounds of the results of string functions\<close>

text \<open>The bytes of a possibly nil slice: Go's \<open>len\<close>, \<open>range\<close> and conversions treat nil as empty.\<close>

definition slice_bytes :: "slice \<Rightarrow> bytes" where
  "slice_bytes s = (case s of None \<Rightarrow> [] | Some b \<Rightarrow> b)"

lemma slice_bytes_simps [simp]: "slice_bytes None = []" "slice_bytes (Some b) = b"
  by (simp_all add: slice_bytes_def)

section \<open>Errors and panics\<close>

text \<open>
  Values of Go's \<open>error\<close> interface, by how the sources make them: \<open>errors.New\<close> (or
  \<open>fmt.Errorf\<close> that wraps nothing), \<open>fmt.Errorf\<close> with \<open>%w\<close> around one or two errors, the
  \<open>hardwareNotFoundError\<close> of the Kubernetes backend, and an error a library returned, which only
  its text and the library can tell apart.
\<close>

datatype go_error =
    ErrorNew string
  | Errorf string go_error
  | Errorf2 string go_error go_error
  | HardwareNotFoundError
  | LibraryError string

fun Error_text :: "go_error \<Rightarrow> string" where
  "Error_text (ErrorNew m) = m"
| "Error_text (Errorf m e) = m"
| "Error_text (Errorf2 m e f) = m"
| "Error_text HardwareNotFoundError = ''hardware not found''"
| "Error_text (LibraryError m) = m"

text \<open>\<open>errors.Is\<close> for a target made by \<open>errors.New\<close>: the error itself or one it wraps.\<close>

fun errors_Is :: "go_error \<Rightarrow> go_error \<Rightarrow> bool" where
  "errors_Is (Errorf m e) t = (Errorf m e = t \<or> errors_Is e t)"
| "errors_Is (Errorf2 m e f) t = (Errorf2 m e f = t \<or> errors_Is e t \<or> errors_Is f t)"
| "errors_Is e t = (e = t)"

text \<open>A call that returns a value, or panics (a nil dereference, a slice out of range).\<close>

datatype 'a go = Ret 'a | Panic string

fun go_bind :: "'a go \<Rightarrow> ('a \<Rightarrow> 'b go) \<Rightarrow> 'b go" where
  "go_bind (Ret x) f = f x"
| "go_bind (Panic m) f = Panic m"

lemma go_bind_Ret_iff: "go_bind c f = Ret y \<longleftrightarrow> (\<exists>x. c = Ret x \<and> f x = Ret y)"
  by (cases c) auto

lemma go_bind_Panic_iff: "go_bind c f = Panic m \<longleftrightarrow> c = Panic m \<or> (\<exists>x. c = Ret x \<and> f x = Panic m)"
  by (cases c) auto

lemma go_bind_RetE:
  assumes "go_bind c f = Ret y"
  obtains x where "c = Ret x" "f x = Ret y"
  using assms by (auto simp: go_bind_Ret_iff)

lemma go_bind_PanicE:
  assumes "go_bind c f = Panic m"
  obtains "c = Panic m" | x where "c = Ret x" "f x = Panic m"
  using assms by (auto simp: go_bind_Panic_iff)

lemmas go_bind_iffs = go_bind_Ret_iff go_bind_Panic_iff

section \<open>Package strings\<close>

definition HasPrefix :: "bytes \<Rightarrow> bytes \<Rightarrow> bool" where
  "HasPrefix s p \<longleftrightarrow> take (length p) s = p"

definition HasSuffix :: "bytes \<Rightarrow> bytes \<Rightarrow> bool" where
  "HasSuffix s p \<longleftrightarrow> length p \<le> length s \<and> drop (length s - length p) s = p"

definition TrimPrefix :: "bytes \<Rightarrow> bytes \<Rightarrow> bytes" where
  "TrimPrefix s p = (if HasPrefix s p then drop (length p) s else s)"

lemmas [go_defs] = HasPrefix_def HasSuffix_def TrimPrefix_def

lemma HasPrefix_iff_prefix: "HasPrefix s p \<longleftrightarrow> prefix p s"
  unfolding HasPrefix_def prefix_def by (metis append_eq_conv_conj append_take_drop_id)

lemma HasPrefix_append [simp]: "HasPrefix (p @ s) p"
  by (simp add: HasPrefix_def)

lemma HasPrefix_length: "HasPrefix s p \<Longrightarrow> length p \<le> length s"
  by (simp add: HasPrefix_iff_prefix prefix_length_le)

lemma HasPrefix_Nil [simp]: "HasPrefix s []"
  by (simp add: HasPrefix_def)

lemma HasPrefix_decomp: "HasPrefix s p \<Longrightarrow> s = p @ drop (length p) s"
  unfolding HasPrefix_def by (metis append_take_drop_id)

lemma TrimPrefix_length [go_length]: "length (TrimPrefix s p) \<le> length s"
  by (simp add: TrimPrefix_def)

text \<open>\<open>strings.Index\<close> and \<open>bytes.Index\<close>: the position of the first occurrence, \<^const>\<open>None\<close> for -1.\<close>

fun Index :: "bytes \<Rightarrow> bytes \<Rightarrow> nat option" where
  "Index [] sub = (if sub = [] then Some 0 else None)"
| "Index (c # s) sub = (if HasPrefix (c # s) sub then Some 0 else map_option Suc (Index s sub))"

lemma Index_Some:
  "Index s sub = Some i \<Longrightarrow>
     i + length sub \<le> length s \<and> take (length sub) (drop i s) = sub \<and>
     (\<forall>j < i. \<not> HasPrefix (drop j s) sub)"
proof (induction s sub arbitrary: i rule: Index.induct)
  case (1 sub)
  then show ?case by (simp split: if_splits)
next
  case (2 c s sub)
  show ?case
  proof (cases "HasPrefix (c # s) sub")
    case True
    with "2.prems" show ?thesis
      using HasPrefix_length[OF True] by (auto simp: HasPrefix_def)
  next
    case False
    with "2.prems" obtain k where k: "Index s sub = Some k" "i = Suc k" by auto
    from "2.IH"[OF False k(1)] k(2) False show ?thesis
      by (auto simp: less_Suc_eq_0_disj)
  qed
qed

lemma Index_None: "Index s sub = None \<longleftrightarrow> (\<forall>j \<le> length s. \<not> HasPrefix (drop j s) sub)"
proof (induction s sub rule: Index.induct)
  case (1 sub)
  then show ?case by (simp add: HasPrefix_def)
next
  case (2 c s sub)
  show ?case
  proof (cases "HasPrefix (c # s) sub")
    case True
    then show ?thesis by (auto intro!: exI[of _ 0])
  next
    case False
    with 2 have "Index (c # s) sub = None \<longleftrightarrow> (\<forall>j \<le> length s. \<not> HasPrefix (drop j s) sub)" by simp
    also have "\<dots> \<longleftrightarrow> (\<forall>j \<le> length (c # s). \<not> HasPrefix (drop j (c # s)) sub)"
      using False by (metis Suc_le_mono drop0 drop_Suc_Cons le0 length_Cons not0_implies_Suc)
    finally show ?thesis .
  qed
qed

definition Contains :: "bytes \<Rightarrow> bytes \<Rightarrow> bool" where
  "Contains s sub \<longleftrightarrow> Index s sub \<noteq> None"

text \<open>\<open>bytes.IndexByte\<close>.\<close>

fun IndexByte :: "bytes \<Rightarrow> byte \<Rightarrow> nat option" where
  "IndexByte [] c = None"
| "IndexByte (x # s) c = (if x = c then Some 0 else map_option Suc (IndexByte s c))"

lemma IndexByte_Some: "IndexByte s c = Some i \<Longrightarrow> i < length s \<and> s ! i = c \<and> c \<notin> set (take i s)"
  by (induction s arbitrary: i) (auto split: if_splits)

lemma IndexByte_None: "IndexByte s c = None \<longleftrightarrow> c \<notin> set s"
  by (induction s) auto

lemma IndexByte_append: "c \<notin> set x \<Longrightarrow> IndexByte (x @ c # y) c = Some (length x)"
  by (induction x) auto

text \<open>\<open>strings.Split\<close> with a one-byte separator, and \<open>strings.Join\<close>.\<close>

fun Split :: "bytes \<Rightarrow> byte \<Rightarrow> bytes list" where
  "Split [] c = [[]]"
| "Split (x # s) c =
     (if x = c then [] # Split s c
      else case Split s c of [] \<Rightarrow> [[x]] | y # ys \<Rightarrow> (x # y) # ys)"

fun Join :: "bytes list \<Rightarrow> bytes \<Rightarrow> bytes" where
  "Join [] sep = []"
| "Join [x] sep = x"
| "Join (x # y # ys) sep = x @ sep @ Join (y # ys) sep"

lemma Split_not_Nil [simp]: "Split s c \<noteq> []"
  by (induction s c rule: Split.induct) (auto split: list.splits)

lemma Join_Cons: "xs \<noteq> [] \<Longrightarrow> Join (x # xs) sep = x @ sep @ Join xs sep"
  by (cases xs) auto

lemma Join_snoc: "xs \<noteq> [] \<Longrightarrow> Join (xs @ [x]) sep = Join xs sep @ sep @ x"
  by (induction xs sep rule: Join.induct) auto

lemma Join_Split [simp]: "Join (Split s c) [c] = s"
proof (induction s c rule: Split.induct)
  case (1 c)
  then show ?case by simp
next
  case (2 x s c)
  show ?case
  proof (cases "x = c")
    case True
    with 2 show ?thesis by (simp add: Join_Cons)
  next
    case False
    obtain y ys where "Split s c = y # ys" by (cases "Split s c") auto
    with 2 False show ?thesis by (cases ys) auto
  qed
qed

lemma Split_no_sep: "p \<in> set (Split s c) \<Longrightarrow> c \<notin> set p"
proof (induction s c arbitrary: p rule: Split.induct)
  case (1 c)
  then show ?case by simp
next
  case (2 x s c)
  show ?case
  proof (cases "x = c")
    case True
    with 2 show ?thesis by auto
  next
    case False
    obtain y ys where "Split s c = y # ys" by (cases "Split s c") auto
    with 2 False show ?thesis by auto
  qed
qed

lemma Split_append_sep: "c \<notin> set a \<Longrightarrow> Split (a @ c # b) c = a # Split b c"
  by (induction a) (auto split: list.splits)

lemma Split_single: "c \<notin> set a \<Longrightarrow> Split a c = [a]"
  by (induction a) auto

lemma Split_Join:
  "xs \<noteq> [] \<Longrightarrow> \<forall>x \<in> set xs. c \<notin> set x \<Longrightarrow> Split (Join xs [c]) c = xs"
  by (induction xs "[c]" rule: Join.induct) (auto simp: Split_append_sep Split_single)

text \<open>\<open>bytes.SplitN\<close> for a positive count: at most \<open>n\<close> parts, the last one unsplit.\<close>

fun SplitN :: "bytes \<Rightarrow> byte \<Rightarrow> nat \<Rightarrow> bytes list" where
  "SplitN s c 0 = []"
| "SplitN s c (Suc 0) = [s]"
| "SplitN s c (Suc (Suc n)) =
     (case IndexByte s c of None \<Rightarrow> [s]
      | Some i \<Rightarrow> take i s # SplitN (drop (Suc i) s) c (Suc n))"

lemma SplitN_step: "c \<notin> set x \<Longrightarrow> SplitN (x @ c # y) c (Suc (Suc n)) = x # SplitN y c (Suc n)"
  by (simp add: IndexByte_append)

lemma SplitN_length: "length (SplitN s c n) \<le> n"
  by (induction s c n rule: SplitN.induct) (auto split: option.splits)

lemma Join_SplitN: "0 < n \<Longrightarrow> Join (SplitN s c n) [c] = s"
proof (induction s c n rule: SplitN.induct)
  case (3 s c n)
  show ?case
  proof (cases "IndexByte s c")
    case None
    then show ?thesis by simp
  next
    case (Some i)
    with IndexByte_Some[OF Some] have s: "s = take i s @ c # drop (Suc i) s"
      by (auto simp: id_take_nth_drop)
    have "SplitN (drop (Suc i) s) c (Suc n) \<noteq> []"
      by (cases n) (auto split: option.splits)
    with Some 3 s show ?thesis by (simp add: Join_Cons)
  qed
qed auto

text \<open>\<open>strings.ReplaceAll\<close> with one-byte patterns.\<close>

definition ReplaceAll :: "bytes \<Rightarrow> byte \<Rightarrow> byte \<Rightarrow> bytes" where
  "ReplaceAll s a b = map (\<lambda>c. if c = a then b else c) s"

text \<open>
  \<open>strings.TrimSpace\<close> removes leading and trailing Unicode white space. The list holds the
  UTF-8 encodings of the code points with the \<open>White_Space\<close> property: a rune is trimmed exactly
  when its encoding is a prefix (a suffix) of what is left.
\<close>

definition space_encodings :: "bytes list" where
  "space_encodings =
     [[CHR 0x09], [CHR 0x0A], [CHR 0x0B], [CHR 0x0C], [CHR 0x0D], [CHR 0x20],
      [CHR 0xC2, CHR 0x85], [CHR 0xC2, CHR 0xA0], [CHR 0xE1, CHR 0x9A, CHR 0x80],
      [CHR 0xE2, CHR 0x80, CHR 0x80], [CHR 0xE2, CHR 0x80, CHR 0x81],
      [CHR 0xE2, CHR 0x80, CHR 0x82], [CHR 0xE2, CHR 0x80, CHR 0x83],
      [CHR 0xE2, CHR 0x80, CHR 0x84], [CHR 0xE2, CHR 0x80, CHR 0x85],
      [CHR 0xE2, CHR 0x80, CHR 0x86], [CHR 0xE2, CHR 0x80, CHR 0x87],
      [CHR 0xE2, CHR 0x80, CHR 0x88], [CHR 0xE2, CHR 0x80, CHR 0x89],
      [CHR 0xE2, CHR 0x80, CHR 0x8A], [CHR 0xE2, CHR 0x80, CHR 0xA8],
      [CHR 0xE2, CHR 0x80, CHR 0xA9], [CHR 0xE2, CHR 0x80, CHR 0xAF],
      [CHR 0xE2, CHR 0x81, CHR 0x9F], [CHR 0xE3, CHR 0x80, CHR 0x80]]"

text \<open>Trims prefixes taken from a list of non-empty patterns, as often as one matches.\<close>

function trim_left :: "bytes list \<Rightarrow> bytes \<Rightarrow> bytes" where
  "trim_left ps s =
     (case List.find (\<lambda>p. p \<noteq> [] \<and> HasPrefix s p) ps of
        None \<Rightarrow> s | Some p \<Rightarrow> trim_left ps (drop (length p) s))"
  by pat_completeness auto
termination
proof (relation "measure (\<lambda>(ps, s). length s)")
  fix ps :: "bytes list" and s p :: bytes
  assume "List.find (\<lambda>p. p \<noteq> [] \<and> HasPrefix s p) ps = Some p"
  then have "p \<noteq> []" "HasPrefix s p" by (auto simp: find_Some_iff)
  then show "((ps, drop (length p) s), ps, s) \<in> measure (\<lambda>(ps, s). length s)"
    by (cases p; cases s) (auto simp: HasPrefix_def)
qed simp

declare trim_left.simps [simp del]

definition TrimSpace :: "bytes \<Rightarrow> bytes" where
  "TrimSpace s = rev (trim_left (map rev space_encodings) (rev (trim_left space_encodings s)))"

lemma trim_left_suffix: "\<exists>k. trim_left ps s = drop k s"
proof (induction ps s rule: trim_left.induct)
  case (1 ps s)
  show ?case
  proof (cases "List.find (\<lambda>p. p \<noteq> [] \<and> HasPrefix s p) ps")
    case None
    then have "trim_left ps s = drop 0 s" by (subst trim_left.simps) simp
    then show ?thesis by blast
  next
    case (Some p)
    with 1 obtain k where "trim_left ps (drop (length p) s) = drop k (drop (length p) s)" by blast
    with Some have "trim_left ps s = drop (k + length p) s" by (subst trim_left.simps) simp
    then show ?thesis by blast
  qed
qed

lemma trim_left_set: "set (trim_left ps s) \<subseteq> set s"
  using trim_left_suffix[of ps s] set_drop_subset by metis

lemma TrimSpace_set: "set (TrimSpace s) \<subseteq> set s"
  using trim_left_set[of "map rev space_encodings" "rev (trim_left space_encodings s)"]
    trim_left_set[of space_encodings s]
  by (auto simp: TrimSpace_def)

lemma trim_left_length [go_length]: "length (trim_left ps s) \<le> length s"
  using trim_left_suffix[of ps s] by auto

lemma TrimSpace_length [go_length]: "length (TrimSpace s) \<le> length s"
  using trim_left_length[of "map rev space_encodings" "rev (trim_left space_encodings s)"]
    trim_left_length[of space_encodings s]
  by (simp add: TrimSpace_def)

section \<open>Numbers: strconv and fmt\<close>

fun nat_string :: "nat \<Rightarrow> string" where
  "nat_string n = (if n < 10 then [char_of (48 + n)] else nat_string (n div 10) @ [char_of (48 + n mod 10)])"

declare nat_string.simps [simp del]

definition int_string :: "int \<Rightarrow> string" where
  "int_string i = (if i < 0 then CHR ''-'' # nat_string (nat (- i)) else nat_string (nat i))"

definition bool_string :: "bool \<Rightarrow> string" where
  "bool_string b = (if b then ''true'' else ''false'')"

definition is_digit :: "byte \<Rightarrow> bool" where
  "is_digit c \<longleftrightarrow> 48 \<le> (of_char c :: nat) \<and> (of_char c :: nat) \<le> 57"

definition digit_val :: "byte \<Rightarrow> nat" where
  "digit_val c = (of_char c :: nat) - 48"

lemma is_digit_char_of [simp]: "n < 10 \<Longrightarrow> is_digit (char_of (48 + n :: nat))"
  by (simp add: is_digit_def)

lemma digit_val_char_of [simp]: "n < 10 \<Longrightarrow> digit_val (char_of (48 + n :: nat)) = n"
  by (simp add: digit_val_def)

lemma nat_string_not_Nil [simp]: "nat_string n \<noteq> []"
  by (subst nat_string.simps) simp

lemma nat_string_digits: "c \<in> set (nat_string n) \<Longrightarrow> is_digit c"
proof (induction n rule: nat_string.induct)
  case (1 n)
  then show ?case
    by (subst (asm) (2) nat_string.simps) (auto split: if_splits)
qed

lemma nat_string_inj_val:
  "foldl (\<lambda>a c. a * 10 + digit_val c) 0 (nat_string n) = n"
proof (induction n rule: nat_string.induct)
  case (1 n)
  show ?case
  proof (cases "n < 10")
    case True
    then show ?thesis by (subst nat_string.simps) simp
  next
    case False
    with 1 show ?thesis by (subst nat_string.simps) simp
  qed
qed

lemma nat_string_inject [simp]: "nat_string m = nat_string n \<longleftrightarrow> m = n"
  by (metis nat_string_inj_val)

text \<open>Hexadecimal digits, as \<open>net.ParseMAC\<close> and the address formatters use them.\<close>

definition hex_digit :: "nat \<Rightarrow> char" where
  "hex_digit n = (if n < 10 then char_of (48 + n) else char_of (87 + n))"

definition hex_val :: "byte \<Rightarrow> nat option" where
  "hex_val c = (let k = (of_char c :: nat) in
     if 48 \<le> k \<and> k \<le> 57 then Some (k - 48)
     else if 97 \<le> k \<and> k \<le> 102 then Some (k - 87)
     else if 65 \<le> k \<and> k \<le> 70 then Some (k - 55)
     else None)"

lemma hex_val_digit [simp]: "n < 16 \<Longrightarrow> hex_val (hex_digit n) = Some n"
  by (simp add: hex_val_def hex_digit_def)

lemma hex_val_bound: "hex_val c = Some n \<Longrightarrow> n < 16"
  by (auto simp: hex_val_def Let_def split: if_splits)

section \<open>Transition systems\<close>

text \<open>
  The concurrent parts of the program are step relations. A property that holds in the initial states and
  that every step keeps holds in every reachable state.
\<close>

locale invariant_system =
  fixes init :: "'s \<Rightarrow> bool" and step :: "'s \<Rightarrow> 's \<Rightarrow> bool" and inv :: "'s \<Rightarrow> bool"
  assumes init_inv: "init s \<Longrightarrow> inv s"
    and step_inv: "inv s \<Longrightarrow> step s t \<Longrightarrow> inv t"
begin

lemma steps_inv:
  assumes "step\<^sup>*\<^sup>* s t" "inv s"
  shows "inv t"
  using assms by (induction rule: rtranclp_induct) (auto intro: step_inv)

lemma reachable_inv: "init s \<Longrightarrow> step\<^sup>*\<^sup>* s t \<Longrightarrow> inv t"
  using steps_inv init_inv by blast

end

end
