(* ===== verification/Go_Net.thy ===== *)
theory Go_Net
  imports Smee_Prelude "HOL-Library.Char_ord" "HOL-Library.List_Lexorder"
begin

unbundle bit_operations_syntax

text \<open>
  What the sources use of Go's \<open>net\<close> and \<open>net/netip\<close> packages: hardware addresses and
  their text form, IP addresses (\<open>netip.Addr\<close> and \<open>net.IP\<close>), their parsers and printers,
  CIDR networks, and the host:port syntax. The parsers follow the control flow of the Go library;
  a parse error is \<^const>\<open>None\<close>. The lemmas are the round trips the backends and the HTTP
  middleware rely on.
\<close>

section \<open>Hardware addresses\<close>

definition byte_hex :: "byte \<Rightarrow> string" where
  "byte_hex b = (let k = (of_char b :: nat) in [hex_digit (k div 16), hex_digit (k mod 16)])"

text \<open>\<open>net.HardwareAddr.String\<close>.\<close>

definition HardwareAddr_String :: "bytes \<Rightarrow> string" where
  "HardwareAddr_String hw = Join (map byte_hex hw) '':''"

text \<open>\<open>xtoi2\<close>: two hexadecimal digits, and a third byte, if there is one, that is the separator.\<close>

definition xtoi2 :: "bytes \<Rightarrow> byte \<Rightarrow> byte option" where
  "xtoi2 s e =
     (if 2 < length s \<and> s ! 2 \<noteq> e then None
      else case s of
        a # b # _ \<Rightarrow>
          (case hex_val a of None \<Rightarrow> None | Some x \<Rightarrow>
           (case hex_val b of None \<Rightarrow> None | Some y \<Rightarrow> Some (char_of (16 * x + y))))
      | _ \<Rightarrow> None)"

text \<open>The loops of \<open>net.ParseMAC\<close>: \<open>n\<close> bytes separated by \<open>e\<close>, and \<open>n\<close> pairs separated by dots.\<close>

fun parse_mac_colons :: "nat \<Rightarrow> bytes \<Rightarrow> byte \<Rightarrow> bytes option" where
  "parse_mac_colons 0 s e = Some []"
| "parse_mac_colons (Suc n) s e =
     (case xtoi2 s e of None \<Rightarrow> None
      | Some b \<Rightarrow> map_option (Cons b) (parse_mac_colons n (drop 3 s) e))"

fun parse_mac_dots :: "nat \<Rightarrow> bytes \<Rightarrow> bytes option" where
  "parse_mac_dots 0 s = Some []"
| "parse_mac_dots (Suc n) s =
     (case xtoi2 (take 2 s) (CHR 0x00) of None \<Rightarrow> None
      | Some a \<Rightarrow> (case xtoi2 (drop 2 s) (CHR ''.'') of None \<Rightarrow> None
          | Some b \<Rightarrow> map_option (\<lambda>r. a # b # r) (parse_mac_dots n (drop 5 s))))"

definition ParseMAC :: "bytes \<Rightarrow> bytes option" where
  "ParseMAC s =
     (if length s < 14 then None
      else if s ! 2 = CHR '':'' \<or> s ! 2 = CHR ''-'' then
        (if (length s + 1) mod 3 \<noteq> 0 then None
         else let n = (length s + 1) div 3 in
           if n \<noteq> 6 \<and> n \<noteq> 8 \<and> n \<noteq> 20 then None
           else parse_mac_colons n s (s ! 2))
      else if s ! 4 = CHR ''.'' then
        (if (length s + 1) mod 5 \<noteq> 0 then None
         else let n = 2 * (length s + 1) div 5 in
           if n \<noteq> 6 \<and> n \<noteq> 8 \<and> n \<noteq> 20 then None
           else parse_mac_dots (n div 2) s)
      else None)"

lemma byte_hex_length [simp]: "length (byte_hex b) = 2"
  by (simp add: byte_hex_def Let_def)

lemma byte_hex_vals:
  "\<exists>x y. byte_hex b = [hex_digit x, hex_digit y] \<and> x < 16 \<and> y < 16 \<and> char_of (16 * x + y) = b"
proof -
  let ?k = "of_char b :: nat"
  have "?k div 16 < 16" using nat_of_char_less_256[of b] by (simp add: less_mult_imp_div_less)
  moreover have "16 * (?k div 16) + ?k mod 16 = ?k" by simp
  ultimately show ?thesis
    by (intro exI[of _ "?k div 16"] exI[of _ "?k mod 16"]) (simp add: byte_hex_def Let_def)
qed

lemma xtoi2_byte_hex: "xtoi2 (byte_hex b) e = Some b" "xtoi2 (byte_hex b @ e # s) e = Some b"
  using byte_hex_vals[of b] by (auto simp: xtoi2_def)

lemma parse_mac_colons_string:
  "parse_mac_colons (length hw) (HardwareAddr_String hw) CHR '':'' = Some hw"
proof (induction hw)
  case Nil
  then show ?case by simp
next
  case (Cons b hw)
  show ?case
  proof (cases hw)
    case Nil
    then show ?thesis by (simp add: HardwareAddr_String_def xtoi2_byte_hex)
  next
    case (Cons c hw')
    have "HardwareAddr_String (b # hw) = byte_hex b @ CHR '':'' # HardwareAddr_String hw"
      using Cons by (simp add: HardwareAddr_String_def)
    moreover obtain p q where "byte_hex b = [p, q]"
      using byte_hex_vals[of b] by blast
    ultimately show ?thesis
      using Cons.IH xtoi2_byte_hex(2)[of b "CHR '':''" "HardwareAddr_String hw"] by simp
  qed
qed

lemma HardwareAddr_String_length: "hw \<noteq> [] \<Longrightarrow> length (HardwareAddr_String hw) = 3 * length hw - 1"
proof (induction hw)
  case (Cons b hw)
  then show ?case
    by (cases hw) (auto simp: HardwareAddr_String_def)
qed simp

lemma HardwareAddr_String_third:
  "2 \<le> length hw \<Longrightarrow> HardwareAddr_String hw ! 2 = CHR '':''"
  by (cases hw; cases "tl hw") (auto simp: HardwareAddr_String_def nth_append)

lemma ParseMAC_String:
  assumes "length hw \<in> {6, 8, 20}"
  shows "ParseMAC (HardwareAddr_String hw) = Some hw"
proof -
  have len: "length (HardwareAddr_String hw) = 3 * length hw - 1"
    using assms by (intro HardwareAddr_String_length) auto
  have third: "HardwareAddr_String hw ! 2 = CHR '':''"
    using assms by (intro HardwareAddr_String_third) auto
  show ?thesis
    using assms parse_mac_colons_string[of hw]
    by (auto simp: ParseMAC_def len third)
qed

lemma parse_mac_colons_length: "parse_mac_colons n s e = Some hw \<Longrightarrow> length hw = n"
  by (induction n s e arbitrary: hw rule: parse_mac_colons.induct) (auto split: option.splits)

lemma parse_mac_dots_length: "parse_mac_dots n s = Some hw \<Longrightarrow> length hw = 2 * n"
  by (induction n s arbitrary: hw rule: parse_mac_dots.induct) (auto split: option.splits)

lemma ParseMAC_length: "ParseMAC s = Some hw \<Longrightarrow> length hw \<in> {6, 8, 20}"
  by (auto simp: ParseMAC_def Let_def split: if_splits
      dest!: parse_mac_colons_length parse_mac_dots_length)

lemma ParseMAC_of_String: "ParseMAC (HardwareAddr_String hw) = Some hw' \<Longrightarrow> hw' = hw"
proof -
  assume a: "ParseMAC (HardwareAddr_String hw) = Some hw'"
  then have l: "\<not> length (HardwareAddr_String hw) < 14" by (auto simp: ParseMAC_def)
  then have "hw \<noteq> []" by (auto simp: HardwareAddr_String_def)
  then have len: "length (HardwareAddr_String hw) = 3 * length hw - 1"
    by (rule HardwareAddr_String_length)
  with l have "2 \<le> length hw" by simp
  then have third: "HardwareAddr_String hw ! 2 = CHR '':''" by (rule HardwareAddr_String_third)
  have "(length (HardwareAddr_String hw) + 1) div 3 = length hw"
    using len \<open>hw \<noteq> []\<close> by (cases hw) auto
  with a l third have "parse_mac_colons (length hw) (HardwareAddr_String hw) CHR '':'' = Some hw'"
    by (auto simp: ParseMAC_def Let_def split: if_splits)
  then show "hw' = hw" by (simp add: parse_mac_colons_string)
qed

section \<open>netip.Addr\<close>

text \<open>
  The zero \<open>netip.Addr\<close>, an IPv4 address (4 bytes) and an IPv6 address (16 bytes, and a
  zone that is empty for none). \<open>wf_addr\<close> states the byte counts; every function below that
  makes an address keeps it.
\<close>

datatype Addr = AddrZero | Addr4 bytes | Addr6 bytes string

fun wf_addr :: "Addr \<Rightarrow> bool" where
  "wf_addr AddrZero = True"
| "wf_addr (Addr4 b) = (length b = 4)"
| "wf_addr (Addr6 b z) = (length b = 16)"

fun AsSlice :: "Addr \<Rightarrow> slice" where
  "AsSlice AddrZero = None"
| "AsSlice (Addr4 b) = Some b"
| "AsSlice (Addr6 b z) = Some b"

fun BitLen :: "Addr \<Rightarrow> nat" where
  "BitLen AddrZero = 0"
| "BitLen (Addr4 b) = 32"
| "BitLen (Addr6 b z) = 128"

fun Zone :: "Addr \<Rightarrow> string" where
  "Zone (Addr6 b z) = z"
| "Zone _ = []"

definition v4InV6Prefix :: bytes where
  "v4InV6Prefix = replicate 10 (CHR 0x00) @ [CHR 0xFF, CHR 0xFF]"

fun As16 :: "Addr \<Rightarrow> bytes" where
  "As16 AddrZero = replicate 16 (CHR 0x00)"
| "As16 (Addr4 b) = v4InV6Prefix @ b"
| "As16 (Addr6 b z) = b"

text \<open>
  \<open>Addr.Compare\<close> orders addresses by bit length, then by value, then by zone. It is the order of
  the type here; the sources use it as \<open>a.Compare(netip.Addr{}) != 0\<close>.
\<close>

definition addr_key :: "Addr \<Rightarrow> nat \<times> bytes \<times> string" where
  "addr_key a = (BitLen a, slice_bytes (AsSlice a), Zone a)"

lemma addr_key_inject: "addr_key a = k \<Longrightarrow> addr_key b = k \<Longrightarrow> a = b"
  by (cases a; cases b) (auto simp: addr_key_def)

instantiation Addr :: linorder
begin

definition less_eq_Addr :: "Addr \<Rightarrow> Addr \<Rightarrow> bool" where
  "less_eq_Addr a b \<longleftrightarrow>
     (case (addr_key a, addr_key b) of ((l, v, z), (l', v', z')) \<Rightarrow>
        l < l' \<or> (l = l' \<and> (v < v' \<or> (v = v' \<and> z \<le> z'))))"

definition less_Addr :: "Addr \<Rightarrow> Addr \<Rightarrow> bool" where
  "less_Addr a b \<longleftrightarrow> a \<le> b \<and> a \<noteq> b"

instance
proof
  fix x y z :: Addr
  show "(x < y) = (x \<le> y \<and> \<not> y \<le> x)"
    by (auto simp: less_Addr_def less_eq_Addr_def split: prod.splits dest: addr_key_inject)
  show "x \<le> x" by (auto simp: less_eq_Addr_def split: prod.splits)
  show "x \<le> y \<Longrightarrow> y \<le> z \<Longrightarrow> x \<le> z"
    by (auto simp: less_eq_Addr_def split: prod.splits)
  show "x \<le> y \<Longrightarrow> y \<le> x \<Longrightarrow> x = y"
    by (auto simp: less_eq_Addr_def split: prod.splits dest: addr_key_inject)
  show "x \<le> y \<or> y \<le> x" by (auto simp: less_eq_Addr_def split: prod.splits)
qed

end

definition Addr_Compare :: "Addr \<Rightarrow> Addr \<Rightarrow> int" where
  "Addr_Compare a b = (if a < b then -1 else if a = b then 0 else 1)"

lemma Addr_Compare_0 [simp]: "Addr_Compare a b = 0 \<longleftrightarrow> a = b"
  by (auto simp: Addr_Compare_def)

subsection \<open>Printing\<close>

definition dotted :: "bytes \<Rightarrow> string" where
  "dotted b = Join (map (\<lambda>c. nat_string (of_char c)) b) ''.''"

text \<open>The eight 16-bit groups of an IPv6 address.\<close>

fun groups16 :: "bytes \<Rightarrow> nat list" where
  "groups16 (a # b # r) = (256 * of_char a + of_char b) # groups16 r"
| "groups16 _ = []"

fun hex_string :: "nat \<Rightarrow> string" where
  "hex_string n = (if n < 16 then [hex_digit n] else hex_string (n div 16) @ [hex_digit (n mod 16)])"

declare hex_string.simps [simp del]

text \<open>
  \<open>appendTo6\<close>: the first longest run of at least two zero groups is written \<open>::\<close>.
  \<open>zero_run\<close> is the scan of the Go loop, with the best run \<open>[zs, ze)\<close> found so far.
\<close>

definition zeros_from :: "nat list \<Rightarrow> nat" where
  "zeros_from gs = length (takeWhile (\<lambda>g. g = 0) gs)"

fun zero_run :: "nat \<Rightarrow> nat list \<Rightarrow> (nat \<times> nat) option \<Rightarrow> (nat \<times> nat) option" where
  "zero_run i [] best = best"
| "zero_run i (g # gs) best =
     (let l = zeros_from (g # gs);
          cur = (case best of None \<Rightarrow> 0 | Some (zs, ze) \<Rightarrow> ze - zs)
      in zero_run (Suc i) gs (if 2 \<le> l \<and> cur < l then Some (i, i + l) else best))"

definition string6 :: "bytes \<Rightarrow> string" where
  "string6 b =
     (let gs = groups16 b; hexes = map hex_string gs in
      case zero_run 0 gs None of
        None \<Rightarrow> Join hexes '':''
      | Some (zs, ze) \<Rightarrow> Join (take zs hexes) '':'' @ ''::'' @ Join (drop ze hexes) '':'')"

fun Addr_String :: "Addr \<Rightarrow> string" where
  "Addr_String AddrZero = ''invalid IP''"
| "Addr_String (Addr4 b) = dotted b"
| "Addr_String (Addr6 b z) =
     (if take 12 b = v4InV6Prefix then ''::ffff:'' @ dotted (drop 12 b) else string6 b) @
     (if z = [] then [] else CHR ''%'' # z)"

subsection \<open>Parsing\<close>

text \<open>
  \<open>parseIPv4Fields\<close>. The Go tests \<open>i == 0 || s[i-1] == '.'\<close> hold exactly when no digit of
  the current octet has been read, that is when \<open>digLen\<close> is 0.
\<close>

fun parseIPv4Fields :: "bytes \<Rightarrow> nat \<Rightarrow> nat \<Rightarrow> bytes \<Rightarrow> bytes option" where
  "parseIPv4Fields [] val digLen fields =
     (if length fields < 3 then None else Some (fields @ [char_of val]))"
| "parseIPv4Fields (c # s) val digLen fields =
     (if is_digit c then
        (if digLen = 1 \<and> val = 0 then None
         else let v = val * 10 + digit_val c in
           if v > 255 then None else parseIPv4Fields s v (Suc digLen) fields)
      else if c = CHR ''.'' then
        (if digLen = 0 \<or> s = [] then None
         else if length fields = 3 then None
         else parseIPv4Fields s 0 0 (fields @ [char_of val]))
      else None)"

definition parseIPv4 :: "bytes \<Rightarrow> Addr option" where
  "parseIPv4 s = map_option Addr4 (parseIPv4Fields s 0 0 [])"

text \<open>
  One round of the main loop of \<open>parseIPv6\<close>, on the rest of the text, the bytes so far and the
  place of the \<open>::\<close>. It ends the loop with the text used up, or goes on.
\<close>

datatype parse6_round = Done6 bytes "nat option" | Next6 bytes bytes "nat option"

definition parse6_step :: "bytes \<Rightarrow> bytes \<Rightarrow> nat option \<Rightarrow> parse6_round option" where
  "parse6_step s ip ell =
     (let digits = takeWhile (\<lambda>c. hex_val c \<noteq> None) s;
          off = length digits;
          acc = foldl (\<lambda>a c. 16 * a + the (hex_val c)) 0 digits
      in if off > 4 \<or> off = 0 then None
      else if off < length s \<and> s ! off = CHR ''.'' then
        (if ell = None \<and> length ip \<noteq> 12 then None
         else if length ip + 4 > 16 then None
         else map_option (\<lambda>f. Done6 (ip @ f) ell) (parseIPv4Fields s 0 0 []))
      else let ip' = ip @ [char_of (acc div 256), char_of acc] in
        (case drop off s of
           [] \<Rightarrow> Some (Done6 ip' ell)
         | c # s1 \<Rightarrow>
             if c \<noteq> CHR '':'' then None
             else (case s1 of
                 [] \<Rightarrow> None
               | d # s2 \<Rightarrow>
                   if d = CHR '':'' then
                     (if ell \<noteq> None then None
                      else if s2 = [] then Some (Done6 ip' (Some (length ip')))
                      else Some (Next6 s2 ip' (Some (length ip'))))
                   else Some (Next6 s1 ip' ell))))"

lemma parse6_step_Next:
  "parse6_step s ip ell = Some (Next6 s' ip' ell') \<Longrightarrow>
     length ip' = length ip + 2 \<and> (ell' = ell \<or> ell' = Some (length ip'))"
  by (auto simp: parse6_step_def Let_def split: if_splits list.splits)

function parse6_loop :: "bytes \<Rightarrow> bytes \<Rightarrow> nat option \<Rightarrow> (bytes \<times> bytes \<times> nat option) option" where
  "parse6_loop s ip ell =
     (if 16 \<le> length ip then Some (s, ip, ell)
      else case parse6_step s ip ell of
          None \<Rightarrow> None
        | Some (Done6 ip' ell') \<Rightarrow> Some ([], ip', ell')
        | Some (Next6 s' ip' ell') \<Rightarrow> parse6_loop s' ip' ell')"
  by pat_completeness auto
termination
  by (relation "measure (\<lambda>(s, ip, ell). 16 - length ip)") (auto dest!: parse6_step_Next)

declare parse6_loop.simps [simp del]

definition parseIPv6 :: "bytes \<Rightarrow> Addr option" where
  "parseIPv6 in0 =
     (let pz = (case IndexByte in0 (CHR ''%'') of None \<Rightarrow> Some (in0, [])
                | Some i \<Rightarrow> if drop (Suc i) in0 = [] then None
                           else Some (take i in0, drop (Suc i) in0))
      in case pz of None \<Rightarrow> None | Some (s, zone) \<Rightarrow>
        (let lead = HasPrefix s ''::''; s' = (if lead then drop 2 s else s) in
         if lead \<and> s' = [] then Some (Addr6 (replicate 16 (CHR 0x00)) zone)
         else case parse6_loop s' [] (if lead then Some 0 else None) of
             None \<Rightarrow> None
           | Some (rest, ip, ell) \<Rightarrow>
               if rest \<noteq> [] then None
               else if length ip < 16 then
                 (case ell of None \<Rightarrow> None
                  | Some e \<Rightarrow> Some (Addr6 (take e ip @ replicate (16 - length ip) (CHR 0x00) @ drop e ip) zone))
               else if ell \<noteq> None then None
               else Some (Addr6 ip zone)))"

text \<open>\<open>netip.ParseAddr\<close> decides by the first of the bytes \<open>.\<close>, \<open>:\<close> and \<open>%\<close>.\<close>

definition ParseAddr :: "bytes \<Rightarrow> Addr option" where
  "ParseAddr s =
     (case List.find (\<lambda>c. c = CHR ''.'' \<or> c = CHR '':'' \<or> c = CHR ''%'') s of
        None \<Rightarrow> None
      | Some c \<Rightarrow> if c = CHR ''.'' then parseIPv4 s
                 else if c = CHR '':'' then parseIPv6 s else None)"

subsection \<open>Well-formed results and the IPv4 round trip\<close>

lemma parseIPv4Fields_length:
  "parseIPv4Fields s v d fs = Some r \<Longrightarrow> length fs \<le> 3 \<Longrightarrow> length r = 4"
  by (induction s v d fs arbitrary: r rule: parseIPv4Fields.induct)
    (auto simp: Let_def split: if_splits)

lemma parse6_step_Done:
  "parse6_step s ip ell = Some (Done6 ip' ell') \<Longrightarrow>
     (length ip' = length ip + 2 \<or> length ip' = length ip + 4 \<and> length ip + 4 \<le> 16) \<and>
     (ell' = ell \<or> ell' = Some (length ip'))"
  by (auto simp: parse6_step_def Let_def split: if_splits list.splits
      dest: parseIPv4Fields_length[where fs = "[]"])

lemma parse6_loop_length:
  "parse6_loop s ip ell = Some (rest, r, e) \<Longrightarrow> length ip \<le> 16 \<Longrightarrow> even (length ip) \<Longrightarrow>
     (\<forall>k. ell = Some k \<longrightarrow> k \<le> length ip) \<Longrightarrow>
     length r \<le> 16 \<and> (\<forall>k. e = Some k \<longrightarrow> k \<le> length r)"
proof (induction s ip ell rule: parse6_loop.induct)
  case (1 s ip ell)
  show ?case
  proof (cases "16 \<le> length ip")
    case True
    with "1.prems" show ?thesis by (auto simp: parse6_loop.simps[of s ip ell])
  next
    case False
    with "1.prems"(3) have ev: "length ip + 2 \<le> 16" by presburger
    from False "1.prems"(1) consider
        (Done) ip' ell' where "parse6_step s ip ell = Some (Done6 ip' ell')" "r = ip'" "e = ell'"
      | (Next) s' ip' ell' where "parse6_step s ip ell = Some (Next6 s' ip' ell')"
          "parse6_loop s' ip' ell' = Some (rest, r, e)"
      by (auto simp: parse6_loop.simps[of s ip ell] split: option.splits parse6_round.splits)
    then show ?thesis
    proof cases
      case Done
      with parse6_step_Done[OF Done(1)] "1.prems" ev show ?thesis by auto
    next
      case Next
      with parse6_step_Next[OF Next(1)] "1.prems" ev False show ?thesis
        by (intro "1.IH"[OF False Next(1) refl]) auto
    qed
  qed
qed

lemma parseIPv6_wf: "parseIPv6 s = Some a \<Longrightarrow> wf_addr a"
  by (auto simp: parseIPv6_def Let_def split: option.splits if_splits prod.splits
      dest!: parse6_loop_length)

lemma ParseAddr_wf: "ParseAddr s = Some a \<Longrightarrow> wf_addr a \<and> a \<noteq> AddrZero"
proof -
  assume "ParseAddr s = Some a"
  then consider "parseIPv4 s = Some a" | "parseIPv6 s = Some a"
    by (auto simp: ParseAddr_def split: option.splits if_splits)
  then show ?thesis
  proof cases
    case 1
    then show ?thesis by (auto simp: parseIPv4_def dest: parseIPv4Fields_length)
  next
    case 2
    then have "a \<noteq> AddrZero"
      by (auto simp: parseIPv6_def Let_def split: option.splits if_splits prod.splits)
    with 2 show ?thesis by (simp add: parseIPv6_wf)
  qed
qed

lemma nat_string_256:
  "n < 256 \<Longrightarrow>
     nat_string n = (if n < 10 then [char_of (48 + n)]
       else if n < 100 then [char_of (48 + n div 10), char_of (48 + n mod 10)]
       else [char_of (48 + n div 100), char_of (48 + n div 10 mod 10), char_of (48 + n mod 10)])"
  by (subst nat_string.simps, subst nat_string.simps, subst nat_string.simps)
    (auto simp: div_mult2_eq[symmetric])

lemma parseIPv4Fields_digit:
  "k < 10 \<Longrightarrow>
     parseIPv4Fields (char_of (48 + k) # s) v d fs =
       (if d = 1 \<and> v = 0 \<or> v * 10 + k > 255 then None
        else parseIPv4Fields s (v * 10 + k) (Suc d) fs)"
  by (simp add: Let_def)

lemma parseIPv4Fields_octet:
  assumes n: "n < 256"
  shows "\<exists>d > 0. parseIPv4Fields (nat_string n @ s) 0 0 fs = parseIPv4Fields s n d fs"
proof -
  consider "n < 10" | "\<not> n < 10" "n < 100" | "\<not> n < 100" by blast
  then show ?thesis
  proof cases
    case 1
    then show ?thesis
      using parseIPv4Fields_digit[of n s 0 0 fs] by (auto simp: nat_string_256[OF n])
  next
    case 2
    then have "0 < n div 10" "\<not> 255 < n div 10" "n div 10 * 10 + n mod 10 = n" by auto
    moreover from 2 have "nat_string n = [char_of (48 + n div 10), char_of (48 + n mod 10)]"
      by (simp add: nat_string_256)
    ultimately have "parseIPv4Fields (nat_string n @ s) 0 0 fs = parseIPv4Fields s n (Suc (Suc 0)) fs"
      using 2 by (simp add: parseIPv4Fields_digit del: parseIPv4Fields.simps) linarith
    then show ?thesis by auto
  next
    case 3
    have d: "n div 100 * 10 + n div 10 mod 10 = n div 10"
      using div_mult2_eq[of n 10 10] div_mult_mod_eq[of "n div 10" 10] by simp
    from 3 n have "0 < n div 100" "0 < n div 10" "\<not> 255 < n div 100" "\<not> 255 < n div 10"
        "n div 10 * 10 + n mod 10 = n"
      by auto
    moreover from 3 n have "nat_string n =
        [char_of (48 + n div 100), char_of (48 + n div 10 mod 10), char_of (48 + n mod 10)]"
      by (simp add: nat_string_256)
    ultimately have "parseIPv4Fields (nat_string n @ s) 0 0 fs =
        parseIPv4Fields s n (Suc (Suc (Suc 0))) fs"
      using 3 n d by (simp add: parseIPv4Fields_digit del: parseIPv4Fields.simps) linarith
    then show ?thesis by auto
  qed
qed

lemma parseIPv4Fields_dot:
  "n < 256 \<Longrightarrow> s \<noteq> [] \<Longrightarrow> length fs < 3 \<Longrightarrow>
     parseIPv4Fields (nat_string n @ CHR ''.'' # s) 0 0 fs = parseIPv4Fields s 0 0 (fs @ [char_of n])"
  using parseIPv4Fields_octet[of n "CHR ''.'' # s" fs] by (auto simp: is_digit_def)

lemma parseIPv4Fields_last:
  "n < 256 \<Longrightarrow> length fs = 3 \<Longrightarrow> parseIPv4Fields (nat_string n) 0 0 fs = Some (fs @ [char_of n])"
  using parseIPv4Fields_octet[of n "[]" fs] by auto

lemma find_dot_digits:
  "(\<forall>c \<in> set a. is_digit c) \<Longrightarrow>
     List.find (\<lambda>c. c = CHR ''.'' \<or> c = CHR '':'' \<or> c = CHR ''%'') (a @ CHR ''.'' # s) = Some (CHR ''.'')"
  by (induction a) (auto simp: is_digit_def)

lemma ParseAddr_dotted:
  assumes "length b = 4"
  shows "ParseAddr (dotted b) = Some (Addr4 b)"
proof -
  from assms obtain w x y z where b: "b = [w, x, y, z]"
    by (auto simp: length_Suc_conv numeral_eq_Suc)
  have "parseIPv4Fields (dotted b) 0 0 [] = Some b"
    by (simp add: b dotted_def parseIPv4Fields_dot parseIPv4Fields_last)
  moreover have "List.find (\<lambda>c. c = CHR ''.'' \<or> c = CHR '':'' \<or> c = CHR ''%'') (dotted b) = Some (CHR ''.'')"
    unfolding b dotted_def by (simp add: find_dot_digits nat_string_digits)
  ultimately show ?thesis
    by (simp add: ParseAddr_def parseIPv4_def)
qed

section \<open>net.IP and CIDR networks\<close>

text \<open>A \<open>net.IP\<close> is a nillable byte slice; \<open>ParseIP\<close> always gives 16 bytes, or nil.\<close>

definition ParseIP :: "bytes \<Rightarrow> slice" where
  "ParseIP s = (case ParseAddr s of None \<Rightarrow> None
     | Some a \<Rightarrow> if Zone a \<noteq> [] then None else Some (As16 a))"

definition To4 :: "slice \<Rightarrow> slice" where
  "To4 ip = (let b = slice_bytes ip in
     if length b = 4 then ip
     else if length b = 16 \<and> take 12 b = v4InV6Prefix then Some (drop 12 b)
     else None)"

definition IPv4 :: "nat \<Rightarrow> nat \<Rightarrow> nat \<Rightarrow> nat \<Rightarrow> bytes" where
  "IPv4 a b c d = v4InV6Prefix @ [char_of a, char_of b, char_of c, char_of d]"

definition IPv4zero :: slice where "IPv4zero = Some (IPv4 0 0 0 0)"
definition IPv4bcast :: slice where "IPv4bcast = Some (IPv4 255 255 255 255)"
definition IPv6unspecified :: slice where "IPv6unspecified = Some (replicate 16 (CHR 0x00))"

text \<open>\<open>IP.Equal\<close>: an IPv4 address and its IPv6 form are equal.\<close>

definition IP_Equal :: "slice \<Rightarrow> slice \<Rightarrow> bool" where
  "IP_Equal x y = (let a = slice_bytes x; b = slice_bytes y in
     if length a = length b then a = b
     else if length a = 4 \<and> length b = 16 then take 12 b = v4InV6Prefix \<and> a = drop 12 b
     else if length a = 16 \<and> length b = 4 then take 12 a = v4InV6Prefix \<and> drop 12 a = b
     else False)"

definition IsUnspecified :: "slice \<Rightarrow> bool" where
  "IsUnspecified ip \<longleftrightarrow> IP_Equal ip IPv4zero \<or> IP_Equal ip IPv6unspecified"

definition IP_String :: "slice \<Rightarrow> string" where
  "IP_String ip = (let b = slice_bytes ip in
     if b = [] then ''<nil>''
     else if length b \<noteq> 4 \<and> length b \<noteq> 16 then CHR ''?'' # concat (map byte_hex b)
     else case To4 ip of Some v \<Rightarrow> dotted v | None \<Rightarrow> Addr_String (Addr6 b []))"

lemmas net_ip_defs = ParseIP_def To4_def IPv4_def IPv4zero_def IPv4bcast_def IPv6unspecified_def
  IP_Equal_def IsUnspecified_def IP_String_def v4InV6Prefix_def

lemma v4InV6Prefix_length [simp]: "length v4InV6Prefix = 12"
  by (simp add: v4InV6Prefix_def)

lemma As16_length: "wf_addr a \<Longrightarrow> length (As16 a) = 16"
  by (cases a) auto

lemma ParseIP_length: "ParseIP s = Some b \<Longrightarrow> length b = 16"
  by (auto simp: ParseIP_def split: option.splits if_splits dest!: ParseAddr_wf dest: As16_length)

lemma To4_length: "To4 ip = Some b \<Longrightarrow> length b = 4"
  by (cases ip) (auto simp: To4_def Let_def split: if_splits)

lemma IP_String_v4: "length b = 4 \<Longrightarrow> IP_String (Some b) = dotted b"
  by (cases b) (auto simp: IP_String_def To4_def)

lemma IP_String_mapped: "length b = 4 \<Longrightarrow> IP_String (Some (v4InV6Prefix @ b)) = dotted b"
  by (auto simp: IP_String_def To4_def Let_def)

lemma ParseIP_dotted: "length b = 4 \<Longrightarrow> ParseIP (dotted b) = Some (v4InV6Prefix @ b)"
  by (simp add: ParseIP_def ParseAddr_dotted)

lemma IP_String_Parse: "length b = 4 \<Longrightarrow> IP_String (ParseIP (dotted b)) = dotted b"
  by (simp add: ParseIP_dotted IP_String_mapped)

subsection \<open>The characters of an address\<close>

definition addr_char :: "byte \<Rightarrow> bool" where
  "addr_char c \<longleftrightarrow> hex_val c \<noteq> None \<or> c = CHR '':'' \<or> c = CHR ''.''"

lemma dot_addr_char: "addr_char (CHR ''.'')" "addr_char (CHR '':'')"
  by (simp_all add: addr_char_def)

lemma is_digit_addr_char: "is_digit c \<Longrightarrow> addr_char c"
  by (simp add: is_digit_def addr_char_def hex_val_def Let_def)

lemma parseIPv4Fields_chars:
  "parseIPv4Fields s v d fs = Some r \<Longrightarrow> list_all addr_char s"
  by (induction s v d fs arbitrary: r rule: parseIPv4Fields.induct)
    (auto simp: Let_def is_digit_addr_char dot_addr_char split: if_splits)

lemma parse6_step_chars:
  assumes "parse6_step s ip ell = Some out" "c \<in> set s"
  shows "addr_char c \<or> (\<exists>s' ip' ell'. out = Next6 s' ip' ell' \<and> c \<in> set s')"
proof -
  let ?d = "takeWhile (\<lambda>c. hex_val c \<noteq> None) s"
  have s: "s = ?d @ drop (length ?d) s" by (metis dropWhile_eq_drop takeWhile_dropWhile_id)
  have d: "c \<in> set ?d \<Longrightarrow> addr_char c" by (auto simp: addr_char_def dest: set_takeWhileD)
  show ?thesis
  proof (cases "length ?d < length s \<and> s ! length ?d = CHR ''.''")
    case True
    with assms(1) have "list_all addr_char s"
      by (auto simp: parse6_step_def Let_def split: if_splits dest: parseIPv4Fields_chars)
    with assms(2) show ?thesis by (simp add: list_all_iff)
  next
    case False
    have "c \<in> set ?d \<or> c \<in> set (drop (length ?d) s)"
      using assms(2) s by (metis Un_iff set_append)
    then show ?thesis
    proof
      assume "c \<in> set (drop (length ?d) s)"
      moreover obtain e s1 where "drop (length ?d) s = e # s1" using calculation by (cases "drop (length ?d) s") auto
      ultimately show ?thesis
        using False assms(1) dot_addr_char
        by (auto simp: parse6_step_def Let_def split: if_splits list.splits)
    qed (use d in blast)
  qed
qed

lemma parse6_loop_chars: "parse6_loop s ip ell = Some ([], r, e) \<Longrightarrow> list_all addr_char s"
proof (induction s ip ell rule: parse6_loop.induct)
  case (1 s ip ell)
  show ?case
  proof (cases "16 \<le> length ip")
    case True
    with "1.prems" show ?thesis by (auto simp: parse6_loop.simps[of s ip ell])
  next
    case False
    with "1.prems" consider
        (Done) ip' ell' where "parse6_step s ip ell = Some (Done6 ip' ell')"
      | (Next) s' ip' ell' where "parse6_step s ip ell = Some (Next6 s' ip' ell')"
          "parse6_loop s' ip' ell' = Some ([], r, e)"
      by (auto simp: parse6_loop.simps[of s ip ell] split: option.splits parse6_round.splits)
    then show ?thesis
    proof cases
      case Done
      from parse6_step_chars[OF this] show ?thesis by (auto simp: list_all_iff)
    next
      case Next
      with "1.IH"[OF False Next(1) refl] parse6_step_chars[OF Next(1)] show ?thesis
        by (auto simp: list_all_iff)
    qed
  qed
qed

lemma parseIPv6_chars:
  assumes "parseIPv6 s = Some a" "Zone a = []"
  shows "list_all addr_char s"
proof -
  have pct: "IndexByte s (CHR ''%'') = None"
    using assms by (auto simp: parseIPv6_def Let_def split: option.splits if_splits prod.splits)
  have lead: "list_all addr_char s" if "HasPrefix s ''::''" "list_all addr_char (drop 2 s)"
  proof -
    have eq: "s = ''::'' @ drop 2 s" using HasPrefix_decomp[OF that(1)] by (simp add: numeral_2_eq_2)
    have "list_all addr_char (''::'' @ drop 2 s)" using that(2) dot_addr_char(2) by simp
    then show ?thesis by (subst eq)
  qed
  from assms(1) pct show ?thesis
    by (auto simp: parseIPv6_def Let_def intro: lead split: option.splits if_splits prod.splits dest: parse6_loop_chars)
qed

lemma ParseAddr_chars: "ParseAddr s = Some a \<Longrightarrow> Zone a = [] \<Longrightarrow> list_all addr_char s"
  by (auto simp: ParseAddr_def parseIPv4_def split: option.splits if_splits
      dest: parseIPv4Fields_chars parseIPv6_chars)

lemma ParseIP_chars: "ParseIP s = Some b \<Longrightarrow> list_all addr_char s"
  by (auto simp: ParseIP_def split: option.splits if_splits dest: ParseAddr_chars)

lemma addr_char_not: "list_all addr_char s \<Longrightarrow> \<not> addr_char c \<Longrightarrow> c \<notin> set s"
  by (auto simp: list_all_iff)

lemma addr_char_simps [simp]:
  "\<not> addr_char (CHR ''/'')" "\<not> addr_char (CHR ''['')" "\<not> addr_char (CHR '']'')"
  by (simp_all add: addr_char_def hex_val_def)

subsection \<open>CIDR\<close>

record IPNet =
  IPNet_IP :: bytes
  IPNet_Mask :: bytes

definition and_byte :: "byte \<Rightarrow> byte \<Rightarrow> byte" where
  "and_byte a b = char_of ((of_char a :: nat) AND of_char b)"

definition and_bytes :: "bytes \<Rightarrow> bytes \<Rightarrow> bytes" where
  "and_bytes a b = map2 and_byte a b"

definition CIDRMask :: "nat \<Rightarrow> nat \<Rightarrow> bytes" where
  "CIDRMask ones bits =
     map (\<lambda>i. if 8 * (i + 1) \<le> ones then CHR 0xFF
              else if ones \<le> 8 * i then CHR 0x00
              else char_of (256 - 2 ^ (8 - (ones - 8 * i)) :: nat)) [0..<bits div 8]"

definition IP_Mask :: "bytes \<Rightarrow> bytes \<Rightarrow> bytes" where
  "IP_Mask ip m =
     (let m' = (if length m = 16 \<and> length ip = 4 \<and> take 12 m = replicate 12 (CHR 0xFF) then drop 12 m else m);
          ip' = (if length m' = 4 \<and> length ip = 16 \<and> take 12 ip = v4InV6Prefix then drop 12 ip else ip)
      in if length ip' \<noteq> length m' then [] else and_bytes ip' m')"

text \<open>\<open>dtoi\<close> on a whole string: decimal digits only, below the package's bound on numbers.\<close>

definition dtoi_all :: "bytes \<Rightarrow> nat option" where
  "dtoi_all s =
     (let v = foldl (\<lambda>a c. a * 10 + digit_val c) 0 s in
      if s \<noteq> [] \<and> list_all is_digit s \<and> v < 16777215 then Some v else None)"

definition ParseCIDR :: "bytes \<Rightarrow> (bytes \<times> IPNet) option" where
  "ParseCIDR s =
     (case IndexByte s (CHR ''/'') of None \<Rightarrow> None | Some i \<Rightarrow>
      (case ParseAddr (take i s) of None \<Rightarrow> None | Some a \<Rightarrow>
       if Zone a \<noteq> [] then None
       else (case dtoi_all (drop (Suc i) s) of None \<Rightarrow> None | Some n \<Rightarrow>
         if n > BitLen a then None
         else let m = CIDRMask n (BitLen a) in
           Some (As16 a, \<lparr>IPNet_IP = IP_Mask (As16 a) m, IPNet_Mask = m\<rparr>))))"

definition networkNumberAndMask :: "IPNet \<Rightarrow> bytes \<times> bytes" where
  "networkNumberAndMask n =
     (let ip = (case To4 (Some (IPNet_IP n)) of Some v \<Rightarrow> v | None \<Rightarrow> IPNet_IP n);
          m = IPNet_Mask n
      in if length ip \<noteq> 4 \<and> length ip \<noteq> 16 then ([], [])
      else if length m = 4 then (if length ip \<noteq> 4 then ([], []) else (ip, m))
      else if length m = 16 then (ip, if length ip = 4 then drop 12 m else m)
      else ([], []))"

definition IPNet_Contains :: "IPNet \<Rightarrow> bytes \<Rightarrow> bool" where
  "IPNet_Contains n ip =
     (let (nn, m) = networkNumberAndMask n;
          ip' = (case To4 (Some ip) of Some v \<Rightarrow> v | None \<Rightarrow> ip)
      in length ip' = length nn \<and> and_bytes nn m = and_bytes ip' m)"

lemma ParseCIDR_suffix:
  assumes "ParseAddr s = Some a" "Zone a = []" "CHR ''/'' \<notin> set s" "n \<le> BitLen a"
  shows "ParseCIDR (s @ CHR ''/'' # nat_string n) \<noteq> None"
proof -
  have idx: "IndexByte (s @ CHR ''/'' # t) (CHR ''/'') = Some (length s)" for t
    using assms(3) by (induction s) auto
  have "BitLen a \<le> 128" by (cases a) auto
  with assms(4) have "n < 16777215" by simp
  then have "dtoi_all (nat_string n) = Some n"
    using nat_string_digits[of _ n] by (auto simp: dtoi_all_def nat_string_inj_val list_all_iff)
  with assms show ?thesis
    by (simp add: ParseCIDR_def idx Let_def)
qed

section \<open>host:port\<close>

definition LastIndexByte :: "bytes \<Rightarrow> byte \<Rightarrow> nat option" where
  "LastIndexByte s c = map_option (\<lambda>i. length s - Suc i) (IndexByte (rev s) c)"

definition SplitHostPort :: "bytes \<Rightarrow> (bytes \<times> bytes) option" where
  "SplitHostPort hp =
     (case LastIndexByte hp (CHR '':'') of None \<Rightarrow> None | Some i \<Rightarrow>
       if hp ! 0 = CHR ''['' then
         (case IndexByte hp (CHR '']'') of None \<Rightarrow> None | Some e \<Rightarrow>
            if Suc e \<noteq> i then None
            else if CHR ''['' \<in> set (drop 1 hp) \<or> CHR '']'' \<in> set (drop (Suc e) hp) then None
            else Some (take (e - 1) (drop 1 hp), drop (Suc i) hp))
       else if CHR '':'' \<in> set (take i hp) then None
       else if CHR ''['' \<in> set hp \<or> CHR '']'' \<in> set hp then None
       else Some (take i hp, drop (Suc i) hp))"

definition JoinHostPort :: "bytes \<Rightarrow> bytes \<Rightarrow> bytes" where
  "JoinHostPort host port =
     (if CHR '':'' \<in> set host then ''['' @ host @ '']:'' @ port else host @ '':'' @ port)"

lemma LastIndexByte_append: "c \<notin> set b \<Longrightarrow> LastIndexByte (a @ c # b) c = Some (length a)"
  using IndexByte_append[of c "rev b" "rev a"] by (simp add: LastIndexByte_def)

lemma SplitHostPort_Join:
  assumes "CHR ''['' \<notin> set host" "CHR '']'' \<notin> set host"
    and "CHR ''['' \<notin> set port" "CHR '']'' \<notin> set port" "CHR '':'' \<notin> set port"
  shows "SplitHostPort (JoinHostPort host port) = Some (host, port)"
proof (cases "CHR '':'' \<in> set host")
  case True
  let ?hp = "CHR ''['' # host @ CHR '']'' # CHR '':'' # port"
  have "LastIndexByte ((CHR ''['' # host @ [CHR '']'']) @ CHR '':'' # port) (CHR '':'') =
      Some (length (CHR ''['' # host @ [CHR '']'']))"
    using assms(5) by (rule LastIndexByte_append)
  then have i: "LastIndexByte ?hp (CHR '':'') = Some (Suc (Suc (length host)))" by simp
  have "IndexByte ((CHR ''['' # host) @ CHR '']'' # CHR '':'' # port) (CHR '']'') =
      Some (length (CHR ''['' # host))"
    using assms(2) by (intro IndexByte_append) auto
  then have e: "IndexByte ?hp (CHR '']'') = Some (Suc (length host))" by simp
  show ?thesis
    using True assms i e by (simp add: SplitHostPort_def JoinHostPort_def)
next
  case False
  have i: "LastIndexByte (host @ CHR '':'' # port) (CHR '':'') = Some (length host)"
    using assms(5) by (rule LastIndexByte_append)
  have "(host @ CHR '':'' # port) ! 0 \<noteq> CHR ''[''"
    using assms(1) by (cases host) auto
  with False assms i show ?thesis
    by (simp add: SplitHostPort_def JoinHostPort_def)
qed

lemma LastIndexByte_Some:
  assumes "LastIndexByte s c = Some i"
  shows "i < length s" "s ! i = c" "c \<notin> set (drop (Suc i) s)"
proof -
  from assms obtain j where j: "IndexByte (rev s) c = Some j" "i = length s - Suc j"
    by (auto simp: LastIndexByte_def)
  from IndexByte_Some[OF j(1)] have "j < length s" "rev s ! j = c" "c \<notin> set (take j (rev s))"
    by auto
  with j(2) show "i < length s" "s ! i = c" "c \<notin> set (drop (Suc i) s)"
    by (auto simp: rev_nth take_rev Suc_diff_Suc)
qed

lemma SplitHostPort_port:
  assumes "SplitHostPort hp = Some (host, port)"
  shows "CHR '':'' \<notin> set port \<and> CHR ''['' \<notin> set port \<and> CHR '']'' \<notin> set port"
proof -
  from assms obtain i where i: "LastIndexByte hp (CHR '':'') = Some i" "port = drop (Suc i) hp"
    by (auto simp: SplitHostPort_def split: option.splits if_splits)
  have sub: "set port \<subseteq> set (drop 1 hp)" "set port \<subseteq> set (drop i hp)" "set port \<subseteq> set hp"
    unfolding i(2) by (simp_all add: set_drop_subset_set_drop set_drop_subset)
  from assms i have "CHR ''['' \<notin> set (drop 1 hp) \<and> CHR '']'' \<notin> set (drop i hp) \<or>
      CHR ''['' \<notin> set hp \<and> CHR '']'' \<notin> set hp"
    by (auto simp: SplitHostPort_def split: option.splits if_splits)
  with sub LastIndexByte_Some(3)[OF i(1)] i(2) show ?thesis by auto
qed

end
