(* ===== verification/DHCPv4_Package.thy ===== *)
theory DHCPv4_Package
  imports Go_Net
begin

text \<open>
  The interface to \<open>github.com/insomniacslk/dhcp\<close>, whose code is not part of the repository. A
  packet is a record of the fields the sources read and write. The functions and methods the sources
  call are the fields of a \<open>dhcpv4_lib\<close> record, an argument of every definition that uses them.
  \<open>dhcpv4_laws\<close> states the documented behaviour the properties need: an option update replaces one
  option and nothing else, a reply is built by applying the modifiers in order to the reply made from
  the request, and each modifier sets the header field or the option it is named after.
\<close>

section \<open>Packets\<close>

text \<open>\<open>dhcpv4.Options\<close> is \<open>map[uint8][]byte\<close>: a key may be absent, or present with a nil value.\<close>

type_synonym options = "u8 \<rightharpoonup> slice"

record dhcpv4 =
  OpCode :: u8
  TransactionID :: bytes
  Flags :: u16
  ClientHWAddr :: slice
  YourIPAddr :: slice
  ServerIPAddr :: slice
  GatewayIPAddr :: slice
  ServerHostName :: string
  BootFileName :: string
  Options :: options

type_synonym dhcp_option = "u8 \<times> slice"  \<comment> \<open>code and encoded value\<close>
type_synonym modifier = "dhcpv4 \<Rightarrow> dhcpv4"

abbreviation OpcodeBootRequest :: u8 where "OpcodeBootRequest \<equiv> 1"
abbreviation OpcodeBootReply :: u8 where "OpcodeBootReply \<equiv> 2"
abbreviation ServerPort :: nat where "ServerPort \<equiv> 67"

abbreviation MessageTypeNone :: u8 where "MessageTypeNone \<equiv> 0"
abbreviation MessageTypeDiscover :: u8 where "MessageTypeDiscover \<equiv> 1"
abbreviation MessageTypeOffer :: u8 where "MessageTypeOffer \<equiv> 2"
abbreviation MessageTypeRequest :: u8 where "MessageTypeRequest \<equiv> 3"
abbreviation MessageTypeAck :: u8 where "MessageTypeAck \<equiv> 5"
abbreviation MessageTypeRelease :: u8 where "MessageTypeRelease \<equiv> 7"

abbreviation OptionSubnetMask :: u8 where "OptionSubnetMask \<equiv> 1"
abbreviation OptionRouter :: u8 where "OptionRouter \<equiv> 3"
abbreviation OptionDomainNameServer :: u8 where "OptionDomainNameServer \<equiv> 6"
abbreviation OptionLogServer :: u8 where "OptionLogServer \<equiv> 7"
abbreviation OptionHostName :: u8 where "OptionHostName \<equiv> 12"
abbreviation OptionDomainName :: u8 where "OptionDomainName \<equiv> 15"
abbreviation OptionBroadcastAddress :: u8 where "OptionBroadcastAddress \<equiv> 28"
abbreviation OptionNTPServers :: u8 where "OptionNTPServers \<equiv> 42"
abbreviation OptionVendorSpecificInformation :: u8 where "OptionVendorSpecificInformation \<equiv> 43"
abbreviation OptionIPAddressLeaseTime :: u8 where "OptionIPAddressLeaseTime \<equiv> 51"
abbreviation OptionDHCPMessageType :: u8 where "OptionDHCPMessageType \<equiv> 53"
abbreviation OptionServerIdentifier :: u8 where "OptionServerIdentifier \<equiv> 54"
abbreviation OptionClassIdentifier :: u8 where "OptionClassIdentifier \<equiv> 60"
abbreviation OptionUserClassInformation :: u8 where "OptionUserClassInformation \<equiv> 77"
abbreviation OptionClientSystemArchitectureType :: u8 where "OptionClientSystemArchitectureType \<equiv> 93"
abbreviation OptionClientNetworkInterfaceIdentifier :: u8 where "OptionClientNetworkInterfaceIdentifier \<equiv> 94"
abbreviation OptionClientMachineIdentifier :: u8 where "OptionClientMachineIdentifier \<equiv> 97"
abbreviation OptionDNSDomainSearchList :: u8 where "OptionDNSDomainSearchList \<equiv> 119"

section \<open>The functions the sources call\<close>

record dhcpv4_lib =
  \<comment> \<open>reading a packet\<close>
  lib_MessageType :: "dhcpv4 \<Rightarrow> u8"
  lib_MessageType_String :: "u8 \<Rightarrow> string"
  lib_ClientArch :: "dhcpv4 \<Rightarrow> u16 list"
  lib_Arch_String :: "u16 \<Rightarrow> string"
  lib_GetOneOption :: "dhcpv4 \<Rightarrow> u8 \<Rightarrow> slice"
  lib_Options_Get :: "options \<Rightarrow> u8 \<Rightarrow> slice"
  lib_Options_Has :: "options \<Rightarrow> u8 \<Rightarrow> bool"
  lib_FlagsToString :: "dhcpv4 \<Rightarrow> string"
  lib_TransactionID_String :: "bytes \<Rightarrow> string"
  lib_SubnetMask :: "dhcpv4 \<Rightarrow> slice"
  lib_Router :: "dhcpv4 \<Rightarrow> slice list"
  lib_DNS :: "dhcpv4 \<Rightarrow> slice list"
  lib_HostName :: "dhcpv4 \<Rightarrow> string"
  lib_DomainName :: "dhcpv4 \<Rightarrow> string"
  lib_BroadcastAddress :: "dhcpv4 \<Rightarrow> slice"
  lib_NTPServers :: "dhcpv4 \<Rightarrow> slice list"
  lib_IPAddressLeaseTime :: "dhcpv4 \<Rightarrow> int \<Rightarrow> int"
  lib_ServerIdentifier :: "dhcpv4 \<Rightarrow> slice"
  lib_ClassIdentifier :: "dhcpv4 \<Rightarrow> string"
  lib_DomainSearch :: "dhcpv4 \<Rightarrow> string list option"
  \<comment> \<open>options\<close>
  lib_OptGeneric :: "u8 \<Rightarrow> slice \<Rightarrow> dhcp_option"
  lib_OptMessageType :: "u8 \<Rightarrow> dhcp_option"
  lib_OptClassIdentifier :: "string \<Rightarrow> dhcp_option"
  lib_OptServerIdentifier :: "slice \<Rightarrow> dhcp_option"
  lib_OptNTPServers :: "slice list \<Rightarrow> dhcp_option"
  lib_IP_ToBytes :: "slice \<Rightarrow> slice"
  lib_IPs_ToBytes :: "slice list \<Rightarrow> slice"
  lib_Labels_ToBytes :: "string list \<Rightarrow> slice"
  lib_Duration_ToBytes :: "u32 \<Rightarrow> slice"
  lib_UpdateOption :: "dhcpv4 \<Rightarrow> dhcp_option \<Rightarrow> dhcpv4"
  \<comment> \<open>modifiers\<close>
  lib_WithMessageType :: "u8 \<Rightarrow> modifier"
  lib_WithGeneric :: "u8 \<Rightarrow> slice \<Rightarrow> modifier"
  lib_WithOption :: "dhcp_option \<Rightarrow> modifier"
  lib_WithServerIP :: "slice \<Rightarrow> modifier"
  lib_WithYourIP :: "slice \<Rightarrow> modifier"
  lib_WithLeaseTime :: "u32 \<Rightarrow> modifier"
  lib_WithDNS :: "slice list \<Rightarrow> modifier"
  lib_WithDomainSearchList :: "string list \<Rightarrow> modifier"
  lib_WithNetmask :: "slice \<Rightarrow> modifier"
  lib_WithRouter :: "slice list \<Rightarrow> modifier"
  \<comment> \<open>building and encoding\<close>
  lib_NewReplyFromRequest :: "dhcpv4 \<Rightarrow> modifier list \<Rightarrow> dhcpv4 option"  \<comment> \<open>nil with the error\<close>
  lib_Options_ToBytes :: "options \<Rightarrow> bytes"
  lib_ToBytes :: "dhcpv4 \<Rightarrow> bytes"
  lib_FromBytes :: "bytes \<Rightarrow> dhcpv4 option"

section \<open>Documented behaviour\<close>

definition put_option :: "u8 \<Rightarrow> slice \<Rightarrow> modifier" where
  "put_option c v p = p\<lparr>Options := (Options p)(c \<mapsto> v)\<rparr>"

definition read_laws :: "dhcpv4_lib \<Rightarrow> bool" where
  "read_laws lib \<longleftrightarrow>
     (\<forall>opts c. lib_Options_Get lib opts c = (case opts c of None \<Rightarrow> None | Some v \<Rightarrow> v)) \<and>
     (\<forall>opts c. lib_Options_Has lib opts c \<longleftrightarrow> opts c \<noteq> None) \<and>
     (\<forall>p c. lib_GetOneOption lib p c = (case Options p c of None \<Rightarrow> None | Some v \<Rightarrow> v)) \<and>
     (\<forall>p t. Options p OptionDHCPMessageType = Some (snd (lib_OptMessageType lib t)) \<longrightarrow>
        lib_MessageType lib p = t)"

definition option_laws :: "dhcpv4_lib \<Rightarrow> bool" where
  "option_laws lib \<longleftrightarrow>
     (\<forall>p c v. lib_UpdateOption lib p (c, v) = put_option c v p) \<and>
     (\<forall>c v. lib_OptGeneric lib c v = (c, v)) \<and>
     (\<forall>t. fst (lib_OptMessageType lib t) = OptionDHCPMessageType) \<and>
     (\<forall>s. lib_OptClassIdentifier lib s = (OptionClassIdentifier, Some s)) \<and>
     (\<forall>ip. lib_OptServerIdentifier lib ip = (OptionServerIdentifier, lib_IP_ToBytes lib ip)) \<and>
     (\<forall>ips. lib_OptNTPServers lib ips = (OptionNTPServers, lib_IPs_ToBytes lib ips))"

text \<open>A mask is encoded in at most four bytes.\<close>

definition mask_bytes :: "slice \<Rightarrow> slice" where
  "mask_bytes m = map_option (take 4) m"

definition modifier_laws :: "dhcpv4_lib \<Rightarrow> bool" where
  "modifier_laws lib \<longleftrightarrow>
     (\<forall>t. lib_WithMessageType lib t = put_option OptionDHCPMessageType (snd (lib_OptMessageType lib t))) \<and>
     (\<forall>c v. lib_WithGeneric lib c v = put_option c v) \<and>
     (\<forall>c v. lib_WithOption lib (c, v) = put_option c v) \<and>
     (\<forall>ip p. lib_WithServerIP lib ip p = p\<lparr>ServerIPAddr := ip\<rparr>) \<and>
     (\<forall>ip p. lib_WithYourIP lib ip p = p\<lparr>YourIPAddr := ip\<rparr>) \<and>
     (\<forall>t. lib_WithLeaseTime lib t = put_option OptionIPAddressLeaseTime (lib_Duration_ToBytes lib t)) \<and>
     (\<forall>ips. lib_WithDNS lib ips = put_option OptionDomainNameServer (lib_IPs_ToBytes lib ips)) \<and>
     (\<forall>ds. lib_WithDomainSearchList lib ds = put_option OptionDNSDomainSearchList (lib_Labels_ToBytes lib ds)) \<and>
     (\<forall>m. lib_WithNetmask lib m = put_option OptionSubnetMask (mask_bytes m)) \<and>
     (\<forall>ips. lib_WithRouter lib ips = put_option OptionRouter (lib_IPs_ToBytes lib ips))"

text \<open>
  The reply before any modifier, and with modifiers. The constructor fails only when the source of
  random transaction ids fails, and then returns nil; the laws describe a working source.
\<close>

definition base_reply :: "dhcpv4_lib \<Rightarrow> dhcpv4 \<Rightarrow> dhcpv4" where
  "base_reply lib p = the (lib_NewReplyFromRequest lib p [])"

text \<open>The reply to a request is a reply; to anything else it is a request.\<close>

definition reply_OpCode :: "dhcpv4 \<Rightarrow> u8" where
  "reply_OpCode p = (if OpCode p = OpcodeBootRequest then OpcodeBootReply else OpcodeBootRequest)"

definition apply_modifiers :: "modifier list \<Rightarrow> dhcpv4 \<Rightarrow> dhcpv4" where
  "apply_modifiers ms q = fold (\<lambda>m. m) ms q"

definition reply_laws :: "dhcpv4_lib \<Rightarrow> bool" where
  "reply_laws lib \<longleftrightarrow>
     (\<forall>p ms. lib_NewReplyFromRequest lib p ms = Some (apply_modifiers ms (base_reply lib p))) \<and>
     (\<forall>p. OpCode (base_reply lib p) = reply_OpCode p) \<and>
     (\<forall>p. TransactionID (base_reply lib p) = TransactionID p) \<and>
     (\<forall>p. ClientHWAddr (base_reply lib p) = ClientHWAddr p) \<and>
     (\<forall>p. GatewayIPAddr (base_reply lib p) = GatewayIPAddr p)"

definition dhcpv4_laws :: "dhcpv4_lib \<Rightarrow> bool" where
  "dhcpv4_laws lib \<longleftrightarrow> read_laws lib \<and> option_laws lib \<and> modifier_laws lib \<and> reply_laws lib"

named_theorems dhcpv4_law \<open>the documented laws one by one, as conditional rewrite rules\<close>

lemma law_read [dhcpv4_law]:
  assumes "dhcpv4_laws lib"
  shows "lib_Options_Get lib opts c = (case opts c of None \<Rightarrow> None | Some v \<Rightarrow> v)"
    and "lib_Options_Has lib opts c \<longleftrightarrow> opts c \<noteq> None"
    and "lib_GetOneOption lib p c = (case Options p c of None \<Rightarrow> None | Some v \<Rightarrow> v)"
  using assms by (auto simp: dhcpv4_laws_def read_laws_def)

lemma law_MessageType:
  assumes "dhcpv4_laws lib" "Options p OptionDHCPMessageType = Some (snd (lib_OptMessageType lib t))"
  shows "lib_MessageType lib p = t"
  using assms by (simp add: dhcpv4_laws_def read_laws_def)

lemma law_option [dhcpv4_law]:
  assumes "dhcpv4_laws lib"
  shows "lib_UpdateOption lib p opt = put_option (fst opt) (snd opt) p"
    and "lib_OptGeneric lib c v = (c, v)"
    and "fst (lib_OptMessageType lib t) = OptionDHCPMessageType"
    and "lib_OptClassIdentifier lib s = (OptionClassIdentifier, Some s)"
    and "lib_OptServerIdentifier lib ip = (OptionServerIdentifier, lib_IP_ToBytes lib ip)"
    and "lib_OptNTPServers lib ips = (OptionNTPServers, lib_IPs_ToBytes lib ips)"
  using assms by (cases opt; simp add: dhcpv4_laws_def option_laws_def)+

lemma law_modifier [dhcpv4_law]:
  assumes "dhcpv4_laws lib"
  shows "lib_WithMessageType lib t = put_option OptionDHCPMessageType (snd (lib_OptMessageType lib t))"
    and "lib_WithGeneric lib c v = put_option c v"
    and "lib_WithOption lib opt = put_option (fst opt) (snd opt)"
    and "lib_WithServerIP lib ip p = p\<lparr>ServerIPAddr := ip\<rparr>"
    and "lib_WithYourIP lib ip p = p\<lparr>YourIPAddr := ip\<rparr>"
    and "lib_WithLeaseTime lib u = put_option OptionIPAddressLeaseTime (lib_Duration_ToBytes lib u)"
    and "lib_WithDNS lib ips = put_option OptionDomainNameServer (lib_IPs_ToBytes lib ips)"
    and "lib_WithDomainSearchList lib ds = put_option OptionDNSDomainSearchList (lib_Labels_ToBytes lib ds)"
    and "lib_WithNetmask lib msk = put_option OptionSubnetMask (mask_bytes msk)"
    and "lib_WithRouter lib ips = put_option OptionRouter (lib_IPs_ToBytes lib ips)"
  using assms by (cases opt; simp add: dhcpv4_laws_def modifier_laws_def)+

lemma law_reply [dhcpv4_law]:
  assumes "dhcpv4_laws lib"
  shows "lib_NewReplyFromRequest lib p ms = Some (apply_modifiers ms (base_reply lib p))"
    and "OpCode (base_reply lib p) = reply_OpCode p"
    and "TransactionID (base_reply lib p) = TransactionID p"
    and "ClientHWAddr (base_reply lib p) = ClientHWAddr p"
    and "GatewayIPAddr (base_reply lib p) = GatewayIPAddr p"
  using assms by (simp_all add: dhcpv4_laws_def reply_laws_def)

lemma apply_modifiers_simps [simp]:
  "apply_modifiers [] q = q"
  "apply_modifiers (m # ms) q = apply_modifiers ms (m q)"
  "apply_modifiers (ms @ ns) q = apply_modifiers ns (apply_modifiers ms q)"
  by (simp_all add: apply_modifiers_def)

lemma put_option_simps [simp]:
  "Options (put_option c v p) = (Options p)(c \<mapsto> v)"
  "OpCode (put_option c v p) = OpCode p"
  "TransactionID (put_option c v p) = TransactionID p"
  "ClientHWAddr (put_option c v p) = ClientHWAddr p"
  "YourIPAddr (put_option c v p) = YourIPAddr p"
  "ServerIPAddr (put_option c v p) = ServerIPAddr p"
  "GatewayIPAddr (put_option c v p) = GatewayIPAddr p"
  "ServerHostName (put_option c v p) = ServerHostName p"
  "BootFileName (put_option c v p) = BootFileName p"
  by (simp_all add: put_option_def)

section \<open>A package that satisfies the laws\<close>

text \<open>
  A concrete instance, used only where a property is applied to a concrete packet: options are encoded
  as code, length and value in the order of their codes, the message type and the architectures are
  read from options 53 and 93.
\<close>

definition sample_opt :: "options \<Rightarrow> u8 \<Rightarrow> slice" where
  "sample_opt opts c = (case opts c of None \<Rightarrow> None | Some v \<Rightarrow> v)"

fun sample_archs :: "bytes \<Rightarrow> u16 list" where
  "sample_archs (a # b # r) = of_nat (256 * of_char a + of_char b) # sample_archs r"
| "sample_archs _ = []"

definition sample_reply :: "dhcpv4 \<Rightarrow> modifier list \<Rightarrow> dhcpv4 option" where
  "sample_reply p ms = Some (apply_modifiers ms
     \<lparr>OpCode = reply_OpCode p, TransactionID = TransactionID p, Flags = Flags p,
      ClientHWAddr = ClientHWAddr p, YourIPAddr = IPv4zero, ServerIPAddr = IPv4zero,
      GatewayIPAddr = GatewayIPAddr p, ServerHostName = [], BootFileName = [], Options = Map.empty\<rparr>)"

definition sample_Options_ToBytes :: "options \<Rightarrow> bytes" where
  "sample_Options_ToBytes opts = concat (map (\<lambda>c. case opts (of_nat c) of None \<Rightarrow> []
     | Some v \<Rightarrow> [char_of c, char_of (length (slice_bytes v))] @ slice_bytes v) [0..<256])"

definition sample_lib :: dhcpv4_lib where
  "sample_lib = \<lparr>
     lib_MessageType = (\<lambda>p. case sample_opt (Options p) OptionDHCPMessageType of
        Some [c] \<Rightarrow> of_nat (of_char c) | _ \<Rightarrow> MessageTypeNone),
     lib_MessageType_String = (\<lambda>t. ''message type '' @ nat_string (unat t)),
     lib_ClientArch = (\<lambda>p. sample_archs (slice_bytes (sample_opt (Options p) OptionClientSystemArchitectureType))),
     lib_Arch_String = (\<lambda>a. if a < 42 then ''arch '' @ nat_string (unat a) else ''unknown''),
     lib_GetOneOption = (\<lambda>p. sample_opt (Options p)),
     lib_Options_Get = sample_opt,
     lib_Options_Has = (\<lambda>opts c. opts c \<noteq> None),
     lib_FlagsToString = (\<lambda>p. nat_string (unat (Flags p))),
     lib_TransactionID_String = (\<lambda>x. concat (map byte_hex x)),
     lib_SubnetMask = (\<lambda>p. sample_opt (Options p) OptionSubnetMask),
     lib_Router = (\<lambda>p. case sample_opt (Options p) OptionRouter of None \<Rightarrow> [] | v \<Rightarrow> [v]),
     lib_DNS = (\<lambda>p. case sample_opt (Options p) OptionDomainNameServer of None \<Rightarrow> [] | v \<Rightarrow> [v]),
     lib_HostName = (\<lambda>p. slice_bytes (sample_opt (Options p) OptionHostName)),
     lib_DomainName = (\<lambda>p. slice_bytes (sample_opt (Options p) OptionDomainName)),
     lib_BroadcastAddress = (\<lambda>p. sample_opt (Options p) OptionBroadcastAddress),
     lib_NTPServers = (\<lambda>p. case sample_opt (Options p) OptionNTPServers of None \<Rightarrow> [] | v \<Rightarrow> [v]),
     lib_IPAddressLeaseTime = (\<lambda>p d. d),
     lib_ServerIdentifier = (\<lambda>p. sample_opt (Options p) OptionServerIdentifier),
     lib_ClassIdentifier = (\<lambda>p. slice_bytes (sample_opt (Options p) OptionClassIdentifier)),
     lib_DomainSearch = (\<lambda>p. map_option (\<lambda>v. [v]) (sample_opt (Options p) OptionDNSDomainSearchList)),
     lib_OptGeneric = Pair,
     lib_OptMessageType = (\<lambda>t. (OptionDHCPMessageType, Some [char_of (unat t)])),
     lib_OptClassIdentifier = (\<lambda>s. (OptionClassIdentifier, Some s)),
     lib_OptServerIdentifier = (\<lambda>ip. (OptionServerIdentifier, To4 ip)),
     lib_OptNTPServers = (\<lambda>ips. (OptionNTPServers, Some (concat (map (\<lambda>ip. slice_bytes (To4 ip)) ips)))),
     lib_IP_ToBytes = To4,
     lib_IPs_ToBytes = (\<lambda>ips. Some (concat (map (\<lambda>ip. slice_bytes (To4 ip)) ips))),
     lib_Labels_ToBytes = (\<lambda>ls. Some (concat ls)),
     lib_Duration_ToBytes = (\<lambda>t. Some (map (\<lambda>i. char_of (unat t div 256 ^ i)) [3, 2, 1, 0])),
     lib_UpdateOption = (\<lambda>p opt. put_option (fst opt) (snd opt) p),
     lib_WithMessageType = (\<lambda>t. put_option OptionDHCPMessageType (Some [char_of (unat t)])),
     lib_WithGeneric = put_option,
     lib_WithOption = (\<lambda>opt. put_option (fst opt) (snd opt)),
     lib_WithServerIP = (\<lambda>ip p. p\<lparr>ServerIPAddr := ip\<rparr>),
     lib_WithYourIP = (\<lambda>ip p. p\<lparr>YourIPAddr := ip\<rparr>),
     lib_WithLeaseTime = (\<lambda>t. put_option OptionIPAddressLeaseTime
        (Some (map (\<lambda>i. char_of (unat t div 256 ^ i)) [3, 2, 1, 0]))),
     lib_WithDNS = (\<lambda>ips. put_option OptionDomainNameServer (Some (concat (map (\<lambda>ip. slice_bytes (To4 ip)) ips)))),
     lib_WithDomainSearchList = (\<lambda>ls. put_option OptionDNSDomainSearchList (Some (concat ls))),
     lib_WithNetmask = (\<lambda>m. put_option OptionSubnetMask (mask_bytes m)),
     lib_WithRouter = (\<lambda>ips. put_option OptionRouter (Some (concat (map (\<lambda>ip. slice_bytes (To4 ip)) ips)))),
     lib_NewReplyFromRequest = sample_reply,
     lib_Options_ToBytes = sample_Options_ToBytes,
     lib_ToBytes = (\<lambda>p. sample_Options_ToBytes (Options p)),
     lib_FromBytes = (\<lambda>b. None)\<rparr>"

lemma sample_laws: "dhcpv4_laws sample_lib"
proof -
  have "unat (t::u8) mod 256 = unat t" for t
    using unsigned_less[of t, where ?'a = nat] by simp
  then have "read_laws sample_lib"
    by (auto simp: read_laws_def sample_lib_def sample_opt_def)
  then show ?thesis
    by (simp add: dhcpv4_laws_def option_laws_def modifier_laws_def reply_laws_def base_reply_def
        apply_modifiers_def sample_lib_def sample_reply_def)
qed

text \<open>The laws do not speak of the parser.\<close>

lemma laws_FromBytes:
  "read_laws (lib\<lparr>lib_FromBytes := f\<rparr>) = read_laws lib"
  "option_laws (lib\<lparr>lib_FromBytes := f\<rparr>) = option_laws lib"
  "modifier_laws (lib\<lparr>lib_FromBytes := f\<rparr>) = modifier_laws lib"
  "reply_laws (lib\<lparr>lib_FromBytes := f\<rparr>) = reply_laws lib"
  by (simp_all add: read_laws_def option_laws_def modifier_laws_def reply_laws_def base_reply_def)

end
