(* ===== verification/Go_URL.thy ===== *)
theory Go_URL
  imports Go_Net
begin

text \<open>
  What the sources use of Go's \<open>path\<close>, \<open>path/filepath\<close> and \<open>net/url\<close> packages: lexical path
  operations, percent encoding, and a URL's \<open>String\<close>, \<open>Hostname\<close> and \<open>JoinPath\<close>.
  \<open>url.Parse\<close> is not needed to state what the program does with a URL it was given; the functions
  that call it take the parser as an argument.
\<close>

section \<open>path\<close>

text \<open>
  \<open>path.Clean\<close>, on the list of path elements: drop empty elements and \<open>.\<close>, let \<open>..\<close> remove the
  element before it, drop \<open>..\<close> at the root.
\<close>

fun clean_elems :: "bool \<Rightarrow> bytes list \<Rightarrow> bytes list \<Rightarrow> bytes list" where
  "clean_elems rooted [] acc = rev acc"
| "clean_elems rooted (e # es) acc =
     (if e = [] \<or> e = ''.'' then clean_elems rooted es acc
      else if e = ''..'' then
        (case acc of
           [] \<Rightarrow> clean_elems rooted es (if rooted then [] else [e])
         | a # acc' \<Rightarrow> if a = ''..'' then clean_elems rooted es (e # acc)
                      else clean_elems rooted es acc')
      else clean_elems rooted es (e # acc))"

definition path_Clean :: "bytes \<Rightarrow> bytes" where
  "path_Clean p =
     (let rooted = HasPrefix p ''/'';
          out = (if rooted then ''/'' else []) @ Join (clean_elems rooted (Split p (CHR ''/'')) []) ''/''
      in if out = [] then ''.'' else out)"

definition path_Split_dir :: "bytes \<Rightarrow> bytes" where
  "path_Split_dir p = (case LastIndexByte p (CHR ''/'') of None \<Rightarrow> [] | Some i \<Rightarrow> take (Suc i) p)"

definition path_Dir :: "bytes \<Rightarrow> bytes" where
  "path_Dir p = path_Clean (path_Split_dir p)"

definition strip_trailing_slashes :: "bytes \<Rightarrow> bytes" where
  "strip_trailing_slashes p = rev (dropWhile (\<lambda>c. c = CHR ''/'') (rev p))"

definition path_Base :: "bytes \<Rightarrow> bytes" where
  "path_Base p =
     (if p = [] then ''.''
      else let q = strip_trailing_slashes p;
               b = (case LastIndexByte q (CHR ''/'') of None \<Rightarrow> q | Some i \<Rightarrow> drop (Suc i) q)
           in if b = [] then ''/'' else b)"

definition path_Join :: "bytes list \<Rightarrow> bytes" where
  "path_Join es = (let ne = dropWhile (\<lambda>e. e = []) es in
     if ne = [] then [] else path_Clean (Join ne ''/''))"

text \<open>\<open>filepath.Ext\<close>: from the last dot of the last element.\<close>

definition filepath_Ext :: "bytes \<Rightarrow> bytes" where
  "filepath_Ext p =
     (let b = (case LastIndexByte p (CHR ''/'') of None \<Rightarrow> p | Some i \<Rightarrow> drop (Suc i) p)
      in case LastIndexByte b (CHR ''.'') of None \<Rightarrow> [] | Some i \<Rightarrow> drop i b)"

section \<open>Percent encoding\<close>

datatype encoding = encodePath | encodeHost | encodeFragment

definition is_alnum :: "byte \<Rightarrow> bool" where
  "is_alnum c = (let k = (of_char c :: nat) in
     97 \<le> k \<and> k \<le> 122 \<or> 65 \<le> k \<and> k \<le> 90 \<or> 48 \<le> k \<and> k \<le> 57)"

definition shouldEscape :: "byte \<Rightarrow> encoding \<Rightarrow> bool" where
  "shouldEscape c mode =
     (if is_alnum c then False
      else if mode = encodeHost \<and>
        c \<in> set [CHR ''!'', CHR ''$'', CHR ''&'', CHR 0x27, CHR ''('', CHR '')'', CHR ''*'', CHR ''+'', CHR '','',
                 CHR '';'', CHR ''='', CHR '':'', CHR ''['', CHR '']'', CHR ''<'', CHR ''>'', CHR 0x22] then False
      else if c \<in> set [CHR ''-'', CHR ''_'', CHR ''.'', CHR ''~''] then False
      else if c \<in> set [CHR ''$'', CHR ''&'', CHR ''+'', CHR '','', CHR ''/'', CHR '':'', CHR '';'', CHR ''='',
                       CHR ''?'', CHR ''@''] \<and> mode = encodePath then c = CHR ''?''
      else if c \<in> set [CHR ''$'', CHR ''&'', CHR ''+'', CHR '','', CHR ''/'', CHR '':'', CHR '';'', CHR ''='',
                       CHR ''?'', CHR ''@''] \<and> mode = encodeFragment then False
      else if mode = encodeFragment \<and> c \<in> set [CHR ''!'', CHR ''('', CHR '')'', CHR ''*''] then False
      else True)"

definition upper_hex_digit :: "nat \<Rightarrow> char" where
  "upper_hex_digit n = (if n < 10 then char_of (48 + n) else char_of (55 + n))"

definition escape_byte :: "byte \<Rightarrow> bytes" where
  "escape_byte c = (let k = (of_char c :: nat) in
     [CHR ''%'', upper_hex_digit (k div 16), upper_hex_digit (k mod 16)])"

definition url_escape :: "bytes \<Rightarrow> encoding \<Rightarrow> bytes" where
  "url_escape s mode = concat (map (\<lambda>c. if shouldEscape c mode then escape_byte c else [c]) s)"

fun url_unescape :: "bytes \<Rightarrow> bytes option" where
  "url_unescape [] = Some []"
| "url_unescape (c # s) =
     (if c = CHR ''%'' then
        (case s of
           a # b # r \<Rightarrow>
             (case (hex_val a, hex_val b) of
                (Some x, Some y) \<Rightarrow> map_option (Cons (char_of (16 * x + y))) (url_unescape r)
              | _ \<Rightarrow> None)
         | _ \<Rightarrow> None)
      else map_option (Cons c) (url_unescape s))"

definition validEncoded :: "bytes \<Rightarrow> encoding \<Rightarrow> bool" where
  "validEncoded s mode = list_all (\<lambda>c.
     c \<in> set [CHR ''!'', CHR ''$'', CHR ''&'', CHR 0x27, CHR ''('', CHR '')'', CHR ''*'', CHR ''+'', CHR '','',
              CHR '';'', CHR ''='', CHR '':'', CHR ''@'', CHR ''['', CHR '']'', CHR ''%''] \<or>
     \<not> shouldEscape c mode) s"

section \<open>url.URL\<close>

text \<open>\<open>User\<close> holds the encoded user information, as \<open>Userinfo.String\<close> would print it.\<close>

record URL =
  Scheme :: string
  Opaque :: string
  User :: "string option"
  Host :: string
  Path :: string
  RawPath :: string
  OmitHost :: bool
  ForceQuery :: bool
  RawQuery :: string
  Fragment :: string
  RawFragment :: string

definition empty_URL :: URL where
  "empty_URL = \<lparr>Scheme = [], Opaque = [], User = None, Host = [], Path = [], RawPath = [],
     OmitHost = False, ForceQuery = False, RawQuery = [], Fragment = [], RawFragment = []\<rparr>"

definition EscapedPath :: "URL \<Rightarrow> string" where
  "EscapedPath u =
     (if RawPath u \<noteq> [] \<and> validEncoded (RawPath u) encodePath \<and> url_unescape (RawPath u) = Some (Path u)
      then RawPath u
      else if Path u = ''*'' then ''*''
      else url_escape (Path u) encodePath)"

definition EscapedFragment :: "URL \<Rightarrow> string" where
  "EscapedFragment u =
     (if RawFragment u \<noteq> [] \<and> validEncoded (RawFragment u) encodeFragment \<and>
         url_unescape (RawFragment u) = Some (Fragment u)
      then RawFragment u
      else url_escape (Fragment u) encodeFragment)"

text \<open>What \<open>String\<close> writes before the path: the scheme and the authority.\<close>

definition URL_front :: "URL \<Rightarrow> string" where
  "URL_front u =
     (if Scheme u \<noteq> [] then Scheme u @ '':'' else []) @
     (if (Scheme u \<noteq> [] \<or> Host u \<noteq> [] \<or> User u \<noteq> None) \<and>
         \<not> (OmitHost u \<and> Host u = [] \<and> User u = None)
      then (if Host u \<noteq> [] \<or> Path u \<noteq> [] \<or> User u \<noteq> None then ''//'' else []) @
           (case User u of None \<Rightarrow> [] | Some ui \<Rightarrow> ui @ ''@'') @
           url_escape (Host u) encodeHost
      else [])"

definition URL_String :: "URL \<Rightarrow> string" where
  "URL_String u =
     (if Opaque u \<noteq> [] then (if Scheme u \<noteq> [] then Scheme u @ '':'' else []) @ Opaque u
      else let path = EscapedPath u;
               slash = (if path \<noteq> [] \<and> hd path \<noteq> CHR ''/'' \<and> Host u \<noteq> [] then ''/'' else []);
               front = URL_front u @ slash;
               dot = (if front = [] \<and> CHR '':'' \<in> set (takeWhile (\<lambda>c. c \<noteq> CHR ''/'') path)
                      then ''./'' else [])
           in front @ dot @ path) @
     (if ForceQuery u \<or> RawQuery u \<noteq> [] then CHR ''?'' # RawQuery u else []) @
     (if Fragment u \<noteq> [] then CHR ''#'' # EscapedFragment u else [])"

definition setPath :: "URL \<Rightarrow> string \<Rightarrow> URL" where
  "setPath u p =
     (case url_unescape p of None \<Rightarrow> u
      | Some path \<Rightarrow> u\<lparr>Path := path, RawPath := if p = url_escape path encodePath then [] else p\<rparr>)"

definition JoinPath :: "URL \<Rightarrow> string list \<Rightarrow> URL" where
  "JoinPath u elem =
     (let es = EscapedPath u # elem;
          p = (if \<not> HasPrefix (hd es) ''/'' then tl (path_Join ((CHR ''/'' # hd es) # tl es))
               else path_Join es);
          p' = (if HasSuffix (last es) ''/'' \<and> \<not> HasSuffix p ''/'' then p @ ''/'' else p)
      in setPath u p')"

definition Hostname :: "URL \<Rightarrow> string" where
  "Hostname u =
     (let h = (case LastIndexByte (Host u) (CHR '':'') of None \<Rightarrow> Host u
               | Some i \<Rightarrow> if list_all is_digit (drop (Suc i) (Host u)) then take i (Host u) else Host u)
      in if HasPrefix h ''['' \<and> HasSuffix h '']'' then take (length h - 2) (drop 1 h) else h)"

section \<open>Joining elements that need no escaping\<close>

text \<open>A byte that stands for itself in a path element, and an element no cleaning changes.\<close>

definition plain_byte :: "byte \<Rightarrow> bool" where
  "plain_byte c \<longleftrightarrow> c \<noteq> CHR ''/'' \<and> c \<noteq> CHR ''%'' \<and> \<not> shouldEscape c encodePath"

definition plain_elem :: "bytes \<Rightarrow> bool" where
  "plain_elem e \<longleftrightarrow> e \<noteq> [] \<and> e \<noteq> ''.'' \<and> e \<noteq> ''..'' \<and> (\<forall>c \<in> set e. plain_byte c)"

lemma clean_elems_plain:
  "\<forall>e \<in> set es. plain_elem e \<Longrightarrow> clean_elems r es acc = rev acc @ es"
  by (induction es arbitrary: acc) (auto simp: plain_elem_def)

lemma Join_set: "set (Join es sep) \<subseteq> \<Union> (set ` set es) \<union> set sep"
  by (induction es sep rule: Join.induct) auto

lemma escape_plain: "\<forall>c \<in> set s. \<not> shouldEscape c m \<Longrightarrow> url_escape s m = s"
  by (induction s) (auto simp: url_escape_def)

lemma unescape_plain: "CHR ''%'' \<notin> set s \<Longrightarrow> url_unescape s = Some s"
  by (induction s) auto

lemma Join_plain_bytes:
  assumes "\<forall>e \<in> set es. plain_elem e" "c \<in> set (Join es ''/'')"
  shows "c \<noteq> CHR ''%''" "\<not> shouldEscape c encodePath"
proof -
  have "\<not> shouldEscape (CHR ''/'') encodePath" by (simp add: shouldEscape_def)
  with assms Join_set[of es "''/''"] show "c \<noteq> CHR ''%''" "\<not> shouldEscape c encodePath"
    by (auto simp: plain_elem_def plain_byte_def)
qed

lemma path_Join_plain:
  assumes "es \<noteq> []" "\<forall>e \<in> set es. plain_elem e"
  shows "path_Join (''/'' # es) = CHR ''/'' # Join es ''/''"
proof -
  have "Split (Join es ''/'') (CHR ''/'') = es"
    using assms by (intro Split_Join) (auto simp: plain_elem_def plain_byte_def)
  then have "Split (''/'' @ ''/'' @ Join es ''/'') (CHR ''/'') = [] # [] # es" by simp
  with assms show ?thesis
    by (simp add: path_Join_def path_Clean_def Join_Cons HasPrefix_def clean_elems_plain)
qed

lemma JoinPath_plain:
  assumes "Path u = []" "RawPath u = []" "es \<noteq> []" "\<forall>e \<in> set es. plain_elem e"
  shows "JoinPath u es = u\<lparr>Path := Join es ''/''\<rparr>"
proof -
  have "EscapedPath u = []" using assms(1,2) by (simp add: EscapedPath_def url_escape_def)
  moreover have "\<not> HasSuffix (last es) ''/''"
  proof -
    have "last es \<in> set es" using assms(3) by simp
    with assms(4) have "CHR ''/'' \<notin> set (last es)" by (auto simp: plain_elem_def plain_byte_def)
    moreover have "HasSuffix e ''/'' \<Longrightarrow> CHR ''/'' \<in> set e" for e
      unfolding HasSuffix_def by (metis in_set_dropD list.set_intros(1))
    ultimately show ?thesis by blast
  qed
  moreover have "setPath u (Join es ''/'') = u\<lparr>Path := Join es ''/''\<rparr>"
  proof -
    have "CHR ''%'' \<notin> set (Join es ''/'')" using Join_plain_bytes(1)[OF assms(4)] by blast
    moreover have "url_escape (Join es ''/'') encodePath = Join es ''/''"
      using Join_plain_bytes(2)[OF assms(4)] by (intro escape_plain) blast
    ultimately show ?thesis using assms(2) by (simp add: setPath_def unescape_plain)
  qed
  ultimately show ?thesis
    using assms(3) path_Join_plain[OF assms(3,4)] by (simp add: JoinPath_def HasPrefix_def)
qed

lemma URL_String_JoinPath_plain:
  assumes "u = empty_URL\<lparr>Scheme := sch, Host := h\<rparr>" "sch \<noteq> []" "h \<noteq> []"
    and "\<forall>c \<in> set h. \<not> shouldEscape c encodeHost"
    and "es \<noteq> []" "\<forall>e \<in> set es. plain_elem e"
  shows "URL_String (JoinPath u es) = sch @ ''://'' @ h @ ''/'' @ Join es ''/''"
proof -
  let ?p = "Join es ''/''"
  have j: "JoinPath u es = u\<lparr>Path := ?p\<rparr>"
    using assms by (intro JoinPath_plain) (auto simp: empty_URL_def)
  have p: "?p \<noteq> []" "hd ?p \<noteq> CHR ''/''"
  proof -
    obtain e r where es: "es = e # r" using assms(5) by (cases es) auto
    with assms(6) have "e \<noteq> []" "hd e \<noteq> CHR ''/''" by (auto simp: plain_elem_def plain_byte_def)
    then show "?p \<noteq> []" "hd ?p \<noteq> CHR ''/''" by (cases r; simp add: es)+
  qed
  have "url_escape ?p encodePath = ?p"
    using Join_plain_bytes(2)[OF assms(6)] by (intro escape_plain) blast
  then have "EscapedPath (u\<lparr>Path := ?p\<rparr>) = ?p"
    using assms(1) by (simp add: EscapedPath_def empty_URL_def)
  with p assms(1-4) show ?thesis
    unfolding j by (simp add: URL_String_def URL_front_def empty_URL_def escape_plain)
qed

text \<open>Hexadecimal digits, decimal digits and the separators of addresses need no escaping.\<close>

lemma alnum_not_escaped: "is_alnum c \<Longrightarrow> \<not> shouldEscape c m"
  by (simp add: shouldEscape_def)

lemma hex_digit_alnum: "n < 16 \<Longrightarrow> is_alnum (hex_digit n)"
  by (auto simp: is_alnum_def hex_digit_def Let_def)

lemma is_digit_alnum: "is_digit c \<Longrightarrow> is_alnum c"
  by (simp add: is_alnum_def is_digit_def Let_def)

lemma alnum_plain: "is_alnum c \<Longrightarrow> plain_byte c"
  by (auto simp: plain_byte_def alnum_not_escaped is_alnum_def Let_def)

lemma separators_plain: "plain_byte (CHR '':'')" "plain_byte (CHR ''.'')"
    "\<not> shouldEscape (CHR '':'') encodeHost" "\<not> shouldEscape (CHR ''.'') encodeHost"
  by (simp_all add: plain_byte_def shouldEscape_def)

lemma byte_hex_alnum: "c \<in> set (byte_hex b) \<Longrightarrow> is_alnum c"
proof -
  have "(of_char b :: nat) div 16 < 16" using nat_of_char_less_256[of b] by linarith
  then show "c \<in> set (byte_hex b) \<Longrightarrow> is_alnum c"
    by (auto simp: byte_hex_def Let_def hex_digit_alnum)
qed

lemma HardwareAddr_String_plain: "m \<noteq> [] \<Longrightarrow> plain_elem (HardwareAddr_String m)"
proof -
  assume m: "m \<noteq> []"
  have "plain_byte c" if "c \<in> set (HardwareAddr_String m)" for c
  proof -
    have "c = CHR '':'' \<or> (\<exists>b. c \<in> set (byte_hex b))"
      using that Join_set[of "map byte_hex m" "'':''"] by (auto simp: HardwareAddr_String_def)
    then show ?thesis using separators_plain(1) byte_hex_alnum alnum_plain by blast
  qed
  moreover have "HardwareAddr_String m \<noteq> []" "HardwareAddr_String m \<noteq> ''.''" "HardwareAddr_String m \<noteq> ''..''"
  proof -
    obtain b r where "m = b # r" using m by (cases m) auto
    then obtain x where "HardwareAddr_String m = byte_hex b @ x"
      by (cases r) (auto simp: HardwareAddr_String_def)
    then obtain d x' where d: "HardwareAddr_String m = d # x'" "is_alnum d"
      using byte_hex_alnum[of _ b] by (auto simp: byte_hex_def Let_def)
    moreover have "\<not> is_alnum (CHR ''.'')" by (simp add: is_alnum_def)
    ultimately show "HardwareAddr_String m \<noteq> []" "HardwareAddr_String m \<noteq> ''.''" "HardwareAddr_String m \<noteq> ''..''"
      by auto
  qed
  ultimately show ?thesis by (simp add: plain_elem_def)
qed

lemma dotted_host_plain:
  "\<forall>c \<in> set (dotted b @ '':'' @ nat_string n). \<not> shouldEscape c encodeHost"
proof -
  have "c \<in> set (nat_string k) \<Longrightarrow> \<not> shouldEscape c encodeHost" for c k
    by (blast dest: nat_string_digits is_digit_alnum alnum_not_escaped)
  moreover have "set (dotted b) \<subseteq> \<Union> (set ` (\<lambda>c. nat_string (of_char c)) ` set b) \<union> {CHR ''.''}"
    using Join_set[of "map (\<lambda>c. nat_string (of_char c)) b" "''.''"] by (simp add: dotted_def)
  moreover have "c \<in> set (dotted b) \<Longrightarrow> c = CHR ''.'' \<or> (\<exists>k. c \<in> set (nat_string k))" for c
    using calculation(2) by auto
  ultimately show ?thesis using separators_plain(3,4) by fastforce
qed

section \<open>Elements of a path\<close>

lemma Split_append: "Split (a @ c # b) c = Split a c @ Split b c"
proof (induction a)
  case (Cons x a)
  show ?case
  proof (cases "x = c")
    case False
    obtain y ys where "Split a c = y # ys" by (cases "Split a c") auto
    with Cons False show ?thesis by simp
  qed (use Cons in simp)
qed simp

lemma clean_elems_append: "clean_elems r (xs @ ys) acc = clean_elems r ys (rev (clean_elems r xs acc))"
  by (induction r xs acc rule: clean_elems.induct) (auto split: list.split)

lemma Join_snoc_elem: "\<exists>pre. Join (es @ [e]) ''/'' = pre @ e \<and> (pre = [] \<or> last pre = CHR ''/'')"
proof (cases "es = []")
  case False
  then have "Join (es @ [e]) ''/'' = (Join es ''/'' @ ''/'') @ e" by (simp add: Join_snoc)
  then show ?thesis by (metis last_snoc)
qed simp

lemma path_Dir_elem:
  assumes "plain_elem e" "CHR ''/'' \<notin> set file"
  shows "\<exists>pre. path_Dir (p @ CHR ''/'' # e @ CHR ''/'' # file) = pre @ e \<and> (pre = [] \<or> last pre = CHR ''/'')"
proof -
  let ?s = "CHR ''/''"
  let ?d = "p @ ?s # e @ [?s]"
  let ?r = "HasPrefix ?d ''/''"
  have e: "?s \<notin> set e" "e \<noteq> []" "e \<noteq> ''.''" "e \<noteq> ''..''"
    using assms(1) by (auto simp: plain_elem_def plain_byte_def)
  have "LastIndexByte ((p @ ?s # e) @ ?s # file) ?s = Some (length (p @ ?s # e))"
    using assms(2) by (rule LastIndexByte_append)
  then have dir: "path_Split_dir (p @ ?s # e @ ?s # file) = ?d" by (simp add: path_Split_dir_def)
  have "Split ?d ?s = Split p ?s @ [e, []]"
    using Split_append[of p ?s "e @ [?s]"] Split_append_sep[OF e(1), of "[]"] by simp
  then have cl: "clean_elems ?r (Split ?d ?s) [] = clean_elems ?r (Split p ?s) [] @ [e]"
    using e by (simp add: clean_elems_append)
  obtain pre where pre: "Join (clean_elems ?r (Split ?d ?s) []) ''/'' = pre @ e" "pre = [] \<or> last pre = ?s"
    using Join_snoc_elem[of "clean_elems ?r (Split p ?s) []" e] unfolding cl by blast
  then have "path_Dir (p @ ?s # e @ ?s # file) = ((if ?r then [?s] else []) @ pre) @ e"
    unfolding path_Dir_def dir path_Clean_def Let_def using e(2) by simp
  moreover have "(if ?r then [?s] else []) @ pre = [] \<or> last ((if ?r then [?s] else []) @ pre) = ?s"
    using pre(2) by auto
  ultimately show ?thesis by blast
qed

lemma path_Base_elem:
  assumes "plain_elem e" "pre = [] \<or> last pre = CHR ''/''"
  shows "path_Base (pre @ e) = e"
proof -
  let ?s = "CHR ''/''"
  have e: "?s \<notin> set e" "e \<noteq> []" using assms(1) by (auto simp: plain_elem_def plain_byte_def)
  then have "last (pre @ e) \<noteq> ?s" by (metis last_appendR last_in_set)
  then have strip: "strip_trailing_slashes (pre @ e) = pre @ e"
  proof -
    obtain x r where x: "rev (pre @ e) = x # r" using e(2) by (cases "rev (pre @ e)") auto
    then have "x = last (pre @ e)" by (metis hd_rev list.sel(1))
    with \<open>last (pre @ e) \<noteq> ?s\<close> have "dropWhile (\<lambda>c. c = ?s) (rev (pre @ e)) = rev (pre @ e)" unfolding x by simp
    then show ?thesis unfolding strip_trailing_slashes_def by (metis rev_rev_ident)
  qed
  show ?thesis
  proof (cases "pre = []")
    case True
    with e strip have "LastIndexByte e ?s = None" by (simp add: LastIndexByte_def IndexByte_None)
    with True e strip show ?thesis by (simp add: path_Base_def)
  next
    case False
    with assms(2) obtain q where q: "pre = q @ [?s]" by (metis append_butlast_last_id)
    have "LastIndexByte (q @ ?s # e) ?s = Some (length q)" using e(1) by (rule LastIndexByte_append)
    with q e strip show ?thesis by (simp add: path_Base_def)
  qed
qed

lemma path_mac_elem:
  assumes "length hw \<in> {6, 8, 20}" "CHR ''/'' \<notin> set file"
  shows "path_Base (path_Dir (p @ ''/'' @ HardwareAddr_String hw @ ''/'' @ file)) = HardwareAddr_String hw"
proof -
  have e: "plain_elem (HardwareAddr_String hw)" using assms(1) by (intro HardwareAddr_String_plain) auto
  obtain pre where pre: "path_Dir (p @ CHR ''/'' # HardwareAddr_String hw @ CHR ''/'' # file) = pre @ HardwareAddr_String hw"
      "pre = [] \<or> last pre = CHR ''/''"
    using path_Dir_elem[OF e assms(2), of p] by blast
  from path_Base_elem[OF e pre(2)] show ?thesis by (simp add: pre(1))
qed

lemma path_Join_rooted:
  assumes "HasPrefix d ''/''" "plain_elem e" "plain_elem f"
  shows "\<exists>p. path_Join [d, e, f] = p @ ''/'' @ e @ ''/'' @ f"
proof -
  let ?s = "CHR ''/''"
  have d: "d \<noteq> []" using assms(1) by (auto simp: HasPrefix_def)
  have el: "?s \<notin> set x" "x \<noteq> []" "x \<noteq> ''.''" "x \<noteq> ''..''" if "plain_elem x" for x
    using that by (auto simp: plain_elem_def plain_byte_def)
  have join: "Join [d, e, f] ''/'' = d @ ?s # e @ ?s # f" by simp
  have rooted: "HasPrefix (d @ ?s # e @ ?s # f) ''/''" using assms(1) d by (cases d) (auto simp: HasPrefix_def)
  have split: "Split (d @ ?s # e @ ?s # f) ?s = Split d ?s @ [e, f]"
    using Split_append_sep[OF el(1)[OF assms(2)], of f] Split_single[OF el(1)[OF assms(3)]] by (simp add: Split_append)
  obtain es where es: "clean_elems True (Split d ?s @ [e, f]) [] = es @ [e, f]"
    using el[OF assms(2)] el[OF assms(3)] by (simp add: clean_elems_append)
  have "path_Join [d, e, f] = ?s # Join (es @ [e, f]) ''/''"
    using d by (simp add: path_Join_def join path_Clean_def rooted split es del: Join.simps)
  moreover have "?s # Join (es @ [e, f]) ''/'' = (if es = [] then [] else ?s # Join es ''/'') @ ''/'' @ e @ ''/'' @ f"
    using Join_snoc[of "es @ [e]" f "''/''"] Join_snoc[of es e "''/''"] by (simp del: Join.simps) simp
  ultimately show ?thesis by metis
qed

lemma path_Dir_rooted:
  assumes "CHR ''/'' \<notin> set b" "HasPrefix (d @ ''/'' @ b) ''/''"
  shows "HasPrefix (path_Dir (d @ ''/'' @ b)) ''/''"
proof -
  have "path_Split_dir (d @ ''/'' @ b) = d @ ''/''"
    using LastIndexByte_append[OF assms(1), of d] by (simp add: path_Split_dir_def)
  moreover have "HasPrefix (d @ ''/'') ''/''" using assms(2) by (cases d) (auto simp: HasPrefix_def)
  ultimately show ?thesis by (simp add: path_Dir_def path_Clean_def HasPrefix_def)
qed

end
