(* ===== verification/DHCP_Data.thy ===== *)
theory DHCP_Data
  imports DHCPv4_Package Go_URL
begin

text \<open>
  \<open>internal/dhcp/data\<close>: the records that pass between the DHCP server, its handlers and the backends,
  and their telemetry attributes; \<open>internal/dhcp/handler\<close>: the contract of a backend, as a locale,
  with the facts every client of a backend may use.
\<close>

section \<open>Records\<close>

record Metadata =
  IfName :: string
  IfIndex :: int

text \<open>A peer is a UDP address or some other implementation of \<open>net.Addr\<close>; the interface may hold a nil pointer.\<close>

record UDPAddr =
  UDP_IP :: slice
  UDP_Port :: nat
  UDP_Zone :: string

datatype net_addr = UDPPeer "UDPAddr option" | OtherAddr string

record Packet =
  Peer :: net_addr
  Pkt :: "dhcpv4 option"
  Md :: "Metadata option"

record data_DHCP =
  MACAddress :: slice
  IPAddress :: Addr
  SubnetMask :: slice
  DefaultGateway :: Addr
  NameServers :: "slice list"
  HostName :: string
  DomainName :: string
  BroadcastAddress :: Addr
  NTPServers :: "slice list"
  VLANID :: string
  LeaseTime :: u32
  DHCP_Arch :: string
  DomainSearch :: "string list"
  Disabled :: bool

record data_OSIE =
  BaseURL :: "URL option"
  Kernel :: string
  Initrd :: string

record data_Netboot =
  AllowNetboot :: bool
  IPXEScriptURL :: "URL option"
  IPXEScript :: string
  Console :: string
  Facility :: string
  OSIE :: data_OSIE

text \<open>Go's zero values (\<open>new(data.DHCP)\<close>, \<open>new(data.Netboot)\<close>).\<close>

definition new_DHCP :: data_DHCP where
  "new_DHCP = \<lparr>MACAddress = None, IPAddress = AddrZero, SubnetMask = None, DefaultGateway = AddrZero,
     NameServers = [], HostName = [], DomainName = [], BroadcastAddress = AddrZero, NTPServers = [],
     VLANID = [], LeaseTime = 0, DHCP_Arch = [], DomainSearch = [], Disabled = False\<rparr>"

definition new_Netboot :: data_Netboot where
  "new_Netboot = \<lparr>AllowNetboot = False, IPXEScriptURL = None, IPXEScript = [], Console = [],
     Facility = [], OSIE = \<lparr>BaseURL = None, Kernel = [], Initrd = []\<rparr>\<rparr>"

section \<open>Telemetry attributes\<close>

text \<open>\<open>ASeconds d\<close> is the floating point attribute \<open>d.Seconds()\<close> of a duration of \<open>d\<close> nanoseconds.\<close>

datatype attr_value = AString string | AInt int | ABool bool | ASeconds int | AStrings "string list"
type_synonym KeyValue = "string \<times> attr_value"

text \<open>The text of an optional address: empty for the zero \<open>netip.Addr\<close>.\<close>

definition addr_text :: "Addr \<Rightarrow> string" where
  "addr_text a = (if Addr_Compare a AddrZero \<noteq> 0 then Addr_String a else [])"

definition DHCP_EncodeToAttributes :: "data_DHCP \<Rightarrow> KeyValue list" where
  "DHCP_EncodeToAttributes d =
     (let ns = map IP_String (NameServers d);
          ntp = map IP_String (NTPServers d);
          sm = (case SubnetMask d of None \<Rightarrow> [] | Some m \<Rightarrow> IP_String (Some m))
      in [(''DHCP.MACAddress'', AString (HardwareAddr_String (slice_bytes (MACAddress d)))),
          (''DHCP.IPAddress'', AString (addr_text (IPAddress d))),
          (''DHCP.SubnetMask'', AString sm),
          (''DHCP.DefaultGateway'', AString (addr_text (DefaultGateway d))),
          (''DHCP.NameServers'', AString (Join ns '','')),
          (''DHCP.Hostname'', AString (HostName d)),
          (''DHCP.DomainName'', AString (DomainName d)),
          (''DHCP.BroadcastAddress'', AString (addr_text (BroadcastAddress d))),
          (''DHCP.NTPServers'', AString (Join ntp '','')),
          (''DHCP.LeaseTime'', AInt (uint (LeaseTime d))),
          (''DHCP.DomainSearch'', AString (Join (DomainSearch d) '',''))])"

definition Netboot_EncodeToAttributes :: "data_Netboot \<Rightarrow> KeyValue list" where
  "Netboot_EncodeToAttributes n =
     [(''Netboot.AllowNetboot'', ABool (AllowNetboot n)),
      (''Netboot.IPXEScriptURL'', AString (case IPXEScriptURL n of None \<Rightarrow> [] | Some u \<Rightarrow> URL_String u))]"

section \<open>The backend interface\<close>

text \<open>
  \<open>handler.BackendReader\<close>: a lookup returns an error, or pointers to DHCP and netboot data. The
  locale states what the handlers rely on and the interface's comment promises ("read data based on a
  mac address and return DHCP headers and options, including netboot info"): a successful lookup
  gives both records, the DHCP record is the one of the MAC address asked for, and it has an IP
  address.
\<close>

type_synonym backend_result = "(go_error + (data_DHCP option \<times> data_Netboot option)) go"

record BackendReader =
  GetByMac :: "bytes \<Rightarrow> backend_result"
  GetByIP :: "slice \<Rightarrow> backend_result"

locale backend_reader =
  fixes be :: BackendReader
  assumes mac_found: "GetByMac be mac = Ret (Inr (d, n)) \<Longrightarrow>
      \<exists>dd nn. d = Some dd \<and> n = Some nn \<and> MACAddress dd = Some mac \<and> wf_addr (IPAddress dd) \<and> IPAddress dd \<noteq> AddrZero"
    and ip_found: "GetByIP be ip = Ret (Inr (d, n)) \<Longrightarrow>
      \<exists>dd nn. d = Some dd \<and> n = Some nn \<and> wf_addr (IPAddress dd) \<and> IPAddress dd \<noteq> AddrZero"
begin

lemma mac_both:
  "GetByMac be mac = Ret (Inr r) \<Longrightarrow> \<exists>d n. r = (Some d, Some n) \<and> MACAddress d = Some mac"
  by (cases r) (auto dest: mac_found)

lemma mac_not_nil: "GetByMac be mac \<noteq> Ret (Inr (None, n))" "GetByMac be mac \<noteq> Ret (Inr (d, None))"
  by (auto dest: mac_found)

lemma ip_not_nil: "GetByIP be ip \<noteq> Ret (Inr (None, n))" "GetByIP be ip \<noteq> Ret (Inr (d, None))"
  by (auto dest: ip_found)

lemma mac_address_slice:
  "GetByMac be mac = Ret (Inr (Some d, n)) \<Longrightarrow>
     \<exists>b. AsSlice (IPAddress d) = Some b \<and> (length b = 4 \<or> length b = 16)"
  by (cases "IPAddress d") (auto dest!: mac_found)

end

section \<open>Backends that find nothing\<close>

text \<open>\<open>internal/backend/noop\<close> and the default of the reservation handler (\<open>noop.go\<close>).\<close>

definition noop_GetByMac :: "bytes \<Rightarrow> backend_result" where
  "noop_GetByMac mac = Ret (Inl (ErrorNew ''noop backend always returns an error''))"

definition noop_GetByIP :: "slice \<Rightarrow> backend_result" where
  "noop_GetByIP ip = Ret (Inl (ErrorNew ''noop backend always returns an error''))"

definition reservation_noop_GetByMac :: "bytes \<Rightarrow> backend_result" where
  "reservation_noop_GetByMac mac = Ret (Inl (ErrorNew ''no backend specified, please specify a backend''))"

definition reservation_noop_GetByIP :: "slice \<Rightarrow> backend_result" where
  "reservation_noop_GetByIP ip = Ret (Inl (ErrorNew ''no backend specified, please specify a backend''))"

definition noop_Backend :: BackendReader where
  "noop_Backend = \<lparr>GetByMac = noop_GetByMac, GetByIP = noop_GetByIP\<rparr>"

definition reservation_noop :: BackendReader where
  "reservation_noop = \<lparr>GetByMac = reservation_noop_GetByMac, GetByIP = reservation_noop_GetByIP\<rparr>"

lemmas noop_defs = noop_Backend_def reservation_noop_def noop_GetByMac_def noop_GetByIP_def
  reservation_noop_GetByMac_def reservation_noop_GetByIP_def

interpretation noop_be: backend_reader noop_Backend
  by unfold_locales (auto simp: noop_defs)

interpretation reservation_noop_be: backend_reader reservation_noop
  by unfold_locales (auto simp: noop_defs)

end
