(* ===== verification/DHCP_Info.thy ===== *)
theory DHCP_Info
  imports DHCP_Data
begin

text \<open>
  \<open>internal/dhcp/dhcp.go\<close>: what the server derives from a client's packet (architecture, user class,
  client type, whether it is a network boot client), and the boot file and next server computed from
  it. The lemmas characterise each function; the last section is about the chain of boot requests one
  machine makes.
\<close>

section \<open>Definitions\<close>

definition PXEClient :: string where "PXEClient = ''PXEClient''"
definition HTTPClient :: string where "HTTPClient = ''HTTPClient''"
definition IPXE :: string where "IPXE = ''iPXE''"
definition Tinkerbell :: string where "Tinkerbell = ''Tinkerbell''"

lemmas client_names = PXEClient_def HTTPClient_def IPXE_def Tinkerbell_def

text \<open>\<open>ArchToBootFile\<close>, keyed by the IANA processor architecture types the names of package \<open>iana\<close> stand for.\<close>

definition ArchToBootFile :: "u16 \<rightharpoonup> string" where
  "ArchToBootFile = map_of
     [(0, ''undionly.kpxe''), (1, ''undionly.kpxe''), (2, ''undionly.kpxe''), (3, ''undionly.kpxe''),
      (4, ''undionly.kpxe''), (5, ''undionly.kpxe''),
      (6, ''ipxe.efi''), (7, ''ipxe.efi''), (8, ''ipxe.efi''), (9, ''ipxe.efi''),
      (10, ''snp.efi''), (11, ''snp.efi''),
      (15, ''ipxe.efi''), (16, ''ipxe.efi''),
      (18, ''snp.efi''), (19, ''snp.efi''),
      (41, ''snp.efi'')]"

record Info =
  Info_Pkt :: "dhcpv4 option"
  Info_Arch :: u16
  Info_Mac :: slice
  Info_UserClass :: string
  Info_ClientType :: string
  Info_IsNetbootClient :: "go_error option"
  Info_IPXEBinary :: string

text \<open>The Raspberry Pi vendor prefixes.\<close>

definition rpi_prefixes :: "bytes list" where
  "rpi_prefixes =
     [[CHR 0xB8, CHR 0x27, CHR 0xEB], [CHR 0xDC, CHR 0xA6, CHR 0x32], [CHR 0xE4, CHR 0x5F, CHR 0x01],
      [CHR 0x28, CHR 0xCD, CHR 0xC1], [CHR 0xD8, CHR 0x3A, CHR 0xDD]]"

definition isRaspberryPI :: "slice \<Rightarrow> bool" where
  "isRaspberryPI mac = list_ex (\<lambda>p. HasPrefix (slice_bytes mac) p) rpi_prefixes"

definition Arch :: "dhcpv4_lib \<Rightarrow> dhcpv4 \<Rightarrow> u16" where
  "Arch lib d =
     (if isRaspberryPI (ClientHWAddr d) then 41
      else let fwt = lib_ClientArch lib d in
        if fwt = [] then 255
        else case List.find (\<lambda>e. \<not> Contains (lib_Arch_String lib e) ''unknown'') fwt of
            None \<Rightarrow> 255
          | Some a \<Rightarrow> a)"

definition IPXEBinaryFrom :: "Info \<Rightarrow> string" where
  "IPXEBinaryFrom i = (case ArchToBootFile (Info_Arch i) of None \<Rightarrow> [] | Some bin \<Rightarrow> bin)"

definition UserClassFrom :: "dhcpv4_lib \<Rightarrow> Info \<Rightarrow> string" where
  "UserClassFrom lib i =
     (case Info_Pkt i of None \<Rightarrow> []
      | Some p \<Rightarrow> (case lib_Options_Get lib (Options p) OptionUserClassInformation of
          None \<Rightarrow> [] | Some val \<Rightarrow> val))"

definition ClientTypeFrom :: "dhcpv4_lib \<Rightarrow> Info \<Rightarrow> string" where
  "ClientTypeFrom lib i =
     (case Info_Pkt i of None \<Rightarrow> []
      | Some p \<Rightarrow> (case lib_Options_Get lib (Options p) OptionClassIdentifier of
          None \<Rightarrow> []
        | Some val \<Rightarrow> if HasPrefix val HTTPClient then HTTPClient else PXEClient))"

definition wrapNonNil :: "go_error option \<Rightarrow> string \<Rightarrow> go_error option" where
  "wrapNonNil err m =
     (case err of None \<Rightarrow> Some (ErrorNew m) | Some e \<Rightarrow> Some (Errorf (Error_text e @ '': '' @ m) e))"

text \<open>The \<open>if\<close> statements of \<open>IsNetbootClient\<close>: each adds its message to the error, or leaves it.\<close>

definition check_that :: "bool \<Rightarrow> string \<Rightarrow> go_error option \<Rightarrow> go_error option" where
  "check_that ok m err = (if ok then err else wrapNonNil err m)"

definition IsNetbootClient :: "dhcpv4_lib \<Rightarrow> dhcpv4 \<Rightarrow> go_error option" where
  "IsNetbootClient lib pkt =
     (let err = check_that (lib_MessageType lib pkt = MessageTypeDiscover \<or> lib_MessageType lib pkt = MessageTypeRequest)
            ''message type must be either Discover or Request'' None;
          err = check_that (lib_Options_Has lib (Options pkt) OptionClassIdentifier) ''option 60 not set'' err;
          opt60 = slice_bytes (lib_GetOneOption lib pkt OptionClassIdentifier);
          err = check_that (HasPrefix opt60 PXEClient \<or> HasPrefix opt60 HTTPClient)
            ''option 60 not PXEClient or HTTPClient'' err;
          err = check_that (lib_Options_Has lib (Options pkt) OptionClientSystemArchitectureType)
            ''option 93 not set'' err;
          err = check_that (lib_Options_Has lib (Options pkt) OptionClientNetworkInterfaceIdentifier)
            ''option 94 not set'' err;
          guid = slice_bytes (lib_GetOneOption lib pkt OptionClientMachineIdentifier)
      in if length guid = 0 then err
         else if length guid = 17 then check_that (guid ! 0 = CHR 0x00) ''option 97 does not start with 0'' err
         else check_that False ''option 97 has invalid length (must be 0 or 17)'' err)"

definition NewInfo :: "dhcpv4_lib \<Rightarrow> dhcpv4 option \<Rightarrow> Info" where
  "NewInfo lib pkt =
     (let i = \<lparr>Info_Pkt = pkt, Info_Arch = 0, Info_Mac = None, Info_UserClass = [], Info_ClientType = [],
               Info_IsNetbootClient = None, Info_IPXEBinary = []\<rparr>
      in case pkt of None \<Rightarrow> i
        | Some p \<Rightarrow>
            (let i = i\<lparr>Info_Arch := Arch lib p\<rparr>;
                 i = i\<lparr>Info_Mac := ClientHWAddr p\<rparr>;
                 i = i\<lparr>Info_UserClass := UserClassFrom lib i\<rparr>;
                 i = i\<lparr>Info_ClientType := ClientTypeFrom lib i\<rparr>;
                 i = i\<lparr>Info_IsNetbootClient := IsNetbootClient lib p\<rparr>
             in i\<lparr>Info_IPXEBinary := IPXEBinaryFrom i\<rparr>))"

text \<open>A TFTP server address (\<open>netip.AddrPort\<close>) and its text.\<close>

type_synonym AddrPort = "Addr \<times> nat"

definition AddrPort_String :: "AddrPort \<Rightarrow> string" where
  "AddrPort_String ap =
     (case ap of (a, port) \<Rightarrow>
        (case a of
           AddrZero \<Rightarrow> ''invalid AddrPort''
         | Addr4 b \<Rightarrow> dotted b @ '':'' @ nat_string port
         | Addr6 b z \<Rightarrow> ''['' @ Addr_String a @ '']:'' @ nat_string port))"

text \<open>The path elements of a binary's URL: the MAC address, if known, and the file.\<close>

definition boot_paths :: "Info \<Rightarrow> string list" where
  "boot_paths i = (case Info_Mac i of None \<Rightarrow> [Info_IPXEBinary i]
     | Some m \<Rightarrow> [HardwareAddr_String m, Info_IPXEBinary i])"

definition Bootfile :: "Info \<Rightarrow> string \<Rightarrow> URL option \<Rightarrow> URL option \<Rightarrow> AddrPort \<Rightarrow> string" where
  "Bootfile i customUC ipxeScript ipxeHTTPBinServer ipxeTFTPBinServer =
     (let bootfile = ''/no-ipxe-script-defined'' in
      if Info_UserClass i = Tinkerbell \<or> (customUC \<noteq> [] \<and> Info_UserClass i = customUC) then
        (case ipxeScript of None \<Rightarrow> bootfile | Some u \<Rightarrow> URL_String u)
      else if Info_ClientType i = HTTPClient then
        (case ipxeHTTPBinServer of None \<Rightarrow> bootfile
         | Some u \<Rightarrow> URL_String (JoinPath u (boot_paths i)))
      else if Info_UserClass i = IPXE then
        URL_String (JoinPath (empty_URL\<lparr>Scheme := ''tftp'', Host := AddrPort_String ipxeTFTPBinServer\<rparr>) (boot_paths i))
      else if Info_IPXEBinary i \<noteq> [] then Info_IPXEBinary i
      else bootfile)"

definition NextServer :: "Info \<Rightarrow> URL option \<Rightarrow> AddrPort \<Rightarrow> slice" where
  "NextServer i ipxeHTTPBinServer ipxeTFTPBinServer =
     (if Info_ClientType i = HTTPClient then
        (case ipxeHTTPBinServer of None \<Rightarrow> None | Some u \<Rightarrow> ParseIP (Hostname u))
      else if Info_UserClass i = IPXE then AsSlice (fst ipxeTFTPBinServer)
      else AsSlice (fst ipxeTFTPBinServer))"

text \<open>\<open>hex.DecodeString\<close> of the two literals.\<close>

definition rpi_opt9 :: bytes where
  "rpi_opt9 = [CHR 0x00, CHR 0x00, CHR 0x11] @ ''Raspberry Pi Boot''"

definition rpi_opt10 :: bytes where
  "rpi_opt10 = CHR 0x00 # ''PXE''"

definition AddRPIOpt43 :: "dhcpv4_lib \<Rightarrow> Info \<Rightarrow> options \<Rightarrow> bytes" where
  "AddRPIOpt43 lib i opts =
     lib_Options_ToBytes lib
       (if isRaspberryPI (Info_Mac i) then opts(9 \<mapsto> Some rpi_opt9, 10 \<mapsto> Some rpi_opt10) else opts)"

section \<open>Architecture and binary\<close>

lemma NewInfo_simps [simp]:
  "Info_Pkt (NewInfo lib pkt) = pkt"
  "Info_Arch (NewInfo lib (Some p)) = Arch lib p"
  "Info_Mac (NewInfo lib (Some p)) = ClientHWAddr p"
  "Info_IsNetbootClient (NewInfo lib (Some p)) = IsNetbootClient lib p"
  "Info_IPXEBinary (NewInfo lib None) = []"
  by (simp_all add: NewInfo_def Let_def split: option.split)

lemma NewInfo_derived:
  "Info_UserClass (NewInfo lib (Some p)) = UserClassFrom lib (NewInfo lib (Some p))"
  "Info_ClientType (NewInfo lib (Some p)) = ClientTypeFrom lib (NewInfo lib (Some p))"
  "Info_IPXEBinary (NewInfo lib (Some p)) = IPXEBinaryFrom (NewInfo lib (Some p))"
  by (simp_all add: NewInfo_def Let_def UserClassFrom_def ClientTypeFrom_def IPXEBinaryFrom_def)

lemma ArchToBootFile_255 [simp]: "ArchToBootFile 255 = None"
  by (simp add: ArchToBootFile_def)

lemma ArchToBootFile_41 [simp]: "ArchToBootFile 41 = Some ''snp.efi''"
  by (simp add: ArchToBootFile_def)

lemma ArchToBootFile_names:
  "ArchToBootFile a = Some f \<Longrightarrow> f \<in> {''undionly.kpxe'', ''ipxe.efi'', ''snp.efi''}"
  unfolding ArchToBootFile_def by (drule map_of_SomeD) auto

lemma Arch_rpi: "isRaspberryPI (ClientHWAddr d) \<Longrightarrow> Arch lib d = 41"
  by (simp add: Arch_def)

lemma Arch_first_known:
  assumes "\<not> isRaspberryPI (ClientHWAddr d)"
    and "lib_ClientArch lib d = us @ a # vs"
    and "\<forall>u \<in> set us. Contains (lib_Arch_String lib u) ''unknown''"
    and "\<not> Contains (lib_Arch_String lib a) ''unknown''"
  shows "Arch lib d = a"
proof -
  have "List.find (\<lambda>e. \<not> Contains (lib_Arch_String lib e) ''unknown'') (us @ a # vs) = Some a"
    using assms(3,4) by (induction us) auto
  with assms(1,2) show ?thesis by (simp add: Arch_def)
qed

lemma Arch_unknown:
  assumes "\<not> isRaspberryPI (ClientHWAddr d)"
    and "\<forall>u \<in> set (lib_ClientArch lib d). Contains (lib_Arch_String lib u) ''unknown''"
  shows "Arch lib d = 255"
proof -
  have "List.find (\<lambda>e. \<not> Contains (lib_Arch_String lib e) ''unknown'') (lib_ClientArch lib d) = None"
    using assms(2) by (auto simp: find_None_iff)
  with assms(1) show ?thesis by (simp add: Arch_def Let_def)
qed

lemma IPXEBinary_names:
  "Info_IPXEBinary (NewInfo lib (Some p)) \<in> {[], ''undionly.kpxe'', ''ipxe.efi'', ''snp.efi''}"
  using ArchToBootFile_names[of "Arch lib p"]
  by (auto simp: NewInfo_derived IPXEBinaryFrom_def split: option.split)

lemma IPXEBinary_Nil: "Info_IPXEBinary (NewInfo lib (Some p)) = [] \<longleftrightarrow> ArchToBootFile (Arch lib p) = None"
  using ArchToBootFile_names[of "Arch lib p"]
  by (auto simp: NewInfo_derived IPXEBinaryFrom_def split: option.split)

section \<open>Who is a network boot client\<close>

text \<open>
  The conditions the code tests. They are weaker than the ones its comment documents: of option 60 only the beginning is
  looked at, and option 97 may be missing.
\<close>

definition netboot_client :: "dhcpv4_lib \<Rightarrow> dhcpv4 \<Rightarrow> bool" where
  "netboot_client lib p \<longleftrightarrow>
     lib_MessageType lib p \<in> {MessageTypeDiscover, MessageTypeRequest} \<and>
     Options p OptionClientSystemArchitectureType \<noteq> None \<and>
     Options p OptionClientNetworkInterfaceIdentifier \<noteq> None \<and>
     (let g = slice_bytes (lib_GetOneOption lib p OptionClientMachineIdentifier) in
        g = [] \<or> (length g = 17 \<and> hd g = CHR 0x00)) \<and>
     (\<exists>v. Options p OptionClassIdentifier = Some v \<and>
        (prefix PXEClient (slice_bytes v) \<or> prefix HTTPClient (slice_bytes v)))"

text \<open>
  The conditions of the comment, with the format of option 60 written out: the client type, five digits for the
  architecture and six for the version of the interface. The first byte of option 97, its type, is 0 in the
  specification the comment refers to.
\<close>

definition class_format :: "string \<Rightarrow> bool" where
  "class_format s \<longleftrightarrow>
     (\<exists>client arch undi. client \<in> {''PXEClient'', ''HTTPClient''} \<and> length arch = 5 \<and> length undi = 6 \<and>
        list_all is_digit (arch @ undi) \<and> s = client @ '':Arch:'' @ arch @ '':UNDI:'' @ undi)"

definition documented_client :: "dhcpv4_lib \<Rightarrow> dhcpv4 \<Rightarrow> bool" where
  "documented_client lib p \<longleftrightarrow>
     lib_MessageType lib p \<in> {MessageTypeDiscover, MessageTypeRequest} \<and>
     Options p OptionClientSystemArchitectureType \<noteq> None \<and>
     Options p OptionClientNetworkInterfaceIdentifier \<noteq> None \<and>
     (\<exists>uuid. Options p OptionClientMachineIdentifier = Some (Some (CHR 0x00 # uuid)) \<and> length uuid = 16) \<and>
     (\<exists>s. Options p OptionClassIdentifier = Some (Some s) \<and> class_format s)"

lemma check_that_None [simp]: "check_that ok m err = None \<longleftrightarrow> ok \<and> err = None"
  by (auto simp: check_that_def wrapNonNil_def split: option.splits)

lemma check_that_Some [simp]: "(\<exists>e. check_that ok m err = Some e) \<longleftrightarrow> \<not> ok \<or> (\<exists>e. err = Some e)"
  by (auto simp: check_that_def wrapNonNil_def split: option.splits)

lemma IsNetbootClient_iff:
  assumes "dhcpv4_laws lib"
  shows "IsNetbootClient lib p = None \<longleftrightarrow> netboot_client lib p"
proof (cases "Options p OptionClassIdentifier")
  case None
  then show ?thesis
    by (simp add: IsNetbootClient_def netboot_client_def Let_def dhcpv4_law[OF assms] client_names HasPrefix_def)
next
  case (Some v)
  have nth_hd: "length g = 17 \<Longrightarrow> g ! 0 = hd g" for g :: bytes
    by (rule hd_conv_nth[symmetric]) auto
  from Some show ?thesis
    by (cases v) (auto simp: IsNetbootClient_def netboot_client_def Let_def dhcpv4_law[OF assms]
        HasPrefix_iff_prefix nth_hd)
qed

lemma documented_client_accepted:
  assumes "dhcpv4_laws lib" "documented_client lib p"
  shows "netboot_client lib p"
proof -
  obtain uuid s where "Options p OptionClientMachineIdentifier = Some (Some (CHR 0x00 # uuid))" "length uuid = 16"
    "Options p OptionClassIdentifier = Some (Some s)" "class_format s"
    using assms(2) by (auto simp: documented_client_def)
  then show ?thesis using assms(2)
    by (auto simp: documented_client_def netboot_client_def dhcpv4_law[OF assms(1)] Let_def class_format_def client_names)
qed

text \<open>The messages of the conditions that fail, in the order the code tests them.\<close>

definition unmet :: "bool \<Rightarrow> string \<Rightarrow> string list" where
  "unmet ok m = (if ok then [] else [m])"

definition violations :: "dhcpv4_lib \<Rightarrow> dhcpv4 \<Rightarrow> string list" where
  "violations lib p =
     (let opt60 = slice_bytes (lib_GetOneOption lib p OptionClassIdentifier);
          guid = slice_bytes (lib_GetOneOption lib p OptionClientMachineIdentifier)
      in unmet (lib_MessageType lib p \<in> {MessageTypeDiscover, MessageTypeRequest})
           ''message type must be either Discover or Request'' @
         unmet (Options p OptionClassIdentifier \<noteq> None) ''option 60 not set'' @
         unmet (prefix PXEClient opt60 \<or> prefix HTTPClient opt60) ''option 60 not PXEClient or HTTPClient'' @
         unmet (Options p OptionClientSystemArchitectureType \<noteq> None) ''option 93 not set'' @
         unmet (Options p OptionClientNetworkInterfaceIdentifier \<noteq> None) ''option 94 not set'' @
         unmet (length guid = 17 \<longrightarrow> guid ! 0 = CHR 0x00) ''option 97 does not start with 0'' @
         unmet (length guid \<in> {0, 17}) ''option 97 has invalid length (must be 0 or 17)'')"

text \<open>The text of the error that \<open>wrapNonNil\<close> accumulates from a list of messages.\<close>

definition wrapped :: "string list \<Rightarrow> string option" where
  "wrapped ms = (if ms = [] then None else Some (Join ms '': ''))"

lemma check_that_wrapped:
  "map_option Error_text err = wrapped ms \<Longrightarrow>
     map_option Error_text (check_that ok m err) = wrapped (ms @ unmet ok m)"
  by (auto simp: check_that_def wrapNonNil_def wrapped_def unmet_def Join_snoc split: option.splits if_splits)

lemma IsNetbootClient_violations:
  assumes "dhcpv4_laws lib"
  shows "map_option Error_text (IsNetbootClient lib p) = wrapped (violations lib p)"
proof -
  let ?opt60 = "slice_bytes (lib_GetOneOption lib p OptionClassIdentifier)"
  let ?guid = "slice_bytes (lib_GetOneOption lib p OptionClientMachineIdentifier)"
  define err where "err = check_that (lib_Options_Has lib (Options p) OptionClientNetworkInterfaceIdentifier) ''option 94 not set''
     (check_that (lib_Options_Has lib (Options p) OptionClientSystemArchitectureType) ''option 93 not set''
       (check_that (HasPrefix ?opt60 PXEClient \<or> HasPrefix ?opt60 HTTPClient) ''option 60 not PXEClient or HTTPClient''
         (check_that (lib_Options_Has lib (Options p) OptionClassIdentifier) ''option 60 not set''
           (check_that (lib_MessageType lib p = MessageTypeDiscover \<or> lib_MessageType lib p = MessageTypeRequest)
             ''message type must be either Discover or Request'' None))))"
  define ms where "ms = unmet (lib_MessageType lib p = MessageTypeDiscover \<or> lib_MessageType lib p = MessageTypeRequest)
       ''message type must be either Discover or Request'' @
     unmet (lib_Options_Has lib (Options p) OptionClassIdentifier) ''option 60 not set'' @
     unmet (HasPrefix ?opt60 PXEClient \<or> HasPrefix ?opt60 HTTPClient) ''option 60 not PXEClient or HTTPClient'' @
     unmet (lib_Options_Has lib (Options p) OptionClientSystemArchitectureType) ''option 93 not set'' @
     unmet (lib_Options_Has lib (Options p) OptionClientNetworkInterfaceIdentifier) ''option 94 not set''"
  have start: "map_option Error_text None = wrapped []" by (simp add: wrapped_def)
  have "map_option Error_text err = wrapped ms"
    unfolding err_def ms_def
    using check_that_wrapped[OF check_that_wrapped[OF check_that_wrapped[OF check_that_wrapped[OF check_that_wrapped[OF start]]]]]
    by simp
  note step = check_that_wrapped[OF this]
  have code: "IsNetbootClient lib p = (if length ?guid = 0 then err
      else if length ?guid = 17 then check_that (?guid ! 0 = CHR 0x00) ''option 97 does not start with 0'' err
      else check_that False ''option 97 has invalid length (must be 0 or 17)'' err)"
    by (simp only: IsNetbootClient_def err_def Let_def)
  have spec: "violations lib p = ms @ unmet (length ?guid = 17 \<longrightarrow> ?guid ! 0 = CHR 0x00) ''option 97 does not start with 0'' @
      unmet (length ?guid \<in> {0, 17}) ''option 97 has invalid length (must be 0 or 17)''"
    unfolding violations_def ms_def Let_def dhcpv4_law[OF assms] HasPrefix_iff_prefix by simp
  show ?thesis
    unfolding code spec using step \<open>map_option Error_text err = wrapped ms\<close>
    by (simp add: unmet_def split: if_split)
qed

section \<open>The boot file\<close>

lemma binaries_plain: "plain_elem ''undionly.kpxe''" "plain_elem ''ipxe.efi''" "plain_elem ''snp.efi''"
  by (simp_all add: plain_elem_def separators_plain(2) alnum_plain is_alnum_def)

lemma IPXEBinary_plain:
  "Info_IPXEBinary (NewInfo lib (Some p)) \<noteq> [] \<Longrightarrow> plain_elem (Info_IPXEBinary (NewInfo lib (Some p)))"
  using IPXEBinary_names[of lib p] binaries_plain by auto

text \<open>The two ways out of the chain of binaries.\<close>

lemma Bootfile_script:
  "Info_UserClass i = Tinkerbell \<or> (uc \<noteq> [] \<and> Info_UserClass i = uc) \<Longrightarrow>
     Bootfile i uc script http tftp = (case script of None \<Rightarrow> ''/no-ipxe-script-defined'' | Some u \<Rightarrow> URL_String u)"
  by (auto simp: Bootfile_def Let_def)

lemma Bootfile_no_script:
  assumes "Info_UserClass i \<noteq> Tinkerbell" "uc = [] \<or> Info_UserClass i \<noteq> uc"
  shows "Bootfile i uc script http tftp = Bootfile i uc script' http tftp"
  using assms by (auto simp: Bootfile_def Let_def)

text \<open>
  C10. A client of a stock iPXE, which sends the user class \<open>iPXE\<close> and is not an HTTP client, is sent to the
  TFTP URL of its binary, spelled out: scheme, address and port of the TFTP server, the client's
  hardware address as a directory, and the binary of its architecture, with no escaping anywhere.
\<close>

theorem Bootfile_tftp:
  assumes "UserClassFrom lib (NewInfo lib (Some p)) = IPXE" "ClientTypeFrom lib (NewInfo lib (Some p)) \<noteq> HTTPClient"
    and "uc \<noteq> IPXE" "ClientHWAddr p = Some mac" "mac \<noteq> []" "length b = 4"
    and bin: "Info_IPXEBinary (NewInfo lib (Some p)) \<noteq> []"
  shows "Bootfile (NewInfo lib (Some p)) uc script http (Addr4 b, port) =
     ''tftp://'' @ dotted b @ '':'' @ nat_string port @ ''/'' @ HardwareAddr_String mac @ ''/'' @
       Info_IPXEBinary (NewInfo lib (Some p))"
proof -
  let ?i = "NewInfo lib (Some p)"
  let ?h = "dotted b @ '':'' @ nat_string port"
  have "Bootfile ?i uc script http (Addr4 b, port) =
      URL_String (JoinPath (empty_URL\<lparr>Scheme := ''tftp'', Host := ?h\<rparr>) (boot_paths ?i))"
    using assms(1-3) by (simp add: Bootfile_def NewInfo_derived client_names AddrPort_String_def)
  also have "\<dots> = ''tftp'' @ ''://'' @ ?h @ ''/'' @ Join (boot_paths ?i) ''/''"
  proof (rule URL_String_JoinPath_plain[OF refl])
    show "\<forall>e \<in> set (boot_paths ?i). plain_elem e"
      using assms(4,5) HardwareAddr_String_plain IPXEBinary_plain[OF bin] by (auto simp: boot_paths_def)
    show "\<forall>c \<in> set ?h. \<not> shouldEscape c encodeHost" by (rule dotted_host_plain)
  qed (auto simp: boot_paths_def assms(4))
  finally show ?thesis using assms(4) by (simp add: boot_paths_def)
qed

section \<open>A concrete packet\<close>

text \<open>A discover message of a 64-bit EFI client that runs Tinkerbell's iPXE, for concrete examples.\<close>

definition sample_mac :: bytes where
  "sample_mac = [CHR 0x08, CHR 0x00, CHR 0x27, CHR 0x29, CHR 0x4E, CHR 0x67]"

definition sample_discover :: dhcpv4 where
  "sample_discover = \<lparr>OpCode = OpcodeBootRequest, TransactionID = ''1234'', Flags = 0, ClientHWAddr = Some sample_mac,
     YourIPAddr = IPv4zero, ServerIPAddr = IPv4zero, GatewayIPAddr = IPv4zero, ServerHostName = [], BootFileName = [],
     Options = [OptionDHCPMessageType \<mapsto> Some [CHR 0x01], OptionClassIdentifier \<mapsto> Some ''PXEClient:Arch:00007:UNDI:003001'',
       OptionUserClassInformation \<mapsto> Some ''Tinkerbell'', OptionClientSystemArchitectureType \<mapsto> Some [CHR 0x00, CHR 0x07],
       OptionClientNetworkInterfaceIdentifier \<mapsto> Some [CHR 0x01, CHR 0x03, CHR 0x10]]\<rparr>"

lemma sample_discover_type [simp]: "lib_MessageType sample_lib sample_discover = MessageTypeDiscover"
  by (simp add: sample_lib_def sample_discover_def sample_opt_def)

lemma sample_discover_arch: "Arch sample_lib sample_discover = 7"
  by (simp add: Arch_def isRaspberryPI_def rpi_prefixes_def HasPrefix_def sample_discover_def sample_mac_def
      sample_lib_def sample_opt_def Contains_def Let_def nat_string.simps)

lemma sample_discover_netboot: "netboot_client sample_lib sample_discover"
  by (simp add: netboot_client_def sample_lib_def sample_discover_def sample_opt_def client_names Let_def)

lemma sample_discover_boot: "ArchToBootFile (Arch sample_lib sample_discover) = Some ''ipxe.efi''"
  by (simp add: sample_discover_arch ArchToBootFile_def)

lemma sample_discover_binary: "ArchToBootFile (Arch sample_lib sample_discover) \<noteq> None"
  by (simp add: sample_discover_arch ArchToBootFile_def)

lemma sample_discover_user: "Options sample_discover OptionUserClassInformation = Some (Some ''Tinkerbell'')"
  by (simp add: sample_discover_def)

section \<open>Properties of the client's description\<close>

text \<open>
  A client the comment of \<open>IsNetbootClient\<close> does not describe, and which is accepted: option 60 does not have the
  documented format, and option 97 is missing.
\<close>

definition sample_undocumented :: dhcpv4 where
  "sample_undocumented = sample_discover\<lparr>Options := (Options sample_discover)(OptionClassIdentifier \<mapsto> Some ''PXEClientX'')\<rparr>"

lemma undocumented_client_accepted:
  "IsNetbootClient sample_lib sample_undocumented = None \<and> \<not> class_format ''PXEClientX'' \<and>
   \<not> documented_client sample_lib sample_undocumented"
proof -
  have "netboot_client sample_lib sample_undocumented"
    by (simp add: netboot_client_def sample_undocumented_def sample_lib_def sample_discover_def sample_opt_def client_names Let_def)
  moreover have "\<not> class_format ''PXEClientX''"
  proof
    assume "class_format ''PXEClientX''"
    then obtain c a u :: string where "c \<in> {''PXEClient'', ''HTTPClient''}" "''PXEClientX'' = c @ '':Arch:'' @ a @ '':UNDI:'' @ u"
      by (auto simp: class_format_def)
    then show False by auto
  qed
  ultimately show ?thesis using IsNetbootClient_iff[OF sample_laws]
    by (auto simp: documented_client_def sample_undocumented_def)
qed

text \<open>
  C9. Which packets pass the check for network boot clients. A packet is accepted exactly when it is a discover or a
  request, carries options 93 and 94, has no option 97 or one of 17 bytes that starts with 0, and an option 60 that
  begins with \<open>PXEClient\<close> or \<open>HTTPClient\<close>. So every client the comment of the function describes is accepted;
  others are too, as the comment demands a whole format for option 60 where the code looks at its beginning. The
  error of a packet that is not accepted lists all the conditions that fail, in the order they are tested.
\<close>

theorem netboot_client_check:
  assumes "dhcpv4_laws lib"
  shows "(IsNetbootClient lib p = None \<longleftrightarrow> netboot_client lib p) \<and>
     (documented_client lib p \<longrightarrow> IsNetbootClient lib p = None) \<and>
     map_option Error_text (IsNetbootClient lib p) =
       (if violations lib p = [] then None else Some (Join (violations lib p) '': ''))"
  using IsNetbootClient_iff[OF assms] IsNetbootClient_violations[OF assms] documented_client_accepted[OF assms]
  by (simp add: wrapped_def)

theorem netboot_client_check_witness:
  "map_option Error_text (IsNetbootClient sample_lib (sample_discover\<lparr>Options := Map.empty\<rparr>)) =
     Some ''message type must be either Discover or Request: option 60 not set: option 60 not PXEClient or HTTPClient: option 93 not set: option 94 not set''"
proof -
  have "violations sample_lib (sample_discover\<lparr>Options := Map.empty\<rparr>) =
    [''message type must be either Discover or Request'', ''option 60 not set'', ''option 60 not PXEClient or HTTPClient'',
     ''option 93 not set'', ''option 94 not set'']"
    by (simp add: violations_def unmet_def sample_lib_def sample_opt_def client_names Let_def)
  with netboot_client_check[OF sample_laws, of "sample_discover\<lparr>Options := Map.empty\<rparr>"] show ?thesis by simp
qed

text \<open>The binary of an architecture, by its number in the registry of processor architectures.\<close>

lemma ArchToBootFile_table:
  "ArchToBootFile a =
     (if a \<in> {0, 1, 2, 3, 4, 5} then Some ''undionly.kpxe''
      else if a \<in> {6, 7, 8, 9, 15, 16} then Some ''ipxe.efi''
      else if a \<in> {10, 11, 18, 19, 41} then Some ''snp.efi'' else None)"
  by (simp add: ArchToBootFile_def)

lemma isRaspberryPI_iff:
  "isRaspberryPI mac \<longleftrightarrow> take 3 (slice_bytes mac) \<in>
     {[CHR 0xB8, CHR 0x27, CHR 0xEB], [CHR 0xDC, CHR 0xA6, CHR 0x32], [CHR 0xE4, CHR 0x5F, CHR 0x01],
      [CHR 0x28, CHR 0xCD, CHR 0xC1], [CHR 0xD8, CHR 0x3A, CHR 0xDD]}"
proof -
  have "HasPrefix m p \<longleftrightarrow> take 3 m = p" if "length p = 3" for m p :: bytes
    using that by (metis HasPrefix_iff_prefix append_eq_conv_conj prefix_def take_is_prefix)
  then show ?thesis by (auto simp: isRaspberryPI_def rpi_prefixes_def)
qed

text \<open>
  C11. The architecture of a client and the iPXE binary it is offered. A hardware address that starts with one of the
  five prefixes of the Raspberry Pi makes it architecture 41 with \<open>snp.efi\<close>, whatever option 93 says. Otherwise the first
  architecture of option 93 with a known name counts: types 0 to 5 get \<open>undionly.kpxe\<close>, the types 6 to 9, 15
  and 16 \<open>ipxe.efi\<close>, the types 10, 11, 18, 19 and 41 \<open>snp.efi\<close>, and any other type no binary. With no
  known architecture the type is 255 and there is no binary.
\<close>

theorem client_binary:
  "(take 3 (slice_bytes (ClientHWAddr d)) \<in>
      {[CHR 0xB8, CHR 0x27, CHR 0xEB], [CHR 0xDC, CHR 0xA6, CHR 0x32], [CHR 0xE4, CHR 0x5F, CHR 0x01],
       [CHR 0x28, CHR 0xCD, CHR 0xC1], [CHR 0xD8, CHR 0x3A, CHR 0xDD]} \<and>
    Arch lib d = 41 \<and> Info_IPXEBinary (NewInfo lib (Some d)) = ''snp.efi'') \<or>
   (take 3 (slice_bytes (ClientHWAddr d)) \<notin>
      {[CHR 0xB8, CHR 0x27, CHR 0xEB], [CHR 0xDC, CHR 0xA6, CHR 0x32], [CHR 0xE4, CHR 0x5F, CHR 0x01],
       [CHR 0x28, CHR 0xCD, CHR 0xC1], [CHR 0xD8, CHR 0x3A, CHR 0xDD]} \<and>
    ((\<exists>us a vs. lib_ClientArch lib d = us @ a # vs \<and> (\<forall>u \<in> set us. Contains (lib_Arch_String lib u) ''unknown'') \<and>
        \<not> Contains (lib_Arch_String lib a) ''unknown'' \<and> Arch lib d = a \<and>
        Info_IPXEBinary (NewInfo lib (Some d)) =
          (if a \<in> {0, 1, 2, 3, 4, 5} then ''undionly.kpxe''
           else if a \<in> {6, 7, 8, 9, 15, 16} then ''ipxe.efi''
           else if a \<in> {10, 11, 18, 19, 41} then ''snp.efi'' else [])) \<or>
     (\<forall>u \<in> set (lib_ClientArch lib d). Contains (lib_Arch_String lib u) ''unknown'') \<and>
        Arch lib d = 255 \<and> Info_IPXEBinary (NewInfo lib (Some d)) = []))"
proof -
  have bin: "Info_IPXEBinary (NewInfo lib (Some d)) = (case ArchToBootFile (Arch lib d) of None \<Rightarrow> [] | Some b \<Rightarrow> b)"
    by (simp add: NewInfo_derived IPXEBinaryFrom_def)
  show ?thesis
  proof (cases "isRaspberryPI (ClientHWAddr d)")
    case True
    then show ?thesis using Arch_rpi[OF True] bin unfolding isRaspberryPI_iff by simp
  next
    case False
    let ?known = "\<lambda>a. \<not> Contains (lib_Arch_String lib a) ''unknown''"
    consider (first) us a vs where "lib_ClientArch lib d = us @ a # vs" "?known a" "\<forall>u \<in> set us. \<not> ?known u"
      | (none) "\<forall>u \<in> set (lib_ClientArch lib d). \<not> ?known u"
      using split_list_first_prop[of "lib_ClientArch lib d" ?known] by blast
    then show ?thesis
    proof cases
      case first
      then have "Arch lib d = a" using Arch_first_known[OF False, of lib us a vs] by blast
      with first bin False show ?thesis unfolding isRaspberryPI_iff ArchToBootFile_table by auto
    next
      case none
      then show ?thesis using Arch_unknown[OF False, of lib] bin False unfolding isRaspberryPI_iff by simp
    qed
  qed
qed

definition sample_pi :: dhcpv4 where
  "sample_pi = sample_discover\<lparr>ClientHWAddr := Some [CHR 0xDC, CHR 0xA6, CHR 0x32, CHR 0x01, CHR 0x02, CHR 0x03]\<rparr>"

theorem client_binary_witness:
  "Info_IPXEBinary (NewInfo sample_lib (Some sample_discover)) = ''ipxe.efi'' \<and>
   Info_IPXEBinary (NewInfo sample_lib (Some sample_pi)) = ''snp.efi''"
  using client_binary[of sample_discover sample_lib] client_binary[of sample_pi sample_lib] sample_discover_arch
  by (auto simp: sample_pi_def sample_discover_def sample_mac_def)

definition sample_ipxe_packet :: dhcpv4 where
  "sample_ipxe_packet = sample_discover\<lparr>Options := (Options sample_discover)(OptionUserClassInformation \<mapsto> Some ''iPXE'')\<rparr>"

theorem Bootfile_tftp_witness:
  "Bootfile (NewInfo sample_lib (Some sample_ipxe_packet)) [] None None (Addr4 [CHR 0xC0, CHR 0xA8, CHR 0x02, CHR 0x03], 69) =
     ''tftp://192.168.2.3:69/08:00:27:29:4e:67/ipxe.efi''"
proof -
  let ?p = sample_ipxe_packet
  let ?b = "[CHR 0xC0, CHR 0xA8, CHR 0x02, CHR 0x03]"
  have "Arch sample_lib ?p = 7"
    by (simp add: sample_ipxe_packet_def Arch_def isRaspberryPI_def rpi_prefixes_def HasPrefix_def sample_discover_def
        sample_mac_def sample_lib_def sample_opt_def Contains_def Let_def nat_string.simps)
  then have bin: "Info_IPXEBinary (NewInfo sample_lib (Some ?p)) = ''ipxe.efi''"
    by (simp add: NewInfo_derived IPXEBinaryFrom_def ArchToBootFile_def)
  have uc: "UserClassFrom sample_lib (NewInfo sample_lib (Some ?p)) = IPXE"
    "ClientTypeFrom sample_lib (NewInfo sample_lib (Some ?p)) \<noteq> HTTPClient"
    by (simp_all add: UserClassFrom_def ClientTypeFrom_def sample_ipxe_packet_def sample_lib_def sample_opt_def
        sample_discover_def client_names HasPrefix_def)
  have "ClientHWAddr ?p = Some sample_mac" "sample_mac \<noteq> []" "([]::string) \<noteq> IPXE"
    by (simp_all add: sample_ipxe_packet_def sample_discover_def sample_mac_def IPXE_def)
  with Bootfile_tftp[OF uc, of "[]" sample_mac ?b None None 69] bin
  have "Bootfile (NewInfo sample_lib (Some ?p)) [] None None (Addr4 ?b, 69) =
      ''tftp://'' @ dotted ?b @ '':'' @ nat_string 69 @ ''/'' @ HardwareAddr_String sample_mac @ ''/ipxe.efi''" by simp
  moreover have "dotted ?b = ''192.168.2.3''" by code_simp
  moreover have "nat_string 69 = ''69''" by code_simp
  moreover have "HardwareAddr_String sample_mac = ''08:00:27:29:4e:67''" by code_simp
  ultimately show ?thesis by simp
qed

end
