(* ===== verification/DHCP_Otel.thy ===== *)
theory DHCP_Otel
  imports DHCP_Data
begin

text \<open>
  \<open>internal/dhcp/otel/otel.go\<close>: the encoders that turn the headers and options of a packet into
  telemetry attributes, and the binary trace parent sent to the client; and from
  \<open>internal/otel/otel.go\<close> the carrier and the trace parent string. The OpenTelemetry SDK is not part
  of the repository: what the sources call of it is the record \<open>otel_lib\<close>.
\<close>

section \<open>The telemetry SDK\<close>

record SpanContext =
  TraceID :: bytes
  SpanID :: bytes
  IsSampled :: bool

type_synonym SimpleCarrier = "string \<rightharpoonup> string"

text \<open>\<open>'c\<close> is the type of contexts.\<close>

record 'c otel_lib =
  otel_Start :: "'c \<Rightarrow> string \<Rightarrow> KeyValue list \<Rightarrow> 'c"  \<comment> \<open>\<open>tracer.Start\<close>: the context with the new span\<close>
  otel_SpanContext :: "'c \<Rightarrow> SpanContext"              \<comment> \<open>\<open>trace.SpanContextFromContext\<close>\<close>
  otel_Inject :: "'c \<Rightarrow> SimpleCarrier \<Rightarrow> SimpleCarrier"   \<comment> \<open>\<open>GetTextMapPropagator().Inject\<close>\<close>
  otel_Extract :: "'c \<Rightarrow> SimpleCarrier \<Rightarrow> 'c"

text \<open>\<open>TraceID\<close> is an array of 16 bytes and \<open>SpanID\<close> an array of 8.\<close>

definition span_context_sizes :: "'c otel_lib \<Rightarrow> bool" where
  "span_context_sizes ot \<longleftrightarrow>
     (\<forall>ctx. length (TraceID (otel_SpanContext ot ctx)) = 16 \<and> length (SpanID (otel_SpanContext ot ctx)) = 8)"

definition SimpleCarrier_Get :: "SimpleCarrier \<Rightarrow> string \<Rightarrow> string" where
  "SimpleCarrier_Get otp key = (case otp key of None \<Rightarrow> [] | Some v \<Rightarrow> v)"

definition SimpleCarrier_Set :: "SimpleCarrier \<Rightarrow> string \<Rightarrow> string \<Rightarrow> SimpleCarrier" where
  "SimpleCarrier_Set otp key v = otp(key \<mapsto> v)"

text \<open>The keys come in the order of a map, so they are a set.\<close>

definition SimpleCarrier_Keys :: "SimpleCarrier \<Rightarrow> string set" where
  "SimpleCarrier_Keys otp = dom otp"

definition SimpleCarrier_Clear :: "SimpleCarrier \<Rightarrow> SimpleCarrier" where
  "SimpleCarrier_Clear otp = Map.empty"

definition TraceparentStringFromContext :: "'c otel_lib \<Rightarrow> 'c \<Rightarrow> string" where
  "TraceparentStringFromContext ot ctx = SimpleCarrier_Get (otel_Inject ot ctx Map.empty) ''traceparent''"

definition ContextWithTraceparentString :: "'c otel_lib \<Rightarrow> 'c \<Rightarrow> string \<Rightarrow> 'c" where
  "ContextWithTraceparentString ot ctx tp = otel_Extract ot ctx (SimpleCarrier_Set Map.empty ''traceparent'' tp)"

text \<open>The environment variable is an argument.\<close>

definition ContextWithEnvTraceparent :: "'c otel_lib \<Rightarrow> string \<Rightarrow> 'c \<Rightarrow> 'c" where
  "ContextWithEnvTraceparent ot env_traceparent ctx =
     (if env_traceparent \<noteq> [] then ContextWithTraceparentString ot ctx env_traceparent else ctx)"

definition TraceparentFromContext :: "'c otel_lib \<Rightarrow> 'c \<Rightarrow> bytes" where
  "TraceparentFromContext ot ctx =
     (let sc = otel_SpanContext ot ctx;
          tpBytes = [];
          tid = TraceID sc;
          sid = SpanID sc;
          tpBytes = tpBytes @ [CHR 0x00];
          tpBytes = tpBytes @ tid;
          tpBytes = tpBytes @ sid
      in if IsSampled sc then tpBytes @ [CHR 0x01] else tpBytes @ [CHR 0x00])"

section \<open>Encoders\<close>

datatype notFoundError = notFoundError string

type_synonym encoder = "dhcpv4 option \<Rightarrow> string \<Rightarrow> notFoundError + KeyValue"

text \<open>An error of this package says that the option was not found; no other error does.\<close>

fun OptNotFound :: "(notFoundError + go_error) \<Rightarrow> bool" where
  "OptNotFound (Inl e) = True"
| "OptNotFound (Inr e) = False"

definition keyNamespace :: string where "keyNamespace = ''DHCP''"

definition enc_key :: "string \<Rightarrow> string \<Rightarrow> string" where
  "enc_key ns nm = keyNamespace @ ''.'' @ ns @ ''.'' @ nm"

definition EncodeFlags :: "dhcpv4_lib \<Rightarrow> encoder" where
  "EncodeFlags lib d ns =
     (let key = enc_key ns ''Header.flags'' in
      case d of None \<Rightarrow> Inl (notFoundError key)
      | Some p \<Rightarrow> Inr (key, AString (lib_FlagsToString lib p)))"

definition EncodeTransactionID :: "dhcpv4_lib \<Rightarrow> encoder" where
  "EncodeTransactionID lib d ns =
     (let key = enc_key ns ''Header.transactionID'' in
      case d of None \<Rightarrow> Inl (notFoundError key)
      | Some p \<Rightarrow> Inr (key, AString (lib_TransactionID_String lib (TransactionID p))))"

definition EncodeOpt1 :: "dhcpv4_lib \<Rightarrow> encoder" where
  "EncodeOpt1 lib d ns =
     (let key = enc_key ns ''Opt1.SubnetMask'' in
      case d of None \<Rightarrow> Inl (notFoundError ''Opt1.SubnetMask'')
      | Some p \<Rightarrow> (case lib_SubnetMask lib p of None \<Rightarrow> Inl (notFoundError ''Opt1.SubnetMask'')
          | Some m \<Rightarrow> Inr (key, AString (IP_String (Some m)))))"

definition EncodeOpt3 :: "dhcpv4_lib \<Rightarrow> encoder" where
  "EncodeOpt3 lib d ns =
     (let key = enc_key ns ''Opt3.DefaultGateway'' in
      case d of None \<Rightarrow> Inl (notFoundError key)
      | Some p \<Rightarrow> (let ss = map IP_String (lib_Router lib p) in
          if 0 < length ss then Inr (key, AString (Join ss '','')) else Inl (notFoundError key)))"

definition EncodeOpt6 :: "dhcpv4_lib \<Rightarrow> encoder" where
  "EncodeOpt6 lib d ns =
     (let key = enc_key ns ''Opt6.NameServers'' in
      case d of None \<Rightarrow> Inl (notFoundError key)
      | Some p \<Rightarrow> (let ss = map IP_String (lib_DNS lib p) in
          if 0 < length ss then Inr (key, AString (Join ss '','')) else Inl (notFoundError key)))"

definition EncodeOpt12 :: "dhcpv4_lib \<Rightarrow> encoder" where
  "EncodeOpt12 lib d ns =
     (let key = enc_key ns ''Opt12.Hostname'' in
      case d of None \<Rightarrow> Inl (notFoundError key)
      | Some p \<Rightarrow> (if lib_HostName lib p \<noteq> [] then Inr (key, AString (lib_HostName lib p)) else Inl (notFoundError key)))"

definition EncodeOpt15 :: "dhcpv4_lib \<Rightarrow> encoder" where
  "EncodeOpt15 lib d ns =
     (let key = enc_key ns ''Opt15.DomainName'' in
      case d of None \<Rightarrow> Inl (notFoundError key)
      | Some p \<Rightarrow> (if lib_DomainName lib p \<noteq> [] then Inr (key, AString (lib_DomainName lib p)) else Inl (notFoundError key)))"

definition EncodeOpt28 :: "dhcpv4_lib \<Rightarrow> encoder" where
  "EncodeOpt28 lib d ns =
     (let key = enc_key ns ''Opt28.BroadcastAddress'' in
      case d of None \<Rightarrow> Inl (notFoundError key)
      | Some p \<Rightarrow> (case lib_BroadcastAddress lib p of None \<Rightarrow> Inl (notFoundError key)
          | Some ip \<Rightarrow> Inr (key, AString (IP_String (Some ip)))))"

definition EncodeOpt42 :: "dhcpv4_lib \<Rightarrow> encoder" where
  "EncodeOpt42 lib d ns =
     (let key = enc_key ns ''Opt42.NTPServers'' in
      case d of None \<Rightarrow> Inl (notFoundError key)
      | Some p \<Rightarrow> (let ss = map IP_String (lib_NTPServers lib p) in
          if 0 < length ss then Inr (key, AString (Join ss '','')) else Inl (notFoundError key)))"

definition EncodeOpt51 :: "dhcpv4_lib \<Rightarrow> encoder" where
  "EncodeOpt51 lib d ns =
     (let key = enc_key ns ''Opt51.LeaseTime'' in
      case d of None \<Rightarrow> Inl (notFoundError key)
      | Some p \<Rightarrow> (if lib_IPAddressLeaseTime lib p 0 \<noteq> 0 then Inr (key, ASeconds (lib_IPAddressLeaseTime lib p 0)) else Inl (notFoundError key)))"

definition EncodeOpt53 :: "dhcpv4_lib \<Rightarrow> encoder" where
  "EncodeOpt53 lib d ns =
     (let key = enc_key ns ''Opt53.MessageType'' in
      case d of None \<Rightarrow> Inl (notFoundError key)
      | Some p \<Rightarrow> (if lib_MessageType lib p \<noteq> MessageTypeNone
          then Inr (key, AString (lib_MessageType_String lib (lib_MessageType lib p))) else Inl (notFoundError key)))"

definition EncodeOpt54 :: "dhcpv4_lib \<Rightarrow> encoder" where
  "EncodeOpt54 lib d ns =
     (let key = enc_key ns ''Opt54.ServerIdentifier'' in
      case d of None \<Rightarrow> Inl (notFoundError key)
      | Some p \<Rightarrow> (case lib_ServerIdentifier lib p of None \<Rightarrow> Inl (notFoundError key)
          | Some ip \<Rightarrow> Inr (key, AString (IP_String (Some ip)))))"

definition EncodeOpt60 :: "dhcpv4_lib \<Rightarrow> encoder" where
  "EncodeOpt60 lib d ns =
     (let key = enc_key ns ''Opt60.ClassIdentifier'' in
      case d of None \<Rightarrow> Inl (notFoundError key)
      | Some p \<Rightarrow> (if lib_ClassIdentifier lib p \<noteq> [] then Inr (key, AString (lib_ClassIdentifier lib p)) else Inl (notFoundError key)))"

definition EncodeOpt93 :: "dhcpv4_lib \<Rightarrow> encoder" where
  "EncodeOpt93 lib d ns =
     (let key = enc_key ns ''Opt93.ClientIdentifier'' in
      case d of None \<Rightarrow> Inl (notFoundError key)
      | Some p \<Rightarrow> (if 0 < length (lib_ClientArch lib p)
          then Inr (key, AStrings (map (lib_Arch_String lib) (lib_ClientArch lib p))) else Inl (notFoundError key)))"

text \<open>The bytes of an option in decimal, separated by dots as \<open>tcpdump\<close> prints them.\<close>

definition byte_texts :: "bytes \<Rightarrow> string list" where
  "byte_texts b = map (\<lambda>i. nat_string (of_char i)) b"

definition EncodeOpt94 :: "dhcpv4_lib \<Rightarrow> encoder" where
  "EncodeOpt94 lib d ns =
     (let key = enc_key ns ''Opt94.ClientNetworkInterfaceIdentifier'' in
      case d of None \<Rightarrow> Inl (notFoundError key)
      | Some p \<Rightarrow> (let b = slice_bytes (lib_GetOneOption lib p OptionClientNetworkInterfaceIdentifier) in
          if 0 < length b then Inr (key, AString (Join (byte_texts b) ''.'')) else Inl (notFoundError key)))"

definition EncodeOpt97 :: "dhcpv4_lib \<Rightarrow> encoder" where
  "EncodeOpt97 lib d ns =
     (let key = enc_key ns ''Opt97.ClientMachineIdentifier'' in
      case d of None \<Rightarrow> Inl (notFoundError key)
      | Some p \<Rightarrow> (let b = slice_bytes (lib_GetOneOption lib p OptionClientMachineIdentifier) in
          if 0 < length b then Inr (key, AString (Join (byte_texts b) ''.'')) else Inl (notFoundError key)))"

definition EncodeOpt119 :: "dhcpv4_lib \<Rightarrow> encoder" where
  "EncodeOpt119 lib d ns =
     (let key = enc_key ns ''Opt119.DomainSearch'' in
      case d of None \<Rightarrow> Inl (notFoundError key)
      | Some p \<Rightarrow> (case lib_DomainSearch lib p of None \<Rightarrow> Inl (notFoundError key)
          | Some l \<Rightarrow> Inr (key, AString (Join l '',''))))"

definition EncodeYIADDR :: "dhcpv4_lib \<Rightarrow> encoder" where
  "EncodeYIADDR lib d ns =
     (let key = enc_key ns ''Header.yiaddr'' in
      case d of None \<Rightarrow> Inl (notFoundError key)
      | Some p \<Rightarrow> (case YourIPAddr p of None \<Rightarrow> Inl (notFoundError key)
          | Some ip \<Rightarrow> Inr (key, AString (IP_String (Some ip)))))"

definition EncodeSIADDR :: "dhcpv4_lib \<Rightarrow> encoder" where
  "EncodeSIADDR lib d ns =
     (let key = enc_key ns ''Header.siaddr'' in
      case d of None \<Rightarrow> Inl (notFoundError key)
      | Some p \<Rightarrow> (case ServerIPAddr p of None \<Rightarrow> Inl (notFoundError key)
          | Some ip \<Rightarrow> Inr (key, AString (IP_String (Some ip)))))"

definition EncodeCHADDR :: "dhcpv4_lib \<Rightarrow> encoder" where
  "EncodeCHADDR lib d ns =
     (let key = enc_key ns ''Header.chaddr'' in
      case d of None \<Rightarrow> Inl (notFoundError key)
      | Some p \<Rightarrow> (case ClientHWAddr p of None \<Rightarrow> Inl (notFoundError key)
          | Some m \<Rightarrow> Inr (key, AString (HardwareAddr_String m))))"

definition EncodeFILE :: "dhcpv4_lib \<Rightarrow> encoder" where
  "EncodeFILE lib d ns =
     (let key = enc_key ns ''Header.file'' in
      case d of None \<Rightarrow> Inl (notFoundError key)
      | Some p \<Rightarrow> (if BootFileName p \<noteq> [] then Inr (key, AString (BootFileName p)) else Inl (notFoundError key)))"

definition AllEncoders :: "dhcpv4_lib \<Rightarrow> encoder list" where
  "AllEncoders lib =
     [EncodeFlags lib, EncodeTransactionID lib,
      EncodeYIADDR lib, EncodeSIADDR lib,
      EncodeCHADDR lib, EncodeFILE lib,
      EncodeOpt1 lib, EncodeOpt3 lib, EncodeOpt6 lib,
      EncodeOpt12 lib, EncodeOpt15 lib, EncodeOpt28 lib,
      EncodeOpt42 lib, EncodeOpt51 lib, EncodeOpt53 lib,
      EncodeOpt54 lib, EncodeOpt60 lib, EncodeOpt93 lib,
      EncodeOpt94 lib, EncodeOpt97 lib, EncodeOpt119 lib]"

fun Encode_loop :: "dhcpv4 option \<Rightarrow> string \<Rightarrow> encoder list \<Rightarrow> KeyValue list \<Rightarrow> KeyValue list" where
  "Encode_loop pkt ns [] attrs = attrs"
| "Encode_loop pkt ns (elem # encoders) attrs =
     (case elem pkt ns of
        Inl e \<Rightarrow> Encode_loop pkt ns encoders attrs
      | Inr kv \<Rightarrow> Encode_loop pkt ns encoders (attrs @ [kv]))"

definition Encode :: "dhcpv4 option \<Rightarrow> string \<Rightarrow> encoder list \<Rightarrow> KeyValue list" where
  "Encode pkt ns encoders = Encode_loop pkt ns encoders []"

section \<open>Lemmas\<close>

lemma TraceparentFromContext_length:
  "span_context_sizes ot \<Longrightarrow> length (TraceparentFromContext ot ctx) = 26"
  by (simp add: TraceparentFromContext_def span_context_sizes_def Let_def)

text \<open>
  The trace parent sent to a client has 26 bytes, a version byte of zero, and from it the trace id,
  the span id and the sampled flag of the context's span can be read back.
\<close>

theorem TraceparentFromContext_decode:
  assumes "span_context_sizes ot"
  shows "let tp = TraceparentFromContext ot ctx in
     length tp = 26 \<and> tp ! 0 = CHR 0x00 \<and> take 16 (drop 1 tp) = TraceID (otel_SpanContext ot ctx) \<and>
     take 8 (drop 17 tp) = SpanID (otel_SpanContext ot ctx) \<and>
     (tp ! 25 = CHR 0x01 \<longleftrightarrow> IsSampled (otel_SpanContext ot ctx))"
  using assms by (auto simp: TraceparentFromContext_def span_context_sizes_def Let_def nth_append)

lemma Encode_loop_append: "Encode_loop pkt ns es attrs = attrs @ Encode_loop pkt ns es []"
proof (induction es arbitrary: attrs)
  case (Cons e es)
  show ?case
  proof (cases "e pkt ns")
    case (Inl a)
    with Cons[of attrs] show ?thesis by (simp del: append_Nil2)
  next
    case (Inr kv)
    then show ?thesis using Cons[of "attrs @ [kv]"] Cons[of "[kv]"] by simp
  qed
qed simp

lemma Encode_Cons [simp]:
  "Encode pkt ns [] = []"
  "Encode pkt ns (e # es) = (case e pkt ns of Inl _ \<Rightarrow> [] | Inr kv \<Rightarrow> [kv]) @ Encode pkt ns es"
  using Encode_loop_append[of pkt ns es "[_]"] by (auto simp: Encode_def split: sum.split)

lemma Encode_mem: "kv \<in> set (Encode pkt ns es) \<longleftrightarrow> (\<exists>e \<in> set es. e pkt ns = Inr kv)"
proof (induction es)
  case (Cons e es)
  then show ?case by (cases "e pkt ns") fastforce+
qed simp

lemma Encode_length: "length (Encode pkt ns es) \<le> length es"
  by (induction es) (auto split: sum.split)

lemmas encoder_defs =
  EncodeFlags_def EncodeTransactionID_def EncodeYIADDR_def EncodeSIADDR_def EncodeCHADDR_def
  EncodeFILE_def EncodeOpt1_def EncodeOpt3_def EncodeOpt6_def EncodeOpt12_def
  EncodeOpt15_def EncodeOpt28_def EncodeOpt42_def EncodeOpt51_def EncodeOpt53_def
  EncodeOpt54_def EncodeOpt60_def EncodeOpt93_def EncodeOpt94_def EncodeOpt97_def
  EncodeOpt119_def

text \<open>The names the encoders give their attributes, in the order of \<open>AllEncoders\<close>.\<close>

definition encoder_names :: "string list" where
  "encoder_names =
     [''Header.flags'', ''Header.transactionID'', ''Header.yiaddr'', ''Header.siaddr'', ''Header.chaddr'',
      ''Header.file'', ''Opt1.SubnetMask'', ''Opt3.DefaultGateway'', ''Opt6.NameServers'', ''Opt12.Hostname'',
      ''Opt15.DomainName'', ''Opt28.BroadcastAddress'', ''Opt42.NTPServers'', ''Opt51.LeaseTime'',
      ''Opt53.MessageType'', ''Opt54.ServerIdentifier'', ''Opt60.ClassIdentifier'', ''Opt93.ClientIdentifier'',
      ''Opt94.ClientNetworkInterfaceIdentifier'', ''Opt97.ClientMachineIdentifier'', ''Opt119.DomainSearch'']"

text \<open>An encoder that answers uses its own name.\<close>

definition names_key :: "encoder \<Rightarrow> string \<Rightarrow> bool" where
  "names_key e nm \<longleftrightarrow> (\<forall>d ns kv. e d ns = Inr kv \<longrightarrow> fst kv = enc_key ns nm)"

lemma encoders_named: "list_all2 names_key (AllEncoders lib) encoder_names"
  by (simp add: AllEncoders_def encoder_names_def names_key_def encoder_defs Let_def
      split: option.splits if_splits)

lemma subseq_distinct: "subseq xs ys \<Longrightarrow> distinct ys \<Longrightarrow> distinct xs"
  by (induction rule: list_emb.induct) (auto dest: list_emb_set)

lemma Encode_keys_subseq:
  "list_all2 names_key es nms \<Longrightarrow> subseq (map fst (Encode d ns es)) (map (enc_key ns) nms)"
proof (induction es nms rule: list_all2_induct)
  case (Cons e es nm nms)
  show ?case
  proof (cases "e d ns")
    case (Inr kv)
    with Cons(1) have "fst kv = enc_key ns nm" by (cases kv) (auto simp: names_key_def)
    with Inr Cons(3) show ?thesis by simp
  next
    case (Inl x)
    with Cons(3) show ?thesis by (simp add: list_emb_Cons)
  qed
qed simp

text \<open>
  No attribute of a packet is given twice: the keys of the encoded attributes are distinct, whatever
  the packet and the namespace.
\<close>

lemma Encode_AllEncoders_distinct: "distinct (map fst (Encode d ns (AllEncoders lib)))"
proof (rule subseq_distinct)
  show "subseq (map fst (Encode d ns (AllEncoders lib))) (map (enc_key ns) encoder_names)"
    by (rule Encode_keys_subseq[OF encoders_named])
  have "inj (enc_key ns)" by (rule injI) (simp add: enc_key_def)
  moreover have "distinct encoder_names" by (simp add: encoder_names_def)
  ultimately show "distinct (map (enc_key ns) encoder_names)"
    by (simp add: distinct_map inj_on_def)
qed

lemma Encode_nil: "Encode None ns (AllEncoders lib) = []"
  by (simp add: AllEncoders_def encoder_defs Let_def)

text \<open>A telemetry SDK that is switched off, for concrete examples: no context ever carries a span.\<close>

definition noop_otel :: "unit otel_lib" where
  "noop_otel = \<lparr>otel_Start = (\<lambda>ctx nm attrs. ctx),
     otel_SpanContext = (\<lambda>ctx. \<lparr>TraceID = replicate 16 (CHR 0x00), SpanID = replicate 8 (CHR 0x00), IsSampled = False\<rparr>),
     otel_Inject = (\<lambda>ctx carrier. carrier),
     otel_Extract = (\<lambda>ctx carrier. ctx)\<rparr>"

lemma noop_otel_sizes: "span_context_sizes noop_otel"
  by (simp add: span_context_sizes_def noop_otel_def)

theorem TraceparentFromContext_decode_witness:
  "let tp = TraceparentFromContext noop_otel () in
     length tp = 26 \<and> take 16 (drop 1 tp) = replicate 16 (CHR 0x00) \<and> tp ! 25 \<noteq> CHR 0x01"
  using TraceparentFromContext_decode[OF noop_otel_sizes, of "()"] by (simp add: Let_def noop_otel_def)

end
