(* ===== verification/DHCP_Handler.thy ===== *)
theory DHCP_Handler
  imports DHCP_Info DHCP_Otel
begin

text \<open>
  What the two DHCP handlers share: the effects of handling one packet, the connection, the netboot
  configuration both packages declare, and the contract of the server's \<open>Handler\<close> interface
  (\<open>internal/dhcp/server/dhcp.go\<close>) as the locale \<open>dhcp_handler\<close>. Log lines are not modelled.
\<close>

section \<open>Effects\<close>

datatype span_code = Code_Ok | Code_Error

text \<open>
  The observable actions of a handler in the order it performs them. \<open>WriteTo b i dst\<close> is a call of
  the connection's \<open>WriteTo\<close>, whether or not it succeeds; the others act on telemetry spans.
\<close>

datatype effect =
    WriteTo bytes int net_addr
  | StartSpan string "KeyValue list"
  | SetAttributes "KeyValue list"
  | SetStatus span_code string
  | EndSpan

text \<open>\<open>*ipv4.PacketConn\<close>: what writing a datagram returns.\<close>

type_synonym conn = "bytes \<Rightarrow> int \<Rightarrow> net_addr \<Rightarrow> go_error option"

type_synonym 'c handle = "'c \<Rightarrow> conn option \<Rightarrow> Packet \<Rightarrow> effect list go"

fun sends :: "effect list \<Rightarrow> (bytes \<times> int \<times> net_addr) list" where
  "sends [] = []"
| "sends (WriteTo b i dst # es) = (b, i, dst) # sends es"
| "sends (e # es) = sends es"

lemma sends_append [simp]: "sends (xs @ ys) = sends xs @ sends ys"
  by (induction xs rule: sends.induct) auto

fun go_map :: "('a \<Rightarrow> 'b) \<Rightarrow> 'a go \<Rightarrow> 'b go" where
  "go_map f (Ret x) = Ret (f x)"
| "go_map f (Panic m) = Panic m"

lemma go_map_Ret [simp]: "go_map f c = Ret y \<longleftrightarrow> (\<exists>x. c = Ret x \<and> y = f x)"
  by (cases c) auto

lemma go_map_Panic [simp]: "go_map f c = Panic m \<longleftrightarrow> c = Panic m"
  by (cases c) auto

section \<open>Addresses of peers\<close>

text \<open>\<open>net.UDPAddr.String\<close>.\<close>

definition UDPAddr_String :: "UDPAddr \<Rightarrow> string" where
  "UDPAddr_String a =
     (let ip = (if slice_bytes (UDP_IP a) = [] then [] else IP_String (UDP_IP a));
          host = (if UDP_Zone a \<noteq> [] then ip @ ''%'' @ UDP_Zone a else ip)
      in JoinHostPort host (nat_string (UDP_Port a)))"

fun net_addr_String :: "net_addr \<Rightarrow> string" where
  "net_addr_String (UDPPeer None) = ''<nil>''"
| "net_addr_String (UDPPeer (Some a)) = UDPAddr_String a"
| "net_addr_String (OtherAddr s) = s"

definition md_IfName :: "Packet \<Rightarrow> string" where
  "md_IfName dp = (case Md dp of None \<Rightarrow> [] | Some md \<Rightarrow> IfName md)"

text \<open>The interface index of the control message sent with the reply, zero by default.\<close>

definition cm_IfIndex :: "Packet \<Rightarrow> int" where
  "cm_IfIndex dp = (case Md dp of None \<Rightarrow> 0 | Some md \<Rightarrow> IfIndex md)"

section \<open>Configuration\<close>

text \<open>The struct \<open>Netboot\<close>, declared alike by packages \<open>reservation\<close> and \<open>proxy\<close>.\<close>

record handler_Netboot =
  IPXEBinServerTFTP :: AddrPort
  IPXEBinServerHTTP :: "URL option"
  ScriptURL :: "(dhcpv4 \<Rightarrow> URL option) option"
  Enabled :: bool
  UserClass :: string

section \<open>The contract of a handler\<close>

text \<open>
  Where a reply belongs (RFC 2131, page 22): to the relay agent's server port when \<open>giaddr\<close> is set,
  to the peer otherwise.
\<close>

definition reply_address :: "net_addr \<Rightarrow> slice \<Rightarrow> net_addr" where
  "reply_address peer giaddr =
     (if giaddr \<noteq> None \<and> giaddr \<notin> {IPv4zero, Some (replicate 4 (CHR 0x00)), IPv6unspecified}
      then UDPPeer (Some \<lparr>UDP_IP = giaddr, UDP_Port = 67, UDP_Zone = []\<rparr>)
      else peer)"

lemma IP_Equal_mapped:
  assumes "length z = 4"
  shows "IP_Equal ip (Some (v4InV6Prefix @ z)) \<longleftrightarrow> ip = Some z \<or> ip = Some (v4InV6Prefix @ z)"
  using assms by (cases ip) (auto simp: IP_Equal_def Let_def)

lemma IP_Equal_unmapped:
  assumes "length z = 16" "take 12 z \<noteq> v4InV6Prefix"
  shows "IP_Equal ip (Some z) \<longleftrightarrow> ip = Some z"
  using assms by (cases ip) (auto simp: IP_Equal_def Let_def)

lemma IsUnspecified_iff:
  "IsUnspecified ip \<longleftrightarrow> ip \<in> {IPv4zero, Some (replicate 4 (CHR 0x00)), IPv6unspecified}"
proof -
  have z: "[char_of (0::nat), char_of (0::nat), char_of (0::nat), char_of (0::nat)] = replicate 4 (CHR 0x00)"
    by (simp add: numeral_eq_Suc char_of_def)
  have "IP_Equal ip IPv4zero \<longleftrightarrow> ip = Some (replicate 4 (CHR 0x00)) \<or> ip = IPv4zero"
    unfolding IPv4zero_def IPv4_def z by (rule IP_Equal_mapped) simp
  moreover have "IP_Equal ip IPv6unspecified \<longleftrightarrow> ip = IPv6unspecified"
    unfolding IPv6unspecified_def
    by (rule IP_Equal_unmapped) (simp_all add: v4InV6Prefix_def numeral_eq_Suc)
  ultimately show ?thesis by (auto simp: IsUnspecified_def)
qed

text \<open>
  A handler needs a packet, a UDP peer and a connection. It answers a packet with at most one
  datagram, only discover and request messages, at the address the protocol prescribes and on the
  interface the packet came from.
\<close>

locale dhcp_handler =
  fixes lib :: dhcpv4_lib
    and handle :: "'c handle"
  assumes unusable: "Pkt dp = None \<or> cn = None \<or> (\<forall>u. Peer dp \<noteq> UDPPeer (Some u)) \<Longrightarrow> handle ctx cn dp = Ret []"
    and at_most_one: "handle ctx cn dp = Ret es \<Longrightarrow> length (sends es) \<le> 1"
    and answers: "handle ctx cn dp = Ret es \<Longrightarrow> (b, i, dst) \<in> set (sends es) \<Longrightarrow> Pkt dp = Some p \<Longrightarrow>
        lib_MessageType lib p \<in> {MessageTypeDiscover, MessageTypeRequest} \<and>
        dst = reply_address (Peer dp) (GatewayIPAddr p) \<and> i = cm_IfIndex dp"
begin

lemma sent_needs_packet:
  assumes "handle ctx cn dp = Ret es" "s \<in> set (sends es)"
  obtains p u where "Pkt dp = Some p" "Peer dp = UDPPeer (Some u)" "cn \<noteq> None"
  using assms unusable[of dp cn ctx] by fastforce

lemma sent_to_udp:
  assumes "handle ctx cn dp = Ret es" "(b, i, dst) \<in> set (sends es)"
  shows "\<exists>u. dst = UDPPeer (Some u)"
proof -
  from sent_needs_packet[OF assms] obtain p u where "Pkt dp = Some p" "Peer dp = UDPPeer (Some u)" by metis
  with answers[OF assms] show ?thesis by (auto simp: reply_address_def)
qed

lemma sends_cases:
  assumes "handle ctx cn dp = Ret es"
  obtains "sends es = []" | b i dst where "sends es = [(b, i, dst)]"
  using at_most_one[OF assms] by (cases "sends es") (auto simp: le_Suc_eq)

end

end
