(* ===== verification/DHCP_Reservation.thy ===== *)
theory DHCP_Reservation
  imports DHCP_Handler
begin

text \<open>
  \<open>internal/dhcp/handler/reservation\<close>: the handler that answers with host reservations
  (\<open>reservation.go\<close>, \<open>option.go\<close>, \<open>handler.go\<close>). The lemmas give the headers and the options of the
  reply, when a reply is sent and when none is, and that the handler does not panic.
\<close>

section \<open>Definitions\<close>

record reservation_Handler =
  res_Backend :: "BackendReader option"
  res_IPAddr :: Addr
  res_Netboot :: handler_Netboot
  res_OTELEnabled :: bool
  res_SyslogAddr :: Addr

definition setDefaults :: "reservation_Handler \<Rightarrow> reservation_Handler" where
  "setDefaults h = (case res_Backend h of None \<Rightarrow> h\<lparr>res_Backend := Some reservation_noop\<rparr> | Some _ \<Rightarrow> h)"

text \<open>The \<open>if\<close> statements of \<open>setDHCPOpts\<close>, which append a modifier to the list or leave it.\<close>

definition append_if :: "bool \<Rightarrow> modifier \<Rightarrow> modifier list \<Rightarrow> modifier list" where
  "append_if b m mods = (if b then mods @ [m] else mods)"

definition setDHCPOpts :: "dhcpv4_lib \<Rightarrow> reservation_Handler \<Rightarrow> data_DHCP \<Rightarrow> modifier list" where
  "setDHCPOpts lib h d =
     (let mods = [lib_WithLeaseTime lib (LeaseTime d), lib_WithYourIP lib (AsSlice (IPAddress d))];
          mods = append_if (0 < length (NameServers d)) (lib_WithDNS lib (NameServers d)) mods;
          mods = append_if (0 < length (DomainSearch d)) (lib_WithDomainSearchList lib (DomainSearch d)) mods;
          mods = append_if (0 < length (NTPServers d)) (lib_WithOption lib (lib_OptNTPServers lib (NTPServers d))) mods;
          mods = append_if (Addr_Compare (BroadcastAddress d) AddrZero \<noteq> 0)
            (lib_WithGeneric lib OptionBroadcastAddress (AsSlice (BroadcastAddress d))) mods;
          mods = append_if (DomainName d \<noteq> []) (lib_WithGeneric lib OptionDomainName (Some (DomainName d))) mods;
          mods = append_if (HostName d \<noteq> []) (lib_WithGeneric lib OptionHostName (Some (HostName d))) mods;
          mods = append_if (0 < length (slice_bytes (SubnetMask d))) (lib_WithNetmask lib (SubnetMask d)) mods;
          mods = append_if (Addr_Compare (DefaultGateway d) AddrZero \<noteq> 0)
            (lib_WithRouter lib [AsSlice (DefaultGateway d)]) mods;
          mods = append_if (Addr_Compare (res_SyslogAddr h) AddrZero \<noteq> 0)
            (lib_WithOption lib (lib_OptGeneric lib OptionLogServer (AsSlice (res_SyslogAddr h)))) mods
      in mods)"

definition bootfileAndNextServer ::
  "dhcpv4_lib \<Rightarrow> 'c otel_lib \<Rightarrow> reservation_Handler \<Rightarrow> 'c \<Rightarrow> dhcpv4 \<Rightarrow> string \<Rightarrow> AddrPort \<Rightarrow> URL option \<Rightarrow> URL option
     \<Rightarrow> string \<times> slice" where
  "bootfileAndNextServer lib ot h ctx pkt customUC tftp ipxe iscript =
     (let i = NewInfo lib (Some pkt);
          tp = TraceparentStringFromContext ot ctx;
          i = (if res_OTELEnabled h \<and> tp \<noteq> [] then i\<lparr>Info_IPXEBinary := Info_IPXEBinary i @ ''-'' @ tp\<rparr> else i);
          nextServer = NextServer i ipxe tftp;
          bootfile = Bootfile i customUC iscript ipxe tftp
      in (bootfile, nextServer))"

text \<open>The script URL: the one of the hardware record, else the configured one.\<close>

definition script_for :: "handler_Netboot \<Rightarrow> data_Netboot \<Rightarrow> dhcpv4 \<Rightarrow> URL option" where
  "script_for nb n m =
     (let ipxeScript = None;
          ipxeScript = (case ScriptURL nb of None \<Rightarrow> ipxeScript | Some f \<Rightarrow> f m)
      in case IPXEScriptURL n of None \<Rightarrow> ipxeScript | Some u \<Rightarrow> Some u)"

definition setNetworkBootOpts ::
  "dhcpv4_lib \<Rightarrow> 'c otel_lib \<Rightarrow> reservation_Handler \<Rightarrow> 'c \<Rightarrow> dhcpv4 \<Rightarrow> data_Netboot \<Rightarrow> modifier" where
  "setNetworkBootOpts lib ot h ctx m n d =
     (let d = (case lib_Options_Get lib (Options m) OptionClassIdentifier of
                 None \<Rightarrow> d
               | Some val \<Rightarrow> if HasPrefix val HTTPClient
                   then lib_UpdateOption lib d (lib_OptGeneric lib OptionClassIdentifier (Some HTTPClient)) else d);
          d = d\<lparr>BootFileName := ''/netboot-not-allowed''\<rparr>;
          d = d\<lparr>ServerIPAddr := IPv4zero\<rparr>
      in if AllowNetboot n then
           (let i = NewInfo lib (Some m) in
            if Info_IPXEBinary i = [] then d
            else let ipxeScript = script_for (res_Netboot h) n m;
                     (bf, ns) = bootfileAndNextServer lib ot h ctx m (UserClass (res_Netboot h))
                        (IPXEBinServerTFTP (res_Netboot h)) (IPXEBinServerHTTP (res_Netboot h)) ipxeScript;
                     d = d\<lparr>BootFileName := bf, ServerIPAddr := ns\<rparr>;
                     pxe = [6 \<mapsto> Some [CHR 0x08], 69 \<mapsto> Some (TraceparentFromContext ot ctx)]
                 in lib_UpdateOption lib d
                      (lib_OptGeneric lib OptionVendorSpecificInformation (Some (AddRPIOpt43 lib i pxe))))
         else d)"

definition updateMsg ::
  "dhcpv4_lib \<Rightarrow> 'c otel_lib \<Rightarrow> reservation_Handler \<Rightarrow> 'c \<Rightarrow> dhcpv4 \<Rightarrow> data_DHCP \<Rightarrow> data_Netboot \<Rightarrow> u8 \<Rightarrow> dhcpv4 option" where
  "updateMsg lib ot h0 ctx pkt d n msgType =
     (let h = setDefaults h0;
          mods = [lib_WithMessageType lib msgType,
                  lib_WithGeneric lib OptionServerIdentifier (AsSlice (res_IPAddr h)),
                  lib_WithServerIP lib (AsSlice (res_IPAddr h))];
          mods = mods @ setDHCPOpts lib h d;
          mods = append_if (Enabled (res_Netboot h) \<and> IsNetbootClient lib pkt = None)
            (setNetworkBootOpts lib ot h ctx pkt n) mods
      in lib_NewReplyFromRequest lib pkt mods)"

definition reservation_encodeToAttributes :: "dhcpv4_lib \<Rightarrow> dhcpv4 \<Rightarrow> string \<Rightarrow> KeyValue list" where
  "reservation_encodeToAttributes lib d ns = Encode (Some d) ns (AllEncoders lib)"

definition hardwareNotFound :: "go_error \<Rightarrow> bool" where
  "hardwareNotFound e \<longleftrightarrow> e = HardwareNotFoundError"

text \<open>Both records are dereferenced when they are encoded, so a nil record panics here.\<close>

definition readBackend ::
  "reservation_Handler \<Rightarrow> slice \<Rightarrow> (effect list \<times> (go_error + data_DHCP \<times> data_Netboot)) go" where
  "readBackend h0 mac =
     (let h = setDefaults h0 in
      case res_Backend h of None \<Rightarrow> Panic ''nil pointer dereference''
      | Some be \<Rightarrow> go_bind (GetByMac be (slice_bytes mac)) (\<lambda>r.
          case r of
            Inl err \<Rightarrow> Ret ([StartSpan ''Hardware data get'' [], SetStatus Code_Error (Error_text err), EndSpan], Inl err)
          | Inr (Some d, Some n) \<Rightarrow>
              Ret ([StartSpan ''Hardware data get'' [], SetAttributes (DHCP_EncodeToAttributes d),
                    SetAttributes (Netboot_EncodeToAttributes n), SetStatus Code_Ok ''done reading from backend'', EndSpan],
                   Inr (d, n))
          | Inr _ \<Rightarrow> Panic ''nil pointer dereference''))"

definition replyDestination :: "net_addr \<Rightarrow> slice \<Rightarrow> net_addr" where
  "replyDestination directPeer giaddr =
     (if \<not> IsUnspecified giaddr \<and> giaddr \<noteq> None
      then UDPPeer (Some \<lparr>UDP_IP = giaddr, UDP_Port = ServerPort, UDP_Zone = []\<rparr>)
      else directPeer)"

text \<open>
  The body of the cases \<open>Discover\<close> and \<open>Request\<close>, which differ in the type of the reply: either the
  handler returns after some effects, or it goes on with a reply.
\<close>

definition reserve ::
  "dhcpv4_lib \<Rightarrow> 'c otel_lib \<Rightarrow> reservation_Handler \<Rightarrow> 'c \<Rightarrow> dhcpv4 \<Rightarrow> u8 \<Rightarrow>
     (effect list + effect list \<times> dhcpv4 option) go" where
  "reserve lib ot h ctx pkt msgType =
     go_bind (readBackend h (ClientHWAddr pkt)) (\<lambda>(es, r).
       case r of
         Inl err \<Rightarrow>
           if hardwareNotFound err then Ret (Inl (es @ [SetStatus Code_Ok ''no reservation found'']))
           else Ret (Inl (es @ [SetStatus Code_Error (Error_text err)]))
       | Inr (d, n) \<Rightarrow>
           if Disabled d then Ret (Inl (es @ [SetStatus Code_Ok ''disabled DHCP response'']))
           else Ret (Inr (es, updateMsg lib ot h ctx pkt d n msgType)))"

definition choose_reply ::
  "dhcpv4_lib \<Rightarrow> 'c otel_lib \<Rightarrow> reservation_Handler \<Rightarrow> 'c \<Rightarrow> dhcpv4 \<Rightarrow>
     (effect list + effect list \<times> dhcpv4 option) go" where
  "choose_reply lib ot h ctx pkt =
     (let mt = lib_MessageType lib pkt in
      if mt = MessageTypeDiscover then reserve lib ot h ctx pkt MessageTypeOffer
      else if mt = MessageTypeRequest then reserve lib ot h ctx pkt MessageTypeAck
      else if mt = MessageTypeRelease then Ret (Inl [SetStatus Code_Ok ''received release, no response required''])
      else Ret (Inl [SetStatus Code_Error ''received unknown message type'']))"

text \<open>What follows the switch: the reply is read, so a nil reply panics, and sent.\<close>

definition send_reply :: "dhcpv4_lib \<Rightarrow> conn \<Rightarrow> Packet \<Rightarrow> dhcpv4 \<Rightarrow> dhcpv4 option \<Rightarrow> effect list go" where
  "send_reply lib cn dp pkt r =
     (case r of None \<Rightarrow> Panic ''nil pointer dereference''
      | Some reply \<Rightarrow>
          (let dst = replyDestination (Peer dp) (GatewayIPAddr pkt);
               b = lib_ToBytes lib reply;
               i = cm_IfIndex dp
           in Ret (WriteTo b i dst #
               (case cn b i dst of
                  Some err \<Rightarrow> [SetStatus Code_Error (Error_text err)]
                | None \<Rightarrow> [SetAttributes (reservation_encodeToAttributes lib reply ''reply''),
                           SetStatus Code_Ok ''sent DHCP response'']))))"

definition reservation_Handle :: "dhcpv4_lib \<Rightarrow> 'c otel_lib \<Rightarrow> reservation_Handler \<Rightarrow> 'c handle" where
  "reservation_Handle lib ot h0 ctx0 cn dp =
     (let h = setDefaults h0 in
      case Pkt dp of None \<Rightarrow> Ret []
      | Some pkt \<Rightarrow>
      (case Peer dp of OtherAddr _ \<Rightarrow> Ret [] | UDPPeer None \<Rightarrow> Ret []
       | UDPPeer (Some upeer) \<Rightarrow>
       (case cn of None \<Rightarrow> Ret []
        | Some c \<Rightarrow>
          (let ifName = md_IfName dp;
               name = ''DHCP Packet Received: '' @ lib_MessageType_String lib (lib_MessageType lib pkt);
               attrs = reservation_encodeToAttributes lib pkt ''request'' @
                 [(''DHCP.peer'', AString (net_addr_String (Peer dp))), (''DHCP.server.ifname'', AString ifName)];
               ctx = otel_Start ot ctx0 name attrs
           in go_map (\<lambda>es. StartSpan name attrs # es @ [EndSpan])
                (go_bind (choose_reply lib ot h ctx pkt) (\<lambda>r.
                   case r of
                     Inl es \<Rightarrow> Ret es
                   | Inr (es, reply) \<Rightarrow> go_map (\<lambda>fs. es @ fs) (send_reply lib c dp pkt reply)))))))"

section \<open>Small facts\<close>

lemma replyDestination_reply_address: "replyDestination peer giaddr = reply_address peer giaddr"
  by (auto simp: replyDestination_def reply_address_def IsUnspecified_iff)

lemma setDefaults_simps [simp]:
  "res_IPAddr (setDefaults h) = res_IPAddr h"
  "res_Netboot (setDefaults h) = res_Netboot h"
  "res_OTELEnabled (setDefaults h) = res_OTELEnabled h"
  "res_SyslogAddr (setDefaults h) = res_SyslogAddr h"
  "setDefaults (setDefaults h) = setDefaults h"
  by (simp_all add: setDefaults_def split: option.split)

text \<open>The backend a handler reads, its default included.\<close>

definition backend_of :: "reservation_Handler \<Rightarrow> BackendReader" where
  "backend_of h = (case res_Backend h of None \<Rightarrow> reservation_noop | Some be \<Rightarrow> be)"

lemma res_Backend_setDefaults [simp]: "res_Backend (setDefaults h) = Some (backend_of h)"
  by (simp add: setDefaults_def backend_of_def split: option.split)

lemma backend_of_setDefaults [simp]: "backend_of (setDefaults h) = backend_of h"
  by (simp add: backend_of_def[of "setDefaults h"])

lemma readBackend_unfold:
  "readBackend h mac = go_bind (GetByMac (backend_of h) (slice_bytes mac)) (\<lambda>r.
     case r of
       Inl err \<Rightarrow> Ret ([StartSpan ''Hardware data get'' [], SetStatus Code_Error (Error_text err), EndSpan], Inl err)
     | Inr (Some d, Some n) \<Rightarrow>
         Ret ([StartSpan ''Hardware data get'' [], SetAttributes (DHCP_EncodeToAttributes d),
               SetAttributes (Netboot_EncodeToAttributes n), SetStatus Code_Ok ''done reading from backend'', EndSpan],
              Inr (d, n))
     | Inr _ \<Rightarrow> Panic ''nil pointer dereference'')"
  by (simp add: readBackend_def)

lemma readBackend_silent: "readBackend h mac = Ret (es, r) \<Longrightarrow> sends es = []"
  unfolding readBackend_unfold by (elim go_bind_RetE) (auto split: sum.splits prod.splits option.splits)

lemma reserve_silent:
  "reserve lib ot h ctx p mt = Ret (Inl es) \<Longrightarrow> sends es = []"
  "reserve lib ot h ctx p mt = Ret (Inr (es, q)) \<Longrightarrow> sends es = []"
  unfolding reserve_def
  by (elim go_bind_RetE; auto split: sum.splits prod.splits if_splits dest: readBackend_silent)+

lemma choose_reply_silent:
  "choose_reply lib ot h ctx p = Ret (Inl es) \<Longrightarrow> sends es = []"
  "choose_reply lib ot h ctx p = Ret (Inr (es, q)) \<Longrightarrow> sends es = []"
  by (auto simp: choose_reply_def Let_def split: if_splits dest: reserve_silent)

lemma choose_reply_type:
  "choose_reply lib ot h ctx p = Ret (Inr x) \<Longrightarrow> lib_MessageType lib p \<in> {MessageTypeDiscover, MessageTypeRequest}"
  by (auto simp: choose_reply_def Let_def split: if_splits)

lemma send_reply_sends:
  "send_reply lib c dp p r = Ret es \<Longrightarrow>
     \<exists>reply. r = Some reply \<and> sends es = [(lib_ToBytes lib reply, cm_IfIndex dp, reply_address (Peer dp) (GatewayIPAddr p))]"
  by (auto simp: send_reply_def Let_def replyDestination_reply_address split: option.splits)

text \<open>The handler on a usable packet, its span left out of account.\<close>

lemma reservation_Handle_sends:
  assumes "Pkt dp = Some p" "Peer dp = UDPPeer (Some u)" "cn = Some c" "reservation_Handle lib ot h ctx cn dp = Ret es"
  shows "(\<exists>ctx' fs. choose_reply lib ot (setDefaults h) ctx' p = Ret (Inl fs) \<and> sends es = []) \<or>
     (\<exists>ctx' fs r. choose_reply lib ot (setDefaults h) ctx' p = Ret (Inr (fs, Some r)) \<and>
        sends es = [(lib_ToBytes lib r, cm_IfIndex dp, reply_address (Peer dp) (GatewayIPAddr p))])"
proof -
  obtain ctx' where "\<exists>fs. sends es = sends fs \<and> go_bind (choose_reply lib ot (setDefaults h) ctx' p) (\<lambda>r.
      case r of Inl es \<Rightarrow> Ret es
      | Inr (es, reply) \<Rightarrow> go_map (\<lambda>fs. es @ fs) (send_reply lib c dp p reply)) = Ret fs"
    using assms unfolding reservation_Handle_def by (fastforce simp: Let_def)
  then obtain fs x where fs: "sends es = sends fs" "choose_reply lib ot (setDefaults h) ctx' p = Ret x"
      "(case x of Inl es \<Rightarrow> Ret es
        | Inr (es, reply) \<Rightarrow> go_map (\<lambda>fs. es @ fs) (send_reply lib c dp p reply)) = Ret fs"
    by (auto elim!: go_bind_RetE)
  show ?thesis
  proof (cases x)
    case (Inl gs)
    with fs choose_reply_silent(1) show ?thesis by auto
  next
    case (Inr y)
    then obtain gs q where y: "x = Inr (gs, q)" by (cases y) simp
    with fs(3) obtain ks where ks: "send_reply lib c dp p q = Ret ks" "fs = gs @ ks" by auto
    from send_reply_sends[OF ks(1)] fs y ks(2) choose_reply_silent(2) show ?thesis by fastforce
  qed
qed

interpretation res: dhcp_handler lib "reservation_Handle lib ot h" for lib ot h
proof unfold_locales
  fix dp :: Packet and cn :: "conn option" and ctx
  assume "Pkt dp = None \<or> cn = None \<or> (\<forall>u. Peer dp \<noteq> UDPPeer (Some u))"
  then show "reservation_Handle lib ot h ctx cn dp = Ret []"
    by (auto simp: reservation_Handle_def Let_def split: option.split net_addr.split)
next
  fix ctx and cn :: "conn option" and dp es
  assume r: "reservation_Handle lib ot h ctx cn dp = Ret es"
  have usable: "\<exists>p u c. Pkt dp = Some p \<and> Peer dp = UDPPeer (Some u) \<and> cn = Some c" if "es \<noteq> []"
    using r that by (auto simp: reservation_Handle_def Let_def split: option.splits net_addr.splits)
  show "length (sends es) \<le> 1"
  proof (cases "es = []")
    case False
    with usable obtain p u c where "Pkt dp = Some p" "Peer dp = UDPPeer (Some u)" "cn = Some c" by blast
    from reservation_Handle_sends[OF this r] show ?thesis by auto
  qed simp
  fix b i dst p
  assume s: "(b, i, dst) \<in> set (sends es)" and p: "Pkt dp = Some p"
  then have "es \<noteq> []" by auto
  with usable obtain u c where "Peer dp = UDPPeer (Some u)" "cn = Some c" by blast
  from reservation_Handle_sends[OF p this r] s
  show "lib_MessageType lib p \<in> {MessageTypeDiscover, MessageTypeRequest} \<and>
        dst = reply_address (Peer dp) (GatewayIPAddr p) \<and> i = cm_IfIndex dp"
    using choose_reply_type by fastforce
qed

section \<open>The reply\<close>

text \<open>
  What a reply for a reservation holds, as the package's documentation describes it: the client's
  transaction and hardware address, the reserved address, and one DHCP option for each fact the
  backend knows. \<open>reply_option\<close> gives the value of an option the handler manages, where it sets one.
\<close>

definition put_when :: "bool \<Rightarrow> slice \<Rightarrow> slice option" where
  "put_when b v = (if b then Some v else None)"

definition reply_option :: "dhcpv4_lib \<Rightarrow> reservation_Handler \<Rightarrow> data_DHCP \<Rightarrow> u8 \<Rightarrow> u8 \<Rightarrow> slice option" where
  "reply_option lib h d msgType c =
     (if c = OptionDHCPMessageType then Some (snd (lib_OptMessageType lib msgType))
      else if c = OptionServerIdentifier then Some (AsSlice (res_IPAddr h))
      else if c = OptionIPAddressLeaseTime then Some (lib_Duration_ToBytes lib (LeaseTime d))
      else if c = OptionDomainNameServer then put_when (NameServers d \<noteq> []) (lib_IPs_ToBytes lib (NameServers d))
      else if c = OptionDNSDomainSearchList then put_when (DomainSearch d \<noteq> []) (lib_Labels_ToBytes lib (DomainSearch d))
      else if c = OptionNTPServers then put_when (NTPServers d \<noteq> []) (lib_IPs_ToBytes lib (NTPServers d))
      else if c = OptionBroadcastAddress then put_when (BroadcastAddress d \<noteq> AddrZero) (AsSlice (BroadcastAddress d))
      else if c = OptionDomainName then put_when (DomainName d \<noteq> []) (Some (DomainName d))
      else if c = OptionHostName then put_when (HostName d \<noteq> []) (Some (HostName d))
      else if c = OptionSubnetMask then put_when (slice_bytes (SubnetMask d) \<noteq> []) (mask_bytes (SubnetMask d))
      else if c = OptionRouter then put_when (DefaultGateway d \<noteq> AddrZero) (lib_IPs_ToBytes lib [AsSlice (DefaultGateway d)])
      else if c = OptionLogServer then put_when (res_SyslogAddr h \<noteq> AddrZero) (AsSlice (res_SyslogAddr h))
      else None)"

definition lease_reply :: "dhcpv4_lib \<Rightarrow> reservation_Handler \<Rightarrow> data_DHCP \<Rightarrow> dhcpv4 \<Rightarrow> u8 \<Rightarrow> dhcpv4 \<Rightarrow> bool" where
  "lease_reply lib h d p msgType r \<longleftrightarrow>
     OpCode r = reply_OpCode p \<and> TransactionID r = TransactionID p \<and> ClientHWAddr r = ClientHWAddr p \<and>
     YourIPAddr r = AsSlice (IPAddress d) \<and> lib_MessageType lib r = msgType \<and>
     (\<forall>c. c \<noteq> OptionVendorSpecificInformation \<longrightarrow> c \<noteq> OptionClassIdentifier \<longrightarrow>
        Options r c = (case reply_option lib h d msgType c of
                         Some v \<Rightarrow> Some v | None \<Rightarrow> Options (base_reply lib p) c))"

lemma apply_append_if:
  "apply_modifiers (append_if b m ms) q = (if b then m (apply_modifiers ms q) else apply_modifiers ms q)"
  by (simp add: append_if_def)

lemma if_put_option:
  "Options (if b then put_option c v q else q) k = (if b \<and> k = c then Some v else Options q k)"
  "OpCode (if b then put_option c v q else q) = OpCode q"
  "TransactionID (if b then put_option c v q else q) = TransactionID q"
  "ClientHWAddr (if b then put_option c v q else q) = ClientHWAddr q"
  "YourIPAddr (if b then put_option c v q else q) = YourIPAddr q"
  "ServerIPAddr (if b then put_option c v q else q) = ServerIPAddr q"
  "BootFileName (if b then put_option c v q else q) = BootFileName q"
  by simp_all

lemma apply_put_if:
  "Options (apply_modifiers (append_if b (put_option c v) ms) q) k =
     (if b \<and> k = c then Some v else Options (apply_modifiers ms q) k)"
  by (simp add: apply_append_if)

text \<open>The netboot modifier touches the boot file, the next server and options 43 and 60.\<close>

lemma setNetworkBootOpts_frame:
  assumes "dhcpv4_laws lib"
  shows "c \<noteq> OptionVendorSpecificInformation \<Longrightarrow> c \<noteq> OptionClassIdentifier \<Longrightarrow>
      Options (setNetworkBootOpts lib ot h ctx m n q) c = Options q c"
    and "OpCode (setNetworkBootOpts lib ot h ctx m n q) = OpCode q"
    and "TransactionID (setNetworkBootOpts lib ot h ctx m n q) = TransactionID q"
    and "ClientHWAddr (setNetworkBootOpts lib ot h ctx m n q) = ClientHWAddr q"
    and "YourIPAddr (setNetworkBootOpts lib ot h ctx m n q) = YourIPAddr q"
  by (auto simp: setNetworkBootOpts_def Let_def dhcpv4_law[OF assms] split: option.split prod.split)

lemma if_netboot_frame:
  assumes "dhcpv4_laws lib"
  shows "c \<noteq> OptionVendorSpecificInformation \<Longrightarrow> c \<noteq> OptionClassIdentifier \<Longrightarrow>
      Options (if b then setNetworkBootOpts lib ot h ctx m n q else q) c = Options q c"
    and "OpCode (if b then setNetworkBootOpts lib ot h ctx m n q else q) = OpCode q"
    and "TransactionID (if b then setNetworkBootOpts lib ot h ctx m n q else q) = TransactionID q"
    and "ClientHWAddr (if b then setNetworkBootOpts lib ot h ctx m n q else q) = ClientHWAddr q"
    and "YourIPAddr (if b then setNetworkBootOpts lib ot h ctx m n q else q) = YourIPAddr q"
  using setNetworkBootOpts_frame[OF assms] by auto

text \<open>The reply before the netboot modifier.\<close>

definition plain_reply :: "dhcpv4_lib \<Rightarrow> reservation_Handler \<Rightarrow> dhcpv4 \<Rightarrow> data_DHCP \<Rightarrow> u8 \<Rightarrow> dhcpv4" where
  "plain_reply lib h p d msgType = apply_modifiers
     ([lib_WithMessageType lib msgType, lib_WithGeneric lib OptionServerIdentifier (AsSlice (res_IPAddr h)),
       lib_WithServerIP lib (AsSlice (res_IPAddr h))] @ setDHCPOpts lib h d) (base_reply lib p)"

lemma plain_reply_headers:
  assumes "dhcpv4_laws lib"
  shows "OpCode (plain_reply lib h p d mt) = reply_OpCode p"
    and "TransactionID (plain_reply lib h p d mt) = TransactionID p"
    and "ClientHWAddr (plain_reply lib h p d mt) = ClientHWAddr p"
    and "YourIPAddr (plain_reply lib h p d mt) = AsSlice (IPAddress d)"
    and "ServerIPAddr (plain_reply lib h p d mt) = AsSlice (res_IPAddr h)"
    and "BootFileName (plain_reply lib h p d mt) = BootFileName (base_reply lib p)"
  unfolding plain_reply_def setDHCPOpts_def Let_def
  by (simp_all add: apply_append_if dhcpv4_law[OF assms] if_put_option del: if_split_asm split del: if_split)

lemma plain_reply_Options:
  assumes "dhcpv4_laws lib"
  shows "Options (plain_reply lib h p d mt) c =
     (case reply_option lib h d mt c of Some v \<Rightarrow> Some v | None \<Rightarrow> Options (base_reply lib p) c)"
proof -
  note code = plain_reply_def setDHCPOpts_def Let_def apply_put_if dhcpv4_law[OF assms]
  consider "c = OptionDHCPMessageType" | "c = OptionServerIdentifier" | "c = OptionIPAddressLeaseTime" | "c = OptionDomainNameServer"
    | "c = OptionDNSDomainSearchList" | "c = OptionNTPServers" | "c = OptionBroadcastAddress" | "c = OptionDomainName"
    | "c = OptionHostName" | "c = OptionSubnetMask" | "c = OptionRouter" | "c = OptionLogServer"
    | (other) "c \<notin> {OptionDHCPMessageType, OptionServerIdentifier, OptionIPAddressLeaseTime, OptionDomainNameServer, OptionDNSDomainSearchList, OptionNTPServers, OptionBroadcastAddress, OptionDomainName, OptionHostName, OptionSubnetMask, OptionRouter, OptionLogServer}"
    by blast
  then show ?thesis
    by cases (simp_all add: code reply_option_def put_when_def)
qed

lemma setDHCPOpts_setDefaults: "setDHCPOpts lib (setDefaults h) d = setDHCPOpts lib h d"
  by (simp add: setDHCPOpts_def)

lemma updateMsg_plain:
  assumes "dhcpv4_laws lib"
  shows "updateMsg lib ot h ctx p d n mt =
     Some (let q = plain_reply lib h p d mt in
           if Enabled (res_Netboot h) \<and> IsNetbootClient lib p = None
           then setNetworkBootOpts lib ot (setDefaults h) ctx p n q else q)"
  by (simp only: updateMsg_def Let_def law_reply(1)[OF assms] apply_append_if plain_reply_def
      setDHCPOpts_setDefaults setDefaults_simps)

lemma updateMsg_lease_reply:
  assumes "dhcpv4_laws lib"
  shows "\<exists>r. updateMsg lib ot h ctx p d n mt = Some r \<and> lease_reply lib h d p mt r"
proof -
  let ?r = "let q = plain_reply lib h p d mt in
     if Enabled (res_Netboot h) \<and> IsNetbootClient lib p = None
     then setNetworkBootOpts lib ot (setDefaults h) ctx p n q else q"
  have opts: "c \<noteq> OptionVendorSpecificInformation \<Longrightarrow> c \<noteq> OptionClassIdentifier \<Longrightarrow>
      Options ?r c = (case reply_option lib h d mt c of Some v \<Rightarrow> Some v | None \<Rightarrow> Options (base_reply lib p) c)" for c
    unfolding Let_def by (subst if_netboot_frame(1)[OF assms]) (assumption+, rule plain_reply_Options[OF assms])
  have "lib_MessageType lib ?r = mt"
    by (rule law_MessageType[OF assms], subst opts) (simp_all add: reply_option_def)
  moreover have "OpCode ?r = reply_OpCode p \<and> TransactionID ?r = TransactionID p \<and>
      ClientHWAddr ?r = ClientHWAddr p \<and> YourIPAddr ?r = AsSlice (IPAddress d)"
    unfolding Let_def by (simp only: if_netboot_frame[OF assms] plain_reply_headers[OF assms] simp_thms)
  ultimately have "lease_reply lib h d p mt ?r"
    unfolding lease_reply_def using opts by blast
  with updateMsg_plain[OF assms] show ?thesis by (intro exI conjI)
qed

lemma lease_reply_setDefaults [simp]: "lease_reply lib (setDefaults h) = lease_reply lib h"
  by (intro ext) (simp add: lease_reply_def reply_option_def)

section \<open>The boot file and the next server of the reply\<close>

lemma updateMsg_not_netboot:
  assumes "dhcpv4_laws lib" "updateMsg lib ot h ctx p d n mt = Some r"
    and "\<not> (Enabled (res_Netboot h) \<and> netboot_client lib p)"
  shows "r = plain_reply lib h p d mt"
  using assms by (auto simp: updateMsg_plain[OF assms(1)] IsNetbootClient_iff[OF assms(1)])

lemma updateMsg_netboot:
  assumes "dhcpv4_laws lib" "updateMsg lib ot h ctx p d n mt = Some r"
    and "Enabled (res_Netboot h)" "netboot_client lib p"
  shows "r = setNetworkBootOpts lib ot (setDefaults h) ctx p n (plain_reply lib h p d mt)"
  using assms by (auto simp: updateMsg_plain[OF assms(1)] IsNetbootClient_iff[OF assms(1)])

lemma setNetworkBootOpts_refused:
  assumes "dhcpv4_laws lib" "\<not> AllowNetboot n \<or> Info_IPXEBinary (NewInfo lib (Some m)) = []"
  shows "BootFileName (setNetworkBootOpts lib ot h ctx m n q) = ''/netboot-not-allowed''"
    and "ServerIPAddr (setNetworkBootOpts lib ot h ctx m n q) = IPv4zero"
    and "Options (setNetworkBootOpts lib ot h ctx m n q) OptionVendorSpecificInformation =
      Options q OptionVendorSpecificInformation"
  using assms(2)
  by (auto simp: setNetworkBootOpts_def Let_def dhcpv4_law[OF assms(1)] split: option.split prod.split)

lemma bootfileAndNextServer_setDefaults [simp]:
  "bootfileAndNextServer lib ot (setDefaults h) = bootfileAndNextServer lib ot h"
  by (intro ext) (simp add: bootfileAndNextServer_def)

lemma setNetworkBootOpts_allowed:
  assumes "dhcpv4_laws lib" "AllowNetboot n" "Info_IPXEBinary (NewInfo lib (Some m)) \<noteq> []"
  shows "BootFileName (setNetworkBootOpts lib ot h ctx m n q) =
      fst (bootfileAndNextServer lib ot h ctx m (UserClass (res_Netboot h)) (IPXEBinServerTFTP (res_Netboot h))
        (IPXEBinServerHTTP (res_Netboot h)) (script_for (res_Netboot h) n m))"
    and "ServerIPAddr (setNetworkBootOpts lib ot h ctx m n q) =
      snd (bootfileAndNextServer lib ot h ctx m (UserClass (res_Netboot h)) (IPXEBinServerTFTP (res_Netboot h))
        (IPXEBinServerHTTP (res_Netboot h)) (script_for (res_Netboot h) n m))"
    and "Options (setNetworkBootOpts lib ot h ctx m n q) OptionVendorSpecificInformation =
      Some (Some (AddRPIOpt43 lib (NewInfo lib (Some m))
        [6 \<mapsto> Some [CHR 0x08], 69 \<mapsto> Some (TraceparentFromContext ot ctx)]))"
  using assms(2,3)
  by (auto simp: setNetworkBootOpts_def Let_def dhcpv4_law[OF assms(1)] split: option.split prod.split)

text \<open>A machine already in Tinkerbell's iPXE gets its script and never another binary, traced or not.\<close>

lemma bootfile_script:
  assumes "UserClassFrom lib (NewInfo lib (Some p)) = Tinkerbell"
  shows "fst (bootfileAndNextServer lib ot h ctx p uc tftp http script) =
     (case script of None \<Rightarrow> ''/no-ipxe-script-defined'' | Some u \<Rightarrow> URL_String u)"
  using assms by (simp add: bootfileAndNextServer_def Let_def Bootfile_script NewInfo_derived)

section \<open>When a reply is sent\<close>

lemma reserve_found:
  assumes "GetByMac (backend_of h) (slice_bytes (ClientHWAddr p)) = Ret (Inr (Some d, Some n))" "\<not> Disabled d"
  obtains es where "reserve lib ot h ctx p mt = Ret (Inr (es, updateMsg lib ot h ctx p d n mt))" "sends es = []"
  using assms by (simp add: reserve_def readBackend_unfold)

lemma reserve_refused:
  assumes "(\<exists>e. GetByMac (backend_of h) (slice_bytes (ClientHWAddr p)) = Ret (Inl e)) \<or>
      (\<exists>d n. GetByMac (backend_of h) (slice_bytes (ClientHWAddr p)) = Ret (Inr (Some d, Some n)) \<and> Disabled d)"
  shows "\<exists>es. reserve lib ot h ctx p mt = Ret (Inl es)"
  using assms by (auto simp: reserve_def readBackend_unfold)

text \<open>The type of the answer to a message.\<close>

definition answer_type :: "u8 \<Rightarrow> u8" where
  "answer_type mt = (if mt = MessageTypeDiscover then MessageTypeOffer else MessageTypeAck)"

lemma choose_reply_unfold:
  "choose_reply lib ot h ctx p =
     (if lib_MessageType lib p \<in> {MessageTypeDiscover, MessageTypeRequest}
      then reserve lib ot h ctx p (answer_type (lib_MessageType lib p))
      else Ret (Inl [if lib_MessageType lib p = MessageTypeRelease
                     then SetStatus Code_Ok ''received release, no response required''
                     else SetStatus Code_Error ''received unknown message type'']))"
  by (simp add: choose_reply_def answer_type_def Let_def)

lemma reservation_Handle_usable:
  assumes "Pkt dp = Some p" "Peer dp = UDPPeer (Some u)" "cn = Some c"
  obtains ctx' pre where "sends pre = []"
    "reservation_Handle lib ot h ctx cn dp = go_map (\<lambda>es. pre @ es @ [EndSpan])
       (go_bind (choose_reply lib ot (setDefaults h) ctx' p) (\<lambda>r.
          case r of Inl es \<Rightarrow> Ret es
          | Inr (es, reply) \<Rightarrow> go_map (\<lambda>fs. es @ fs) (send_reply lib c dp p reply)))"
proof -
  let ?name = "''DHCP Packet Received: '' @ lib_MessageType_String lib (lib_MessageType lib p)"
  let ?attrs = "reservation_encodeToAttributes lib p ''request'' @
      [(''DHCP.peer'', AString (net_addr_String (Peer dp))), (''DHCP.server.ifname'', AString (md_IfName dp))]"
  show thesis
    by (rule that[of "[StartSpan ?name ?attrs]" "otel_Start ot ctx ?name ?attrs"])
      (simp_all add: reservation_Handle_def Let_def assms)
qed

lemma send_reply_Some:
  "\<exists>fs. send_reply lib c dp p (Some r) = Ret fs \<and>
     sends fs = [(lib_ToBytes lib r, cm_IfIndex dp, reply_address (Peer dp) (GatewayIPAddr p))]"
  by (simp add: send_reply_def Let_def replyDestination_reply_address split: option.split)

text \<open>A usable discover or request from a machine with an enabled reservation is answered.\<close>

lemma Handle_found:
  assumes "dhcpv4_laws lib" "Pkt dp = Some p" "Peer dp = UDPPeer (Some u)" "cn = Some c"
    and "lib_MessageType lib p \<in> {MessageTypeDiscover, MessageTypeRequest}"
    and "GetByMac (backend_of h) (slice_bytes (ClientHWAddr p)) = Ret (Inr (Some d, Some n))" "\<not> Disabled d"
  shows "\<exists>es r ctx'. reservation_Handle lib ot h ctx cn dp = Ret es \<and>
     updateMsg lib ot (setDefaults h) ctx' p d n (answer_type (lib_MessageType lib p)) = Some r \<and>
     lease_reply lib h d p (answer_type (lib_MessageType lib p)) r \<and>
     sends es = [(lib_ToBytes lib r, cm_IfIndex dp, reply_address (Peer dp) (GatewayIPAddr p))]"
proof -
  obtain ctx' pre where pre: "sends pre = []" and H: "reservation_Handle lib ot h ctx cn dp = go_map (\<lambda>es. pre @ es @ [EndSpan])
       (go_bind (choose_reply lib ot (setDefaults h) ctx' p) (\<lambda>r.
          case r of Inl es \<Rightarrow> Ret es
          | Inr (es, reply) \<Rightarrow> go_map (\<lambda>fs. es @ fs) (send_reply lib c dp p reply)))"
    by (rule reservation_Handle_usable[OF assms(2-4)])
  obtain es where es: "reserve lib ot (setDefaults h) ctx' p (answer_type (lib_MessageType lib p)) =
      Ret (Inr (es, updateMsg lib ot (setDefaults h) ctx' p d n (answer_type (lib_MessageType lib p))))" "sends es = []"
    using assms(6,7) by (auto intro: reserve_found[of "setDefaults h" p d n lib ot ctx' "answer_type (lib_MessageType lib p)"])
  obtain r where r: "updateMsg lib ot (setDefaults h) ctx' p d n (answer_type (lib_MessageType lib p)) = Some r"
      "lease_reply lib h d p (answer_type (lib_MessageType lib p)) r"
    using updateMsg_lease_reply[OF assms(1), of ot "setDefaults h" ctx' p d n] by auto
  obtain fs where fs: "send_reply lib c dp p (Some r) = Ret fs"
      "sends fs = [(lib_ToBytes lib r, cm_IfIndex dp, reply_address (Peer dp) (GatewayIPAddr p))]"
    using send_reply_Some[of lib c dp p r] by blast
  have "reservation_Handle lib ot h ctx cn dp = Ret (pre @ (es @ fs) @ [EndSpan])"
    using assms(5) es r fs by (simp add: H choose_reply_unfold)
  with pre es(2) fs(2) r show ?thesis by (auto intro!: exI[of _ r] exI[of _ ctx'])
qed

lemma Handle_refused:
  assumes "Pkt dp = Some p" "Peer dp = UDPPeer (Some u)" "cn = Some c"
    and "lib_MessageType lib p \<in> {MessageTypeDiscover, MessageTypeRequest} \<Longrightarrow>
      (\<exists>e. GetByMac (backend_of h) (slice_bytes (ClientHWAddr p)) = Ret (Inl e)) \<or>
      (\<exists>d n. GetByMac (backend_of h) (slice_bytes (ClientHWAddr p)) = Ret (Inr (Some d, Some n)) \<and> Disabled d)"
  shows "\<exists>es. reservation_Handle lib ot h ctx cn dp = Ret es \<and> sends es = []"
proof -
  obtain ctx' pre where pre: "sends pre = []" and H: "reservation_Handle lib ot h ctx cn dp = go_map (\<lambda>es. pre @ es @ [EndSpan])
       (go_bind (choose_reply lib ot (setDefaults h) ctx' p) (\<lambda>r.
          case r of Inl es \<Rightarrow> Ret es
          | Inr (es, reply) \<Rightarrow> go_map (\<lambda>fs. es @ fs) (send_reply lib c dp p reply)))"
    by (rule reservation_Handle_usable[OF assms(1-3)])
  have "\<exists>es. choose_reply lib ot (setDefaults h) ctx' p = Ret (Inl es)"
    using assms(4) reserve_refused[of "setDefaults h" p]
    by (cases "lib_MessageType lib p \<in> {MessageTypeDiscover, MessageTypeRequest}")
      (auto simp: choose_reply_unfold)
  then obtain es where es: "choose_reply lib ot (setDefaults h) ctx' p = Ret (Inl es)" ..
  with pre choose_reply_silent(1)[OF es] show ?thesis by (simp add: H)
qed

section \<open>Properties\<close>

text \<open>
  The handler does not look at the op code. A packet that says it is a reply, with a message type and a hardware address
  it knows, is answered too, by a packet that says it is a request.
\<close>

lemma boot_reply_answered:
  assumes "dhcpv4_laws lib" "Pkt dp = Some p" "Peer dp = UDPPeer (Some u)" "cn = Some c"
    and "lib_MessageType lib p \<in> {MessageTypeDiscover, MessageTypeRequest}"
    and "GetByMac (backend_of h) (slice_bytes (ClientHWAddr p)) = Ret (Inr (Some d, Some n))" "\<not> Disabled d"
    and "OpCode p = OpcodeBootReply"
  shows "\<exists>es r. reservation_Handle lib ot h ctx cn dp = Ret es \<and> OpCode r = OpcodeBootRequest \<and>
     sends es = [(lib_ToBytes lib r, cm_IfIndex dp, reply_address (Peer dp) (GatewayIPAddr p))]"
  using Handle_found[OF assms(1-7), where ot = ot and ctx = ctx] assms(8)
  by (fastforce simp: lease_reply_def reply_OpCode_def)

text \<open>
  C1. A machine with an enabled reservation that sends a discover or a request is answered with exactly
  one datagram, at the address the protocol prescribes: an offer or an acknowledgement with the
  client's transaction id and hardware address, the reserved address as \<open>yiaddr\<close>, and for every option
  other than 43 and 60 the value the reservation and the configuration determine. The op code is that of a
  reply when the packet's is that of a request; the handler does not check it, and answers any other op code
  with the one of a request.
\<close>

theorem reservation_leases:
  assumes "dhcpv4_laws lib" "Pkt dp = Some p" "Peer dp = UDPPeer (Some u)" "cn = Some c"
    and "lib_MessageType lib p \<in> {MessageTypeDiscover, MessageTypeRequest}"
    and "GetByMac (backend_of h) (slice_bytes (ClientHWAddr p)) = Ret (Inr (Some d, Some n))" "\<not> Disabled d"
  shows "\<exists>es r. reservation_Handle lib ot h ctx cn dp = Ret es \<and>
     lease_reply lib h d p (answer_type (lib_MessageType lib p)) r \<and>
     sends es = [(lib_ToBytes lib r, cm_IfIndex dp, reply_address (Peer dp) (GatewayIPAddr p))]"
proof -
  from Handle_found[OF assms, where ot = ot and ctx = ctx] obtain es r where
    "reservation_Handle lib ot h ctx cn dp = Ret es" "lease_reply lib h d p (answer_type (lib_MessageType lib p)) r"
    "sends es = [(lib_ToBytes lib r, cm_IfIndex dp, reply_address (Peer dp) (GatewayIPAddr p))]" by metis
  then show ?thesis by metis
qed

text \<open>
  C2. With a backend that keeps its contract and does not panic, the handler never panics, and it sends
  a reply exactly when it has a UDP peer and a connection, the message is a discover or a request, and
  the backend knows the hardware address and has not disabled DHCP for it.
\<close>

theorem reservation_answers_iff:
  assumes "dhcpv4_laws lib" "backend_reader (backend_of h)" "Pkt dp = Some p"
    and "GetByMac (backend_of h) (slice_bytes (ClientHWAddr p)) = Ret res"
  shows "\<exists>es. reservation_Handle lib ot h ctx cn dp = Ret es \<and>
     (sends es \<noteq> [] \<longleftrightarrow>
        (\<exists>u. Peer dp = UDPPeer (Some u)) \<and> cn \<noteq> None \<and>
        lib_MessageType lib p \<in> {MessageTypeDiscover, MessageTypeRequest} \<and>
        (\<exists>d n. res = Inr (Some d, n) \<and> \<not> Disabled d))"
proof (cases "(\<exists>u. Peer dp = UDPPeer (Some u)) \<and> cn \<noteq> None")
  case False
  then have "reservation_Handle lib ot h ctx cn dp = Ret []" by (intro res.unusable) auto
  with False show ?thesis by auto
next
  case True
  then obtain u c where uc: "Peer dp = UDPPeer (Some u)" "cn = Some c" by auto
  note found = backend_reader.mac_both[OF assms(2)]
  show ?thesis
  proof (cases "lib_MessageType lib p \<in> {MessageTypeDiscover, MessageTypeRequest} \<and> (\<exists>d n. res = Inr (Some d, n) \<and> \<not> Disabled d)")
    case True
    then obtain d n where d: "res = Inr (Some d, n)" "\<not> Disabled d" by blast
    with found assms(4) obtain n' where "n = Some n'" by blast
    with Handle_found[OF assms(1,3) uc _ _ d(2)] assms(4) d(1) True uc show ?thesis by fastforce
  next
    case False
    have "\<exists>es. reservation_Handle lib ot h ctx cn dp = Ret es \<and> sends es = []"
      using False found assms(4) by (intro Handle_refused[OF assms(3) uc]) (cases res; fastforce)
    with False show ?thesis by blast
  qed
qed

text \<open>
  C3. The boot file, the next server and the PXE options of the reply. Without netboot, or for a client
  that does not satisfy the conditions of a network boot client, they are left as they were. A network
  boot client that may not boot, or whose architecture is unknown, is sent to \<open>/netboot-not-allowed\<close> at
  0.0.0.0 without PXE options. Any other gets the computed boot file and next server, and the PXE options.
\<close>

theorem reservation_boot_header:
  assumes "dhcpv4_laws lib" "updateMsg lib ot h ctx p d n mt = Some r"
  shows "(BootFileName r, ServerIPAddr r, Options r OptionVendorSpecificInformation) =
     (if \<not> (Enabled (res_Netboot h) \<and> netboot_client lib p) then
        (BootFileName (base_reply lib p), AsSlice (res_IPAddr h),
         Options (base_reply lib p) OptionVendorSpecificInformation)
      else if \<not> AllowNetboot n \<or> ArchToBootFile (Arch lib p) = None then
        (''/netboot-not-allowed'', IPv4zero, Options (base_reply lib p) OptionVendorSpecificInformation)
      else
        (case bootfileAndNextServer lib ot h ctx p (UserClass (res_Netboot h)) (IPXEBinServerTFTP (res_Netboot h))
            (IPXEBinServerHTTP (res_Netboot h)) (script_for (res_Netboot h) n p) of
          (bf, ns) \<Rightarrow> (bf, ns, Some (Some (AddRPIOpt43 lib (NewInfo lib (Some p))
            [6 \<mapsto> Some [CHR 0x08], 69 \<mapsto> Some (TraceparentFromContext ot ctx)])))))"
proof (cases "Enabled (res_Netboot h) \<and> netboot_client lib p")
  case False
  with updateMsg_not_netboot[OF assms] show ?thesis
    by (simp add: plain_reply_headers[OF assms(1)] plain_reply_Options[OF assms(1)] reply_option_def)
next
  case True
  with updateMsg_netboot[OF assms]
  have r: "r = setNetworkBootOpts lib ot (setDefaults h) ctx p n (plain_reply lib h p d mt)" by blast
  show ?thesis
  proof (cases "\<not> AllowNetboot n \<or> ArchToBootFile (Arch lib p) = None")
    case not_allowed: True
    then have "\<not> AllowNetboot n \<or> Info_IPXEBinary (NewInfo lib (Some p)) = []" by (auto simp: IPXEBinary_Nil)
    note refused = setNetworkBootOpts_refused[OF assms(1) this]
    from not_allowed True show ?thesis
      by (simp add: r refused plain_reply_Options[OF assms(1)] reply_option_def)
  next
    case False
    then have "AllowNetboot n" "Info_IPXEBinary (NewInfo lib (Some p)) \<noteq> []" by (auto simp: IPXEBinary_Nil)
    note allowed = setNetworkBootOpts_allowed[OF assms(1) this]
    from False True show ?thesis
      by (auto simp add: r allowed split: prod.split)
  qed
qed

text \<open>
  C4. No boot loop: once a machine runs Tinkerbell's iPXE (it sends the user class \<open>Tinkerbell\<close>), the boot
  file of every reply it may boot from is the URL of its script, never a binary, with or without trace
  information in the names of binaries.
\<close>

theorem reservation_no_boot_loop:
  assumes "dhcpv4_laws lib" "updateMsg lib ot h ctx p d n mt = Some r"
    and "Enabled (res_Netboot h)" "netboot_client lib p" "AllowNetboot n" "ArchToBootFile (Arch lib p) \<noteq> None"
    and "Options p OptionUserClassInformation = Some (Some ''Tinkerbell'')" "script_for (res_Netboot h) n p = Some u"
  shows "BootFileName r = URL_String u"
proof -
  have uc: "UserClassFrom lib (NewInfo lib (Some p)) = Tinkerbell"
    using assms(7) by (simp add: UserClassFrom_def dhcpv4_law[OF assms(1)] Tinkerbell_def)
  have bin: "Info_IPXEBinary (NewInfo lib (Some p)) \<noteq> []" using assms(6) by (auto simp: IPXEBinary_Nil)
  have "BootFileName r = fst (bootfileAndNextServer lib ot (setDefaults h) ctx p (UserClass (res_Netboot h))
      (IPXEBinServerTFTP (res_Netboot h)) (IPXEBinServerHTTP (res_Netboot h)) (script_for (res_Netboot h) n p))"
    using updateMsg_netboot[OF assms(1-4)] by (simp add: setNetworkBootOpts_allowed(1)[OF assms(1,5) bin])
  with assms(8) show ?thesis by (simp add: bootfile_script[OF uc])
qed

section \<open>A concrete exchange\<close>

text \<open>A backend that knows one machine, and a handler that serves it.\<close>

definition sample_dhcp :: data_DHCP where
  "sample_dhcp = new_DHCP\<lparr>MACAddress := Some sample_mac, IPAddress := Addr4 ''abcd'', HostName := ''worker'',
     LeaseTime := 3600\<rparr>"

definition sample_netboot :: data_Netboot where
  "sample_netboot = new_Netboot\<lparr>AllowNetboot := True\<rparr>"

definition sample_backend :: BackendReader where
  "sample_backend =
     \<lparr>GetByMac = (\<lambda>m. if m = sample_mac then Ret (Inr (Some sample_dhcp, Some sample_netboot)) else Ret (Inl HardwareNotFoundError)),
      GetByIP = (\<lambda>ip. Ret (Inl HardwareNotFoundError))\<rparr>"

definition sample_script :: URL where
  "sample_script = empty_URL\<lparr>Scheme := ''http'', Host := ''192.168.2.3'', Path := ''/auto.ipxe''\<rparr>"

definition sample_handler :: reservation_Handler where
  "sample_handler = \<lparr>res_Backend = Some sample_backend, res_IPAddr = Addr4 ''wxyz'',
     res_Netboot = \<lparr>IPXEBinServerTFTP = (Addr4 ''wxyz'', 69), IPXEBinServerHTTP = None,
       ScriptURL = Some (\<lambda>p. Some sample_script), Enabled = True, UserClass = []\<rparr>,
     res_OTELEnabled = True, res_SyslogAddr = AddrZero\<rparr>"

definition sample_packet :: Packet where
  "sample_packet = \<lparr>Peer = UDPPeer (Some \<lparr>UDP_IP = IPv4bcast, UDP_Port = 68, UDP_Zone = []\<rparr>),
     Pkt = Some sample_discover, Md = Some \<lparr>IfName = ''eth0'', IfIndex = 2\<rparr>\<rparr>"

definition sample_conn :: conn where
  "sample_conn b i dst = None"

lemma sample_backend_reader: "backend_reader sample_backend"
  by unfold_locales (auto simp: sample_backend_def sample_dhcp_def new_DHCP_def split: if_splits)

lemma sample_handler_found:
  "GetByMac (backend_of sample_handler) (slice_bytes (ClientHWAddr sample_discover)) =
     Ret (Inr (Some sample_dhcp, Some sample_netboot))"
  by (simp add: sample_handler_def backend_of_def sample_backend_def sample_discover_def)

lemma sample_packet_simps [simp]:
  "Pkt sample_packet = Some sample_discover"
  "Peer sample_packet = UDPPeer (Some \<lparr>UDP_IP = IPv4bcast, UDP_Port = 68, UDP_Zone = []\<rparr>)"
  by (simp_all add: sample_packet_def)

lemma sample_dhcp_enabled [simp]: "\<not> Disabled sample_dhcp"
  by (simp add: sample_dhcp_def new_DHCP_def)

theorem reservation_leases_witness:
  "\<exists>es r. reservation_Handle sample_lib noop_otel sample_handler () (Some sample_conn) sample_packet = Ret es \<and>
     lease_reply sample_lib sample_handler sample_dhcp sample_discover (answer_type (lib_MessageType sample_lib sample_discover)) r \<and>
     sends es = [(lib_ToBytes sample_lib r, cm_IfIndex sample_packet,
       reply_address (Peer sample_packet) (GatewayIPAddr sample_discover))]"
  by (rule reservation_leases[OF sample_laws _ _ refl _ sample_handler_found])
    (simp_all add: sample_discover_type)

theorem reservation_answers_iff_witness:
  "\<exists>es. reservation_Handle sample_lib noop_otel sample_handler () (Some sample_conn) sample_packet = Ret es \<and> sends es \<noteq> []"
proof -
  have "backend_reader (backend_of sample_handler)"
    using sample_backend_reader by (simp add: sample_handler_def backend_of_def)
  from reservation_answers_iff[OF sample_laws this sample_packet_simps(1) sample_handler_found,
      of noop_otel "()" "Some sample_conn"]
  show ?thesis by (auto simp: sample_discover_type)
qed

lemma sample_reply_ex:
  "\<exists>r. updateMsg sample_lib noop_otel sample_handler () sample_discover sample_dhcp n MessageTypeOffer = Some r"
  using updateMsg_lease_reply[OF sample_laws, of noop_otel sample_handler "()" sample_discover sample_dhcp n MessageTypeOffer]
  by metis

theorem reservation_boot_header_witness:
  "\<exists>r. updateMsg sample_lib noop_otel sample_handler () sample_discover sample_dhcp new_Netboot MessageTypeOffer = Some r \<and>
     BootFileName r = ''/netboot-not-allowed'' \<and> ServerIPAddr r = IPv4zero"
proof -
  obtain r where r: "updateMsg sample_lib noop_otel sample_handler () sample_discover sample_dhcp new_Netboot MessageTypeOffer = Some r"
    using sample_reply_ex by metis
  have "Enabled (res_Netboot sample_handler)" by (simp add: sample_handler_def)
  then show ?thesis
    using reservation_boot_header[OF sample_laws r] sample_discover_netboot r by (simp add: new_Netboot_def)
qed

theorem reservation_no_boot_loop_witness:
  "\<exists>r. updateMsg sample_lib noop_otel sample_handler () sample_discover sample_dhcp sample_netboot MessageTypeOffer = Some r \<and>
     BootFileName r = URL_String sample_script"
proof -
  obtain r where r: "updateMsg sample_lib noop_otel sample_handler () sample_discover sample_dhcp sample_netboot MessageTypeOffer = Some r"
    using sample_reply_ex by metis
  have "BootFileName r = URL_String sample_script"
    by (rule reservation_no_boot_loop[OF sample_laws r _ sample_discover_netboot _ sample_discover_binary sample_discover_user])
      (simp_all add: sample_handler_def sample_netboot_def new_Netboot_def script_for_def)
  with r show ?thesis by blast
qed

end
