(* ===== verification/DHCP_Proxy.thy ===== *)
theory DHCP_Proxy
  imports DHCP_Handler
begin

text \<open>
  \<open>internal/dhcp/handler/proxy/proxy.go\<close>: the proxyDHCP handler, which answers network boot clients
  with boot information only. The lemmas say when it answers, and that no answer hands out an
  address or any other option of a DHCP server.
\<close>

section \<open>Definitions\<close>

record proxy_Handler =
  prx_Backend :: "BackendReader option"
  prx_IPAddr :: Addr
  prx_Netboot :: handler_Netboot
  prx_OTELEnabled :: bool
  prx_AutoProxyEnabled :: bool

record IgnorePacketError =
  PacketType :: u8
  Details :: string

definition IgnorePacketError_Error :: "dhcpv4_lib \<Rightarrow> IgnorePacketError \<Rightarrow> string" where
  "IgnorePacketError_Error lib e =
     ''Ignoring packet: message type '' @ lib_MessageType_String lib (PacketType e) @ '': details '' @ Details e"

text \<open>A nil reply panics when it is updated.\<close>

definition setMessageType :: "dhcpv4_lib \<Rightarrow> dhcpv4 option \<Rightarrow> u8 \<Rightarrow> (IgnorePacketError + dhcpv4) go" where
  "setMessageType lib reply reqMsg =
     (if reqMsg = MessageTypeDiscover then
        (case reply of None \<Rightarrow> Panic ''nil pointer dereference''
         | Some r \<Rightarrow> Ret (Inr (lib_UpdateOption lib r (lib_OptMessageType lib MessageTypeOffer))))
      else if reqMsg = MessageTypeRequest then
        (case reply of None \<Rightarrow> Panic ''nil pointer dereference''
         | Some r \<Rightarrow> Ret (Inr (lib_UpdateOption lib r (lib_OptMessageType lib MessageTypeAck))))
      else Ret (Inl \<lparr>PacketType = reqMsg, Details = ''proxyDHCP only responds to Discover or Request message types''\<rparr>))"

definition proxy_replyDestination :: "net_addr \<Rightarrow> slice \<Rightarrow> net_addr" where
  "proxy_replyDestination directPeer giaddr =
     (if \<not> IsUnspecified giaddr \<and> giaddr \<noteq> None
      then UDPPeer (Some \<lparr>UDP_IP = giaddr, UDP_Port = ServerPort, UDP_Zone = []\<rparr>)
      else directPeer)"

definition proxy_encodeToAttributes :: "dhcpv4_lib \<Rightarrow> dhcpv4 \<Rightarrow> string \<Rightarrow> KeyValue list" where
  "proxy_encodeToAttributes lib d ns = Encode (Some d) ns (AllEncoders lib)"

text \<open>The updates of the reply between the checks of the client and the look into the backend.\<close>

definition boot_reply :: "dhcpv4_lib \<Rightarrow> proxy_Handler \<Rightarrow> Info \<Rightarrow> (dhcpv4 \<Rightarrow> URL option) \<Rightarrow> dhcpv4 \<Rightarrow> dhcpv4 \<Rightarrow> dhcpv4" where
  "boot_reply lib h i scriptURL pkt reply =
     (let nb = prx_Netboot h;
          opts = [6 \<mapsto> Some [CHR 0x08]];
          reply = lib_UpdateOption lib reply
            (lib_OptGeneric lib OptionVendorSpecificInformation (Some (AddRPIOpt43 lib i opts)));
          reply = lib_UpdateOption lib reply (lib_OptClassIdentifier lib (ClientTypeFrom lib i));
          ns = NextServer i (IPXEBinServerHTTP nb) (IPXEBinServerTFTP nb);
          reply = lib_UpdateOption lib reply (lib_OptServerIdentifier lib ns);
          reply = reply\<lparr>ServerIPAddr := ns\<rparr>;
          reply = reply\<lparr>ServerHostName := IP_String ns\<rparr>
      in reply\<lparr>BootFileName := Bootfile i [] (scriptURL pkt) (IPXEBinServerHTTP nb) (IPXEBinServerTFTP nb)\<rparr>)"

text \<open>The look into the backend: true if the packet is to be ignored.\<close>

definition backend_refuses :: "proxy_Handler \<Rightarrow> slice \<Rightarrow> bool go" where
  "backend_refuses h mac =
     (if prx_AutoProxyEnabled h then Ret False
      else case prx_Backend h of None \<Rightarrow> Panic ''nil pointer dereference''
      | Some be \<Rightarrow> go_bind (GetByMac be (slice_bytes mac)) (\<lambda>r.
          Ret (case r of Inl err \<Rightarrow> True
               | Inr (d, n) \<Rightarrow> (case n of None \<Rightarrow> False | Some nb \<Rightarrow> \<not> AllowNetboot nb))))"

text \<open>What the handler does inside its span: an effect list that ends where the code returns.\<close>

definition proxy_respond :: "dhcpv4_lib \<Rightarrow> proxy_Handler \<Rightarrow> conn \<Rightarrow> Packet \<Rightarrow> dhcpv4 \<Rightarrow> effect list go" where
  "proxy_respond lib h cn dp pkt =
     (let reply = lib_NewReplyFromRequest lib pkt [] in
      if OpCode pkt \<noteq> OpcodeBootRequest then Ret [SetStatus Code_Ok ''Ignoring packet: OpCode not BootRequest'']
      else go_bind (setMessageType lib reply (lib_MessageType lib pkt)) (\<lambda>r.
        case r of
          Inl err \<Rightarrow> Ret [SetStatus Code_Ok (IgnorePacketError_Error lib err)]
        | Inr reply \<Rightarrow>
          (let reply = lib_UpdateOption lib reply (lib_OptGeneric lib OptionClientMachineIdentifier
                         (lib_GetOneOption lib pkt OptionClientMachineIdentifier));
               i = NewInfo lib (Some pkt)
           in if \<not> Enabled (prx_Netboot h) then Ret [SetStatus Code_Ok ''Ignoring packet: netboot is not enabled'']
           else case Info_IsNetbootClient i of
             Some err \<Rightarrow> Ret [SetStatus Code_Ok (''Ignoring packet: not from a PXE enabled client: '' @ Error_text err)]
           | None \<Rightarrow>
             if Info_IPXEBinary i = [] then
               Ret [SetStatus Code_Ok ''Ignoring packet: no iPXE binary was able to be determined'']
             else case ScriptURL (prx_Netboot h) of None \<Rightarrow> Panic ''nil function call''
             | Some scriptURL \<Rightarrow>
               (let reply = boot_reply lib h i scriptURL pkt reply in
                go_bind (backend_refuses h (ClientHWAddr pkt)) (\<lambda>refused.
                  if refused then Ret [SetStatus Code_Ok ''netboot not allowed'']
                  else
                    (let dst = proxy_replyDestination (Peer dp) (GatewayIPAddr pkt);
                         b = lib_ToBytes lib reply;
                         ix = cm_IfIndex dp
                     in Ret (WriteTo b ix dst #
                          (case cn b ix dst of
                             Some err \<Rightarrow> [SetStatus Code_Error (Error_text err)]
                           | None \<Rightarrow> [SetAttributes (proxy_encodeToAttributes lib reply ''reply''),
                                      SetStatus Code_Ok ''sent DHCP response'']))))))))"

definition proxy_Handle :: "dhcpv4_lib \<Rightarrow> 'c otel_lib \<Rightarrow> proxy_Handler \<Rightarrow> 'c handle" where
  "proxy_Handle lib ot h ctx cn dp =
     (case Pkt dp of None \<Rightarrow> Ret []
      | Some pkt \<Rightarrow>
      (case Peer dp of OtherAddr _ \<Rightarrow> Ret [] | UDPPeer None \<Rightarrow> Ret []
       | UDPPeer (Some upeer) \<Rightarrow>
       (case cn of None \<Rightarrow> Ret []
        | Some c \<Rightarrow>
          (let ifName = md_IfName dp;
               name = ''DHCP Packet Received: '' @ lib_MessageType_String lib (lib_MessageType lib pkt);
               attrs = proxy_encodeToAttributes lib pkt ''request'' @
                 [(''DHCP.peer'', AString (net_addr_String (Peer dp))), (''DHCP.server.ifname'', AString ifName)]
           in go_map (\<lambda>es. StartSpan name attrs # es @ [EndSpan]) (proxy_respond lib h c dp pkt)))))"

section \<open>The checks\<close>

lemma proxy_replyDestination_reply_address: "proxy_replyDestination peer giaddr = reply_address peer giaddr"
  by (auto simp: proxy_replyDestination_def reply_address_def IsUnspecified_iff)

text \<open>The conditions of the handler's checks before it looks into the backend.\<close>

definition proxy_eligible :: "dhcpv4_lib \<Rightarrow> proxy_Handler \<Rightarrow> dhcpv4 \<Rightarrow> bool" where
  "proxy_eligible lib h p \<longleftrightarrow>
     OpCode p = OpcodeBootRequest \<and> Enabled (prx_Netboot h) \<and> netboot_client lib p \<and>
     ArchToBootFile (Arch lib p) \<noteq> None"

text \<open>The reply to an eligible client.\<close>

definition proxy_reply :: "dhcpv4_lib \<Rightarrow> proxy_Handler \<Rightarrow> (dhcpv4 \<Rightarrow> URL option) \<Rightarrow> dhcpv4 \<Rightarrow> dhcpv4" where
  "proxy_reply lib h scriptURL p =
     boot_reply lib h (NewInfo lib (Some p)) scriptURL p
       (put_option OptionClientMachineIdentifier (lib_GetOneOption lib p OptionClientMachineIdentifier)
         (put_option OptionDHCPMessageType
           (snd (lib_OptMessageType lib (if lib_MessageType lib p = MessageTypeDiscover then MessageTypeOffer else MessageTypeAck)))
           (base_reply lib p)))"

lemma netboot_client_type: "netboot_client lib p \<Longrightarrow> lib_MessageType lib p \<in> {MessageTypeDiscover, MessageTypeRequest}"
  by (simp add: netboot_client_def)

lemma proxy_respond_ineligible:
  assumes "dhcpv4_laws lib" "\<not> proxy_eligible lib h p"
  shows "\<exists>es. proxy_respond lib h cn dp p = Ret es \<and> sends es = []"
proof -
  have netboot: "IsNetbootClient lib p = None \<longleftrightarrow> netboot_client lib p" by (rule IsNetbootClient_iff[OF assms(1)])
  show ?thesis
    using assms(2) netboot
    by (auto simp: proxy_respond_def proxy_eligible_def setMessageType_def dhcpv4_law[OF assms(1)] Let_def
        IPXEBinary_Nil split: option.split)
qed

lemma proxy_respond_eligible:
  assumes "dhcpv4_laws lib" "proxy_eligible lib h p" "ScriptURL (prx_Netboot h) = Some f"
  shows "proxy_respond lib h cn dp p =
     go_bind (backend_refuses h (ClientHWAddr p)) (\<lambda>refused.
       if refused then Ret [SetStatus Code_Ok ''netboot not allowed'']
       else let dst = reply_address (Peer dp) (GatewayIPAddr p); b = lib_ToBytes lib (proxy_reply lib h f p); ix = cm_IfIndex dp
         in Ret (WriteTo b ix dst #
            (case cn b ix dst of
               Some err \<Rightarrow> [SetStatus Code_Error (Error_text err)]
             | None \<Rightarrow> [SetAttributes (proxy_encodeToAttributes lib (proxy_reply lib h f p) ''reply''),
                        SetStatus Code_Ok ''sent DHCP response''])))"
proof -
  have "IsNetbootClient lib p = None" "lib_MessageType lib p \<in> {MessageTypeDiscover, MessageTypeRequest}"
    using assms(2) IsNetbootClient_iff[OF assms(1)] netboot_client_type by (auto simp: proxy_eligible_def)
  with assms(2,3) show ?thesis
    by (auto simp: proxy_respond_def proxy_eligible_def setMessageType_def law_option(1-3)[OF assms(1)] law_reply(1)[OF assms(1)]
        Let_def IPXEBinary_Nil proxy_reply_def proxy_replyDestination_reply_address cong: if_cong option.case_cong)
qed

section \<open>The contract of a handler\<close>

lemma proxy_respond_sends:
  assumes "proxy_respond lib h cn dp p = Ret es"
  shows "sends es = [] \<or>
     lib_MessageType lib p \<in> {MessageTypeDiscover, MessageTypeRequest} \<and>
     (\<exists>b. sends es = [(b, cm_IfIndex dp, reply_address (Peer dp) (GatewayIPAddr p))])"
  using assms
  by (auto simp: proxy_respond_def setMessageType_def Let_def proxy_replyDestination_reply_address
      elim!: go_bind_RetE split: if_splits option.splits)

interpretation prx: dhcp_handler lib "proxy_Handle lib ot h" for lib ot h
proof unfold_locales
  fix dp :: Packet and cn :: "conn option" and ctx
  assume "Pkt dp = None \<or> cn = None \<or> (\<forall>u. Peer dp \<noteq> UDPPeer (Some u))"
  then show "proxy_Handle lib ot h ctx cn dp = Ret []"
    by (auto simp: proxy_Handle_def split: option.split net_addr.split)
next
  fix ctx and cn :: "conn option" and dp es
  assume r: "proxy_Handle lib ot h ctx cn dp = Ret es"
  have inner: "es = [] \<or> (\<exists>p c fs. Pkt dp = Some p \<and> proxy_respond lib h c dp p = Ret fs \<and> sends es = sends fs)"
    using r by (auto simp: proxy_Handle_def Let_def split: option.splits net_addr.splits) blast
  then show "length (sends es) \<le> 1" by (auto dest!: proxy_respond_sends)
  fix b i dst p
  assume "(b, i, dst) \<in> set (sends es)" "Pkt dp = Some p"
  with inner show "lib_MessageType lib p \<in> {MessageTypeDiscover, MessageTypeRequest} \<and>
        dst = reply_address (Peer dp) (GatewayIPAddr p) \<and> i = cm_IfIndex dp"
    by (auto dest!: proxy_respond_sends)
qed

section \<open>The reply\<close>

lemma boot_reply_simps:
  assumes "dhcpv4_laws lib"
  shows "YourIPAddr (boot_reply lib h i f p q) = YourIPAddr q"
    and "TransactionID (boot_reply lib h i f p q) = TransactionID q"
    and "OpCode (boot_reply lib h i f p q) = OpCode q"
    and "c \<notin> {OptionVendorSpecificInformation, OptionClassIdentifier, OptionServerIdentifier} \<Longrightarrow>
      Options (boot_reply lib h i f p q) c = Options q c"
  by (simp_all add: boot_reply_def Let_def dhcpv4_law[OF assms])

text \<open>
  C5. Proxy DHCP never administers addresses: every datagram the proxy handler sends encodes a reply
  whose \<open>yiaddr\<close> is the one of the empty reply, which answers the client's transaction with an offer or
  an acknowledgement, and whose options are those of the empty reply but for the message type, the
  client's identifier, the class, the server identifier and the PXE options: in particular no lease
  time, mask, router or name server.
\<close>

theorem proxy_only_boots:
  assumes "dhcpv4_laws lib" "proxy_Handle lib ot h ctx cn dp = Ret es" "(b, i, dst) \<in> set (sends es)"
  shows "\<exists>p r. Pkt dp = Some p \<and> b = lib_ToBytes lib r \<and>
     YourIPAddr r = YourIPAddr (base_reply lib p) \<and> TransactionID r = TransactionID p \<and> OpCode r = OpcodeBootReply \<and>
     lib_MessageType lib r = (if lib_MessageType lib p = MessageTypeDiscover then MessageTypeOffer else MessageTypeAck) \<and>
     (\<forall>c. c \<notin> {OptionDHCPMessageType, OptionClientMachineIdentifier, OptionClassIdentifier,
                OptionServerIdentifier, OptionVendorSpecificInformation} \<longrightarrow>
        Options r c = Options (base_reply lib p) c)"
proof -
  from prx.sent_needs_packet[OF assms(2,3)] obtain p u where p: "Pkt dp = Some p" "Peer dp = UDPPeer (Some u)" "cn \<noteq> None"
    by metis
  then obtain c where c: "cn = Some c" by blast
  with assms(2) p obtain fs where fs: "proxy_respond lib h c dp p = Ret fs" "sends es = sends fs"
    by (auto simp: proxy_Handle_def Let_def)
  have el: "proxy_eligible lib h p"
    using proxy_respond_ineligible[OF assms(1), of h p c dp] fs assms(3) by (cases "proxy_eligible lib h p") auto
  obtain f where f: "ScriptURL (prx_Netboot h) = Some f"
  proof (cases "ScriptURL (prx_Netboot h)")
    case None
    have "IsNetbootClient lib p = None" "lib_MessageType lib p \<in> {MessageTypeDiscover, MessageTypeRequest}"
      using el IsNetbootClient_iff[OF assms(1)] netboot_client_type by (auto simp: proxy_eligible_def)
    with None el fs(1) have False
      by (auto simp: proxy_respond_def proxy_eligible_def setMessageType_def dhcpv4_law[OF assms(1)] Let_def IPXEBinary_Nil)
    then show ?thesis ..
  qed
  have b: "b = lib_ToBytes lib (proxy_reply lib h f p)"
    using fs assms(3) by (auto simp: proxy_respond_eligible[OF assms(1) el f] Let_def elim!: go_bind_RetE split: if_splits option.splits)
  let ?mt = "if lib_MessageType lib p = MessageTypeDiscover then MessageTypeOffer else MessageTypeAck"
  have "lib_MessageType lib (proxy_reply lib h f p) = ?mt"
    by (rule law_MessageType[OF assms(1)]) (simp add: proxy_reply_def boot_reply_simps[OF assms(1)])
  moreover have "reply_OpCode p = OpcodeBootReply" using el by (simp add: proxy_eligible_def reply_OpCode_def)
  ultimately show ?thesis using p(1) b
    by (intro exI[of _ p] exI[of _ "proxy_reply lib h f p"])
      (simp add: proxy_reply_def boot_reply_simps[OF assms(1)] dhcpv4_law[OF assms(1)])
qed


section \<open>A concrete exchange\<close>

definition sample_proxy :: proxy_Handler where
  "sample_proxy = \<lparr>prx_Backend = None, prx_IPAddr = Addr4 ''wxyz'',
     prx_Netboot = \<lparr>IPXEBinServerTFTP = (Addr4 ''wxyz'', 69), IPXEBinServerHTTP = None,
       ScriptURL = Some (\<lambda>p. None), Enabled = True, UserClass = []\<rparr>,
     prx_OTELEnabled = False, prx_AutoProxyEnabled = True\<rparr>"

definition proxy_sample_packet :: Packet where
  "proxy_sample_packet = \<lparr>Peer = UDPPeer (Some \<lparr>UDP_IP = IPv4bcast, UDP_Port = 68, UDP_Zone = []\<rparr>),
     Pkt = Some sample_discover, Md = None\<rparr>"

lemma sample_proxy_answers:
  "\<exists>es. proxy_Handle sample_lib noop_otel sample_proxy () (Some (\<lambda>b i dst. None)) proxy_sample_packet = Ret es \<and> sends es \<noteq> []"
proof -
  have el: "proxy_eligible sample_lib sample_proxy sample_discover"
    using sample_discover_netboot sample_discover_binary
    by (simp add: proxy_eligible_def sample_proxy_def) (simp add: sample_discover_def)
  have f: "ScriptURL (prx_Netboot sample_proxy) = Some (\<lambda>p. None)" by (simp add: sample_proxy_def)
  show ?thesis
    by (simp add: proxy_Handle_def proxy_sample_packet_def Let_def proxy_respond_eligible[OF sample_laws el f])
      (simp add: backend_refuses_def sample_proxy_def)
qed


theorem proxy_only_boots_witness:
  "\<exists>es b i dst r. proxy_Handle sample_lib noop_otel sample_proxy () (Some (\<lambda>b i dst. None)) proxy_sample_packet = Ret es \<and>
     (b, i, dst) \<in> set (sends es) \<and> b = lib_ToBytes sample_lib r \<and>
     YourIPAddr r = YourIPAddr (base_reply sample_lib sample_discover)"
proof -
  obtain es where es: "proxy_Handle sample_lib noop_otel sample_proxy () (Some (\<lambda>b i dst. None)) proxy_sample_packet = Ret es"
      "sends es \<noteq> []"
    using sample_proxy_answers by blast
  then obtain b i dst where s: "(b, i, dst) \<in> set (sends es)" by (cases "sends es") auto
  have "Pkt proxy_sample_packet = Some sample_discover" by (simp add: proxy_sample_packet_def)
  with proxy_only_boots[OF sample_laws es(1) s] es(1) s show ?thesis by auto
qed

end
