(* ===== verification/DHCP_Server.thy ===== *)
theory DHCP_Server
  imports DHCP_Reservation DHCP_Proxy
begin

text \<open>
  \<open>internal/dhcp/server/dhcp.go\<close>: the loop that reads datagrams, parses them and starts every
  handler on the packet in a goroutine of its own. The handlers are reached only through the locale
  \<open>dhcp_handler\<close>, whose instances are the reservation and the proxy handler.
\<close>

section \<open>Definitions\<close>

text \<open>
  One return of \<open>nConn.ReadFrom\<close>: an error, with whether the context is done by then, or a datagram
  with its control message (which may be nil) and its source.
\<close>

datatype read_result =
    ReadErr go_error bool
  | ReadDatagram bytes "int option" net_addr

text \<open>How a run of the loop over a finite list of reads ends.\<close>

datatype serve_end =
    Reading                       \<comment> \<open>waits for the next datagram\<close>
  | Returned "go_error option"    \<comment> \<open>\<open>Serve\<close> returned this error, nil for a clean end\<close>
  | Crashed                       \<comment> \<open>a nil dereference\<close>

definition read_buffer_size :: nat where "read_buffer_size = 4096"

text \<open>A client without an address is answered by broadcast.\<close>

definition server_peer :: "UDPAddr \<Rightarrow> UDPAddr" where
  "server_peer upeer =
     (if UDP_IP upeer = None \<or> IP_Equal (To4 (UDP_IP upeer)) IPv4zero
      then \<lparr>UDP_IP = IPv4bcast, UDP_Port = UDP_Port upeer, UDP_Zone = []\<rparr>
      else upeer)"

text \<open>
  The body of the loop after a successful read: the packet handed to the handlers, or \<open>None\<close> where the
  code continues with the next datagram. \<open>interfaceByIndex\<close> stands for \<open>net.InterfaceByIndex\<close>.
\<close>

definition receive :: "dhcpv4_lib \<Rightarrow> (int \<Rightarrow> string option) \<Rightarrow> bytes \<Rightarrow> int option \<Rightarrow> net_addr \<Rightarrow> Packet option go" where
  "receive lib interfaceByIndex datagram cm peer =
     (let rbuf = take read_buffer_size datagram in
      case lib_FromBytes lib rbuf of None \<Rightarrow> Ret None
      | Some m \<Rightarrow>
        (case peer of OtherAddr s \<Rightarrow> Ret None
         | UDPPeer None \<Rightarrow> Panic ''nil pointer dereference''
         | UDPPeer (Some upeer) \<Rightarrow>
           (case cm of None \<Rightarrow> Panic ''nil pointer dereference''
            | Some ifIndex \<Rightarrow>
              (let ifName = (case interfaceByIndex ifIndex of None \<Rightarrow> [] | Some n \<Rightarrow> n)
               in Ret (Some \<lparr>Peer = UDPPeer (Some (server_peer upeer)), Pkt = Some m,
                             Md = Some \<lparr>IfName = ifName, IfIndex = ifIndex\<rparr>\<rparr>)))))"

text \<open>The loop: the packets given to the handlers, in order, and how it ends.\<close>

fun Serve_loop :: "dhcpv4_lib \<Rightarrow> (int \<Rightarrow> string option) \<Rightarrow> read_result list \<Rightarrow> Packet list \<times> serve_end" where
  "Serve_loop lib ifs [] = ([], Reading)"
| "Serve_loop lib ifs (ReadErr err ctx_done # rs) = ([], Returned (if ctx_done then None else Some err))"
| "Serve_loop lib ifs (ReadDatagram b cm peer # rs) =
     (case receive lib ifs b cm peer of
        Panic m \<Rightarrow> ([], Crashed)
      | Ret None \<Rightarrow> Serve_loop lib ifs rs
      | Ret (Some dp) \<Rightarrow> (let (dps, e) = Serve_loop lib ifs rs in (dp # dps, e)))"

text \<open>
  \<open>Serve\<close>: setting the control message may fail. Each packet starts one goroutine for every handler,
  in order; the goroutines then run independently.
\<close>

definition Serve ::
  "dhcpv4_lib \<Rightarrow> (int \<Rightarrow> string option) \<Rightarrow> go_error option \<Rightarrow> 'h list \<Rightarrow> read_result list \<Rightarrow> ('h \<times> Packet) list \<times> serve_end" where
  "Serve lib ifs setControlMessage handlers reads =
     (case setControlMessage of
        Some err \<Rightarrow> ([], Returned (Some err))
      | None \<Rightarrow> (let (dps, e) = Serve_loop lib ifs reads
                 in (concat (map (\<lambda>dp. map (\<lambda>h. (h, dp)) handlers) dps), e)))"

text \<open>\<open>NewServer\<close> opens the connection, \<open>Close\<close> closes it; the calls are arguments and \<open>'n\<close> is the type of connections.\<close>

record ('h, 'n) server_DHCP =
  srv_Handlers :: "'h list"
  srv_Conn :: 'n

definition NewServer :: "(string \<Rightarrow> UDPAddr \<Rightarrow> go_error + 'n) \<Rightarrow> string \<Rightarrow> UDPAddr \<Rightarrow> 'h list \<Rightarrow> go_error + ('h, 'n) server_DHCP" where
  "NewServer newIPv4UDPConn ifname addr handlers =
     (case newIPv4UDPConn ifname addr of
        Inl err \<Rightarrow> Inl err
      | Inr conn \<Rightarrow> Inr \<lparr>srv_Handlers = handlers, srv_Conn = conn\<rparr>)"

definition server_Close :: "('n \<Rightarrow> go_error option) \<Rightarrow> ('h, 'n) server_DHCP \<Rightarrow> go_error option" where
  "server_Close close s = close (srv_Conn s)"

section \<open>The loop\<close>

definition answers_of :: "read_result \<Rightarrow> bool" where
  "answers_of r \<longleftrightarrow> (\<exists>b i u. r = ReadDatagram b (Some i) (UDPPeer (Some u)))"

lemma receive_Some:
  "receive lib ifs b cm peer = Ret (Some dp) \<Longrightarrow>
     \<exists>m upeer i. lib_FromBytes lib (take read_buffer_size b) = Some m \<and> peer = UDPPeer (Some upeer) \<and> cm = Some i \<and>
       Peer dp = UDPPeer (Some (server_peer upeer)) \<and> Pkt dp = Some m \<and> cm_IfIndex dp = i"
  by (auto simp: receive_def Let_def cm_IfIndex_def split: option.splits net_addr.splits)

text \<open>On datagrams of the operating system, with a control message and a UDP source, the loop keeps reading.\<close>

lemma Serve_loop_Reading:
  "\<forall>r \<in> set rs. answers_of r \<Longrightarrow> snd (Serve_loop lib ifs rs) = Reading"
proof (induction rs)
  case (Cons r rs)
  then obtain b i u where r: "r = ReadDatagram b (Some i) (UDPPeer (Some u))" by (auto simp: answers_of_def)
  with Cons show ?case
    by (auto simp: receive_def Let_def split: option.split prod.split)
qed simp

lemma Serve_loop_packets:
  "dp \<in> set (fst (Serve_loop lib ifs rs)) \<Longrightarrow>
     \<exists>b i upeer. ReadDatagram b (Some i) (UDPPeer (Some upeer)) \<in> set rs \<and>
       Pkt dp = lib_FromBytes lib (take read_buffer_size b) \<and> Pkt dp \<noteq> None \<and>
       Peer dp = UDPPeer (Some (server_peer upeer)) \<and> cm_IfIndex dp = i"
proof (induction rs)
  case (Cons r rs)
  show ?case
  proof (cases r)
    case (ReadErr e d)
    with Cons.prems show ?thesis by simp
  next
    case (ReadDatagram b cm peer)
    show ?thesis
    proof (cases "receive lib ifs b cm peer")
      case (Panic m)
      with Cons.prems ReadDatagram show ?thesis by simp
    next
      case (Ret x)
      then consider "x = Some dp" | "dp \<in> set (fst (Serve_loop lib ifs rs))"
        using Cons.prems ReadDatagram by (cases x) (auto split: prod.splits)
      then show ?thesis
      proof cases
        case 1
        with receive_Some[of lib ifs b cm peer dp] Ret ReadDatagram show ?thesis by fastforce
      next
        case 2
        with Cons.IH show ?thesis by (metis list.set_intros(2))
      qed
    qed
  qed
qed simp

lemma server_peer_not_zero:
  "UDP_IP (server_peer u) \<noteq> None \<and> UDP_IP (server_peer u) \<noteq> IPv4zero \<and>
   UDP_IP (server_peer u) \<noteq> Some (replicate 4 (CHR 0x00))"
proof (cases "UDP_IP u = None \<or> IP_Equal (To4 (UDP_IP u)) IPv4zero")
  case True
  then have "UDP_IP (server_peer u) = IPv4bcast" by (simp add: server_peer_def)
  moreover have "IPv4bcast \<noteq> None" "IPv4bcast \<noteq> IPv4zero" by (simp_all add: IPv4bcast_def IPv4zero_def IPv4_def)
  moreover have "IPv4bcast \<noteq> Some (replicate 4 (CHR 0x00))"
    by (auto simp: IPv4bcast_def IPv4_def dest: arg_cong[of _ _ length])
  ultimately show ?thesis by simp
next
  case False
  have "IP_Equal (To4 IPv4zero) IPv4zero" "IP_Equal (To4 (Some (replicate 4 (CHR 0x00)))) IPv4zero"
    by (simp_all add: IP_Equal_def To4_def IPv4zero_def IPv4_def Let_def v4InV6Prefix_def numeral_eq_Suc char_of_def)
  with False have "UDP_IP u \<noteq> IPv4zero" "UDP_IP u \<noteq> Some (replicate 4 (CHR 0x00))" by auto
  with False show ?thesis by (auto simp: server_peer_def)
qed

section \<open>The server with its handlers\<close>

text \<open>What the contract of a handler says of the packets the server hands to it.\<close>

context dhcp_handler
begin

lemma served_answer:
  assumes "dp \<in> set (fst (Serve_loop lib ifs rs))" "handle ctx cn dp = Ret es" "(b, i, dst) \<in> set (sends es)"
  shows "\<exists>datagram upeer p u. ReadDatagram datagram (Some i) (UDPPeer (Some upeer)) \<in> set rs \<and>
     lib_FromBytes lib (take read_buffer_size datagram) = Some p \<and>
     lib_MessageType lib p \<in> {MessageTypeDiscover, MessageTypeRequest} \<and>
     dst = reply_address (UDPPeer (Some (server_peer upeer))) (GatewayIPAddr p) \<and>
     dst = UDPPeer (Some u) \<and> UDP_IP u \<notin> {None, IPv4zero, Some (replicate 4 (CHR 0x00))}"
proof -
  obtain d j upeer p where r: "ReadDatagram d (Some j) (UDPPeer (Some upeer)) \<in> set rs"
      "Pkt dp = Some p" "lib_FromBytes lib (take read_buffer_size d) = Some p"
      "Peer dp = UDPPeer (Some (server_peer upeer))" "cm_IfIndex dp = j"
    using Serve_loop_packets[OF assms(1)] by (metis option.exhaust_sel)
  from answers[OF assms(2,3) r(2)] r(4,5)
  have a: "lib_MessageType lib p \<in> {MessageTypeDiscover, MessageTypeRequest}" "i = j"
      "dst = reply_address (UDPPeer (Some (server_peer upeer))) (GatewayIPAddr p)" by auto
  obtain u where "dst = UDPPeer (Some u)" using sent_to_udp[OF assms(2,3)] by blast
  moreover from this a(3) server_peer_not_zero[of upeer]
  have "UDP_IP u \<notin> {None, IPv4zero, Some (replicate 4 (CHR 0x00))}"
    by (auto simp: reply_address_def split: if_splits)
  ultimately show ?thesis using r a by blast
qed

end

lemma Serve_started:
  "(hdl, dp) \<in> set (fst (Serve lib ifs scm handlers reads)) \<Longrightarrow>
     hdl \<in> set handlers \<and> dp \<in> set (fst (Serve_loop lib ifs reads))"
  by (auto simp: Serve_def split: option.splits prod.splits)

text \<open>
  C7. Every datagram the server's handlers send answers a datagram the server read, on the interface it
  was read from: that datagram, cut to the read buffer, is a discover or a request, and the answer goes
  to the relay agent named in it or to its source, where the broadcast address stands for a client
  without an address; it never goes to the unspecified IPv4 address.
\<close>

theorem server_answers:
  assumes "(hdl, dp) \<in> set (fst (Serve lib ifs scm handlers reads))"
    and "hdl \<in> range (reservation_Handle lib ot) \<union> range (proxy_Handle lib ot)"
    and "hdl ctx cn dp = Ret es" "(b, i, dst) \<in> set (sends es)"
  shows "\<exists>datagram upeer p u. ReadDatagram datagram (Some i) (UDPPeer (Some upeer)) \<in> set reads \<and>
     lib_FromBytes lib (take read_buffer_size datagram) = Some p \<and>
     lib_MessageType lib p \<in> {MessageTypeDiscover, MessageTypeRequest} \<and>
     dst = reply_address (UDPPeer (Some (server_peer upeer))) (GatewayIPAddr p) \<and>
     dst = UDPPeer (Some u) \<and> UDP_IP u \<notin> {None, IPv4zero, Some (replicate 4 (CHR 0x00))}"
proof -
  have dp: "dp \<in> set (fst (Serve_loop lib ifs reads))" using Serve_started[OF assms(1)] by blast
  from assms(2) consider h where "hdl = reservation_Handle lib ot h" | h where "hdl = proxy_Handle lib ot h" by blast
  then show ?thesis
  proof cases
    case 1
    show ?thesis by (rule res.served_answer[OF dp assms(3)[unfolded 1] assms(4)])
  next
    case 2
    show ?thesis by (rule prx.served_answer[OF dp assms(3)[unfolded 2] assms(4)])
  qed
qed

text \<open>The packet a datagram that parses gives.\<close>

definition packet_of :: "dhcpv4_lib \<Rightarrow> (int \<Rightarrow> string option) \<Rightarrow> bytes \<times> int \<times> UDPAddr \<Rightarrow> Packet option" where
  "packet_of lib ifs r = (case r of (b, i, u) \<Rightarrow>
     map_option (\<lambda>m. \<lparr>Peer = UDPPeer (Some (server_peer u)), Pkt = Some m,
       Md = Some \<lparr>IfName = (case ifs i of None \<Rightarrow> [] | Some n \<Rightarrow> n), IfIndex = i\<rparr>\<rparr>)
       (lib_FromBytes lib (take read_buffer_size b)))"

lemma Serve_loop_datagrams:
  "Serve_loop lib ifs (map (\<lambda>(b, i, u). ReadDatagram b (Some i) (UDPPeer (Some u))) rs) =
     (List.map_filter (packet_of lib ifs) rs, Reading)"
proof (induction rs)
  case (Cons r rs)
  then show ?case
    by (cases r) (auto simp: receive_def packet_of_def Let_def map_filter_simps split: option.split)
qed (simp add: map_filter_simps)

text \<open>
  C8. Reading on: as long as the connection delivers UDP datagrams with their interface, the loop does
  not end, whatever the datagrams hold, and every datagram that parses is handed to every handler
  exactly once, in the order of arrival; the others are dropped.
\<close>

theorem server_keeps_reading:
  "Serve lib ifs None handlers (map (\<lambda>(b, i, u). ReadDatagram b (Some i) (UDPPeer (Some u))) rs) =
     (List.concat (map (\<lambda>dp. map (\<lambda>h. (h, dp)) handlers) (List.map_filter (packet_of lib ifs) rs)), Reading)"
  by (simp add: Serve_def Serve_loop_datagrams)

section \<open>A concrete run\<close>

text \<open>The sample package with a parser that finds the sample packet in every datagram.\<close>

definition parsing_lib :: dhcpv4_lib where
  "parsing_lib = sample_lib\<lparr>lib_FromBytes := (\<lambda>b. Some sample_discover)\<rparr>"

lemma parsing_laws: "dhcpv4_laws parsing_lib"
  using sample_laws
  by (simp only: parsing_lib_def dhcpv4_laws_def laws_FromBytes)

theorem server_answers_witness:
  "\<exists>es b i dst u. reservation_Handle parsing_lib noop_otel sample_handler () (Some sample_conn)
       \<lparr>Peer = UDPPeer (Some (server_peer \<lparr>UDP_IP = IPv4zero, UDP_Port = 68, UDP_Zone = []\<rparr>)), Pkt = Some sample_discover,
        Md = Some \<lparr>IfName = ''eth0'', IfIndex = 2\<rparr>\<rparr> = Ret es \<and>
     (b, i, dst) \<in> set (sends es) \<and> dst = UDPPeer (Some u) \<and> UDP_IP u \<noteq> IPv4zero"
proof -
  let ?u = "\<lparr>UDP_IP = IPv4zero, UDP_Port = 68, UDP_Zone = []\<rparr>"
  let ?dp = "\<lparr>Peer = UDPPeer (Some (server_peer ?u)), Pkt = Some sample_discover, Md = Some \<lparr>IfName = ''eth0'', IfIndex = 2\<rparr>\<rparr>"
  let ?h = "reservation_Handle parsing_lib noop_otel sample_handler"
  have "lib_MessageType parsing_lib sample_discover = MessageTypeDiscover"
    using sample_discover_type by (simp add: parsing_lib_def)
  then obtain es r where es: "?h () (Some sample_conn) ?dp = Ret es"
      "sends es = [(lib_ToBytes parsing_lib r, cm_IfIndex ?dp, reply_address (Peer ?dp) (GatewayIPAddr sample_discover))]"
    using Handle_found[OF parsing_laws _ _ refl _ sample_handler_found, of ?dp "server_peer ?u" noop_otel "()" sample_conn] by auto
  have start: "(?h, ?dp) \<in> set (fst (Serve parsing_lib (\<lambda>i. Some ''eth0'') None [?h] [ReadDatagram [] (Some 2) (UDPPeer (Some ?u))]))"
    by (simp add: Serve_def receive_def parsing_lib_def)
  have sent: "(lib_ToBytes parsing_lib r, cm_IfIndex ?dp, reply_address (Peer ?dp) (GatewayIPAddr sample_discover)) \<in> set (sends es)"
    using es(2) by simp
  have "?h \<in> range (reservation_Handle parsing_lib noop_otel) \<union> range (proxy_Handle parsing_lib noop_otel)" by simp
  from server_answers[OF start this es(1) sent] obtain u where
    "reply_address (Peer ?dp) (GatewayIPAddr sample_discover) = UDPPeer (Some u)" "UDP_IP u \<noteq> IPv4zero" by auto
  with es(1) sent show ?thesis by metis
qed

end
