(* ===== verification/HTTP_Server.thy ===== *)
theory HTTP_Server
  imports Go_Net
begin

text \<open>
  \<open>internal/ipxe/http\<close>: the X-Forwarded-For middleware (\<open>xff.go\<close>), the logging middleware with its
  response writer (\<open>middleware.go\<close>) and the order in which \<open>http.go\<close> stacks them; and
  \<open>parseTrustedProxies\<close> of \<open>cmd/smee/main.go\<close>, which makes the list of trusted networks the
  middleware is configured with.
\<close>

section \<open>Requests\<close>

text \<open>Headers by canonical key. \<open>Get\<close> gives the first value, or the empty string.\<close>

type_synonym Header = "string \<rightharpoonup> string list"

definition Header_Get :: "Header \<Rightarrow> string \<Rightarrow> string" where
  "Header_Get h key = (case h key of Some (v # vs) \<Rightarrow> v | _ \<Rightarrow> [])"

record Request =
  Req_Method :: string
  Req_RequestURI :: string
  Req_RemoteAddr :: string
  Req_Header :: Header

section \<open>X-Forwarded-For\<close>

record xffOptions =
  AllowedSubnets :: "string list"
  Debug :: bool

record xff =
  allowAll :: bool
  allowedMasks :: "IPNet list"

text \<open>The error of \<open>net.ParseCIDR\<close>.\<close>

definition cidr_error :: "string \<Rightarrow> go_error" where
  "cidr_error s = LibraryError (''invalid CIDR address: '' @ s)"

fun toMasks :: "string list \<Rightarrow> go_error + IPNet list" where
  "toMasks [] = Inr []"
| "toMasks (cidr # ips) =
     (case ParseCIDR cidr of
        None \<Rightarrow> Inl (cidr_error cidr)
      | Some (ip, network) \<Rightarrow>
          (case toMasks ips of Inl e \<Rightarrow> Inl e | Inr masks \<Rightarrow> Inr (network # masks)))"

definition newXFF :: "xffOptions \<Rightarrow> go_error + xff" where
  "newXFF opts =
     (case toMasks (AllowedSubnets opts) of
        Inl err \<Rightarrow> Inl err
      | Inr masks \<Rightarrow> Inr \<lparr>allowAll = (length (AllowedSubnets opts) = 0), allowedMasks = masks\<rparr>)"

fun ipInMasks :: "bytes \<Rightarrow> IPNet list \<Rightarrow> bool" where
  "ipInMasks ip [] = False"
| "ipInMasks ip (msk # masks) = (if IPNet_Contains msk ip then True else ipInMasks ip masks)"

definition allowed :: "xff \<Rightarrow> string \<Rightarrow> bool" where
  "allowed x sip =
     (if allowAll x then True
      else case ParseIP sip of None \<Rightarrow> False | Some ip \<Rightarrow> ipInMasks ip (allowedMasks x))"

text \<open>The loop of \<open>parse\<close>, on the entries from the last one to the first.\<close>

fun parse_loop :: "(string \<Rightarrow> bool) \<Rightarrow> string list \<Rightarrow> string \<Rightarrow> string" where
  "parse_loop ok [] lastIP = lastIP"
| "parse_loop ok (e # es) lastIP =
     (let ip = TrimSpace e in
      if ParseIP ip = None then lastIP
      else if \<not> ok ip then ip
      else parse_loop ok es ip)"

definition xff_parse :: "string \<Rightarrow> (string \<Rightarrow> bool) \<Rightarrow> string" where
  "xff_parse ipList ok =
     (let ips = Split ipList (CHR '','') in
      if length ips = 0 then []
      else if length ips = 1 then
        (let ip = TrimSpace (ips ! 0) in if ParseIP ip \<noteq> None then ip else [])
      else parse_loop ok (rev ips) [])"

definition getRemoteAddrIfAllowed :: "Request \<Rightarrow> (string \<Rightarrow> bool) \<Rightarrow> string" where
  "getRemoteAddrIfAllowed r ok =
     (let xffh = Header_Get (Req_Header r) ''X-Forwarded-For'' in
      if xffh \<noteq> [] then
        (case SplitHostPort (Req_RemoteAddr r) of
           None \<Rightarrow> Req_RemoteAddr r
         | Some (sip, sport) \<Rightarrow>
             if sip \<noteq> [] \<and> ok sip then
               (let xip = xff_parse xffh ok in
                if xip \<noteq> [] then JoinHostPort xip sport else Req_RemoteAddr r)
             else Req_RemoteAddr r)
      else Req_RemoteAddr r)"

text \<open>A handler is a function of the request here; \<open>'r\<close> is its result.\<close>

definition xff_Handler :: "xff \<Rightarrow> (Request \<Rightarrow> 'r) \<Rightarrow> Request \<Rightarrow> 'r" where
  "xff_Handler x h r = h (r\<lparr>Req_RemoteAddr := getRemoteAddrIfAllowed r (allowed x)\<rparr>)"

section \<open>Logging\<close>

text \<open>
  The calls of a handler that reach the client. \<open>responseWriter\<close> wraps another writer: it
  remembers the first status and passes both calls on; \<open>write\<close> is what the wrapped \<open>Write\<close> returns. A failed write is
  reported with a count of 0.
\<close>

datatype rw_call = RW_Write bytes | RW_WriteHeader int

record responseWriter =
  statusCode :: int
  passed_on :: "rw_call list"

definition responseWriter_Write ::
  "(bytes \<Rightarrow> int \<times> go_error option) \<Rightarrow> responseWriter \<Rightarrow> bytes \<Rightarrow> responseWriter \<times> int \<times> go_error option" where
  "responseWriter_Write write w b =
     (let w = (if statusCode w = 0 then w\<lparr>statusCode := 200\<rparr> else w);
          w = w\<lparr>passed_on := passed_on w @ [RW_Write b]\<rparr>;
          (n, err) = write b
      in case err of
           Some e \<Rightarrow> (w, 0, Some (Errorf (''failed writing response: '' @ Error_text e) e))
         | None \<Rightarrow> (w, n, None))"

definition responseWriter_WriteHeader :: "responseWriter \<Rightarrow> int \<Rightarrow> responseWriter" where
  "responseWriter_WriteHeader w code =
     (let w = (if statusCode w = 0 then w\<lparr>statusCode := code\<rparr> else w)
      in w\<lparr>passed_on := passed_on w @ [RW_WriteHeader code]\<rparr>)"

definition rw_step :: "(bytes \<Rightarrow> int \<times> go_error option) \<Rightarrow> rw_call \<Rightarrow> responseWriter \<Rightarrow> responseWriter" where
  "rw_step write c w =
     (case c of RW_Write b \<Rightarrow> fst (responseWriter_Write write w b)
      | RW_WriteHeader code \<Rightarrow> responseWriter_WriteHeader w code)"

definition clientIP :: "string \<Rightarrow> string" where
  "clientIP str = (case SplitHostPort str of None \<Rightarrow> ''?'' | Some (host, port) \<Rightarrow> host)"

text \<open>The line written after a request; the duration is left out.\<close>

record log_entry =
  log_method :: string
  log_uri :: string
  log_client :: string
  log_status :: int

text \<open>
  \<open>loggingMiddleware.ServeHTTP\<close> around a handler whose calls do not depend on what they return, as those for scripts
  and health do not: the handler gives, for a request, its response headers and the calls it makes on the
  writer. The result is what the client's writer is called with and the line logged, if any. Handlers that look at
  results follow below.
\<close>

definition logging_ServeHTTP ::
  "(bytes \<Rightarrow> int \<times> go_error option) \<Rightarrow> (Request \<Rightarrow> Header \<times> rw_call list) \<Rightarrow> Request \<Rightarrow> rw_call list \<times> log_entry option" where
  "logging_ServeHTTP write h req =
     (let method = Req_Method req;
          uri = Req_RequestURI req;
          client = clientIP (Req_RemoteAddr req);
          log = (uri \<noteq> ''/metrics'');
          (hdr, calls) = h req;
          res = fold (rw_step write) calls \<lparr>statusCode = 0, passed_on = []\<rparr>;
          r = Header_Get hdr ''X-Global-Logging''
      in (passed_on res,
          if log \<and> r = []
          then Some \<lparr>log_method = method, log_uri = uri, log_client = client, log_status = statusCode res\<rparr>
          else None))"

subsection \<open>Handlers that look at results\<close>

text \<open>
  A response writer as a handler finds it, over a state: the two calls above, and what \<open>http.ResponseController\<close> offers,
  flushing and taking over the connection. A handler decides by what a call returned what it does next, and ends
  with its response headers or with a panic, which net/http recovers from outside the middleware.
\<close>

record 'w writer =
  w_Write :: "bytes \<Rightarrow> 'w \<Rightarrow> 'w \<times> int \<times> go_error option"
  w_WriteHeader :: "int \<Rightarrow> 'w \<Rightarrow> 'w"
  w_Flush :: "'w \<Rightarrow> 'w \<times> go_error option"
  w_Hijack :: "'w \<Rightarrow> 'w \<times> go_error option"

datatype handler_run =
    DoWrite bytes "int \<times> go_error option \<Rightarrow> handler_run"
  | DoWriteHeader int handler_run
  | DoFlush "go_error option \<Rightarrow> handler_run"
  | DoHijack "go_error option \<Rightarrow> handler_run"
  | DoReturn Header
  | DoPanic string

text \<open>The state after a handler, its headers or its panic, and the calls it made that carry a status.\<close>

primrec run_handler :: "'w writer \<Rightarrow> handler_run \<Rightarrow> 'w \<Rightarrow> 'w \<times> Header go \<times> rw_call list" where
  "run_handler wr (DoWrite b k) = (\<lambda>w.
     (case w_Write wr b w of (w', n, err) \<Rightarrow> (case run_handler wr (k (n, err)) w' of (w'', hdr, cs) \<Rightarrow> (w'', hdr, RW_Write b # cs))))"
| "run_handler wr (DoWriteHeader code k) = (\<lambda>w.
     (case run_handler wr k (w_WriteHeader wr code w) of (w'', hdr, cs) \<Rightarrow> (w'', hdr, RW_WriteHeader code # cs)))"
| "run_handler wr (DoFlush k) = (\<lambda>w. (case w_Flush wr w of (w', err) \<Rightarrow> run_handler wr (k err) w'))"
| "run_handler wr (DoHijack k) = (\<lambda>w. (case w_Hijack wr w of (w', err) \<Rightarrow> run_handler wr (k err) w'))"
| "run_handler wr (DoReturn hdr) = (\<lambda>w. (w, Ret hdr, []))"
| "run_handler wr (DoPanic m) = (\<lambda>w. (w, Panic m, []))"

text \<open>
  The writer the middleware gives its handler. It has neither \<open>Flush\<close> nor \<open>Hijack\<close> nor \<open>Unwrap\<close>, so a
  \<open>ResponseController\<close> answers for it that these are not supported.
\<close>

definition ErrNotSupported :: go_error where "ErrNotSupported = LibraryError ''feature not supported''"

definition errNotSupported :: go_error where "errNotSupported = Errorf (Error_text ErrNotSupported) ErrNotSupported"

definition middleware_writer :: "'w writer \<Rightarrow> (responseWriter \<times> 'w) writer" where
  "middleware_writer wr =
     \<lparr>w_Write = (\<lambda>b (res, w).
        (case w_Write wr b w of (w', r) \<Rightarrow> (case responseWriter_Write (\<lambda>_. r) res b of (res', r') \<Rightarrow> ((res', w'), r')))),
      w_WriteHeader = (\<lambda>code (res, w). (responseWriter_WriteHeader res code, w_WriteHeader wr code w)),
      w_Flush = (\<lambda>s. (s, Some errNotSupported)),
      w_Hijack = (\<lambda>s. (s, Some errNotSupported))\<rparr>"

definition logging_run :: "'w writer \<Rightarrow> (Request \<Rightarrow> handler_run) \<Rightarrow> Request \<Rightarrow> 'w \<Rightarrow> 'w \<times> log_entry option go" where
  "logging_run wr h req w =
     (let method = Req_Method req;
          uri = Req_RequestURI req;
          client = clientIP (Req_RemoteAddr req);
          log = (uri \<noteq> ''/metrics'');
          ((res, w'), returned, _) = run_handler (middleware_writer wr) (h req) (\<lparr>statusCode = 0, passed_on = []\<rparr>, w)
      in (w', go_bind returned (\<lambda>hdr.
            let r = Header_Get hdr ''X-Global-Logging''
            in Ret (if log \<and> r = []
                    then Some \<lparr>log_method = method, log_uri = uri, log_client = client, log_status = statusCode res\<rparr>
                    else None))))"

text \<open>
  The handler \<open>Config.ServeHTTP\<close> builds: with trusted proxies the X-Forwarded-For middleware is
  outside the logging middleware, and a list it cannot parse is a panic.
\<close>

definition http_handler ::
  "string list \<Rightarrow> (bytes \<Rightarrow> int \<times> go_error option) \<Rightarrow> (Request \<Rightarrow> Header \<times> rw_call list) \<Rightarrow>
     (Request \<Rightarrow> rw_call list \<times> log_entry option) go" where
  "http_handler trustedProxies write otelHandler =
     (if 0 < length trustedProxies then
        (case newXFF \<lparr>AllowedSubnets = trustedProxies, Debug = False\<rparr> of
           Inl err \<Rightarrow> Panic (''failed to create new xff object: '' @ Error_text err)
         | Inr x \<Rightarrow> Ret (xff_Handler x (logging_ServeHTTP write otelHandler)))
      else Ret (logging_ServeHTTP write otelHandler))"

section \<open>Trusted proxies\<close>

text \<open>The body of the loop of \<open>parseTrustedProxies\<close>: the network of one entry, \<open>None\<close> for a blank one.\<close>

definition trusted_entry :: "string \<Rightarrow> string option go" where
  "trusted_entry cidr0 =
     (let cidr = TrimSpace cidr0 in
      if cidr = [] then Ret None
      else if ParseCIDR cidr \<noteq> None then Ret (Some cidr)
      else case ParseIP cidr of
          Some ip \<Rightarrow> if To4 (Some ip) \<noteq> None then Ret (Some (cidr @ ''/32'')) else Ret (Some (cidr @ ''/128''))
        | None \<Rightarrow> Panic (''invalid ip cidr in TRUSTED_PROXIES cidr='' @ cidr))"

fun trusted_loop :: "string list \<Rightarrow> string list \<Rightarrow> string list go" where
  "trusted_loop [] result = Ret result"
| "trusted_loop (e # es) result =
     go_bind (trusted_entry e) (\<lambda>x. case x of None \<Rightarrow> trusted_loop es result
       | Some cidr \<Rightarrow> trusted_loop es (result @ [cidr]))"

definition parseTrustedProxies :: "string \<Rightarrow> string list go" where
  "parseTrustedProxies s = trusted_loop (Split s (CHR '','')) []"

section \<open>The address of the client\<close>

text \<open>
  The reference: of the entries of the header, read from the right as far as they are addresses, the
  first one that is not trusted; if all are trusted, the leftmost of them.
\<close>

definition valid_entries :: "string \<Rightarrow> string list" where
  "valid_entries ipList = takeWhile (\<lambda>ip. ParseIP ip \<noteq> None) (map TrimSpace (rev (Split ipList (CHR '',''))))"

definition rightmost_untrusted :: "(string \<Rightarrow> bool) \<Rightarrow> string list \<Rightarrow> string" where
  "rightmost_untrusted ok ips =
     (case List.find (\<lambda>ip. \<not> ok ip) ips of Some ip \<Rightarrow> ip | None \<Rightarrow> if ips = [] then [] else last ips)"

lemma parse_loop_spec:
  "parse_loop ok es l =
     (let vs = takeWhile (\<lambda>ip. ParseIP ip \<noteq> None) (map TrimSpace es) in
      if vs = [] then l else rightmost_untrusted ok vs)"
proof (induction es arbitrary: l)
  case (Cons e es)
  then show ?case by (simp add: Let_def rightmost_untrusted_def split: option.split)
qed simp

lemma xff_parse_spec: "xff_parse ipList ok = rightmost_untrusted ok (valid_entries ipList)"
proof (cases "length (Split ipList (CHR '','')) = 1")
  case True
  then obtain e where e: "Split ipList (CHR '','') = [e]" by (auto simp: length_Suc_conv)
  then show ?thesis by (simp add: xff_parse_def valid_entries_def rightmost_untrusted_def)
next
  case False
  then show ?thesis
    by (simp add: xff_parse_def valid_entries_def parse_loop_spec Let_def rightmost_untrusted_def)
qed

lemma rightmost_untrusted_split:
  assumes "vs \<noteq> []"
  shows "\<exists>us ws. vs = us @ rightmost_untrusted ok vs # ws \<and> (\<forall>u \<in> set us. ok u) \<and>
     (ok (rightmost_untrusted ok vs) \<longrightarrow> ws = [])"
proof (cases "List.find (\<lambda>ip. \<not> ok ip) vs")
  case None
  then have "\<forall>u \<in> set vs. ok u" by (auto simp: find_None_iff)
  moreover have "vs = butlast vs @ [last vs]" using assms by simp
  ultimately show ?thesis using None assms
    by (auto simp: rightmost_untrusted_def intro!: exI[of _ "butlast vs"] dest: in_set_butlastD)
next
  case (Some ip)
  then obtain i where i: "i < length vs" "\<not> ok (vs ! i)" "ip = vs ! i" "\<forall>j < i. ok (vs ! j)"
    by (auto simp: find_Some_iff)
  then have "vs = take i vs @ vs ! i # drop (Suc i) vs" by (simp add: id_take_nth_drop)
  moreover have "\<forall>u \<in> set (take i vs). ok u" using i(1,4) by (auto simp: in_set_conv_nth)
  moreover have "rightmost_untrusted ok vs = vs ! i" using Some i(3) by (simp add: rightmost_untrusted_def)
  ultimately show ?thesis using i(2) by metis
qed

lemma valid_entries_ParseIP: "ip \<in> set (valid_entries l) \<Longrightarrow> ParseIP ip \<noteq> None"
  by (auto simp: valid_entries_def dest: set_takeWhileD)

lemma ParseIP_no_brackets: "ParseIP ip \<noteq> None \<Longrightarrow> CHR ''['' \<notin> set ip \<and> CHR '']'' \<notin> set ip"
  using ParseIP_chars addr_char_not by fastforce

text \<open>
  C22. The remote address after the X-Forwarded-For middleware is the one of the connection, or it keeps the
  port of the connection and replaces the host: then the peer of the connection is trusted, and the new
  host is a valid address of the header such that everything to its right in the header is a trusted
  address; it is itself not trusted, or there is no further valid address to its left. The new address
  splits again into exactly this host and port.
\<close>

theorem xff_client_address:
  "getRemoteAddrIfAllowed r (allowed x) = Req_RemoteAddr r \<or>
   (\<exists>sip sport us xip ws. SplitHostPort (Req_RemoteAddr r) = Some (sip, sport) \<and> allowed x sip \<and>
      valid_entries (Header_Get (Req_Header r) ''X-Forwarded-For'') = us @ xip # ws \<and>
      (\<forall>u \<in> set us. allowed x u) \<and> (allowed x xip \<longrightarrow> ws = []) \<and>
      getRemoteAddrIfAllowed r (allowed x) = JoinHostPort xip sport \<and>
      SplitHostPort (getRemoteAddrIfAllowed r (allowed x)) = Some (xip, sport))"
proof (cases "getRemoteAddrIfAllowed r (allowed x) = Req_RemoteAddr r")
  case False
  let ?l = "Header_Get (Req_Header r) ''X-Forwarded-For''"
  let ?xip = "rightmost_untrusted (allowed x) (valid_entries ?l)"
  from False obtain sip sport where s: "SplitHostPort (Req_RemoteAddr r) = Some (sip, sport)" "allowed x sip" "?xip \<noteq> []"
      "getRemoteAddrIfAllowed r (allowed x) = JoinHostPort ?xip sport"
    by (auto simp: getRemoteAddrIfAllowed_def xff_parse_spec Let_def split: if_splits option.splits)
  have "valid_entries ?l \<noteq> []" using s(3) by (auto simp: rightmost_untrusted_def)
  from rightmost_untrusted_split[OF this, of "allowed x"] obtain us ws where
    v: "valid_entries ?l = us @ ?xip # ws" "\<forall>u \<in> set us. allowed x u" "allowed x ?xip \<longrightarrow> ws = []" by blast
  then have "?xip \<in> set (valid_entries ?l)" by (metis in_set_conv_decomp)
  then have "SplitHostPort (JoinHostPort ?xip sport) = Some (?xip, sport)"
    using ParseIP_no_brackets[OF valid_entries_ParseIP] SplitHostPort_port[OF s(1)]
    by (intro SplitHostPort_Join) auto
  with s v show ?thesis by metis
qed simp

definition sample_proxy_xff :: xff where
  "sample_proxy_xff = \<lparr>allowAll = False,
     allowedMasks = [\<lparr>IPNet_IP = [CHR 0x0A, CHR 0x00, CHR 0x00, CHR 0x00], IPNet_Mask = CIDRMask 8 32\<rparr>]\<rparr>"

definition sample_forwarded :: Request where
  "sample_forwarded = \<lparr>Req_Method = ''GET'', Req_RequestURI = ''/auto.ipxe'', Req_RemoteAddr = ''10.0.0.1:4711'',
     Req_Header = [''X-Forwarded-For'' \<mapsto> [''6.6.6.6, 192.168.1.5, 10.1.1.1'']]\<rparr>"

lemma sample_forwarded_result:
  "getRemoteAddrIfAllowed sample_forwarded (allowed sample_proxy_xff) = ''192.168.1.5:4711''"
  by code_simp

theorem xff_client_address_witness:
  "\<exists>sip sport. SplitHostPort (Req_RemoteAddr sample_forwarded) = Some (sip, sport) \<and> allowed sample_proxy_xff sip"
  using xff_client_address[of sample_forwarded sample_proxy_xff] sample_forwarded_result
  by (auto simp: sample_forwarded_def)

section \<open>Trusted proxies\<close>

lemma ParseIP_ParseAddr: "ParseIP s = Some b \<Longrightarrow> \<exists>a. ParseAddr s = Some a \<and> Zone a = []"
  by (auto simp: ParseIP_def split: option.splits if_splits)

lemma trusted_entry_cidr: "trusted_entry e = Ret (Some c) \<Longrightarrow> ParseCIDR c \<noteq> None"
proof -
  assume t: "trusted_entry e = Ret (Some c)"
  have suffix: "ParseCIDR (s @ CHR ''/'' # nat_string n) \<noteq> None"
    if ip: "ParseIP s = Some b" and n: "\<And>a. ParseAddr s = Some a \<Longrightarrow> n \<le> BitLen a" for s b n
  proof -
    obtain a where a: "ParseAddr s = Some a" "Zone a = []" using ParseIP_ParseAddr[OF ip] by blast
    with n addr_char_not[OF ParseIP_chars[OF ip]] show ?thesis by (intro ParseCIDR_suffix[OF a]) auto
  qed
  have bits: "BitLen a = 32 \<or> BitLen a = 128" if "ParseAddr s = Some a" for s a
    using ParseAddr_wf[OF that] by (cases a) auto
  have v6: "BitLen a = 128" if "ParseAddr s = Some a" "ParseIP s = Some b" "To4 (Some b) = None" for s a b
    using ParseAddr_wf[OF that(1)] that by (cases a) (auto simp: ParseIP_def To4_def Let_def split: if_splits)
  have 32: "nat_string 32 = ''32''" and 128: "nat_string 128 = ''128''" by code_simp+
  have "\<exists>b. ParseIP (TrimSpace e) = Some b \<and>
      (c = TrimSpace e @ ''/32'' \<or> c = TrimSpace e @ ''/128'' \<and> To4 (Some b) = None)" if "ParseCIDR (TrimSpace e) = None"
    using t that by (auto simp: trusted_entry_def Let_def split: if_splits option.splits)
  moreover have "c = TrimSpace e" if "ParseCIDR (TrimSpace e) \<noteq> None"
    using t that by (auto simp: trusted_entry_def Let_def split: if_splits option.splits)
  ultimately show ?thesis
    using suffix[of "TrimSpace e" _ 32] suffix[of "TrimSpace e" _ 128] bits v6 unfolding 32 128
    by (cases "ParseCIDR (TrimSpace e) = None") (fastforce, metis)
qed

lemma trusted_loop_cidr:
  "trusted_loop es acc = Ret cs \<Longrightarrow> \<forall>c \<in> set acc. ParseCIDR c \<noteq> None \<Longrightarrow> \<forall>c \<in> set cs. ParseCIDR c \<noteq> None"
proof (induction es arbitrary: acc)
  case (Cons e es)
  from Cons.prems(1) obtain x where x: "trusted_entry e = Ret x"
      "(case x of None \<Rightarrow> trusted_loop es acc | Some cidr \<Rightarrow> trusted_loop es (acc @ [cidr])) = Ret cs"
    by (auto elim: go_bind_RetE)
  show ?case
  proof (cases x)
    case None
    with x Cons show ?thesis by simp
  next
    case (Some c)
    with x trusted_entry_cidr[of e c] Cons.prems(2) show ?thesis by (intro Cons.IH[of "acc @ [c]"]) auto
  qed
qed simp

lemma toMasks_ok: "\<forall>c \<in> set cs. ParseCIDR c \<noteq> None \<Longrightarrow> \<exists>ms. toMasks cs = Inr ms \<and> length ms = length cs"
  by (induction cs) (auto split: option.split sum.split)

text \<open>
  Whatever text of trusted proxies the service accepts at start-up, the HTTP server can be built from it:
  every entry of the parsed list is a network the middleware can parse, one for each entry, and the
  middleware trusts everybody only when the list is empty.
\<close>

theorem trusted_proxies_accepted:
  assumes "parseTrustedProxies s = Ret cs"
  shows "(\<exists>h. http_handler cs write handler = Ret h) \<and>
     (\<exists>x. newXFF \<lparr>AllowedSubnets = cs, Debug = False\<rparr> = Inr x \<and> length (allowedMasks x) = length cs \<and>
        (allowAll x \<longleftrightarrow> cs = []))"
proof -
  have "\<forall>c \<in> set cs. ParseCIDR c \<noteq> None"
    using assms trusted_loop_cidr[of _ "[]"] by (simp add: parseTrustedProxies_def)
  from toMasks_ok[OF this] obtain ms where "toMasks cs = Inr ms" "length ms = length cs" by blast
  then show ?thesis by (simp add: newXFF_def http_handler_def)
qed

theorem trusted_proxies_accepted_witness:
  "parseTrustedProxies ''192.168.1.1'' = Ret [''192.168.1.1/32''] \<and>
   (\<exists>x. newXFF \<lparr>AllowedSubnets = [''192.168.1.1/32''], Debug = False\<rparr> = Inr x \<and> \<not> allowAll x)"
proof -
  have p: "parseTrustedProxies ''192.168.1.1'' = Ret [''192.168.1.1/32'']" by code_simp
  with trusted_proxies_accepted[OF p] show ?thesis by auto
qed

section \<open>The logged status\<close>

lemma rw_step_simps [simp]:
  "passed_on (rw_step write c w) = passed_on w @ [c]"
  "statusCode (rw_step write c w) =
     (if statusCode w = 0 then (case c of RW_Write b \<Rightarrow> 200 | RW_WriteHeader code \<Rightarrow> code) else statusCode w)"
  by (cases c; simp add: rw_step_def responseWriter_Write_def responseWriter_WriteHeader_def Let_def
        split: prod.split option.split)+

lemma rw_fold_passed_on: "passed_on (fold (rw_step write) cs w) = passed_on w @ cs"
  by (induction cs arbitrary: w) simp_all




text \<open>The two forms of the middleware agree on the handlers of the first.\<close>

fun calls_run :: "Header \<Rightarrow> rw_call list \<Rightarrow> handler_run" where
  "calls_run hdr [] = DoReturn hdr"
| "calls_run hdr (RW_Write b # cs) = DoWrite b (\<lambda>r. calls_run hdr cs)"
| "calls_run hdr (RW_WriteHeader code # cs) = DoWriteHeader code (calls_run hdr cs)"

definition recorder :: "(bytes \<Rightarrow> int \<times> go_error option) \<Rightarrow> rw_call list writer" where
  "recorder write = \<lparr>w_Write = (\<lambda>b w. (w @ [RW_Write b], write b)), w_WriteHeader = (\<lambda>code w. w @ [RW_WriteHeader code]),
     w_Flush = (\<lambda>w. (w, None)), w_Hijack = (\<lambda>w. (w, None))\<rparr>"

lemma run_calls:
  "run_handler (middleware_writer (recorder write)) (calls_run hdr cs) (res, w) =
     ((fold (rw_step write) cs res, w @ cs), Ret hdr, cs)"
proof (induction cs arbitrary: res w)
  case (Cons c cs)
  then show ?case
    by (cases c) (simp_all add: middleware_writer_def recorder_def rw_step_def responseWriter_Write_def Let_def
        split: prod.split option.split)
qed simp

lemma logging_run_calls:
  "logging_run (recorder write) (\<lambda>r. calls_run (fst (h r)) (snd (h r))) req [] =
     (let (calls, line) = logging_ServeHTTP write h req in (calls, Ret line))"
  by (simp add: logging_run_def logging_ServeHTTP_def run_calls rw_fold_passed_on Let_def case_prod_beta)




text \<open>A handler that would flush and then report whether it could: behind the middleware it cannot.\<close>

lemma flush_behind_logging:
  "fst (logging_run wr (\<lambda>r. DoFlush (\<lambda>err. if err = None then DoWriteHeader 200 (DoReturn Map.empty) else DoWriteHeader 500 (DoReturn Map.empty))) req w) =
     w_WriteHeader wr 500 w"
  by (simp add: logging_run_def middleware_writer_def Let_def)

end
