(* ===== verification/ISO_Patch.thy ===== *)
theory ISO_Patch
  imports DHCP_Data HTTP_Server
begin

text \<open>
  \<open>internal/iso\<close>: serving a boot ISO through a reverse proxy while patching kernel parameters into it
  (\<open>iso.go\<close>, \<open>ipam.go\<close>, \<open>internal/context.go\<close>). The transport to the source of the ISO and the
  Kubernetes error predicate \<open>apierrors.IsNotFound\<close> are parameters.
\<close>

section \<open>Definitions\<close>

record iso_Handler =
  iso_Backend :: "BackendReader option"
  ExtraKernelParams :: "string list"
  MagicString :: string
  SourceISO :: string
  Syslog :: string
  TinkServerTLS :: bool
  TinkServerGRPCAddr :: string
  StaticIPAMEnabled :: bool
  parsedURL :: "URL option"
  magicStrPadding :: bytes

text \<open>\<open>HandlerFunc\<close> fills in the two derived fields; \<open>url_Parse\<close> stands for \<open>url.Parse\<close>.\<close>

definition iso_HandlerFunc :: "(string \<Rightarrow> go_error + URL) \<Rightarrow> iso_Handler \<Rightarrow> go_error + iso_Handler" where
  "iso_HandlerFunc url_Parse h =
     (case url_Parse (SourceISO h) of
        Inl err \<Rightarrow> Inl err
      | Inr target \<Rightarrow>
          Inr (h\<lparr>parsedURL := Some target, magicStrPadding := replicate (length (MagicString h)) (CHR '' '')\<rparr>))"

text \<open>The value of the key \<open>iso-patch\<close> in a context.\<close>

type_synonym patch_ctx = "bytes option"

definition WithPatch :: "patch_ctx \<Rightarrow> bytes \<Rightarrow> patch_ctx" where
  "WithPatch ctx patch = Some patch"

definition GetPatch :: "patch_ctx \<Rightarrow> bytes" where
  "GetPatch ctx = (case ctx of None \<Rightarrow> [] | Some patch \<Rightarrow> patch)"

subsection \<open>Copying\<close>

text \<open>The errors a reader returns, and one return of \<open>src.Read\<close>: the bytes read and the error.\<close>

datatype read_err = EOF | ReadFailed go_error
type_synonym read = "bytes \<times> read_err option"

text \<open>Go's \<open>copy(b[i:], p)\<close>.\<close>

definition copy_at :: "bytes \<Rightarrow> nat \<Rightarrow> bytes \<Rightarrow> bytes" where
  "copy_at b i p = take i b @ take (length b - i) p @ drop (i + length p) b"

definition ErrShortWrite :: go_error where "ErrShortWrite = LibraryError ''short write''"

text \<open>The patching of what one read returned.\<close>

definition patch_chunk :: "iso_Handler \<Rightarrow> patch_ctx \<Rightarrow> bytes \<Rightarrow> bytes" where
  "patch_chunk h ctx b =
     (case Index b (MagicString h) of
        None \<Rightarrow> b
      | Some i \<Rightarrow> (let dup = b; dup = copy_at dup i (magicStrPadding h); dup = copy_at dup i (GetPatch ctx) in dup))"

text \<open>
  \<open>Copy\<close>, over the returns of the reader. The writer has a state \<open>'w\<close>; a write gives the new state,
  the count and the error. \<^const>\<open>None\<close>: the loop waits for a further read.
\<close>

fun Copy :: "iso_Handler \<Rightarrow> ('w \<Rightarrow> bytes \<Rightarrow> 'w \<times> int \<times> go_error option) \<Rightarrow> patch_ctx \<Rightarrow> read list \<Rightarrow> 'w \<Rightarrow> int
    \<Rightarrow> ('w \<times> int \<times> go_error option) option" where
  "Copy h write ctx [] w written = None"
| "Copy h write ctx ((buf, rerr) # reads) w written =
     (let nr = int (length buf);
          (w', written', stop) =
            (if nr > 0 then
               (let b = patch_chunk h ctx buf;
                    (w', nw, werr) = write w b;
                    written' = (if nw > 0 then written + nw else written)
                in (w', written', (case werr of Some e \<Rightarrow> Some e | None \<Rightarrow> if nr \<noteq> nw then Some ErrShortWrite else None)))
             else (w, written, None))
      in case stop of
           Some e \<Rightarrow> Some (w', written', Some e)
         | None \<Rightarrow>
           (case rerr of
              None \<Rightarrow> Copy h write ctx reads w' written'
            | Some EOF \<Rightarrow> Some (w', written', None)
            | Some (ReadFailed e) \<Rightarrow> Some (w', written', Some e)))"

subsection \<open>Kernel parameters\<close>

definition list_text :: "string list \<Rightarrow> string" where
  "list_text xs = (if length xs > 0 then Join xs '','' else [])"

definition ipam_fields :: "data_DHCP \<Rightarrow> string list" where
  "ipam_fields d =
     [ReplaceAll (HardwareAddr_String (slice_bytes (MACAddress d))) (CHR '':'') (CHR ''-''),
      (if VLANID d \<noteq> [] then VLANID d else []),
      (if Addr_Compare (IPAddress d) AddrZero \<noteq> 0 then Addr_String (IPAddress d) else []),
      (case SubnetMask d of Some m \<Rightarrow> IP_String (Some m) | None \<Rightarrow> []),
      (if Addr_Compare (DefaultGateway d) AddrZero \<noteq> 0 then Addr_String (DefaultGateway d) else []),
      HostName d,
      list_text (map IP_String (NameServers d)),
      (if length (DomainSearch d) > 0 then Join (DomainSearch d) '','' else []),
      list_text (map IP_String (NTPServers d))]"

definition parseIPAM :: "data_DHCP option \<Rightarrow> string" where
  "parseIPAM d = (case d of None \<Rightarrow> [] | Some d \<Rightarrow> ''ipam='' @ Join (ipam_fields d) '':'')"

definition constructPatch :: "iso_Handler \<Rightarrow> string \<Rightarrow> string \<Rightarrow> data_DHCP option \<Rightarrow> string" where
  "constructPatch h console mac d =
     (let syslogHost = ''syslog_host='' @ Syslog h;
          grpcAuthority = ''grpc_authority='' @ TinkServerGRPCAddr h;
          tinkerbellTLS = ''tinkerbell_tls='' @ bool_string (TinkServerTLS h);
          workerID = ''worker_id='' @ mac;
          vlanID = (case d of Some dd \<Rightarrow> if VLANID dd \<noteq> [] then ''vlan_id='' @ VLANID dd else [] | None \<Rightarrow> []);
          hwAddr = ''hw_addr='' @ mac;
          all = [Join (ExtraKernelParams h) '' '', console, vlanID, hwAddr, syslogHost, grpcAuthority, tinkerbellTLS, workerID];
          all = (if StaticIPAMEnabled h then all @ [parseIPAM d] else all)
      in Join all '' '')"

definition defaultConsoles :: string where
  "defaultConsoles = ''console=ttyAMA0 console=ttyS0 console=tty0 console=tty1 console=ttyS1''"

definition iso_consoles :: "string \<Rightarrow> string" where
  "iso_consoles fac =
     (if fac \<noteq> [] \<and> Contains fac ''console='' then ''facility='' @ fac
      else if fac \<noteq> [] then ''facility='' @ fac @ '' '' @ defaultConsoles
      else defaultConsoles)"

subsection \<open>Fetching the source\<close>

definition iso_getMAC :: "string \<Rightarrow> go_error + bytes" where
  "iso_getMAC urlPath =
     (let mac = path_Base (path_Dir urlPath) in
      case ParseMAC mac of
        None \<Rightarrow> (let err = LibraryError (''address '' @ mac @ '': invalid MAC address'') in
          Inl (Errorf (''failed to parse URL path: '' @ urlPath @
            '' , the second to last element in the URL path must be a valid mac address, err: '' @ Error_text err) err))
      | Some hw \<Rightarrow> Inr hw)"

definition getFacility :: "bytes \<Rightarrow> BackendReader option \<Rightarrow> (go_error + string \<times> data_DHCP option) go" where
  "getFacility mac br =
     (case br of None \<Rightarrow> Ret (Inl (ErrorNew ''backend is nil''))
      | Some be \<Rightarrow> go_bind (GetByMac be mac) (\<lambda>r.
          case r of
            Inl err \<Rightarrow> Ret (Inl err)
          | Inr (d, n) \<Rightarrow> (case n of None \<Rightarrow> Panic ''nil pointer dereference'' | Some nb \<Rightarrow> Ret (Inr (Facility nb, d)))))"

text \<open>A request and a response, with the patch their context carries; the proxy extends the request by further fields.\<close>

record iso_Request =
  iso_URL :: URL
  iso_ctx :: patch_ctx

record iso_Response =
  iso_StatusCode :: int
  iso_Header :: Header
  iso_Body :: "read list"
  iso_Conn :: bool              \<comment> \<open>whether the body is also a writer, as after switching protocols\<close>
  iso_ContentLength :: int
  iso_Trailer :: Header         \<comment> \<open>the announced trailers\<close>
  iso_EndTrailer :: Header      \<comment> \<open>the trailers after the body was read\<close>
  iso_Request_ctx :: patch_ctx  \<comment> \<open>the context of \<open>Response.Request\<close>\<close>

definition status_response :: "int \<Rightarrow> 'a iso_Request_scheme \<Rightarrow> iso_Response" where
  "status_response code req = \<lparr>iso_StatusCode = code, iso_Header = Map.empty, iso_Body = [([], Some EOF)], iso_Conn = False,
     iso_ContentLength = 0, iso_Trailer = Map.empty, iso_EndTrailer = Map.empty, iso_Request_ctx = iso_ctx req\<rparr>"

text \<open>
  \<open>RoundTrip\<close>. The transport answers a request with a response whose \<open>Request\<close> is that request. The
  result also says which request was sent to the source, if any.
\<close>

type_synonym 'a transport = "'a iso_Request_scheme \<Rightarrow> go_error + iso_Response"

definition RoundTrip ::
  "(go_error \<Rightarrow> bool) \<Rightarrow> 'a transport \<Rightarrow> iso_Handler \<Rightarrow> 'a iso_Request_scheme \<Rightarrow>
     ('a iso_Request_scheme option \<times> (go_error + iso_Response)) go" where
  "RoundTrip isNotFound transport h req =
     (if filepath_Ext (Path (iso_URL req)) \<noteq> ''.iso'' then Ret (None, Inr (status_response 404 req))
      else case iso_getMAC (Path (iso_URL req)) of
        Inl err \<Rightarrow> Ret (None, Inr (status_response 400 req))
      | Inr ha \<Rightarrow>
        go_bind (getFacility ha (iso_Backend h)) (\<lambda>r.
          case r of
            Inl err \<Rightarrow> Ret (None, Inr (status_response (if isNotFound err then 404 else 500) req))
          | Inr (fac, dhcpData) \<Rightarrow>
            (case parsedURL h of None \<Rightarrow> Panic ''nil pointer dereference''
             | Some target \<Rightarrow>
              (let consoles = iso_consoles fac;
                   patch = constructPatch h consoles (HardwareAddr_String ha) dhcpData;
                   req' = req\<lparr>iso_ctx := WithPatch (iso_ctx req) patch, iso_URL := (iso_URL req)\<lparr>Path := Path target\<rparr>\<rparr>
               in case transport req' of
                    Inl err \<Rightarrow> Ret (Some req', Inl err)
                  | Inr resp \<Rightarrow>
                      Ret (Some req', Inr (resp\<lparr>iso_Header := (iso_Header resp)(''X-Global-Logging'' \<mapsto> [''false'']),
                                iso_Request_ctx := iso_ctx req'\<rparr>))))))"

section \<open>The patched stream\<close>

lemma copy_at_length: "i \<le> length b \<Longrightarrow> length (copy_at b i p) = length b"
  by (simp add: copy_at_def)

lemma copy_at_nth:
  assumes "j < length b" "i \<le> length b"
  shows "copy_at b i p ! j = (if i \<le> j \<and> j < i + length p then p ! (j - i) else b ! j)"
  using assms by (auto simp: copy_at_def nth_append min_def)

lemma patch_chunk_length [simp]: "length (patch_chunk h ctx b) = length b"
proof (cases "Index b (MagicString h)")
  case (Some i)
  then have "i \<le> length b" using Index_Some by fastforce
  then show ?thesis using Some by (simp add: patch_chunk_def copy_at_length)
qed (simp add: patch_chunk_def)

text \<open>A patch that fits replaces the magic string, padded with blanks, and nothing else.\<close>

lemma patch_chunk_fits:
  assumes "Index b (MagicString h) = Some i" "magicStrPadding h = replicate (length (MagicString h)) (CHR '' '')"
    and "length (GetPatch ctx) \<le> length (MagicString h)"
  shows "patch_chunk h ctx b = take i b @
     (GetPatch ctx @ replicate (length (MagicString h) - length (GetPatch ctx)) (CHR '' '')) @
     drop (i + length (MagicString h)) b"
proof -
  have i: "i + length (MagicString h) \<le> length b" using Index_Some[OF assms(1)] by blast
  let ?p = "GetPatch ctx"
  let ?k = "length (MagicString h)"
  show ?thesis
  proof (rule nth_equalityI)
    show "length (patch_chunk h ctx b) = length (take i b @ (?p @ replicate (?k - length ?p) (CHR '' '')) @ drop (i + ?k) b)"
      using i assms(3) by simp
    fix j
    assume j: "j < length (patch_chunk h ctx b)"
    have "patch_chunk h ctx b ! j = (if i \<le> j \<and> j < i + length ?p then ?p ! (j - i)
        else if i \<le> j \<and> j < i + ?k then CHR '' '' else b ! j)"
      using assms(1,2) i j by (auto simp: patch_chunk_def copy_at_nth copy_at_length)
    then show "patch_chunk h ctx b ! j =
        (take i b @ (?p @ replicate (?k - length ?p) (CHR '' '')) @ drop (i + ?k) b) ! j"
      using i j assms(3) by (auto simp: nth_append min_def)
  qed
qed

text \<open>A writer that accepts everything and appends it.\<close>

definition append_writer :: "bytes \<Rightarrow> bytes \<Rightarrow> bytes \<times> int \<times> go_error option" where
  "append_writer w b = (w @ b, int (length b), None)"

lemma patch_chunk_Nil [simp]: "patch_chunk h ctx [] = []"
  using patch_chunk_length[of h ctx "[]"] by (simp del: patch_chunk_length)

lemma Copy_step_append:
  "Copy h append_writer ctx ((b, rerr) # rs) w n =
     (case rerr of
        None \<Rightarrow> Copy h append_writer ctx rs (w @ patch_chunk h ctx b) (n + int (length b))
      | Some EOF \<Rightarrow> Some (w @ patch_chunk h ctx b, n + int (length b), None)
      | Some (ReadFailed e) \<Rightarrow> Some (w @ patch_chunk h ctx b, n + int (length b), Some e))"
proof (cases "b = []")
  case True
  then show ?thesis by (simp split: option.split read_err.split)
next
  case False
  moreover from this have "patch_chunk h ctx b \<noteq> []" by (metis length_0_conv patch_chunk_length)
  ultimately show ?thesis by (simp add: append_writer_def Let_def split: option.split read_err.split)
qed

lemma Copy_append_reads:
  "Copy h append_writer ctx (map (\<lambda>b. (b, None)) bs @ (b, Some r) # rs) w n =
     Some (w @ List.concat (map (patch_chunk h ctx) (bs @ [b])), n + int (length (List.concat (bs @ [b]))),
       (case r of EOF \<Rightarrow> None | ReadFailed e \<Rightarrow> Some e))"
proof (induction bs arbitrary: w n)
  case Nil
  show ?case by (cases r) (simp_all add: Copy_step_append del: Copy.simps)
next
  case (Cons c bs)
  then show ?case by (simp add: Copy_step_append del: Copy.simps)
qed

text \<open>
  C20. Copying a source that is read in chunks, the last one with the end of the file or an error, to a client
  that takes every write: the copy ends, what the client got is the concatenation of the patched chunks
  and has exactly the length of the source, the count returned is that length, and the error is the
  reader's, none at the end of the file. Each patched chunk has its chunk's length, is the chunk itself where
  the magic string does not occur in it, and, where the patch fits, is the chunk with the first magic
  string replaced by the patch and blanks.
\<close>

theorem Copy_patches:
  assumes "magicStrPadding h = replicate (length (MagicString h)) (CHR '' '')" "length (GetPatch ctx) \<le> length (MagicString h)"
  shows "\<exists>out. Copy h append_writer ctx (map (\<lambda>b. (b, None)) bs @ [(b, Some r)]) [] 0 =
       Some (out, int (length (List.concat (bs @ [b]))), (case r of EOF \<Rightarrow> None | ReadFailed e \<Rightarrow> Some e)) \<and>
     length out = length (List.concat (bs @ [b])) \<and>
     out = List.concat (map (\<lambda>c. case Index c (MagicString h) of None \<Rightarrow> c
       | Some i \<Rightarrow> take i c @ (GetPatch ctx @ replicate (length (MagicString h) - length (GetPatch ctx)) (CHR '' '')) @
           drop (i + length (MagicString h)) c) (bs @ [b]))"
proof -
  let ?out = "List.concat (map (patch_chunk h ctx) (bs @ [b]))"
  have chunk: "patch_chunk h ctx = (\<lambda>c. case Index c (MagicString h) of None \<Rightarrow> c
       | Some i \<Rightarrow> take i c @ (GetPatch ctx @ replicate (length (MagicString h) - length (GetPatch ctx)) (CHR '' '')) @
           drop (i + length (MagicString h)) c)" (is "_ = ?f")
  proof
    fix c
    show "patch_chunk h ctx c = ?f c"
      using patch_chunk_fits[OF _ assms, of c] by (cases "Index c (MagicString h)") (simp_all add: patch_chunk_def)
  qed
  have "length ?out = length (List.concat (bs @ [b]))"
    by (simp add: length_concat comp_def)
  then show ?thesis
    using Copy_append_reads[of h ctx bs b r "[]" "[]" 0] unfolding chunk by simp
qed

definition sample_iso :: iso_Handler where
  "sample_iso = \<lparr>iso_Backend = None, ExtraKernelParams = [], MagicString = ''MAGIC'', SourceISO = [], Syslog = [], TinkServerTLS = False,
     TinkServerGRPCAddr = [], StaticIPAMEnabled = False, parsedURL = None, magicStrPadding = replicate 5 (CHR '' '')\<rparr>"

theorem Copy_patches_witness:
  "Copy sample_iso append_writer (Some ''abc'') [(''xyMAGICz'', None), (''end'', Some EOF)] [] 0 = Some (''xyabc  zend'', 11, None)"
proof -
  have i: "Index ''xyMAGICz'' ''MAGIC'' = Some 2" "Index ''end'' ''MAGIC'' = None" by code_simp+
  have m: "MagicString sample_iso = ''MAGIC''" by (simp add: sample_iso_def)
  have "magicStrPadding sample_iso = replicate (length (MagicString sample_iso)) (CHR '' '')"
    "length (GetPatch (Some ''abc'')) \<le> length (MagicString sample_iso)"
    by (simp_all add: sample_iso_def GetPatch_def numeral_eq_Suc)
  from Copy_patches[OF this, of "[''xyMAGICz'']" "''end''" EOF] show ?thesis
    by (simp add: m i GetPatch_def numeral_eq_Suc del: Copy.simps Index.simps)
qed

section \<open>The hardware address in the path\<close>

text \<open>
  A path whose last element is a file and whose element before it is the text of a hardware address of
  6, 8 or 20 bytes yields exactly that address, whatever stands before it.
\<close>

lemma iso_getMAC_roundtrip:
  assumes "length hw \<in> {6, 8, 20}" "CHR ''/'' \<notin> set file"
  shows "iso_getMAC (p @ ''/'' @ HardwareAddr_String hw @ ''/'' @ file) = Inr hw"
  using path_mac_elem[OF assms, of p] ParseMAC_String[OF assms(1)] by (simp add: iso_getMAC_def)

section \<open>Access to the source\<close>

text \<open>
  C19. What becomes of a request for the ISO. The source is contacted exactly for paths with the extension \<open>.iso\<close> whose
  last element but one is the hardware address of a machine the backend knows. Then the request's path is the one of
  the configured source and its context carries the kernel parameters of that machine, which is also the context
  the response is copied with; the result is the source's response marked as logged, or the transport's error. Any
  other request is answered with an empty response: 404 for another extension or a machine the backend reports as
  not found, 400 for an element that is not a hardware address, 500 for any other error of the backend. With a
  lawful backend nothing panics.
\<close>

theorem RoundTrip_guards:
  assumes "backend_reader be" "iso_Backend h = Some be" "parsedURL h = Some target"
    and "\<And>mac. \<exists>r. GetByMac be mac = Ret r"
  shows "\<exists>sent res. RoundTrip isNotFound transport h req = Ret (sent, res) \<and>
     (let p = Path (iso_URL req); iso = (filepath_Ext p = ''.iso''); hw = ParseMAC (path_Base (path_Dir p)) in
      (sent \<noteq> None \<longleftrightarrow> iso \<and> (\<exists>ha d n. hw = Some ha \<and> GetByMac be ha = Ret (Inr (d, n)))) \<and>
      (sent = None \<longrightarrow> (\<exists>code. res = Inr (status_response code req) \<and>
         (code = 404 \<longleftrightarrow> \<not> iso \<or> (\<exists>ha e. hw = Some ha \<and> GetByMac be ha = Ret (Inl e) \<and> isNotFound e)) \<and>
         (code = 400 \<longleftrightarrow> iso \<and> hw = None) \<and>
         (code = 500 \<longleftrightarrow> iso \<and> (\<exists>ha e. hw = Some ha \<and> GetByMac be ha = Ret (Inl e) \<and> \<not> isNotFound e)))) \<and>
      (\<forall>req'. sent = Some req' \<longrightarrow> Path (iso_URL req') = Path target \<and>
         (\<exists>ha d n. hw = Some ha \<and> GetByMac be ha = Ret (Inr (Some d, Some n)) \<and> MACAddress d = Some ha \<and>
            iso_ctx req' = Some (constructPatch h (iso_consoles (Facility n)) (HardwareAddr_String ha) (Some d))) \<and>
         res = (case transport req' of Inl err \<Rightarrow> Inl err
           | Inr resp \<Rightarrow> Inr (resp\<lparr>iso_Header := (iso_Header resp)(''X-Global-Logging'' \<mapsto> [''false'']),
               iso_Request_ctx := iso_ctx req'\<rparr>))))"
proof -
  let ?p = "Path (iso_URL req)"
  consider (ext) "filepath_Ext ?p \<noteq> ''.iso''"
    | (mac) "filepath_Ext ?p = ''.iso''" "ParseMAC (path_Base (path_Dir ?p)) = None"
    | (failed) ha e where "filepath_Ext ?p = ''.iso''" "ParseMAC (path_Base (path_Dir ?p)) = Some ha" "GetByMac be ha = Ret (Inl e)"
    | (found) ha d n where "filepath_Ext ?p = ''.iso''" "ParseMAC (path_Base (path_Dir ?p)) = Some ha"
        "GetByMac be ha = Ret (Inr (Some d, Some n))" "MACAddress d = Some ha"
  proof (cases "ParseMAC (path_Base (path_Dir ?p))")
    case (Some ha)
    obtain x where x: "GetByMac be ha = Ret x" using assms(4) by blast
    with Some backend_reader.mac_both[OF assms(1)] that show ?thesis by (cases x) metis+
  qed (use that in blast)
  then show ?thesis
  proof cases
    case ext
    then show ?thesis by (simp add: RoundTrip_def Let_def)
  next
    case mac
    then show ?thesis by (simp add: RoundTrip_def iso_getMAC_def Let_def)
  next
    case failed
    with assms(2) show ?thesis by (simp add: RoundTrip_def iso_getMAC_def getFacility_def Let_def)
  next
    case found
    with assms(2,3) show ?thesis
      by (cases "transport (req\<lparr>iso_ctx := WithPatch (iso_ctx req) (constructPatch h (iso_consoles (Facility n))
            (HardwareAddr_String ha) (Some d)), iso_URL := (iso_URL req)\<lparr>Path := Path target\<rparr>\<rparr>)")
        (simp_all add: RoundTrip_def iso_getMAC_def getFacility_def Let_def WithPatch_def)
  qed
qed

definition iso_sample_backend :: BackendReader where
  "iso_sample_backend =
     \<lparr>GetByMac = (\<lambda>m. Ret (Inr (Some (new_DHCP\<lparr>MACAddress := Some m, IPAddress := Addr4 ''abcd''\<rparr>), Some new_Netboot))),
      GetByIP = (\<lambda>ip. Ret (Inl HardwareNotFoundError))\<rparr>"

definition iso_sample_request :: iso_Request where
  "iso_sample_request = \<lparr>iso_URL = empty_URL\<lparr>Path := ''/iso/08:00:27:29:4e:67/hook.iso''\<rparr>, iso_ctx = None\<rparr>"

theorem RoundTrip_guards_witness:
  "(\<exists>sent res. RoundTrip (\<lambda>e. False) (\<lambda>r. Inl HardwareNotFoundError)
       (sample_iso\<lparr>iso_Backend := Some iso_sample_backend, parsedURL := Some empty_URL\<rparr>) iso_sample_request = Ret (sent, res) \<and> sent \<noteq> None) \<and>
   RoundTrip (\<lambda>e. False) (\<lambda>r. Inl HardwareNotFoundError)
       (sample_iso\<lparr>iso_Backend := Some iso_sample_backend, parsedURL := Some empty_URL\<rparr>)
       (iso_sample_request\<lparr>iso_URL := empty_URL\<lparr>Path := ''/iso/hook.iso''\<rparr>\<rparr>) =
     Ret (None, Inr (status_response 400 (iso_sample_request\<lparr>iso_URL := empty_URL\<lparr>Path := ''/iso/hook.iso''\<rparr>\<rparr>)))"
proof -
  let ?h = "sample_iso\<lparr>iso_Backend := Some iso_sample_backend, parsedURL := Some empty_URL\<rparr>"
  let ?path = "''/iso/08:00:27:29:4e:67/hook.iso''"
  let ?mac = "[CHR 0x08, CHR 0x00, CHR 0x27, CHR 0x29, CHR 0x4E, CHR 0x67]"
  let ?bad = "iso_sample_request\<lparr>iso_URL := empty_URL\<lparr>Path := ''/iso/hook.iso''\<rparr>\<rparr>"
  have b: "backend_reader iso_sample_backend"
    by unfold_locales (auto simp: iso_sample_backend_def new_DHCP_def)
  have g: "\<exists>r. GetByMac iso_sample_backend mac = Ret r" for mac by (simp add: iso_sample_backend_def)
  have "filepath_Ext ?path = ''.iso''" "ParseMAC (path_Base (path_Dir ?path)) = Some ?mac" by code_simp+
  moreover have "\<exists>d n. GetByMac iso_sample_backend ?mac = Ret (Inr (d, n))" by (simp add: iso_sample_backend_def)
  moreover have "Path (iso_URL iso_sample_request) = ?path" by (simp add: iso_sample_request_def)
  moreover have "filepath_Ext ''/iso/hook.iso'' = ''.iso''" "ParseMAC (path_Base (path_Dir ''/iso/hook.iso'')) = None" by code_simp+
  moreover have "Path (iso_URL ?bad) = ''/iso/hook.iso''" by simp
  ultimately show ?thesis
    using RoundTrip_guards[OF b, of ?h empty_URL "\<lambda>e. False" "\<lambda>r. Inl HardwareNotFoundError" iso_sample_request, OF _ _ g]
      RoundTrip_guards[OF b, of ?h empty_URL "\<lambda>e. False" "\<lambda>r. Inl HardwareNotFoundError" ?bad, OF _ _ g]
    by (auto simp: Let_def)
qed

section \<open>The IPAM parameter\<close>

lemma dotted_no_colon: "CHR '':'' \<notin> set (dotted b)"
proof -
  have "\<not> is_digit (CHR '':'')" by (simp add: is_digit_def)
  then have "CHR '':'' \<notin> set (nat_string k)" for k using nat_string_digits by blast
  with Join_set[of "map (\<lambda>c. nat_string (of_char c)) b" "''.''"] show ?thesis by (auto simp: dotted_def)
qed

text \<open>Data with IPv4 addresses, texts without colons, and search domains without commas.\<close>

definition v4_addr :: "Addr \<Rightarrow> bool" where
  "v4_addr a \<longleftrightarrow> (case a of AddrZero \<Rightarrow> True | Addr4 b \<Rightarrow> length b = 4 | Addr6 b z \<Rightarrow> False)"

definition ipam_v4 :: "data_DHCP \<Rightarrow> bool" where
  "ipam_v4 d \<longleftrightarrow> v4_addr (IPAddress d) \<and> v4_addr (DefaultGateway d) \<and>
     (\<forall>m. SubnetMask d = Some m \<longrightarrow> length m = 4) \<and>
     (\<forall>ip \<in> set (NameServers d) \<union> set (NTPServers d). To4 ip \<noteq> None) \<and>
     CHR '':'' \<notin> set (VLANID d) \<and> CHR '':'' \<notin> set (HostName d) \<and> (\<forall>s \<in> set (DomainSearch d). CHR '':'' \<notin> set s \<and> CHR '','' \<notin> set s)"

lemma IP_String_no_colon: "To4 ip \<noteq> None \<Longrightarrow> CHR '':'' \<notin> set (IP_String ip)"
proof -
  assume "To4 ip \<noteq> None"
  then obtain v where v: "To4 ip = Some v" by blast
  then have "length (slice_bytes ip) = 4 \<or> length (slice_bytes ip) = 16"
    by (auto simp: To4_def Let_def split: if_splits)
  with v have "IP_String ip = dotted v" by (cases "slice_bytes ip") (auto simp: IP_String_def Let_def)
  with dotted_no_colon show ?thesis by simp
qed

lemma Join_no_colon: "\<forall>s \<in> set xs. CHR '':'' \<notin> set s \<Longrightarrow> CHR '':'' \<notin> set (Join xs '','')"
  using Join_set[of xs "'',''"] by auto

lemma ipam_fields_no_colon:
  assumes "ipam_v4 d" "f \<in> set (ipam_fields d)"
  shows "CHR '':'' \<notin> set f"
proof -
  have "CHR '':'' \<notin> set (list_text (map IP_String ips))" if "\<forall>ip \<in> set ips. To4 ip \<noteq> None" for ips
    using that IP_String_no_colon by (auto simp: list_text_def intro!: Join_no_colon)
  moreover have "CHR '':'' \<notin> set (ReplaceAll s (CHR '':'') (CHR ''-''))" for s
    by (auto simp: ReplaceAll_def)
  moreover have "CHR '':'' \<notin> set (Addr_String a)" if "v4_addr a" for a
    using that dotted_no_colon by (cases a) (auto simp: v4_addr_def)
  moreover have "CHR '':'' \<notin> set (IP_String (Some m))" if "SubnetMask d = Some m" for m
    using that assms(1) by (intro IP_String_no_colon) (simp add: ipam_v4_def To4_def)
  ultimately show ?thesis
    using assms by (auto simp: ipam_v4_def ipam_fields_def Join_no_colon split: option.splits if_splits)
qed

text \<open>How a reader of the parameter gets its values back: an address, and a list of addresses.\<close>

lemma Addr_String_reads: "v4_addr a \<Longrightarrow> a \<noteq> AddrZero \<Longrightarrow> ParseAddr (Addr_String a) = Some a"
  by (cases a) (simp_all add: v4_addr_def ParseAddr_dotted)

lemma To4_text: "To4 ip = Some v \<Longrightarrow> IP_String ip = dotted v \<and> To4 (ParseIP (IP_String ip)) = Some v"
proof -
  assume v: "To4 ip = Some v"
  then have "length (slice_bytes ip) = 4 \<or> length (slice_bytes ip) = 16" by (auto simp: To4_def Let_def split: if_splits)
  with v have s: "IP_String ip = dotted v" by (cases "slice_bytes ip") (auto simp: IP_String_def Let_def)
  then show ?thesis using To4_length[OF v] by (simp add: ParseIP_dotted To4_def v4InV6Prefix_length)
qed

lemma dotted_no_comma: "CHR '','' \<notin> set (dotted b)"
proof -
  have "\<not> is_digit (CHR '','')" by (simp add: is_digit_def)
  then have "CHR '','' \<notin> set (nat_string k)" for k using nat_string_digits by blast
  with Join_set[of "map (\<lambda>c. nat_string (of_char c)) b" "''.''"] show ?thesis by (auto simp: dotted_def)
qed

lemma list_text_reads:
  assumes "ips \<noteq> []" "\<forall>ip \<in> set ips. To4 ip \<noteq> None"
  shows "map (\<lambda>s. To4 (ParseIP s)) (Split (list_text (map IP_String ips)) (CHR '','')) = map To4 ips"
proof -
  have "CHR '','' \<notin> set (IP_String ip) \<and> To4 (ParseIP (IP_String ip)) = To4 ip" if "ip \<in> set ips" for ip
    using assms(2) that To4_text dotted_no_comma by (metis not_Some_eq)
  with assms(1) show ?thesis by (simp add: list_text_def Split_Join)
qed

text \<open>
  C21. The \<open>ipam\<close> parameter can be read back. For machines with IPv4 addresses and names without colons it is the text
  \<open>ipam=\<close> and nine fields between colons, which are, in the order the kernel expects them: the hardware address with
  dashes, the VLAN, the address, the netmask and the gateway, the host name, and the lists, separated by commas,
  of the name servers, the search domains and the time servers. Each field parses back into the value of the
  reservation, and is empty where the reservation has none.
\<close>

theorem parseIPAM_roundtrip:
  assumes "ipam_v4 d" "MACAddress d = Some mac" "length mac \<in> {6, 8, 20}"
  shows "\<exists>hw vlan ip mask gw host dns search ntp.
     HasPrefix (parseIPAM (Some d)) ''ipam='' \<and>
     Split (TrimPrefix (parseIPAM (Some d)) ''ipam='') (CHR '':'') = [hw, vlan, ip, mask, gw, host, dns, search, ntp] \<and>
     ParseMAC (ReplaceAll hw (CHR ''-'') (CHR '':'')) = Some mac \<and> vlan = VLANID d \<and>
     (if IPAddress d = AddrZero then ip = [] else ParseAddr ip = Some (IPAddress d)) \<and>
     (case SubnetMask d of None \<Rightarrow> mask = [] | Some m \<Rightarrow> To4 (ParseIP mask) = Some m) \<and>
     (if DefaultGateway d = AddrZero then gw = [] else ParseAddr gw = Some (DefaultGateway d)) \<and>
     host = HostName d \<and>
     (if NameServers d = [] then dns = [] else map (\<lambda>s. To4 (ParseIP s)) (Split dns (CHR '','')) = map To4 (NameServers d)) \<and>
     (if DomainSearch d = [] then search = [] else Split search (CHR '','') = DomainSearch d) \<and>
     (if NTPServers d = [] then ntp = [] else map (\<lambda>s. To4 (ParseIP s)) (Split ntp (CHR '','')) = map To4 (NTPServers d))"
proof -
  note v4 = assms(1)[unfolded ipam_v4_def]
  have "Split (Join (ipam_fields d) '':'') (CHR '':'') = ipam_fields d"
    using ipam_fields_no_colon[OF assms(1)] by (intro Split_Join) (auto simp: ipam_fields_def)
  then have fields: "HasPrefix (parseIPAM (Some d)) ''ipam=''"
    "Split (TrimPrefix (parseIPAM (Some d)) ''ipam='') (CHR '':'') = ipam_fields d"
    by (simp_all add: parseIPAM_def TrimPrefix_def HasPrefix_def)
  have "ReplaceAll (ReplaceAll (HardwareAddr_String mac) (CHR '':'') (CHR ''-'')) (CHR ''-'') (CHR '':'') = HardwareAddr_String mac"
  proof -
    have "CHR ''-'' \<notin> set (HardwareAddr_String mac)"
      using Join_set[of "map byte_hex mac" "'':''"] byte_hex_alnum[of "CHR ''-''"]
      by (auto simp: HardwareAddr_String_def is_alnum_def)
    then show ?thesis by (auto simp: ReplaceAll_def intro!: map_idI)
  qed
  with ParseMAC_String[OF assms(3)] have mac: "ParseMAC (ReplaceAll (ReplaceAll (HardwareAddr_String (slice_bytes (MACAddress d)))
      (CHR '':'') (CHR ''-'')) (CHR ''-'') (CHR '':'')) = Some mac" using assms(2) by simp
  have mask: "To4 (ParseIP (IP_String (Some m))) = Some m" if "SubnetMask d = Some m" for m
  proof -
    have "To4 (Some m) = Some m" using that v4 by (simp add: To4_def)
    with To4_text show ?thesis by blast
  qed
  have search: "Split (Join (DomainSearch d) '','') (CHR '','') = DomainSearch d" if "DomainSearch d \<noteq> []"
    using that v4 by (intro Split_Join) auto
  have lists: "ips \<noteq> [] \<Longrightarrow> map (\<lambda>s. To4 (ParseIP s)) (Split (list_text (map IP_String ips)) (CHR '','')) = map To4 ips"
    if "ips \<in> {NameServers d, NTPServers d}" for ips using that v4 by (intro list_text_reads) auto
  have none: "list_text (map IP_String []) = []" by (simp add: list_text_def)
  show ?thesis
    unfolding fields ipam_fields_def list.inject Addr_Compare_0
    by (intro exI conjI refl fields(1)) (use v4 mac mask search lists none in \<open>auto simp: Addr_String_reads split: option.split\<close>)
qed

definition sample_ipam :: data_DHCP where
  "sample_ipam = new_DHCP\<lparr>MACAddress := Some ''abcdef'', IPAddress := Addr4 ''abcd'', SubnetMask := Some ''pqrs'',
     DefaultGateway := Addr4 ''abce'', HostName := ''worker''\<rparr>"

theorem parseIPAM_roundtrip_witness:
  "\<exists>hw ip mask gw. Split (TrimPrefix (parseIPAM (Some sample_ipam)) ''ipam='') (CHR '':'') =
       [hw, [], ip, mask, gw, ''worker'', [], [], []] \<and>
     ParseAddr ip = Some (Addr4 ''abcd'') \<and> To4 (ParseIP mask) = Some ''pqrs'' \<and> ParseAddr gw = Some (Addr4 ''abce'')"
  using parseIPAM_roundtrip[of sample_ipam "''abcdef''"]
  by (force simp: sample_ipam_def new_DHCP_def ipam_v4_def v4_addr_def)

text \<open>A magic string that two reads share is passed on as it is.\<close>

lemma split_magic_not_patched:
  "Copy sample_iso append_writer (Some ''abc'') [(''xyMAG'', None), (''ICz'', Some EOF)] [] 0 = Some (''xyMAGICz'', 8, None)"
  by code_simp

text \<open>A patch that is longer than the magic string replaces what comes after it as well.\<close>

lemma long_patch_overwrites:
  "Copy sample_iso append_writer (Some ''abcdefg'') [(''xMAGICuvw'', Some EOF)] [] 0 = Some (''xabcdefgw'', 9, None)"
  by code_simp

end
