(* ===== verification/Syslog_Message.thy ===== *)
theory Syslog_Message
  imports Go_Net
begin

text \<open>
  \<open>internal/syslog/message.go\<close>, the generated tables of \<open>facility_string.go\<close> and
  \<open>severity_string.go\<close>, and the function \<open>parse\<close> of \<open>receiver.go\<close>: parsing one syslog datagram in
  place, in both the RFC 5424 and the legacy format. Go's \<open>time\<close> package is the record \<open>time_lib\<close>, with
  \<open>'t\<close> the type of points in time; \<open>json.Unmarshal\<close> is an argument,
  and so is the quoting of \<open>%q\<close> in \<open>String\<close>.
\<close>

section \<open>Definitions\<close>

record 't time_lib =
  time_Parse :: "string \<Rightarrow> string \<Rightarrow> 't option"      \<comment> \<open>layout and text\<close>
  time_Format :: "'t \<Rightarrow> string \<Rightarrow> string"
  time_IsZero :: "'t \<Rightarrow> bool"
  time_Year :: "'t \<Rightarrow> int"
  time_AddYears :: "'t \<Rightarrow> int \<Rightarrow> 't"               \<comment> \<open>\<open>AddDate(y, 0, 0)\<close>\<close>
  time_Sub :: "'t \<Rightarrow> 't \<Rightarrow> int"                   \<comment> \<open>nanoseconds\<close>
  time_Add :: "'t \<Rightarrow> int \<Rightarrow> 't"                    \<comment> \<open>nanoseconds\<close>

definition Hour :: int where "Hour = 3600 * 1000000000"

subsection \<open>Names\<close>

definition facility_name :: string where
  "facility_name = ''kernusermaildaemonauthsysloglprnewsuucpclockauthprivftpntpauditalertcronlocal0local1local2local3local4local5local6local7''"

definition facility_index :: "nat list" where
  "facility_index = [0, 4, 8, 12, 18, 22, 28, 31, 35, 39, 44, 52, 55, 58, 63, 68, 72, 78, 84, 90, 96, 102, 108, 114, 120]"

definition severity_name :: string where
  "severity_name = ''EMERGALERTCRITERRWARNINGNOTICEINFODEBUG''"

definition severity_index :: "nat list" where
  "severity_index = [0, 5, 10, 14, 17, 24, 30, 34, 39]"

definition substring :: "bytes \<Rightarrow> nat \<Rightarrow> nat \<Rightarrow> bytes" where
  "substring s lo hi = take (hi - lo) (drop lo s)"

definition facility_String :: "nat \<Rightarrow> string" where
  "facility_String i =
     (if i \<ge> length facility_index - 1 then ''facility('' @ nat_string i @ '')''
      else substring facility_name (facility_index ! i) (facility_index ! (i + 1)))"

definition severity_String :: "nat \<Rightarrow> string" where
  "severity_String i =
     (if i \<ge> length severity_index - 1 then ''severity('' @ nat_string i @ '')''
      else substring severity_name (severity_index ! i) (severity_index ! (i + 1)))"

definition DEBUG :: nat where "DEBUG = 7"

text \<open>The constants in the order of their \<open>iota\<close>.\<close>

definition facilities :: "string list" where
  "facilities = [''kern'', ''user'', ''mail'', ''daemon'', ''auth'', ''syslog'', ''lpr'', ''news'', ''uucp'', ''clock'', ''authpriv'',
     ''ftp'', ''ntp'', ''audit'', ''alert'', ''cron'', ''local0'', ''local1'', ''local2'', ''local3'', ''local4'', ''local5'',
     ''local6'', ''local7'']"

definition severities :: "string list" where
  "severities = [''EMERG'', ''ALERT'', ''CRIT'', ''ERR'', ''WARNING'', ''NOTICE'', ''INFO'', ''DEBUG'']"

subsection \<open>Messages\<close>

text \<open>
  The buffer has 2048 bytes. The parsed fields are slices of it, nil before parsing; nothing writes to
  the buffer while they are in use, so they are kept as the bytes they show.
\<close>

record 't message =
  buf :: bytes
  msg_size :: nat   \<comment> \<open>the field \<open>size\<close>\<close>
  msg_time :: 't
  msg_host :: slice
  priority :: u8
  hostname :: slice
  app :: slice
  procid :: slice
  msgid :: slice
  msg :: slice

text \<open>\<open>new(message)\<close>, with \<open>z\<close> the zero \<open>time.Time\<close>.\<close>

definition buf_size :: nat where "buf_size = 2048"

definition new_message :: "'t \<Rightarrow> 't message" where
  "new_message z = \<lparr>buf = replicate buf_size (CHR 0x00), msg_size = 0, msg_time = z, msg_host = None, priority = 0,
     hostname = None, app = None, procid = None, msgid = None, msg = None\<rparr>"

definition message_Facility :: "'t message \<Rightarrow> nat" where
  "message_Facility m = unat (priority m div 8)"

definition message_Severity :: "'t message \<Rightarrow> nat" where
  "message_Severity m = unat (priority m mod 8)"

text \<open>\<open>String\<close>: the line for debugging; \<open>msgCleanup\<close> drops backspaces.\<close>

definition msgCleanup :: "bytes \<Rightarrow> bytes" where
  "msgCleanup b = filter (\<lambda>c. c \<noteq> CHR 0x08) b"

definition message_String :: "(bytes \<Rightarrow> string) \<Rightarrow> 't message \<Rightarrow> string" where
  "message_String quote m =
     (case msg m of
        None \<Rightarrow> ''host='' @ IP_String (msg_host m) @ '' syslog='' @ quote (take (msg_size m) (buf m))
      | Some b \<Rightarrow>
          (let fs = [case hostname m of Some n \<Rightarrow> ''host='' @ n | None \<Rightarrow> ''host='' @ IP_String (msg_host m)];
               fs = fs @ [''facility='' @ facility_String (message_Facility m)];
               fs = fs @ [''severity='' @ severity_String (message_Severity m)];
               fs = fs @ (case app m of Some a \<Rightarrow> [''app-name='' @ a] | None \<Rightarrow> []);
               fs = fs @ (case procid m of Some p \<Rightarrow> [''procid='' @ p] | None \<Rightarrow> []);
               fs = fs @ (case msgid m of Some i \<Rightarrow> [''msgid='' @ i] | None \<Rightarrow> []);
               fs = fs @ [''msg='' @ quote (msgCleanup b)]
           in Join fs '' ''))"

definition ignoreNil :: "bytes \<Rightarrow> slice" where
  "ignoreNil b = (if length b = 1 \<and> b ! 0 = CHR ''-'' then None else Some b)"

definition correctLegacyTime :: "'t time_lib \<Rightarrow> 't message \<Rightarrow> 't \<Rightarrow> 't message" where
  "correctLegacyTime tlib m t0 =
     (let t = time_AddYears tlib t0 (time_Year tlib (msg_time m));
          offset = time_Sub tlib (msg_time m) t;
          offset = (if offset < 0 then - offset else offset);
          hoursOff = (offset - offset mod Hour) div Hour;
          t = (if hoursOff > 1 then time_Add tlib t hoursOff else t)
      in m\<lparr>msg_time := t\<rparr>)"

text \<open>The loop of \<open>parsePriority\<close> over the four bytes after the first one; \<open>i\<close> counts them.\<close>

fun priority_loop :: "'t message \<Rightarrow> nat \<Rightarrow> bytes \<Rightarrow> u8 \<Rightarrow> ('t message \<times> bool) go" where
  "priority_loop m i [] pri = Ret (m, False)"
| "priority_loop m i (c # cs) pri =
     (if c = CHR ''>'' then
        (if 1 + i + 1 > msg_size m then Panic ''slice bounds out of range''
         else Ret (m\<lparr>priority := pri, msg := Some (substring (buf m) (1 + i + 1) (msg_size m))\<rparr>, True))
      else if \<not> is_digit c then Ret (m, False)
      else priority_loop m (i + 1) cs (pri * 10 + of_nat (of_char c :: nat) - 48))"

definition parsePriority :: "'t message \<Rightarrow> ('t message \<times> bool) go" where
  "parsePriority m =
     (if msg_size m < 3 \<or> buf m ! 0 \<noteq> CHR ''<'' then Ret (m, False)
      else priority_loop m 0 (substring (buf m) 1 5) 0)"

definition parseVersion :: "'t message \<Rightarrow> 't message \<times> bool" where
  "parseVersion m =
     (let s = slice_bytes (msg m) in
      if length s < 2 then (m, False)
      else if s ! 1 \<noteq> CHR '' '' then (m, False)
      else if s ! 0 \<noteq> CHR ''1'' then (m, False)
      else (m\<lparr>msg := Some (drop 2 s)\<rparr>, True))"

definition rfc5424_layout :: string where "rfc5424_layout = ''2006-01-02T15:04:05.999999Z07:00''"

definition parseTimestamp :: "'t time_lib \<Rightarrow> 't message \<Rightarrow> bytes \<Rightarrow> 't message \<times> bool" where
  "parseTimestamp tlib m b =
     (if ignoreNil b = None then (m, True)
      else if length b > length rfc5424_layout then (m, False)
      else case time_Parse tlib rfc5424_layout b of
          None \<Rightarrow> (m, False)
        | Some t \<Rightarrow> (m\<lparr>msg_time := t\<rparr>, True))"

definition parseHeader :: "'t time_lib \<Rightarrow> 't message \<Rightarrow> 't message \<times> bool" where
  "parseHeader tlib m =
     (let parts = SplitN (slice_bytes (msg m)) (CHR '' '') 6 in
      if length parts \<noteq> 6 then (m, False)
      else let (m, ok) = parseTimestamp tlib m (parts ! 0) in
        if \<not> ok then (m, False)
        else (m\<lparr>hostname := ignoreNil (parts ! 1), app := ignoreNil (parts ! 2), procid := ignoreNil (parts ! 3),
               msgid := ignoreNil (parts ! 4), msg := Some (parts ! 5)\<rparr>, True))"

definition parseStructuredData :: "'t message \<Rightarrow> 't message \<times> bool" where
  "parseStructuredData m =
     (let s = slice_bytes (msg m) in
      if length s \<ge> 2 \<and> s ! 0 = CHR ''-'' \<and> s ! 1 = CHR '' '' then (m\<lparr>msg := Some (drop 2 s)\<rparr>, True)
      else (m, False))"

definition tag_char :: "byte \<Rightarrow> bool" where
  "tag_char c \<longleftrightarrow> (let k = (of_char c :: nat) in
     48 \<le> k \<and> k \<le> 57 \<or> 97 \<le> k \<and> k \<le> 122 \<or> 65 \<le> k \<and> k \<le> 90) \<or>
     c = CHR ''-'' \<or> c = CHR ''_'' \<or> c = CHR ''/'' \<or> c = CHR ''.''"

definition trimColon :: "'t message \<Rightarrow> bytes \<Rightarrow> 't message" where
  "trimColon m b = m\<lparr>msg := Some (TrimPrefix b '': '')\<rparr>"

definition parseLegacyTag :: "'t message \<Rightarrow> 't message" where
  "parseLegacyTag m =
     (let s = slice_bytes (msg m);
          tag = takeWhile tag_char s;
          b = dropWhile tag_char s
      in case b of
           [] \<Rightarrow> m\<lparr>app := None, procid := None\<rparr>
         | c # r \<Rightarrow>
             if c = CHR ''['' then
               (let m = m\<lparr>app := Some tag\<rparr> in
                case IndexByte r (CHR '']'') of
                  Some i \<Rightarrow> trimColon (m\<lparr>procid := Some (take i r)\<rparr>) (drop (i + 1) r)
                | None \<Rightarrow> trimColon (m\<lparr>procid := None\<rparr>) b)
             else trimColon (m\<lparr>app := Some tag\<rparr>) b)"

definition trimSeverityPrefix :: "'t message \<Rightarrow> 't message" where
  "trimSeverityPrefix m = m\<lparr>msg := Some (TrimPrefix (slice_bytes (msg m)) (severity_String (message_Severity m) @ '': ''))\<rparr>"

definition trimTimePrefix :: "'t time_lib \<Rightarrow> 't message \<Rightarrow> 't message" where
  "trimTimePrefix tlib m = m\<lparr>msg := Some (TrimPrefix (slice_bytes (msg m)) (time_Format tlib (msg_time m) ''2006-01-02 15:04:05 ''))\<rparr>"

definition trimCarriageReturns :: "'t message \<Rightarrow> 't message" where
  "trimCarriageReturns m =
     (case slice_bytes (msg m) of
        c # r \<Rightarrow> if c = CHR 0x0D then m\<lparr>msg := Some r\<rparr> else m
      | [] \<Rightarrow> m)"

definition time_Stamp :: string where "time_Stamp = ''Jan _2 15:04:05''"

definition legacy_time :: "'t time_lib \<Rightarrow> 't message \<Rightarrow> 't message" where
  "legacy_time tlib m =
     (let s = slice_bytes (msg m); timeLen = length time_Stamp in
      if length s \<le> timeLen \<or> s ! timeLen \<noteq> CHR '' '' then m
      else case time_Parse tlib time_Stamp (take timeLen s) of
          None \<Rightarrow> m
        | Some t \<Rightarrow> (let m = (if \<not> time_IsZero tlib t then correctLegacyTime tlib m t else m)
                    in m\<lparr>msg := Some (drop (timeLen + 1) s)\<rparr>))"

definition parseLegacyHeader :: "'t time_lib \<Rightarrow> 't message \<Rightarrow> 't message \<times> bool" where
  "parseLegacyHeader tlib m =
     (let m = legacy_time tlib m;
          m = m\<lparr>hostname := None\<rparr>;
          m = parseLegacyTag m;
          m = trimSeverityPrefix m;
          m = trimTimePrefix tlib m;
          m = trimCarriageReturns m
      in (m, True))"

definition message_parse :: "'t time_lib \<Rightarrow> 't message \<Rightarrow> ('t message \<times> bool) go" where
  "message_parse tlib m0 =
     go_bind (parsePriority m0) (\<lambda>(m, ok).
       if \<not> ok then Ret (m, False)
       else let (m, ok) = parseVersion m in
         if \<not> ok then Ret (parseLegacyHeader tlib m)
         else let (m, ok) = parseHeader tlib m in
           if \<not> ok then Ret (m, False)
           else Ret (parseStructuredData m))"

definition message_reset :: "'t message \<Rightarrow> 't message" where
  "message_reset m = m\<lparr>priority := 0, hostname := None, app := None, procid := None, msgid := None, msg := None\<rparr>"

subsection \<open>Structured fields\<close>

datatype 'j field_value = Text string | Json 'j

definition text_field :: "string \<Rightarrow> string \<Rightarrow> (string \<rightharpoonup> 'j field_value) \<Rightarrow> (string \<rightharpoonup> 'j field_value)" where
  "text_field key v fs = (if v \<noteq> [] then fs(key \<mapsto> Text v) else fs)"

definition structured_parse :: "(bytes \<Rightarrow> 'j option) \<Rightarrow> 't message \<Rightarrow> (string \<rightharpoonup> 'j field_value)" where
  "structured_parse json_Unmarshal m =
     (let fs = Map.empty;
          fs = text_field ''facility'' (facility_String (message_Facility m)) fs;
          fs = text_field ''severity'' (severity_String (message_Severity m)) fs;
          fs = text_field ''hostname'' (slice_bytes (hostname m)) fs;
          fs = text_field ''app-name'' (slice_bytes (app m)) fs;
          fs = text_field ''procid'' (slice_bytes (procid m)) fs;
          fs = text_field ''msgid'' (slice_bytes (msgid m)) fs;
          b = slice_bytes (msg m);
          fs = (if b \<noteq> [] then
                  (if HasPrefix b ''{'' then (case json_Unmarshal b of Some j \<Rightarrow> fs(''msg'' \<mapsto> Json j) | None \<Rightarrow> fs)
                   else fs(''msg'' \<mapsto> Text b))
                else fs)
      in fs(''host'' \<mapsto> Text (IP_String (msg_host m))))"

text \<open>What \<open>run\<close> of the receiver writes into a message it has read a datagram into.\<close>

definition message_fill :: "bytes \<Rightarrow> 't \<Rightarrow> slice \<Rightarrow> 't message \<Rightarrow> 't message" where
  "message_fill datagram now src m =
     (let d = take buf_size datagram
      in m\<lparr>buf := d @ drop (length d) (buf m), msg_time := now, msg_host := src, msg_size := length d\<rparr>)"

section \<open>Names of facilities and severities\<close>

text \<open>The generated tables give every constant its name, so every facility and severity a message can have is named.\<close>

lemma facility_String_names: "map facility_String [0..<24] = facilities"
  by code_simp

lemma severity_String_names: "map severity_String [0..<8] = severities"
  by code_simp

lemma severity_named: "severity_String (message_Severity m) \<in> set severities"
proof -
  have "message_Severity m \<in> set [0..<8]" by (simp add: message_Severity_def unat_mod)
  then show ?thesis unfolding severity_String_names[symmetric] by (metis image_eqI list.set_map)
qed

lemma facility_named: "unat (priority m) < 192 \<Longrightarrow> facility_String (message_Facility m) \<in> set facilities"
proof -
  assume "unat (priority m) < 192"
  then have "message_Facility m \<in> set [0..<24]" by (simp add: message_Facility_def unat_div less_mult_imp_div_less)
  then show ?thesis unfolding facility_String_names[symmetric] by (metis image_eqI list.set_map)
qed

section \<open>The priority\<close>

lemma message_fill_simps:
  assumes "length d \<le> buf_size"
  shows "message_fill d now src m = m\<lparr>buf := d @ drop (length d) (buf m), msg_time := now, msg_host := src, msg_size := length d\<rparr>"
  using assms by (simp add: message_fill_def)

lemma priority_loop_digits:
  assumes "list_all is_digit ds"
  shows "priority_loop m i (ds @ CHR ''>'' # cs) pri =
     (if i + length ds + 2 > msg_size m then Panic ''slice bounds out of range''
      else Ret (m\<lparr>priority := foldl (\<lambda>a c. a * 10 + of_nat (of_char c :: nat) - 48) pri ds,
              msg := Some (substring (buf m) (i + length ds + 2) (msg_size m))\<rparr>, True))"
  using assms
proof (induction ds arbitrary: i pri)
  case (Cons c ds)
  moreover have "c \<noteq> CHR ''>''" using Cons.prems by (auto simp: is_digit_def)
  ultimately show ?case by simp
qed simp

lemma digits_value:
  assumes "list_all is_digit ds"
  shows "foldl (\<lambda>a c. a * 10 + of_nat (of_char c :: nat) - 48) (of_nat k :: u8) ds =
     of_nat (foldl (\<lambda>a c. a * 10 + digit_val c) k ds)"
  using assms
proof (induction ds arbitrary: k)
  case (Cons c ds)
  then have step: "(of_nat k :: u8) * 10 + of_nat (of_char c :: nat) - 48 = of_nat (k * 10 + digit_val c)"
    by (simp add: is_digit_def digit_val_def of_nat_diff)
  show ?case
    unfolding foldl_Cons step by (rule Cons.IH) (use Cons.prems in simp)
qed simp

lemma nat_string_length: "n < 1000 \<Longrightarrow> length (nat_string n) \<le> 3"
proof -
  assume n: "n < 1000"
  have 1: "length (nat_string k) = 1" if "k < 10" for k using that by (subst nat_string.simps) simp
  have 2: "length (nat_string k) \<le> 2" if "k < 100" for k
    using that 1[of "k div 10"] by (subst nat_string.simps) simp
  show ?thesis using n 2[of "n div 10"] by (subst nat_string.simps) simp
qed

lemma parsePriority_ok:
  assumes "n < 1000" "d = ''<'' @ nat_string n @ ''>'' @ rest" "length d \<le> buf_size"
  shows "parsePriority (message_fill d now src m) =
     Ret ((message_fill d now src m)\<lparr>priority := of_nat n, msg := Some rest\<rparr>, True)"
proof -
  let ?m = "message_fill d now src m"
  let ?ds = "nat_string n"
  have buf: "buf ?m = d @ drop (length d) (buf m)" "msg_size ?m = length d"
    using assms(3) by (simp_all add: message_fill_simps)
  have len: "length ?ds \<le> 3" using assms(1) by (rule nat_string_length)
  have ds: "list_all is_digit ?ds" using nat_string_digits by (auto simp: list_all_iff)
  have four: "4 - length ?ds = Suc (3 - length ?ds)" using len by simp
  have "substring (buf ?m) 1 5 = ?ds @ CHR ''>'' # take (3 - length ?ds) (rest @ drop (length d) (buf m))"
    unfolding substring_def buf using len by (simp add: assms(2) four)
  moreover have "substring (buf ?m) (0 + length ?ds + 2) (msg_size ?m) = rest"
    unfolding substring_def buf by (simp add: assms(2))
  moreover have "foldl (\<lambda>a c. a * 10 + of_nat (of_char c :: nat) - 48) (0 :: u8) ?ds = of_nat n"
    using digits_value[OF ds, of 0] by (simp add: nat_string_inj_val)
  ultimately show ?thesis
    using priority_loop_digits[OF ds, of ?m 0 "take (3 - length ?ds) (rest @ drop (length d) (buf m))" 0]
    by (simp add: parsePriority_def buf) (simp add: assms(2))
qed

section \<open>Whole datagrams\<close>

text \<open>A datagram in the format of RFC 5424 without structured data, and one in the legacy format.\<close>

definition rfc5424 :: "nat \<Rightarrow> bytes list \<Rightarrow> bytes \<Rightarrow> bytes" where
  "rfc5424 pri fs body =
     ''<'' @ nat_string pri @ ''>1 '' @ concat (map (\<lambda>x. x @ '' '') fs) @ ''- '' @ body"

definition legacy :: "nat \<Rightarrow> bytes \<Rightarrow> bytes \<Rightarrow> bytes \<Rightarrow> bytes \<Rightarrow> bytes" where
  "legacy pri stamp tag pid body =
     ''<'' @ nat_string pri @ ''>'' @ stamp @ '' '' @ tag @ ''['' @ pid @ '']: '' @ body"

lemma parseHeader_fields:
  assumes "slice_bytes (msg m) = ts @ '' '' @ host @ '' '' @ ap @ '' '' @ pid @ '' '' @ mid @ '' '' @ rest"
    and "\<forall>x \<in> {ts, host, ap, pid, mid}. CHR '' '' \<notin> set x"
    and "parseTimestamp tlib m ts = (m\<lparr>msg_time := t\<rparr>, True)"
  shows "parseHeader tlib m = (m\<lparr>msg_time := t, hostname := ignoreNil host, app := ignoreNil ap,
     procid := ignoreNil pid, msgid := ignoreNil mid, msg := Some rest\<rparr>, True)"
proof -
  have six: "6 = Suc (Suc (Suc (Suc (Suc (Suc 0)))))" by simp
  have "SplitN (slice_bytes (msg m)) (CHR '' '') 6 = [ts, host, ap, pid, mid, rest]"
    unfolding six using assms(2) by (simp add: assms(1) SplitN_step del: SplitN.simps(3))
  then show ?thesis using assms(3) by (simp add: parseHeader_def)
qed

lemma parseTimestamp_ok:
  assumes "ts = ''-'' \<and> t = msg_time m \<or>
     ts \<noteq> ''-'' \<and> length ts \<le> length rfc5424_layout \<and> time_Parse tlib rfc5424_layout ts = Some t"
  shows "parseTimestamp tlib m ts = (m\<lparr>msg_time := t\<rparr>, True)"
proof -
  have "ignoreNil ts = None \<longleftrightarrow> ts = ''-''" by (cases ts) (auto simp: ignoreNil_def)
  then show ?thesis using assms by (auto simp: parseTimestamp_def)
qed

lemma priority_bits:
  assumes "n < 256"
  shows "unat ((of_nat n :: u8) div 8) = n div 8" "unat ((of_nat n :: u8) mod 8) = n mod 8"
  using assms by (simp_all add: unat_div unat_mod unat_of_nat)

text \<open>Time as a number of nanoseconds, for concrete examples.\<close>

definition sample_time :: "int time_lib" where
  "sample_time = \<lparr>time_Parse = (\<lambda>l s. if s = ''Jan  2 03:04:05'' then Some 97445000000000 else None),
     time_Format = (\<lambda>t l. ''2000-01-02 03:04:05 ''), time_IsZero = (\<lambda>t. t = 0), time_Year = (\<lambda>t. t div 31536000000000000),
     time_AddYears = (\<lambda>t y. t + y * 31536000000000000), time_Sub = (-), time_Add = (+)\<rparr>"

text \<open>
  C15. A well-formed RFC 5424 datagram of at most 2048 bytes is parsed back into its fields whatever the
  reused buffer held before: the facility and severity of its priority, the timestamp (kept as the time of
  receipt for \<open>-\<close>), the four header fields with \<open>-\<close> as absent, and the body after the empty
  structured data.
\<close>

theorem rfc5424_roundtrip:
  assumes "pri < 256" "length (rfc5424 pri [ts, host, ap, pid, mid] body) \<le> buf_size"
    and "\<forall>x \<in> {ts, host, ap, pid, mid}. CHR '' '' \<notin> set x"
    and "ts = ''-'' \<and> t = now \<or>
         ts \<noteq> ''-'' \<and> length ts \<le> length rfc5424_layout \<and> time_Parse tlib rfc5424_layout ts = Some t"
  shows "\<exists>m'. message_parse tlib (message_fill (rfc5424 pri [ts, host, ap, pid, mid] body) now src m) = Ret (m', True) \<and>
    message_Facility m' = pri div 8 \<and> message_Severity m' = pri mod 8 \<and> msg_time m' = t \<and> msg_host m' = src \<and>
    hostname m' = ignoreNil host \<and> app m' = ignoreNil ap \<and> procid m' = ignoreNil pid \<and>
    msgid m' = ignoreNil mid \<and> msg m' = Some body"
proof -
  let ?rest = "''1 '' @ ts @ '' '' @ host @ '' '' @ ap @ '' '' @ pid @ '' '' @ mid @ '' - '' @ body"
  let ?d = "rfc5424 pri [ts, host, ap, pid, mid] body"
  let ?m1 = "(message_fill ?d now src m)\<lparr>priority := of_nat pri, msg := Some ?rest\<rparr>"
  let ?m2 = "?m1\<lparr>msg := Some (drop 2 ?rest)\<rparr>"
  let ?m3 = "?m2\<lparr>msg_time := t, hostname := ignoreNil host, app := ignoreNil ap, procid := ignoreNil pid,
               msgid := ignoreNil mid, msg := Some (''- '' @ body)\<rparr>"
  have d: "?d = ''<'' @ nat_string pri @ ''>'' @ ?rest" by (simp add: rfc5424_def)
  have 1: "parsePriority (message_fill ?d now src m) = Ret (?m1, True)"
    using assms(1,2) by (intro parsePriority_ok[OF _ d]) auto
  have 2: "parseVersion ?m1 = (?m2, True)" by (simp add: parseVersion_def)
  have "parseTimestamp tlib ?m2 ts = (?m2\<lparr>msg_time := t\<rparr>, True)"
    using assms(4) by (intro parseTimestamp_ok) (simp add: message_fill_def)
  then have 3: "parseHeader tlib ?m2 = (?m3, True)"
    using assms(3) parseHeader_fields[of ?m2 ts host ap pid mid "''- '' @ body" tlib t] by simp
  have 4: "parseStructuredData ?m3 = (?m3\<lparr>msg := Some body\<rparr>, True)"
    by (simp add: parseStructuredData_def)
  have "message_parse tlib (message_fill ?d now src m) = Ret (?m3\<lparr>msg := Some body\<rparr>, True)"
    by (simp only: message_parse_def 1 2 3 4 go_bind.simps prod.case Let_def not_True_eq_False if_False)
  then show ?thesis
    using assms(1) by (simp add: message_Facility_def message_Severity_def priority_bits message_fill_def)
qed

theorem rfc5424_roundtrip_witness:
  "\<exists>m'. message_parse sample_time
      (message_fill (rfc5424 165 [''-'', ''host1'', ''dhcpd'', ''-'', ''ID47''] ''lease ok'') 7 (Some ''ab'') (new_message 0)) =
      Ret (m', True) \<and>
    message_Facility m' = 165 div 8 \<and> message_Severity m' = 165 mod 8 \<and> msg_time m' = 7 \<and> msg_host m' = Some ''ab'' \<and>
    hostname m' = ignoreNil ''host1'' \<and> app m' = ignoreNil ''dhcpd'' \<and> procid m' = ignoreNil ''-'' \<and>
    msgid m' = ignoreNil ''ID47'' \<and> msg m' = Some ''lease ok''"
  by (rule rfc5424_roundtrip[where ts = "''-''"]) (simp, code_simp, simp, simp)

section \<open>Panics\<close>

lemma priority_loop_panic:
  "(\<exists>p. priority_loop m i cs pri = Panic p) \<longleftrightarrow>
     (\<exists>k < length cs. list_all is_digit (take k cs) \<and> cs ! k = CHR ''>'' \<and> msg_size m < i + k + 2)"
proof (induction cs arbitrary: i pri)
  case (Cons c cs)
  have gt: "\<not> is_digit (CHR ''>'')" by (simp add: is_digit_def)
  show ?case
  proof (cases "is_digit c")
    case True
    with gt have "c \<noteq> CHR ''>''" by metis
    with True Cons.IH[of "i + 1" "pri * 10 + of_nat (of_char c :: nat) - 48"]
    show ?thesis by (simp add: Ex_less_Suc2 del: ex_simps)
  qed (auto simp: Ex_less_Suc2)
qed simp

lemma message_parse_panic:
  "(\<exists>p. message_parse tlib m = Panic p) \<longleftrightarrow> (\<exists>p. parsePriority m = Panic p)"
  by (cases "parsePriority m") (simp_all add: message_parse_def Let_def split: prod.split)

text \<open>The bytes after the first one that the loop of \<open>parsePriority\<close> sees: those of the datagram, then older ones.\<close>

lemma fill_digits:
  assumes "j < 4" "length d \<le> Suc j" "3 \<le> length d" "length (buf m) = buf_size"
  shows "list_all is_digit (take j (substring (d @ drop (length d) (buf m)) 1 5)) \<longleftrightarrow>
      list_all is_digit (drop 1 d @ take (Suc j - length d) (drop (length d) (buf m)))"
    and "substring (d @ drop (length d) (buf m)) 1 5 ! j = buf m ! Suc j"
proof -
  have "\<not> j < length d - Suc 0" using assms by simp
  then show "substring (d @ drop (length d) (buf m)) 1 5 ! j = buf m ! Suc j"
    using assms by (simp add: substring_def nth_append buf_size_def)
qed (use assms in \<open>simp add: substring_def min_def Suc_diff_le\<close>)

lemma fill_panics:
  assumes "length d \<le> buf_size" "length (buf m) = buf_size" "b = d @ drop (length d) (buf m)"
  shows "(\<exists>p. message_parse tlib (message_fill d now src m) = Panic p) \<longleftrightarrow> 3 \<le> length d \<and> d ! 0 = CHR ''<'' \<and>
      (\<exists>j < 4. list_all is_digit (take j (substring b 1 5)) \<and> substring b 1 5 ! j = CHR ''>'' \<and> length d < j + 2)"
proof -
  let ?m = "message_fill d now src m"
  have pp: "parsePriority ?m = (if length d < 3 \<or> b ! 0 \<noteq> CHR ''<'' then Ret (?m, False)
      else priority_loop ?m 0 (substring b 1 5) 0)"
    and size: "msg_size ?m = length d"
    using assms by (simp_all add: parsePriority_def message_fill_simps)
  have "3 \<le> length d \<Longrightarrow> b ! 0 = d ! 0" using assms(3) by (cases d) auto
  moreover have "length (substring b 1 5) = 4" using assms by (simp add: substring_def buf_size_def)
  ultimately show ?thesis
    using priority_loop_panic[of ?m 0 "substring b 1 5" 0] by (cases "3 \<le> length d") (simp_all add: message_parse_panic pp size)
qed

text \<open>
  C17. Parsing a datagram panics exactly when the datagram is three or four bytes long, starts with
  \<open><\<close>, and its remaining bytes followed by bytes of an earlier datagram still in the buffer read as
  digits up to a \<open>>\<close> within the first five bytes of the buffer. A datagram of five bytes or more never
  makes it panic.
\<close>

theorem parse_panics_iff:
  assumes "length d \<le> buf_size" "length (buf m) = buf_size"
  shows "(\<exists>p. message_parse tlib (message_fill d now src m) = Panic p) \<longleftrightarrow>
     3 \<le> length d \<and> d ! 0 = CHR ''<'' \<and>
     (\<exists>k. length d \<le> k \<and> k < 5 \<and> buf m ! k = CHR ''>'' \<and>
        list_all is_digit (drop 1 d @ take (k - length d) (drop (length d) (buf m))))"
proof -
  let ?b = "d @ drop (length d) (buf m)"
  let ?P = "\<lambda>k. buf m ! k = CHR ''>'' \<and> list_all is_digit (drop 1 d @ take (k - length d) (drop (length d) (buf m)))"
  have shift: "(\<exists>j < 4. length d \<le> Suc j \<and> ?P (Suc j)) \<longleftrightarrow> (\<exists>k. length d \<le> k \<and> k < 5 \<and> ?P k)" if "3 \<le> length d"
    by (rule iffI, force, elim exE, rename_tac k, rule_tac x = "k - 1" in exI) (use that in auto)
  have "(j < 4 \<and> list_all is_digit (take j (substring ?b 1 5)) \<and> substring ?b 1 5 ! j = CHR ''>'' \<and> length d < j + 2) \<longleftrightarrow>
      (j < 4 \<and> length d \<le> Suc j \<and> ?P (Suc j))" if "3 \<le> length d" for j
    using fill_digits[of j d m] that assms(2) by (cases "j < 4 \<and> length d \<le> Suc j") auto
  then show ?thesis
    unfolding fill_panics[OF assms refl] using shift by (cases "3 \<le> length d") auto
qed

theorem parse_panics_iff_witness:
  "(\<exists>p. message_parse sample_time (message_fill ''<134>boot'' 7 None (new_message 0)) = Panic p) \<longleftrightarrow>
     3 \<le> length ''<134>boot'' \<and> ''<134>boot'' ! 0 = CHR ''<'' \<and>
     (\<exists>k. length ''<134>boot'' \<le> k \<and> k < 5 \<and> buf (new_message (0 :: int)) ! k = CHR ''>'' \<and>
        list_all is_digit (drop 1 ''<134>boot'' @ take (k - length ''<134>boot'') (drop (length ''<134>boot'') (buf (new_message (0 :: int))))))"
  by (rule parse_panics_iff) (simp_all add: buf_size_def new_message_def)

lemma parsePriority_buf: "parsePriority m = Ret (m', ok) \<Longrightarrow> buf m' = buf m"
proof -
  have "priority_loop m i cs pri = Ret (m', ok) \<Longrightarrow> buf m' = buf m" for i cs pri
    by (induction m i cs pri rule: priority_loop.induct) (auto split: if_splits)
  then show "parsePriority m = Ret (m', ok) \<Longrightarrow> buf m' = buf m"
    by (auto simp: parsePriority_def split: if_splits)
qed

lemma legacy_time_buf: "buf (legacy_time tlib m) = buf m"
  by (simp add: legacy_time_def correctLegacyTime_def Let_def split: option.split)

lemma parseLegacyTag_buf: "buf (parseLegacyTag m) = buf m"
  by (simp add: parseLegacyTag_def trimColon_def Let_def split: list.split option.split)

lemma parseLegacyHeader_buf: "buf (fst (parseLegacyHeader tlib m)) = buf m"
proof -
  have "buf (trimCarriageReturns x) = buf x" for x :: "'a message"
    by (simp add: trimCarriageReturns_def split: list.split)
  then show ?thesis
    by (simp add: parseLegacyHeader_def Let_def trimSeverityPrefix_def trimTimePrefix_def legacy_time_buf parseLegacyTag_buf)
qed

lemma parseHeader_buf: "buf (fst (parseHeader tlib m)) = buf m"
  by (simp add: parseHeader_def parseTimestamp_def Let_def split: option.split)

lemma message_parse_buf:
  assumes "message_parse tlib m = Ret (m', ok)"
  shows "buf m' = buf m"
proof -
  from assms obtain m1 ok1 where 1: "parsePriority m = Ret (m1, ok1)"
    by (auto simp: message_parse_def elim: go_bind_RetE)
  have "buf (fst (parseVersion m1)) = buf m1" "buf (fst (parseStructuredData x)) = buf x" for x :: "'a message"
    by (simp_all add: parseVersion_def parseStructuredData_def Let_def)
  then have "buf m' = buf m1"
    using assms parseLegacyHeader_buf[of tlib "fst (parseVersion m1)"] parseHeader_buf[of tlib "fst (parseVersion m1)"]
    by (simp add: message_parse_def 1 Let_def split: if_splits prod.splits) (metis fst_conv)+
  with parsePriority_buf[OF 1] show ?thesis by simp
qed

text \<open>
  Two datagrams that crash the receiver's parser: after \<open><134>x\<close> was parsed and its message
  reset, reusing the message for the datagram \<open><13\<close> makes \<open>parsePriority\<close> slice the buffer beyond
  the new datagram and panic.
\<close>

lemma reused_message_panics:
  "\<exists>m1. message_parse tlib (message_fill ''<134>x'' now src (new_message z)) = Ret (m1, True) \<and>
     message_parse tlib (message_fill ''<13'' now' src' (message_reset m1)) = Panic ''slice bounds out of range''"
proof -
  let ?m = "message_fill ''<134>x'' now src (new_message z)"
  have d: "''<134>x'' = ''<'' @ nat_string 134 @ ''>'' @ ''x''" by code_simp
  have 1: "parsePriority ?m = Ret (?m\<lparr>priority := 134, msg := Some ''x''\<rparr>, True)"
    using parsePriority_ok[OF _ d, of now src "new_message z"] by (simp add: buf_size_def)
  obtain m1 where m1: "message_parse tlib ?m = Ret (m1, True)"
    by (simp add: message_parse_def 1 parseVersion_def parseLegacyHeader_def Let_def)
  have "buf m1 = ''<134>x'' @ replicate 2042 (CHR 0x00)"
    using message_parse_buf[OF m1] by (simp add: message_fill_def new_message_def buf_size_def)
  then have "parsePriority (message_fill ''<13'' now' src' (message_reset m1)) = Panic ''slice bounds out of range''"
    by (simp add: parsePriority_def message_fill_def message_reset_def buf_size_def substring_def is_digit_def)
  then show ?thesis using m1 by (simp add: message_parse_def)
qed

section \<open>The legacy format\<close>

lemma takeWhile_tag: "list_all tag_char tag \<Longrightarrow> \<not> tag_char c \<Longrightarrow>
    takeWhile tag_char (tag @ c # r) = tag \<and> dropWhile tag_char (tag @ c # r) = c # r"
  by (simp add: list_all_iff)

lemma parseLegacyTag_pid:
  assumes "list_all tag_char tag" "CHR '']'' \<notin> set pid"
    and "slice_bytes (msg m) = tag @ ''['' @ pid @ '']: '' @ body"
  shows "parseLegacyTag m = m\<lparr>app := Some tag, procid := Some pid, msg := Some body\<rparr>"
proof -
  have "\<not> tag_char (CHR ''['')" by (simp add: tag_char_def)
  with assms show ?thesis
    by (simp add: parseLegacyTag_def takeWhile_tag IndexByte_append trimColon_def TrimPrefix_def HasPrefix_def)
qed

text \<open>
  C16. A legacy datagram (timestamp, tag with process id, body) is parsed back into its parts: the facility
  and severity of its priority, the tag as application name, the process id and the body, with the sender as
  the only host. Its time is the time of receipt, or the timestamp corrected by \<open>correctLegacyTime\<close>.
\<close>

theorem legacy_roundtrip:
  assumes "pri < 256" "length (legacy pri stamp tag pid body) \<le> buf_size"
    and "length stamp = length time_Stamp" "take 2 stamp \<noteq> ''1 ''" "time_Parse tlib time_Stamp stamp = Some t"
    and "list_all tag_char tag" "CHR '']'' \<notin> set pid"
    and "t' = (if time_IsZero tlib t then now else msg_time (correctLegacyTime tlib (m\<lparr>msg_time := now\<rparr>) t))"
    and "\<not> HasPrefix body (severity_String (pri mod 8) @ '': '')"
    and "\<not> HasPrefix body (time_Format tlib t' ''2006-01-02 15:04:05 '')"
    and "\<not> HasPrefix body [CHR 0x0D]"
  shows "\<exists>m'. message_parse tlib (message_fill (legacy pri stamp tag pid body) now src m) = Ret (m', True) \<and>
    message_Facility m' = pri div 8 \<and> message_Severity m' = pri mod 8 \<and> msg_time m' = t' \<and> msg_host m' = src \<and>
    hostname m' = None \<and> app m' = Some tag \<and> procid m' = Some pid \<and> msg m' = Some body"
proof -
  let ?d = "legacy pri stamp tag pid body"
  let ?tagged = "tag @ ''['' @ pid @ '']: '' @ body"
  let ?m0 = "message_fill ?d now src m"
  let ?m1 = "?m0\<lparr>priority := of_nat pri, msg := Some (stamp @ '' '' @ ?tagged)\<rparr>"
  let ?m2 = "?m1\<lparr>msg_time := t', msg := Some ?tagged\<rparr>"
  let ?m3 = "?m2\<lparr>hostname := None, app := Some tag, procid := Some pid, msg := Some body\<rparr>"
  have d: "?d = ''<'' @ nat_string pri @ ''>'' @ stamp @ '' '' @ ?tagged" by (simp add: legacy_def)
  have 1: "parsePriority ?m0 = Ret (?m1, True)"
    using assms(1,2) by (intro parsePriority_ok[OF _ d]) auto
  have "take 2 (stamp @ '' '' @ ?tagged) \<noteq> ''1 ''" using assms(3,4) by (simp add: time_Stamp_def)
  then have 2: "parseVersion ?m1 = (?m1, False)"
    by (cases stamp; cases "List.tl stamp") (auto simp: parseVersion_def Let_def)
  have 3: "legacy_time tlib ?m1 = ?m2"
    using assms(3,5,8) by (simp add: legacy_time_def nth_append correctLegacyTime_def Let_def message_fill_def)
  have 4: "parseLegacyTag (?m2\<lparr>hostname := None\<rparr>) = ?m3"
    by (subst parseLegacyTag_pid[OF assms(6,7)]) simp_all
  have sev: "message_Severity ?m3 = pri mod 8" "message_Facility ?m3 = pri div 8"
    using assms(1) by (simp_all add: message_Severity_def message_Facility_def priority_bits)
  have 5: "trimSeverityPrefix ?m3 = ?m3" "trimTimePrefix tlib ?m3 = ?m3"
    unfolding trimSeverityPrefix_def trimTimePrefix_def sev using assms(9,10) by (simp_all add: TrimPrefix_def)
  have 6: "trimCarriageReturns ?m3 = ?m3"
    using assms(11) by (cases body) (simp_all add: trimCarriageReturns_def HasPrefix_def)
  have "message_parse tlib ?m0 = Ret (?m3, True)"
    by (simp only: message_parse_def parseLegacyHeader_def 1 2 3 4 5 6 go_bind.simps prod.case Let_def
        not_True_eq_False not_False_eq_True if_False if_True)
  then show ?thesis using sev by (intro exI[of _ ?m3]) (simp add: message_fill_def)
qed

theorem legacy_roundtrip_witness:
  "\<exists>m'. message_parse sample_time (message_fill (legacy 30 ''Jan  2 03:04:05'' ''dhcpd'' ''42'' ''offer sent'') 97445000000007 None (new_message 0)) =
      Ret (m', True) \<and>
    message_Facility m' = 30 div 8 \<and> message_Severity m' = 30 mod 8 \<and> msg_time m' = 97445000000000 \<and> msg_host m' = None \<and>
    hostname m' = None \<and> app m' = Some ''dhcpd'' \<and> procid m' = Some ''42'' \<and> msg m' = Some ''offer sent''"
  by (rule legacy_roundtrip[where stamp = "''Jan  2 03:04:05''" and t = 97445000000000])
    (simp, code_simp, simp add: time_Stamp_def, simp, simp add: sample_time_def, code_simp, simp,
     simp add: sample_time_def correctLegacyTime_def Hour_def, code_simp, code_simp, code_simp)

text \<open>
  The correction of a legacy time adds the number of hours the stamp is off as a \<open>time.Duration\<close>, which is
  a number of nanoseconds: a stamp that is five hours behind stays five hours behind, less five nanoseconds.
\<close>

lemma legacy_hours_as_nanoseconds:
  assumes "0 \<le> t" "t + 5 * Hour < 31536000000000000"
  shows "msg_time (correctLegacyTime sample_time (message_fill d (t + 5 * Hour) src m) t) = t + 5"
  using assms by (simp add: correctLegacyTime_def sample_time_def message_fill_def Hour_def Let_def)

end
