(* ===== verification/Syslog_Receiver.thy ===== *)
theory Syslog_Receiver
  imports Syslog_Message "HOL-Library.Multiset"
begin

text \<open>
  \<open>internal/syslog/receiver.go\<close>: the goroutine that reads datagrams into pooled messages (\<open>run\<close>), the
  parser goroutines (\<open>runParser\<close>), the buffered channel between them, the pool, and the goroutine that
  closes everything when the context ends (\<open>cleanup\<close>), as a step relation that interleaves them. Messages
  are pointers into a store, since the goroutines hand them around and reuse them.
\<close>

section \<open>Definitions\<close>

subsection \<open>State\<close>

datatype run_pc =
    Run_Fetch            \<comment> \<open>the head of the loop with \<open>msg == nil\<close>\<close>
  | Run_Read nat         \<comment> \<open>at \<open>ReadFromUDP\<close>, owning this message\<close>
  | Run_Send nat         \<comment> \<open>at \<open>r.parse <- msg\<close>\<close>
  | Run_Done

datatype parser_pc = Parser_Wait | Parser_Busy nat | Parser_Done

text \<open>What a parser logs: structured fields, at debug level or not, or the message itself.\<close>

datatype ('t, 'j) entry = Structured bool "string \<rightharpoonup> 'j field_value" | Unparsed "'t message"

record ('t, 'j) Receiver =
  store :: "nat \<Rightarrow> 't message"
  next_addr :: nat                  \<comment> \<open>messages allocated so far\<close>
  pool :: "nat list"                \<comment> \<open>\<open>syslogMessagePool\<close>\<close>
  run_at :: run_pc
  parse :: "nat list"               \<comment> \<open>the channel's buffer, oldest first\<close>
  parse_cap :: nat
  parsers :: "parser_pc list"
  conn_open :: bool
  parse_open :: bool
  done_open :: bool
  err :: "go_error option"
  crashed :: "string option"        \<comment> \<open>a panic, which ends the program\<close>
  logged :: "('t, 'j) entry list"
  received :: "'t message list"     \<comment> \<open>history: the messages as filled, in the order of the reads\<close>
  taken :: "'t message list"        \<comment> \<open>history: the messages the parsers received from the channel\<close>
  handled :: "'t message list"      \<comment> \<open>history: the messages whose log entry was written\<close>

definition Receiver_init :: "'t \<Rightarrow> nat \<Rightarrow> ('t, 'j) Receiver" where
  "Receiver_init z n = \<lparr>store = (\<lambda>_. new_message z), next_addr = 0, pool = [], run_at = Run_Fetch, parse = [],
     parse_cap = n, parsers = replicate n Parser_Wait, conn_open = True, parse_open = True, done_open = True,
     err = None, crashed = None, logged = [], received = [], taken = [], handled = []\<rparr>"

text \<open>
  \<open>StartReceiver\<close>: \<open>resolve\<close> and \<open>listen\<close> stand for the operating system's answers to \<open>net.ResolveUDPAddr\<close>
  and \<open>net.ListenUDP\<close>.
\<close>

definition StartReceiver ::
  "(string \<Rightarrow> go_error + 'addr) \<Rightarrow> ('addr \<Rightarrow> go_error option) \<Rightarrow> 't \<Rightarrow> string \<Rightarrow> int \<Rightarrow> go_error + ('t, 'j) Receiver" where
  "StartReceiver resolve listen z laddr n0 =
     (let n = (if n0 < 1 then 1 else n0) in
      case resolve laddr of
        Inl e \<Rightarrow> Inl (Errorf (''resolve syslog udp listen address: '' @ Error_text e) e)
      | Inr addr \<Rightarrow>
         (case listen addr of
            Some e \<Rightarrow> Inl (Errorf (''listen on syslog udp address: '' @ Error_text e) e)
          | None \<Rightarrow> Inr (Receiver_init z (nat n))))"

subsection \<open>Steps\<close>

text \<open>
  Whether a type assertion to \<open>net.Error\<close> succeeds: only errors of the network library implement it, and
  \<open>fmt.Errorf\<close> returns a type of its own.
\<close>

fun is_net_Error :: "go_error \<Rightarrow> bool" where
  "is_net_Error (LibraryError m) = True"
| "is_net_Error e = False"

text \<open>A failed \<open>ReadFromUDP\<close> in \<open>run\<close>; the deferred function returns the message to the pool.\<close>

definition read_failed :: "nat \<Rightarrow> go_error \<Rightarrow> ('t, 'j) Receiver \<Rightarrow> ('t, 'j) Receiver" where
  "read_failed a e s =
     (let e = Errorf (''error reading udp message: '' @ Error_text e) e in
      if is_net_Error e then s
      else s\<lparr>err := Some e, run_at := Run_Done, pool := a # pool s\<rparr>)"

text \<open>The steps of \<open>run\<close>. \<open>sync.Pool.Get\<close> returns any pooled message or a new one.\<close>

inductive run_step :: "'t \<Rightarrow> ('t, 'j) Receiver \<Rightarrow> ('t, 'j) Receiver \<Rightarrow> bool" for z where
  get_pooled: "run_at s = Run_Fetch \<Longrightarrow> a \<in> set (pool s) \<Longrightarrow>
     run_step z s (s\<lparr>run_at := Run_Read a, pool := remove1 a (pool s)\<rparr>)"
| get_new: "run_at s = Run_Fetch \<Longrightarrow>
     run_step z s (s\<lparr>run_at := Run_Read (next_addr s), store := (store s)(next_addr s := new_message z),
                     next_addr := next_addr s + 1\<rparr>)"
| read: "run_at s = Run_Read a \<Longrightarrow> conn_open s \<Longrightarrow> m = message_fill d now host (store s a) \<Longrightarrow>
     run_step z s (s\<lparr>run_at := Run_Send a, store := (store s)(a := m), received := received s @ [m]\<rparr>)"
| read_err: "run_at s = Run_Read a \<Longrightarrow> run_step z s (read_failed a e s)"
| send: "run_at s = Run_Send a \<Longrightarrow> parse_open s \<Longrightarrow> length (parse s) < parse_cap s \<Longrightarrow>
     run_step z s (s\<lparr>run_at := Run_Fetch, parse := parse s @ [a]\<rparr>)"
| send_closed: "run_at s = Run_Send a \<Longrightarrow> \<not> parse_open s \<Longrightarrow>
     run_step z s (s\<lparr>crashed := Some ''send on closed channel''\<rparr>)"

text \<open>\<open>cleanup\<close>, which runs once, when the context ends.\<close>

inductive cleanup_step :: "('t, 'j) Receiver \<Rightarrow> ('t, 'j) Receiver \<Rightarrow> bool" where
  close_conn: "conn_open s \<Longrightarrow> cleanup_step s (s\<lparr>conn_open := False\<rparr>)"
| close_parse: "\<not> conn_open s \<Longrightarrow> parse_open s \<Longrightarrow> cleanup_step s (s\<lparr>parse_open := False\<rparr>)"
| close_done: "\<not> parse_open s \<Longrightarrow> done_open s \<Longrightarrow> cleanup_step s (s\<lparr>done_open := False\<rparr>)"

text \<open>
  The body of the loop of \<open>runParser\<close>: what is logged for a message, and the message after \<open>reset\<close>.
\<close>

definition runParser_body :: "'t time_lib \<Rightarrow> (bytes \<Rightarrow> 'j option) \<Rightarrow> 't message \<Rightarrow> ('t message \<times> ('t, 'j) entry) go" where
  "runParser_body tlib json_Unmarshal m =
     go_bind (message_parse tlib m) (\<lambda>(m, ok).
       Ret (message_reset m,
            if ok then Structured (message_Severity m = DEBUG) (structured_parse json_Unmarshal m) else Unparsed m))"

inductive runParser_step ::
  "'t time_lib \<Rightarrow> (bytes \<Rightarrow> 'j option) \<Rightarrow> ('t, 'j) Receiver \<Rightarrow> ('t, 'j) Receiver \<Rightarrow> bool" for tlib json where
  take: "i < length (parsers s) \<Longrightarrow> parsers s ! i = Parser_Wait \<Longrightarrow> parse s = a # q \<Longrightarrow>
     runParser_step tlib json s (s\<lparr>parse := q, parsers := (parsers s)[i := Parser_Busy a], taken := taken s @ [store s a]\<rparr>)"
| finish: "i < length (parsers s) \<Longrightarrow> parsers s ! i = Parser_Wait \<Longrightarrow> parse s = [] \<Longrightarrow> \<not> parse_open s \<Longrightarrow>
     runParser_step tlib json s (s\<lparr>parsers := (parsers s)[i := Parser_Done]\<rparr>)"
| log: "i < length (parsers s) \<Longrightarrow> parsers s ! i = Parser_Busy a \<Longrightarrow>
     runParser_body tlib json (store s a) = Ret (m, en) \<Longrightarrow>
     runParser_step tlib json s (s\<lparr>logged := logged s @ [en], handled := handled s @ [store s a],
       store := (store s)(a := m), parsers := (parsers s)[i := Parser_Wait], pool := a # pool s\<rparr>)"
| panic: "i < length (parsers s) \<Longrightarrow> parsers s ! i = Parser_Busy a \<Longrightarrow>
     runParser_body tlib json (store s a) = Panic p \<Longrightarrow>
     runParser_step tlib json s (s\<lparr>crashed := Some p\<rparr>)"

text \<open>\<open>sync.Pool\<close> may drop any pooled message at any time.\<close>

inductive pool_step :: "('t, 'j) Receiver \<Rightarrow> ('t, 'j) Receiver \<Rightarrow> bool" where
  drop: "pool_step s (s\<lparr>pool := remove1 a (pool s)\<rparr>)"

inductive receiver_step ::
  "'t time_lib \<Rightarrow> (bytes \<Rightarrow> 'j option) \<Rightarrow> 't \<Rightarrow> ('t, 'j) Receiver \<Rightarrow> ('t, 'j) Receiver \<Rightarrow> bool" for tlib json z where
  by_run: "crashed s = None \<Longrightarrow> run_step z s t \<Longrightarrow> receiver_step tlib json z s t"
| by_parser: "crashed s = None \<Longrightarrow> runParser_step tlib json s t \<Longrightarrow> receiver_step tlib json z s t"
| by_cleanup: "crashed s = None \<Longrightarrow> cleanup_step s t \<Longrightarrow> receiver_step tlib json z s t"
| by_pool: "crashed s = None \<Longrightarrow> pool_step s t \<Longrightarrow> receiver_step tlib json z s t"

section \<open>Ownership\<close>

fun run_owns :: "run_pc \<Rightarrow> nat list" where
  "run_owns (Run_Read a) = [a]"
| "run_owns (Run_Send a) = [a]"
| "run_owns pc = []"

fun parser_owns :: "parser_pc \<Rightarrow> nat list" where
  "parser_owns (Parser_Busy a) = [a]"
| "parser_owns pc = []"

text \<open>Who may touch a message: every place a pointer to it can be in.\<close>

definition owned :: "('t, 'j) Receiver \<Rightarrow> nat list" where
  "owned s = pool s @ run_owns (run_at s) @ parse s @ concat (map parser_owns (parsers s))"

definition blank :: "'t message \<Rightarrow> bool" where
  "blank m \<longleftrightarrow> priority m = 0 \<and> hostname m = None \<and> app m = None \<and> procid m = None \<and> msgid m = None \<and> msg m = None"

definition receiver_inv :: "('t, 'j) Receiver \<Rightarrow> bool" where
  "receiver_inv s \<longleftrightarrow>
     distinct (owned s) \<and> (\<forall>a \<in> set (owned s). a < next_addr s) \<and>
     (\<forall>a. length (buf (store s a)) = buf_size) \<and>
     (\<forall>a \<in> set (pool s @ run_owns (run_at s) @ parse s). blank (store s a)) \<and>
     length (parse s) \<le> parse_cap s \<and>
     (parse_open s \<or> \<not> conn_open s) \<and> (Parser_Done \<in> set (parsers s) \<longrightarrow> parse s = [] \<and> \<not> parse_open s)"

lemma owned_update:
  assumes "i < length ps"
  shows "mset (concat (map parser_owns (ps[i := x]))) + mset (parser_owns (ps ! i)) =
     mset (concat (map parser_owns ps)) + mset (parser_owns x)"
  using assms
proof (induction ps arbitrary: i)
  case (Cons p ps)
  then show ?case by (cases i) auto
qed simp

lemma owned_step:
  assumes "receiver_step tlib json z s t"
  shows "mset (owned t) \<subseteq># mset (owned s) \<and> next_addr t = next_addr s \<or>
     mset (owned t) = add_mset (next_addr s) (mset (owned s)) \<and> next_addr t = next_addr s + 1"
  using assms
proof (cases rule: receiver_step.cases)
  case by_run
  from by_run(2) show ?thesis
    by (cases rule: run_step.cases) (auto simp: owned_def read_failed_def Let_def split: if_splits)
next
  case by_parser
  from by_parser(2) show ?thesis
  proof (cases rule: runParser_step.cases)
    case (take i a q)
    then show ?thesis using owned_update[of i "parsers s" "Parser_Busy a"] by (auto simp: owned_def)
  next
    case (finish i)
    then show ?thesis using owned_update[of i "parsers s" Parser_Done] by (auto simp: owned_def)
  next
    case (log i a m en)
    then show ?thesis using owned_update[of i "parsers s" Parser_Wait] by (auto simp: owned_def)
  qed (auto simp: owned_def)
next
  case by_cleanup
  from by_cleanup(2) show ?thesis by (cases rule: cleanup_step.cases) (auto simp: owned_def)
next
  case by_pool
  from by_pool(2) show ?thesis by (cases rule: pool_step.cases) (auto simp: owned_def)
qed

lemma owned_inv_step:
  assumes "receiver_step tlib json z s t" "distinct (owned s)" "\<forall>a \<in> set (owned s). a < next_addr s"
  shows "distinct (owned t) \<and> (\<forall>a \<in> set (owned t). a < next_addr t)"
  using owned_step[OF assms(1)]
proof (elim disjE conjE)
  assume sub: "mset (owned t) \<subseteq># mset (owned s)" and n: "next_addr t = next_addr s"
  have "distinct (owned t)"
    using assms(2) sub by (metis distinct_append mset_append mset_eq_imp_distinct_iff mset_subset_eq_exists_conv ex_mset)
  moreover have "set (owned t) \<subseteq> set (owned s)" using sub by (metis set_mset_mono set_mset_mset)
  ultimately show ?thesis using assms(3) n by auto
next
  assume add: "mset (owned t) = add_mset (next_addr s) (mset (owned s))" and n: "next_addr t = next_addr s + 1"
  then have "mset (owned t) = mset (next_addr s # owned s)" by simp
  then have "distinct (owned t) = distinct (next_addr s # owned s)" "set (owned t) = set (next_addr s # owned s)"
    by (rule mset_eq_imp_distinct_iff, rule mset_eq_setD)
  then show ?thesis using assms(2,3) n by auto
qed

lemma runParser_body_reset:
  assumes "runParser_body tlib json m = Ret (m', en)"
  shows "blank m'" "length (buf m') = length (buf m)"
proof -
  from assms obtain m1 ok where "message_parse tlib m = Ret (m1, ok)" "m' = message_reset m1"
    by (auto simp: runParser_body_def elim: go_bind_RetE)
  then show "blank m'" "length (buf m') = length (buf m)"
    using message_parse_buf[of tlib m m1 ok] by (simp_all add: message_reset_def blank_def)
qed

lemma message_fill_keeps:
  "blank (message_fill d now host m) = blank m"
  "length (buf m) = buf_size \<Longrightarrow> length (buf (message_fill d now host m)) = buf_size"
  by (simp_all add: message_fill_def blank_def Let_def)

lemma new_message_blank: "blank (new_message z)" "length (buf (new_message z)) = buf_size"
  by (simp_all add: new_message_def blank_def)

lemma receiver_inv_step:
  assumes "receiver_inv s" "receiver_step tlib json z s t"
  shows "receiver_inv t"
proof -
  have own: "distinct (owned t)" "\<forall>a \<in> set (owned t). a < next_addr t"
    using owned_inv_step[OF assms(2)] assms(1) by (auto simp: receiver_inv_def)
  have "(\<forall>a. length (buf (store t a)) = buf_size) \<and>
     (\<forall>a \<in> set (pool t @ run_owns (run_at t) @ parse t). blank (store t a)) \<and> length (parse t) \<le> parse_cap t \<and>
     (parse_open t \<or> \<not> conn_open t) \<and> (Parser_Done \<in> set (parsers t) \<longrightarrow> parse t = [] \<and> \<not> parse_open t)"
    using assms(2)
  proof (cases rule: receiver_step.cases)
    case by_run
    from by_run(2) show ?thesis using assms(1)
      by (cases rule: run_step.cases)
        (auto simp: receiver_inv_def read_failed_def Let_def message_fill_keeps new_message_blank
          dest: set_remove1_subset[THEN subsetD] split: if_splits)
  next
    case by_parser
    from by_parser(2) show ?thesis using assms(1)
      by (cases rule: runParser_step.cases)
        (auto simp: receiver_inv_def dest: runParser_body_reset set_update_subset_insert[THEN subsetD])
  next
    case by_cleanup
    from by_cleanup(2) show ?thesis using assms(1)
      by (cases rule: cleanup_step.cases) (auto simp: receiver_inv_def)
  next
    case by_pool
    from by_pool(2) show ?thesis using assms(1)
      by (cases rule: pool_step.cases) (auto simp: receiver_inv_def dest: set_remove1_subset[THEN subsetD])
  qed
  with own show ?thesis by (simp add: receiver_inv_def)
qed

interpretation rcv: invariant_system "\<lambda>s. \<exists>n. s = Receiver_init z n" "receiver_step tlib json z" receiver_inv
  for tlib :: "'t time_lib" and json :: "bytes \<Rightarrow> 'j option" and z
proof unfold_locales
  fix s :: "('t, 'j) Receiver"
  assume "\<exists>n. s = Receiver_init z n"
  then show "receiver_inv s"
    by (auto simp: Receiver_init_def receiver_inv_def owned_def new_message_blank)
next
  fix s t :: "('t, 'j) Receiver"
  assume "receiver_inv s" "receiver_step tlib json z s t"
  then show "receiver_inv t" by (rule receiver_inv_step)
qed

section \<open>Delivery\<close>

fun run_sends :: "run_pc \<Rightarrow> nat list" where
  "run_sends (Run_Send a) = [a]"
| "run_sends pc = []"

definition busy :: "('t, 'j) Receiver \<Rightarrow> nat list" where
  "busy s = concat (map parser_owns (parsers s))"

text \<open>
  Where the datagrams are: read ones are in the hands of a parser, in the channel or about to be sent, in
  this order, and unchanged since they were read; every message a parser took is logged or being parsed.
\<close>

definition history_inv :: "'t time_lib \<Rightarrow> (bytes \<Rightarrow> 'j option) \<Rightarrow> ('t, 'j) Receiver \<Rightarrow> bool" where
  "history_inv tlib json s \<longleftrightarrow>
     received s = taken s @ map (store s) (parse s @ run_sends (run_at s)) \<and>
     mset (taken s) = mset (handled s) + image_mset (store s) (mset (busy s)) \<and>
     list_all2 (\<lambda>m en. \<exists>m'. runParser_body tlib json m = Ret (m', en)) (handled s) (logged s)"

lemma busy_update:
  assumes "i < length (parsers s)" "parsers s ! i = Parser_Busy a"
  shows "mset (busy s) = add_mset a (mset (concat (map parser_owns ((parsers s)[i := Parser_Wait]))))"
  using owned_update[OF assms(1), of Parser_Wait] assms(2) by (simp add: busy_def)

lemma history_run:
  assumes "run_step z s t" "receiver_inv s" "history_inv tlib json s"
  shows "history_inv tlib json t"
  using assms(1)
proof (cases rule: run_step.cases)
  case get_new
  with assms(2) have "next_addr s \<notin> set (parse s)" "next_addr s \<notin> set (busy s)"
    by (auto simp: receiver_inv_def owned_def busy_def)
  then have "image_mset ((store s)(next_addr s := new_message z)) (mset (busy s)) = image_mset (store s) (mset (busy s))"
    by (intro image_mset_cong) auto
  with get_new assms(3) \<open>next_addr s \<notin> set (parse s)\<close> show ?thesis by (simp add: history_inv_def busy_def)
next
  case (read a m d now host)
  with assms(2) have "a \<notin> set (parse s)" "a \<notin> set (busy s)"
    by (auto simp: receiver_inv_def owned_def busy_def)
  then have "image_mset ((store s)(a := m)) (mset (busy s)) = image_mset (store s) (mset (busy s))"
    by (intro image_mset_cong) auto
  with read assms(3) \<open>a \<notin> set (parse s)\<close> show ?thesis by (simp add: history_inv_def busy_def)
qed (use assms(3) in \<open>auto simp: history_inv_def busy_def read_failed_def Let_def\<close>)

lemma history_parser:
  assumes "runParser_step tlib json s t" "receiver_inv s" "history_inv tlib json s"
  shows "history_inv tlib json t"
  using assms(1)
proof (cases rule: runParser_step.cases)
  case (take i a q)
  then show ?thesis
    using assms(3) owned_update[of i "parsers s" "Parser_Busy a"] by (simp add: history_inv_def busy_def)
next
  case (finish i)
  then show ?thesis
    using assms(3) owned_update[of i "parsers s" Parser_Done] by (simp add: history_inv_def busy_def)
next
  case (log i a m en)
  let ?rest = "mset (concat (map parser_owns ((parsers s)[i := Parser_Wait])))"
  note b = busy_update[OF log(2,3)]
  have d: "distinct (busy s)" "\<forall>x \<in> set (run_owns (run_at s) @ parse s). x \<notin> set (busy s)"
    using assms(2) by (auto simp: receiver_inv_def owned_def busy_def)
  have in_busy: "a \<in> set (busy s)" using b by (metis set_mset_mset union_single_eq_member)
  have "a \<notin># ?rest"
    using d(1) mset_eq_imp_distinct_iff[of "busy s" "a # concat (map parser_owns ((parsers s)[i := Parser_Wait]))"] b by simp
  then have "image_mset ((store s)(a := m)) ?rest = image_mset (store s) ?rest"
    by (intro image_mset_cong) auto
  moreover have "map ((store s)(a := m)) (parse s @ run_sends (run_at s)) = map (store s) (parse s @ run_sends (run_at s))"
    using d(2) in_busy by (cases "run_at s") auto
  ultimately show ?thesis
    using assms(3) log b by (auto simp: history_inv_def busy_def intro!: list_all2_appendI)
qed (use assms(3) in \<open>auto simp: history_inv_def busy_def\<close>)

lemma history_inv_step:
  assumes "receiver_inv s \<and> history_inv tlib json s" "receiver_step tlib json z s t"
  shows "receiver_inv t \<and> history_inv tlib json t"
proof
  show "receiver_inv t" using assms(1) receiver_inv_step[OF _ assms(2)] by simp
  show "history_inv tlib json t"
    using assms(2)
  proof (cases rule: receiver_step.cases)
    case by_run
    from by_run(2) show ?thesis by (rule history_run) (use assms(1) in simp_all)
  next
    case by_parser
    from by_parser(2) show ?thesis by (rule history_parser) (use assms(1) in simp_all)
  next
    case by_cleanup
    from by_cleanup(2) show ?thesis
      using assms(1) by (cases rule: cleanup_step.cases) (auto simp: history_inv_def busy_def)
  next
    case by_pool
    from by_pool(2) show ?thesis
      using assms(1) by (cases rule: pool_step.cases) (auto simp: history_inv_def busy_def)
  qed
qed

interpretation hist: invariant_system "\<lambda>s. \<exists>n. s = Receiver_init z n" "receiver_step tlib json z"
    "\<lambda>s. receiver_inv s \<and> history_inv tlib json s"
  for tlib :: "'t time_lib" and json :: "bytes \<Rightarrow> 'j option" and z
proof unfold_locales
  fix s :: "('t, 'j) Receiver"
  assume "\<exists>n. s = Receiver_init z n"
  then show "receiver_inv s \<and> history_inv tlib json s"
    using rcv.init_inv[of s z] by (auto simp: Receiver_init_def history_inv_def busy_def)
next
  fix s t :: "('t, 'j) Receiver"
  assume "receiver_inv s \<and> history_inv tlib json s" "receiver_step tlib json z s t"
  then show "receiver_inv t \<and> history_inv tlib json t" by (rule history_inv_step)
qed

section \<open>Properties\<close>

text \<open>
  C13. However the goroutines interleave, a message is never in two hands at once: its pointer is in at most
  one of the pool, the reader, the channel and the parsers. What is pooled, being filled or queued carries
  no field of an earlier datagram, the channel never exceeds its capacity, and no parser ends while the
  channel still holds a message.
\<close>

theorem receiver_ownership:
  assumes "StartReceiver resolve listen z laddr n = Inr s0" "(receiver_step tlib json z)\<^sup>*\<^sup>* s0 s"
  shows "distinct (pool s @ run_owns (run_at s) @ parse s @ concat (map parser_owns (parsers s))) \<and>
    (\<forall>a \<in> set (pool s @ run_owns (run_at s) @ parse s). blank (store s a)) \<and>
    length (parse s) \<le> parse_cap s \<and> (Parser_Done \<in> set (parsers s) \<longrightarrow> parse s = [])"
proof -
  have "\<exists>k. s0 = Receiver_init z k" using assms(1) by (auto simp: StartReceiver_def Let_def split: sum.splits option.splits)
  then have "receiver_inv s" using assms(2) by (rule rcv.reachable_inv)
  then show ?thesis by (simp add: receiver_inv_def owned_def)
qed

text \<open>A run with one parser that reads, sends and logs one datagram.\<close>

definition sample_state :: "(int, unit) Receiver" where
  "sample_state = (Receiver_init 0 1)\<lparr>run_at := Run_Read 0, next_addr := 1\<rparr>"

lemma sample_run:
  "StartReceiver (\<lambda>_. Inr ()) (\<lambda>_. None) 0 '':514'' 0 = Inr (Receiver_init 0 1 :: (int, unit) Receiver)"
  "(receiver_step sample_time (\<lambda>_. None) 0)\<^sup>*\<^sup>* (Receiver_init 0 1) sample_state"
proof -
  show "StartReceiver (\<lambda>_. Inr ()) (\<lambda>_. None) 0 '':514'' 0 = Inr (Receiver_init 0 1 :: (int, unit) Receiver)"
    by (simp add: StartReceiver_def)
  have "run_step 0 (Receiver_init 0 1 :: (int, unit) Receiver) sample_state"
    using run_step.get_new[of "Receiver_init 0 1 :: (int, unit) Receiver" 0]
    by (simp add: sample_state_def Receiver_init_def fun_upd_idem)
  then show "(receiver_step sample_time (\<lambda>_. None) 0)\<^sup>*\<^sup>* (Receiver_init 0 1) sample_state"
    by (intro r_into_rtranclp receiver_step.by_run) (simp add: Receiver_init_def)
qed

theorem receiver_ownership_witness:
  "distinct (pool sample_state @ run_owns (run_at sample_state) @ parse sample_state @ concat (map parser_owns (parsers sample_state))) \<and>
    blank (store sample_state 0) \<and> length (parse sample_state) \<le> parse_cap sample_state"
proof -
  have "0 \<in> set (run_owns (run_at sample_state))" by (simp add: sample_state_def)
  then show ?thesis using receiver_ownership[OF sample_run] by auto
qed

text \<open>
  C12. No datagram is lost, duplicated, reordered or altered on its way to the parsers: in every reachable
  state the messages read so far are those the parsers took, followed by the queued ones and the one being
  sent; those the parsers took are the logged ones and those in work; and every log entry is the
  one that parsing its message gives.
\<close>

theorem receiver_delivery:
  assumes "StartReceiver resolve listen z laddr n = Inr s0" "(receiver_step tlib json z)\<^sup>*\<^sup>* s0 s"
  shows "received s = taken s @ map (store s) (parse s @ run_sends (run_at s)) \<and>
    mset (taken s) = mset (handled s) + image_mset (store s) (mset (concat (map parser_owns (parsers s)))) \<and>
    list_all2 (\<lambda>m en. \<exists>m'. runParser_body tlib json m = Ret (m', en)) (handled s) (logged s)"
proof -
  have "\<exists>k. s0 = Receiver_init z k" using assms(1) by (auto simp: StartReceiver_def Let_def split: sum.splits option.splits)
  then have "receiver_inv s \<and> history_inv tlib json s" using assms(2) by (rule hist.reachable_inv)
  then show ?thesis by (simp add: history_inv_def busy_def)
qed

theorem receiver_delivery_witness:
  "received sample_state = taken sample_state @ map (store sample_state) (parse sample_state @ run_sends (run_at sample_state)) \<and>
    mset (taken sample_state) = mset (handled sample_state) +
      image_mset (store sample_state) (mset (concat (map parser_owns (parsers sample_state)))) \<and>
    list_all2 (\<lambda>m en. \<exists>m'. runParser_body sample_time (\<lambda>_. None) m = Ret (m', en)) (handled sample_state) (logged sample_state)"
  by (rule receiver_delivery[OF sample_run])

text \<open>The state after the first datagram was read, reachable from the start.\<close>

definition first_read :: "'t \<Rightarrow> nat \<Rightarrow> 't message \<Rightarrow> ('t, 'j) Receiver" where
  "first_read z n m = (Receiver_init z n)\<lparr>run_at := Run_Send 0, next_addr := 1,
     store := (\<lambda>_. new_message z)(0 := m), received := [m]\<rparr>"

lemma first_read_reachable:
  fixes z :: 't and json :: "bytes \<Rightarrow> 'j option"
  shows "(receiver_step tlib json z)\<^sup>*\<^sup>* (Receiver_init z n) (first_read z n (message_fill d now host (new_message z)))"
proof -
  let ?s0 = "Receiver_init z n :: ('t, 'j) Receiver"
  let ?s1 = "?s0\<lparr>run_at := Run_Read 0, next_addr := 1\<rparr>"
  let ?m = "message_fill d now host (new_message z)"
  have "run_step z ?s0 ?s1"
    using run_step.get_new[of ?s0 z] by (simp add: Receiver_init_def fun_upd_idem)
  then have 1: "receiver_step tlib json z ?s0 ?s1"
    by (intro receiver_step.by_run) (simp_all add: Receiver_init_def)
  have "run_step z ?s1 (first_read z n ?m)"
    using run_step.read[of ?s1 0 ?m d now host z] by (simp add: Receiver_init_def first_read_def)
  then have "receiver_step tlib json z ?s1 (first_read z n ?m)"
    by (intro receiver_step.by_run) (simp_all add: Receiver_init_def)
  with 1 show ?thesis by (meson r_into_rtranclp rtranclp.rtrancl_into_rtrancl)
qed

lemma first_sent_reachable:
  fixes z :: 't and json :: "bytes \<Rightarrow> 'j option"
  assumes "0 < n" "m = message_fill d now host (new_message z)"
  shows "(receiver_step tlib json z)\<^sup>*\<^sup>* (Receiver_init z n) ((first_read z n m)\<lparr>run_at := Run_Fetch, parse := [0]\<rparr>)"
proof -
  let ?s = "first_read z n m :: ('t, 'j) Receiver"
  have "run_step z ?s (?s\<lparr>run_at := Run_Fetch, parse := [0]\<rparr>)"
    using run_step.send[of ?s 0 z] assms(1) by (simp add: Receiver_init_def first_read_def)
  then have "receiver_step tlib json z ?s (?s\<lparr>run_at := Run_Fetch, parse := [0]\<rparr>)"
    by (intro receiver_step.by_run) (simp_all add: Receiver_init_def first_read_def)
  then show ?thesis using first_read_reachable[of tlib json z n d now host] assms(2)
    by (metis rtranclp.rtrancl_into_rtrancl)
qed

text \<open>The steps of the parsers alone, while the program has not crashed.\<close>

definition parser_run ::
  "'t time_lib \<Rightarrow> (bytes \<Rightarrow> 'j option) \<Rightarrow> ('t, 'j) Receiver \<Rightarrow> ('t, 'j) Receiver \<Rightarrow> bool" where
  "parser_run tlib json s t \<longleftrightarrow> crashed s = None \<and> runParser_step tlib json s t"

lemma parser_run_receiver: "parser_run tlib json s t \<Longrightarrow> receiver_step tlib json z s t"
  by (simp add: parser_run_def receiver_step.by_parser)

lemma parser_runs_receiver: "(parser_run tlib json ^^ n) s t \<Longrightarrow> (receiver_step tlib json z)\<^sup>*\<^sup>* s t"
proof (induction n arbitrary: t)
  case (Suc n)
  then obtain u where "(parser_run tlib json ^^ n) s u" "parser_run tlib json u t" by auto
  with Suc.IH parser_run_receiver show ?case by (metis rtranclp.rtrancl_into_rtrancl)
qed simp

text \<open>What the parsers still have to do: two steps for a queued message, one for one in work, and ending.\<close>

fun parser_weight :: "parser_pc \<Rightarrow> nat" where
  "parser_weight Parser_Wait = 1"
| "parser_weight (Parser_Busy a) = 2"
| "parser_weight Parser_Done = 0"

definition parser_work :: "('t, 'j) Receiver \<Rightarrow> nat" where
  "parser_work s = 2 * length (parse s) + sum_list (map parser_weight (parsers s)) + of_bool (crashed s = None)"

lemma weight_update:
  "i < length ps \<Longrightarrow> sum_list (map parser_weight (ps[i := x])) + parser_weight (ps ! i) =
     sum_list (map parser_weight ps) + parser_weight x"
  by (induction ps arbitrary: i) (auto split: nat.split simp: nth_Cons)

lemma parser_run_work: "parser_run tlib json s t \<Longrightarrow> parser_work t < parser_work s"
  unfolding parser_run_def
proof (elim conjE)
  assume c: "crashed s = None" and "runParser_step tlib json s t"
  from this(2) show ?thesis
  proof (cases rule: runParser_step.cases)
    case (take i a q)
    with c weight_update[of i "parsers s" "Parser_Busy a"] show ?thesis by (simp add: parser_work_def)
  next
    case (finish i)
    with c weight_update[of i "parsers s" Parser_Done] show ?thesis by (simp add: parser_work_def)
  next
    case (log i a m en)
    with c weight_update[of i "parsers s" Parser_Wait] show ?thesis by (simp add: parser_work_def)
  next
    case (panic i a p)
    with c show ?thesis by (simp add: parser_work_def)
  qed
qed

lemma parser_runs_work: "(parser_run tlib json ^^ n) s t \<Longrightarrow> n + parser_work t \<le> parser_work s"
proof (induction n arbitrary: t)
  case (Suc n)
  then obtain u where "(parser_run tlib json ^^ n) s u" "parser_run tlib json u t" by auto
  with Suc.IH parser_run_work show ?case by fastforce
qed simp

lemma parser_work_bound: "parser_work s \<le> 2 * (length (parse s) + length (parsers s)) + 1"
proof -
  have w: "parser_weight p \<le> 2" for p by (cases p) auto
  have "sum_list (map parser_weight ps) \<le> 2 * length ps" for ps
  proof (induction ps)
    case (Cons p ps)
    with w[of p] show ?case by simp
  qed simp
  from this[of "parsers s"] show ?thesis by (simp add: parser_work_def)
qed

text \<open>What the parsers leave alone, and the messages they hold: those they were given, unchanged.\<close>

lemma parser_run_frame:
  assumes "parser_run tlib json x y" "receiver_inv x"
  shows "received y = received x \<and> run_at y = run_at x \<and> length (parsers y) = length (parsers x) \<and>
     (\<forall>a \<in> set (busy y @ parse y). a \<in> set (busy x @ parse x) \<and> store y a = store x a)"
proof -
  have d: "distinct (parse x @ busy x)" using assms(2) by (auto simp: receiver_inv_def owned_def busy_def)
  from assms(1) have "runParser_step tlib json x y" by (simp add: parser_run_def)
  then show ?thesis
  proof (cases rule: runParser_step.cases)
    case (take i a q)
    then have "mset (busy y) = add_mset a (mset (busy x))"
      using owned_update[of i "parsers x" "Parser_Busy a"] by (simp add: busy_def)
    then have "set (busy y) = insert a (set (busy x))" by (metis set_mset_add_mset_insert set_mset_mset)
    with take show ?thesis by auto
  next
    case (finish i)
    then have "mset (busy y) = mset (busy x)" using owned_update[of i "parsers x" Parser_Done] by (simp add: busy_def)
    with finish show ?thesis by (auto dest: mset_eq_setD)
  next
    case (log i a m en)
    then have m: "mset (busy x) = add_mset a (mset (busy y))" using busy_update[of i x a] by (simp add: busy_def)
    have "distinct (a # busy y)" using m d by (metis distinct_append mset.simps(2) mset_eq_imp_distinct_iff)
    moreover have "set (busy x) = insert a (set (busy y))" using m by (metis set_mset_add_mset_insert set_mset_mset)
    ultimately show ?thesis using log d by auto
  next
    case (panic i a p)
    then show ?thesis by (auto simp: busy_def)
  qed
qed

lemma parser_runs_frame:
  assumes "(parser_run tlib json ^^ n) s t" "receiver_inv s"
  shows "received t = received s \<and> run_at t = run_at s \<and> length (parsers t) = length (parsers s) \<and>
     (\<forall>a \<in> set (busy t @ parse t). a \<in> set (busy s @ parse s) \<and> store t a = store s a)"
  using assms(1)
proof (induction n arbitrary: t)
  case (Suc n)
  then obtain u where u: "(parser_run tlib json ^^ n) s u" "parser_run tlib json u t" by auto
  have "receiver_inv u" using rcv.steps_inv[OF parser_runs_receiver[OF u(1)] assms(2)] .
  from parser_run_frame[OF u(2) this] Suc.IH[OF u(1)] show ?case by auto
qed simp

lemma parser_run_crash:
  assumes "parser_run tlib json x y" "crashed y \<noteq> None"
  shows "\<exists>a \<in> set (busy x). \<exists>p. runParser_body tlib json (store x a) = Panic p"
proof -
  from assms have "runParser_step tlib json x y" "crashed x = None" by (auto simp: parser_run_def)
  then show ?thesis using assms(2)
  proof (cases rule: runParser_step.cases)
    case (panic i a p)
    then have "a \<in> set (busy x)" by (force simp: busy_def in_set_conv_nth)
    with panic show ?thesis by blast
  qed auto
qed

lemma parser_runs_crash:
  assumes "(parser_run tlib json ^^ n) s t" "receiver_inv s" "crashed s = None" "crashed t \<noteq> None"
  shows "\<exists>a \<in> set (busy s @ parse s). \<exists>p. runParser_body tlib json (store s a) = Panic p"
proof (cases n)
  case (Suc k)
  with assms(1) obtain u where u: "(parser_run tlib json ^^ k) s u" "parser_run tlib json u t" by auto
  from parser_run_crash[OF u(2) assms(4)] parser_runs_frame[OF u(1) assms(2)] show ?thesis by fastforce
qed (use assms in simp)

text \<open>While the channel holds a message or a parser is at work, and one of them has not ended, a parser can go on.\<close>

lemma parser_progress:
  assumes "\<And>u. \<not> runParser_step tlib json s u" "0 < length (parsers s)" "receiver_inv s"
  shows "parse s = [] \<and> busy s = []"
proof -
  have idle: "parsers s ! i \<noteq> Parser_Busy a" if "i < length (parsers s)" for i a
  proof
    assume b: "parsers s ! i = Parser_Busy a"
    show False
    proof (cases "runParser_body tlib json (store s a)")
      case (Ret r)
      then show ?thesis using runParser_step.log[OF that b, of tlib json "fst r" "snd r"] assms(1) by auto
    next
      case (Panic p)
      then show ?thesis using runParser_step.panic[OF that b, of tlib json p] assms(1) by auto
    qed
  qed
  have "parse s = []"
  proof (rule ccontr)
    assume q: "parse s \<noteq> []"
    then have "Parser_Done \<notin> set (parsers s)" using assms(3) by (auto simp: receiver_inv_def)
    then have "parsers s ! 0 = Parser_Wait" using assms(2) idle[of 0] by (cases "parsers s ! 0") (auto simp: in_set_conv_nth)
    with q assms(1,2) show False by (metis neq_Nil_conv runParser_step.take)
  qed
  moreover have "parser_owns p = []" if "p \<in> set (parsers s)" for p
    using idle that by (cases p) (auto simp: in_set_conv_nth)
  then have "busy s = []" by (simp add: busy_def)
  ultimately show ?thesis ..
qed

lemma receiver_parsers:
  assumes "(receiver_step tlib json z)\<^sup>*\<^sup>* s t"
  shows "length (parsers t) = length (parsers s)"
  using assms
proof (induction rule: rtranclp_induct)
  case (step x y)
  from step(2,3) show ?case
    by (auto elim!: receiver_step.cases run_step.cases runParser_step.cases cleanup_step.cases pool_step.cases
        simp: read_failed_def Let_def)
qed simp

text \<open>
  C14. The parsers empty the channel. From any state the program can be in, whatever the other goroutines did before
  and also after the channel was closed, the parsers alone take at most two steps for each queued message and
  each parser, and one more. A panic among them is that of a message they were given. Otherwise, when no
  parser can go on, the channel is empty, no parser holds a message, and exactly the messages that
  were in work or queued have been logged in addition.
\<close>

theorem receiver_drains:
  assumes "StartReceiver resolve listen z laddr k = Inr s0" "(receiver_step tlib json z)\<^sup>*\<^sup>* s0 s" "crashed s = None"
    and "(parser_run tlib json ^^ n) s t"
  shows "n \<le> 2 * (length (parse s) + length (parsers s)) + 1 \<and>
     (crashed t \<noteq> None \<longrightarrow> (\<exists>a \<in> set (busy s @ parse s). \<exists>p. runParser_body tlib json (store s a) = Panic p)) \<and>
     (crashed t = None \<and> (\<forall>u. \<not> parser_run tlib json t u) \<longrightarrow>
        parse t = [] \<and> busy t = [] \<and>
        mset (handled t) = mset (handled s) + image_mset (store s) (mset (busy s @ parse s)))"
proof -
  obtain m where m: "s0 = Receiver_init z m" "0 < m"
    using assms(1) by (auto simp: StartReceiver_def Let_def split: sum.splits option.splits if_splits)
  have reach: "(receiver_step tlib json z)\<^sup>*\<^sup>* s0 t" using assms(2) parser_runs_receiver[OF assms(4)] by (rule rtranclp_trans)
  have inv: "receiver_inv s \<and> history_inv tlib json s" "receiver_inv t \<and> history_inv tlib json t"
    using hist.reachable_inv[of s0 z] m(1) assms(2) reach by blast+
  have frame: "received t = received s" "run_at t = run_at s" using parser_runs_frame[OF assms(4)] inv(1) by auto
  have "length (parsers t) = m" using receiver_parsers[OF reach] m(1) by (simp add: Receiver_init_def)
  then have over: "parse t = [] \<and> busy t = []" if "crashed t = None" "\<forall>u. \<not> parser_run tlib json t u"
    using that m(2) inv(2) parser_progress[of tlib json t] by (simp add: parser_run_def)
  have "mset (handled t) = mset (handled s) + image_mset (store s) (mset (busy s @ parse s))" if "parse t = [] \<and> busy t = []"
  proof -
    have "taken t @ map (store t) (run_sends (run_at s)) = (taken s @ map (store s) (parse s)) @ map (store s) (run_sends (run_at s))"
      using inv that frame by (simp add: history_inv_def)
    then have "taken t = taken s @ map (store s) (parse s)"
      by (rule append_eq_append_conv[THEN iffD1, THEN conjunct1, rotated]) simp
    moreover have "mset (taken t) = mset (handled t)" using inv(2) that by (simp add: history_inv_def)
    moreover have "mset (taken s) = mset (handled s) + image_mset (store s) (mset (busy s))" using inv(1) by (simp add: history_inv_def)
    ultimately show ?thesis by (simp add: ac_simps)
  qed
  with over parser_runs_work[OF assms(4)] parser_work_bound[of s] parser_runs_crash[OF assms(4) _ assms(3)] inv(1)
  show ?thesis by auto
qed

theorem receiver_drains_witness:
  "\<exists>t. (parser_run sample_time (\<lambda>_. None :: unit option) ^^ 1)
       ((first_read 0 1 (message_fill ''<13>up'' 5 None (new_message 0)))\<lparr>run_at := Run_Fetch, parse := [0]\<rparr>) t \<and>
     parse t = [] \<and> (\<exists>u. parser_run sample_time (\<lambda>_. None) t u)"
proof -
  let ?m = "message_fill ''<13>up'' 5 None (new_message 0) :: int message"
  let ?s = "(first_read 0 1 ?m)\<lparr>run_at := Run_Fetch, parse := [0]\<rparr> :: (int, unit) Receiver"
  let ?t = "?s\<lparr>parse := [], parsers := [Parser_Busy 0], taken := [?m]\<rparr>"
  have s: "crashed ?s = None" "parsers ?s = [Parser_Wait]" "taken ?s = []" "store ?s 0 = ?m"
    by (simp_all add: first_read_def Receiver_init_def)
  have "runParser_step sample_time (\<lambda>_. None) ?s ?t"
    using runParser_step.take[of 0 ?s 0 "[]" sample_time "\<lambda>_. None"] s by simp
  then have run: "(parser_run sample_time (\<lambda>_. None) ^^ 1) ?s ?t" unfolding relpowp_1 using s by (simp add: parser_run_def)
  have t: "crashed ?t = None" "busy ?t \<noteq> []" using s by (simp_all add: busy_def)
  have "(receiver_step sample_time (\<lambda>_. None) 0)\<^sup>*\<^sup>* (Receiver_init 0 1) ?s"
    by (rule first_sent_reachable[where d = "''<13>up''" and now = 5 and host = None]) simp_all
  from receiver_drains[OF sample_run(1) this s(1) run] t run show ?thesis by (intro exI[of _ ?t]) auto
qed

text \<open>
  C18. The shutdown can crash the program: when the context ends while \<open>run\<close> holds a datagram it has
  read and not yet sent, \<open>cleanup\<close> closes the channel and the send panics.
\<close>

theorem shutdown_panics:
  fixes json :: "bytes \<Rightarrow> 'j option"
  shows "\<exists>s. (receiver_step tlib json z)\<^sup>*\<^sup>* (Receiver_init z n) s \<and> crashed s = Some ''send on closed channel''"
proof -
  let ?s = "first_read z n (message_fill d now host (new_message z)) :: ('a, 'j) Receiver"
  let ?closed = "?s\<lparr>conn_open := False, parse_open := False\<rparr>"
  let ?panic = "?closed\<lparr>crashed := Some ''send on closed channel''\<rparr>"
  have up: "crashed ?s = None" "conn_open ?s" "parse_open ?s" "run_at ?s = Run_Send 0"
    by (simp_all add: first_read_def Receiver_init_def)
  have "receiver_step tlib json z ?s (?s\<lparr>conn_open := False\<rparr>)"
    using up by (intro receiver_step.by_cleanup cleanup_step.close_conn)
  moreover have "receiver_step tlib json z (?s\<lparr>conn_open := False\<rparr>) ?closed"
    using up cleanup_step.close_parse[of "?s\<lparr>conn_open := False\<rparr>"] by (intro receiver_step.by_cleanup) simp_all
  moreover have "receiver_step tlib json z ?closed ?panic"
    using up run_step.send_closed[of ?closed 0 z] by (intro receiver_step.by_run) simp_all
  ultimately have "(receiver_step tlib json z)\<^sup>*\<^sup>* ?s ?panic"
    by (meson r_into_rtranclp rtranclp.rtrancl_into_rtrancl)
  then have "(receiver_step tlib json z)\<^sup>*\<^sup>* (Receiver_init z n) ?panic"
    by (rule rtranclp_trans[OF first_read_reachable])
  then show ?thesis by (intro exI[of _ ?panic]) simp
qed

text \<open>
  Every failed read ends the loop: the wrapped error never implements \<open>net.Error\<close>, so the branch that
  logs a network error and continues is never taken.
\<close>

lemma read_error_ends:
  "read_failed a e s = s\<lparr>err := Some (Errorf (''error reading udp message: '' @ Error_text e) e),
     run_at := Run_Done, pool := a # pool s\<rparr>"
  by (simp add: read_failed_def Let_def)

end
