(* ===== verification/Backend_Values.thy ===== *)
theory Backend_Values
  imports DHCP_Data
begin

text \<open>
  What the file backend and the Kubernetes backend share: reading lists of server addresses, the lease
  time, case-insensitive keys, and the libraries both call, as a record of functions.
\<close>

section \<open>Definitions\<close>

text \<open>
  \<open>toUint32\<close> is \<open>safecast.ToUint32\<close>; \<open>url_Parse\<close> and \<open>url_ParseRequestURI\<close> are the
  functions of \<open>net/url\<close>.
\<close>

record value_lib =
  toUint32 :: "int \<Rightarrow> u32 option"
  url_Parse :: "string \<Rightarrow> go_error + URL"
  url_ParseRequestURI :: "string \<Rightarrow> go_error + URL"

text \<open>The documented behaviour of \<open>safecast.ToUint32\<close>: the same number, or an error when it does not fit.\<close>

definition safecast_laws :: "value_lib \<Rightarrow> bool" where
  "safecast_laws vl \<longleftrightarrow>
     (\<forall>n. toUint32 vl n = (if 0 \<le> n \<and> n < 2 ^ 32 then Some (word_of_int n) else None))"

text \<open>The address lists: everything up to the first entry that is not an address.\<close>

fun parse_servers :: "string list \<Rightarrow> slice list" where
  "parse_servers [] = []"
| "parse_servers (s # ss) = (case ParseIP s of None \<Rightarrow> [] | Some ip \<Rightarrow> Some ip # parse_servers ss)"

definition lease_seconds :: "value_lib \<Rightarrow> int \<Rightarrow> u32" where
  "lease_seconds vl n = (case toUint32 vl n of Some v \<Rightarrow> v | None \<Rightarrow> 604800)"

text \<open>The texts of errors of the address parsers are not modelled beyond the function and its argument.\<close>

definition parse_error :: "string \<Rightarrow> string \<Rightarrow> go_error" where
  "parse_error f s = LibraryError (f @ ''('' @ s @ '')'')"

text \<open>
  \<open>strings.EqualFold\<close> against a text of hexadecimal digits and colons: no character outside ASCII folds
  to one of them, so the comparison is of bytes, up to the case of ASCII letters.
\<close>

definition lower :: "byte \<Rightarrow> byte" where
  "lower b = (let k = (of_char b :: nat) in if 65 \<le> k \<and> k \<le> 90 then char_of (k + 32) else b)"

definition equal_fold :: "bytes \<Rightarrow> bytes \<Rightarrow> bool" where
  "equal_fold s t \<longleftrightarrow> map lower s = map lower t"

section \<open>Lemmas\<close>

lemma parse_servers_takeWhile:
  "parse_servers ss = map ParseIP (takeWhile (\<lambda>s. ParseIP s \<noteq> None) ss)"
  by (induction ss) (auto split: option.splits)

lemma lease_seconds_fits:
  assumes "safecast_laws vl"
  shows "uint (lease_seconds vl n) = (if 0 \<le> n \<and> n < 2 ^ 32 then n else 604800)"
  using assms by (simp add: lease_seconds_def safecast_laws_def take_bit_int_eq_self unsigned_of_int)

lemma equal_fold_equiv: "equal_fold s s" "equal_fold s t \<Longrightarrow> equal_fold t s"
  "equal_fold s t \<Longrightarrow> equal_fold t u \<Longrightarrow> equal_fold s u"
  by (auto simp: equal_fold_def)

definition sample_values :: value_lib where
  "sample_values = \<lparr>toUint32 = (\<lambda>n. if 0 \<le> n \<and> n < 2 ^ 32 then Some (word_of_int n) else None),
     url_Parse = (\<lambda>s. Inl (parse_error ''parse'' s)), url_ParseRequestURI = (\<lambda>s. Inl (parse_error ''parse'' s))\<rparr>"

lemma sample_values_laws: "safecast_laws sample_values"
  by (simp add: safecast_laws_def sample_values_def)

end
