(* ===== verification/Backend_File.thy ===== *)
theory Backend_File
  imports Backend_Values DHCP_Reservation "HOL-Library.Multiset"
begin

text \<open>
  \<open>internal/backend/file/file.go\<close>: the backend that serves machine data from a YAML file and watches the
  file for changes. The YAML parser is a parameter; what it returns, a Go map, is an association list in the
  order in which \<open>range\<close> visits it, which may differ from call to call.
\<close>

section \<open>Definitions\<close>

definition errFileFormat :: go_error where "errFileFormat = ErrorNew ''invalid file format''"
definition errRecordNotFound :: go_error where "errRecordNotFound = ErrorNew ''record not found''"
definition errParseIP :: go_error where "errParseIP = ErrorNew ''failed to parse IP from File''"
definition errParseSubnet :: go_error where "errParseSubnet = ErrorNew ''failed to parse subnet mask from File''"
definition errParseURL :: go_error where "errParseURL = ErrorNew ''failed to parse URL''"

record file_netboot =
  f_AllowPXE :: bool
  f_IPXEScriptURL :: string
  f_IPXEScript :: string
  f_Console :: string
  f_Facility :: string

record file_dhcp =
  f_MACAddress :: slice
  f_IPAddress :: string
  f_SubnetMask :: string
  f_DefaultGateway :: string
  f_NameServers :: "string list"
  f_Hostname :: string
  f_DomainName :: string
  f_BroadcastAddress :: string
  f_NTPServers :: "string list"
  f_VLANID :: string
  f_LeaseTime :: int
  f_Arch :: string
  f_DomainSearch :: "string list"
  f_Disabled :: bool
  f_Netboot :: file_netboot

text \<open>\<open>fmt.Errorf("%w: %w", err, base)\<close>.\<close>

definition join_errors :: "go_error \<Rightarrow> go_error \<Rightarrow> go_error" where
  "join_errors e base = Errorf2 (Error_text e @ '': '' @ Error_text base) e base"

subsection \<open>One record\<close>

definition translate_netboot :: "value_lib \<Rightarrow> file_netboot \<Rightarrow> go_error + data_Netboot" where
  "translate_netboot vl r =
     (let n = new_Netboot\<lparr>AllowNetboot := f_AllowPXE r\<rparr>;
          rest = (\<lambda>n.
            let n = (if f_IPXEScript r \<noteq> [] then n\<lparr>IPXEScript := f_IPXEScript r\<rparr> else n);
                n = (if f_Console r \<noteq> [] then n\<lparr>Console := f_Console r\<rparr> else n)
            in if f_Facility r \<noteq> [] then n\<lparr>Facility := f_Facility r\<rparr> else n)
      in if f_IPXEScriptURL r \<noteq> [] then
           (case url_Parse vl (f_IPXEScriptURL r) of
              Inl err \<Rightarrow> Inl (join_errors err errParseURL)
            | Inr u \<Rightarrow> Inr (rest (n\<lparr>IPXEScriptURL := Some u\<rparr>)))
         else Inr (rest n))"

definition translate :: "value_lib \<Rightarrow> file_dhcp \<Rightarrow> go_error + (data_DHCP \<times> data_Netboot)" where
  "translate vl r =
     (let d = new_DHCP\<lparr>MACAddress := f_MACAddress r\<rparr> in
      case ParseAddr (f_IPAddress r) of
        None \<Rightarrow> Inl (join_errors (parse_error ''ParseAddr'' (f_IPAddress r)) errParseIP)
      | Some ip \<Rightarrow>
        (let d = d\<lparr>IPAddress := ip\<rparr> in
         case ParseIP (f_SubnetMask r) of
           None \<Rightarrow> Inl errParseSubnet
         | Some sm \<Rightarrow>
           (let d = d\<lparr>SubnetMask := To4 (Some sm)\<rparr>;
                d = (case ParseAddr (f_DefaultGateway r) of None \<Rightarrow> d | Some dg \<Rightarrow> d\<lparr>DefaultGateway := dg\<rparr>);
                d = d\<lparr>NameServers := parse_servers (f_NameServers r)\<rparr>;
                d = d\<lparr>HostName := f_Hostname r\<rparr>;
                d = d\<lparr>DomainName := f_DomainName r\<rparr>;
                d = (case ParseAddr (f_BroadcastAddress r) of None \<Rightarrow> d | Some ba \<Rightarrow> d\<lparr>BroadcastAddress := ba\<rparr>);
                d = d\<lparr>NTPServers := parse_servers (f_NTPServers r)\<rparr>;
                d = d\<lparr>VLANID := f_VLANID r\<rparr>;
                d = d\<lparr>LeaseTime := lease_seconds vl (f_LeaseTime r)\<rparr>;
                d = d\<lparr>DHCP_Arch := f_Arch r\<rparr>;
                d = d\<lparr>DomainSearch := f_DomainSearch r\<rparr>;
                d = d\<lparr>Disabled := f_Disabled r\<rparr>
            in case translate_netboot vl (f_Netboot r) of
                 Inl err \<Rightarrow> Inl err
               | Inr n \<Rightarrow> Inr (d, n))))"

subsection \<open>Lookups\<close>

type_synonym yaml_lib = "bytes \<Rightarrow> go_error + (string \<times> file_dhcp) list"

definition found :: "go_error + (data_DHCP \<times> data_Netboot) \<Rightarrow> go_error + (data_DHCP option \<times> data_Netboot option)" where
  "found r = (case r of Inl err \<Rightarrow> Inl err | Inr (d, n) \<Rightarrow> Inr (Some d, Some n))"

text \<open>The loops over the map.\<close>

fun mac_loop :: "value_lib \<Rightarrow> bytes \<Rightarrow> (string \<times> file_dhcp) list \<Rightarrow> go_error + (data_DHCP option \<times> data_Netboot option)" where
  "mac_loop vl mac [] = Inl (Errorf (Error_text errRecordNotFound @ '': '' @ HardwareAddr_String mac) errRecordNotFound)"
| "mac_loop vl mac ((k, v) # r) =
     (if equal_fold k (HardwareAddr_String mac) then found (translate vl (v\<lparr>f_MACAddress := Some mac\<rparr>))
      else mac_loop vl mac r)"

fun ip_loop :: "value_lib \<Rightarrow> slice \<Rightarrow> (string \<times> file_dhcp) list \<Rightarrow> go_error + (data_DHCP option \<times> data_Netboot option)" where
  "ip_loop vl ip [] = Inl (Errorf (Error_text errRecordNotFound @ '': '' @ IP_String ip) errRecordNotFound)"
| "ip_loop vl ip ((k, v) # r) =
     (if f_IPAddress v = IP_String ip then
        (case ParseMAC k of
           None \<Rightarrow> Inl (join_errors (parse_error ''ParseMAC'' k) errFileFormat)
         | Some mac \<Rightarrow> found (translate vl (v\<lparr>f_IPAddress := IP_String ip, f_MACAddress := Some mac\<rparr>)))
      else ip_loop vl ip r)"

record Watcher =
  FilePath :: string
  w_data :: bytes     \<comment> \<open>the field \<open>data\<close>\<close>

definition file_GetByMac :: "value_lib \<Rightarrow> yaml_lib \<Rightarrow> Watcher \<Rightarrow> bytes \<Rightarrow> backend_result" where
  "file_GetByMac vl yaml w mac =
     Ret (case yaml (w_data w) of
        Inl err \<Rightarrow> Inl (join_errors err errFileFormat)
      | Inr r \<Rightarrow> mac_loop vl mac r)"

definition file_GetByIP :: "value_lib \<Rightarrow> yaml_lib \<Rightarrow> Watcher \<Rightarrow> slice \<Rightarrow> backend_result" where
  "file_GetByIP vl yaml w ip =
     Ret (case yaml (w_data w) of
        Inl err \<Rightarrow> Inl (join_errors err errFileFormat)
      | Inr r \<Rightarrow> ip_loop vl ip r)"

definition file_Backend :: "value_lib \<Rightarrow> yaml_lib \<Rightarrow> Watcher \<Rightarrow> BackendReader" where
  "file_Backend vl yaml w = \<lparr>GetByMac = file_GetByMac vl yaml w, GetByIP = file_GetByIP vl yaml w\<rparr>"

subsection \<open>Watching\<close>

text \<open>
  \<open>newWatcher\<close> and \<open>add\<close> stand for the \<open>fsnotify\<close> library, \<open>ReadFile\<close> for what the file system
  answers.
\<close>

definition NewWatcher ::
  "(unit \<Rightarrow> go_error option) \<Rightarrow> (string \<Rightarrow> go_error option) \<Rightarrow> (string \<Rightarrow> go_error + bytes) \<Rightarrow> string \<Rightarrow> go_error + Watcher" where
  "NewWatcher newWatcher add ReadFile f =
     (case newWatcher () of Some err \<Rightarrow> Inl err
      | None \<Rightarrow>
        (case add f of Some err \<Rightarrow> Inl err
         | None \<Rightarrow>
           (case ReadFile (path_Clean f) of Inl err \<Rightarrow> Inl err
            | Inr d \<Rightarrow> Inr \<lparr>FilePath = f, w_data = d\<rparr>)))"

text \<open>
  What \<open>select\<close> in \<open>Start\<close> receives: the end of the context, an event with its operation bits and what
  reading the file gives at that moment, an error of the watcher, or the closing of one of its channels.
\<close>

datatype watch =
    CtxDone
  | Event u32 "go_error + bytes"
  | EventsClosed
  | WatchError go_error
  | ErrorsClosed

text \<open>
  The loop of \<open>Start\<close> over a finite sequence of such receipts: the watcher and whether it returned.
  \<open>writeOp\<close> is the bit \<open>fsnotify.Write\<close>.
\<close>

fun Watcher_Start :: "u32 \<Rightarrow> watch list \<Rightarrow> Watcher \<Rightarrow> Watcher \<times> bool" where
  "Watcher_Start writeOp [] w = (w, False)"
| "Watcher_Start writeOp (CtxDone # es) w = (w, True)"
| "Watcher_Start writeOp (Event op d # es) w =
     (if and op writeOp = writeOp then
        (case d of Inl err \<Rightarrow> Watcher_Start writeOp es w
         | Inr b \<Rightarrow> Watcher_Start writeOp es (w\<lparr>w_data := b\<rparr>))
      else Watcher_Start writeOp es w)"
| "Watcher_Start writeOp (EventsClosed # es) w = Watcher_Start writeOp es w"
| "Watcher_Start writeOp (WatchError e # es) w = Watcher_Start writeOp es w"
| "Watcher_Start writeOp (ErrorsClosed # es) w = Watcher_Start writeOp es w"

section \<open>Records\<close>

text \<open>The DHCP data of a record whose required fields are addresses.\<close>

definition translated :: "value_lib \<Rightarrow> file_dhcp \<Rightarrow> Addr \<Rightarrow> bytes \<Rightarrow> data_DHCP" where
  "translated vl r ip sm = \<lparr>MACAddress = f_MACAddress r, IPAddress = ip, SubnetMask = To4 (Some sm),
     DefaultGateway = (case ParseAddr (f_DefaultGateway r) of None \<Rightarrow> AddrZero | Some a \<Rightarrow> a),
     NameServers = parse_servers (f_NameServers r), HostName = f_Hostname r, DomainName = f_DomainName r,
     BroadcastAddress = (case ParseAddr (f_BroadcastAddress r) of None \<Rightarrow> AddrZero | Some a \<Rightarrow> a),
     NTPServers = parse_servers (f_NTPServers r), VLANID = f_VLANID r, LeaseTime = lease_seconds vl (f_LeaseTime r),
     DHCP_Arch = f_Arch r, DomainSearch = f_DomainSearch r, Disabled = f_Disabled r\<rparr>"

lemma translate_Inr:
  "translate vl r = Inr (d, n) \<longleftrightarrow>
     (\<exists>ip sm. ParseAddr (f_IPAddress r) = Some ip \<and> ParseIP (f_SubnetMask r) = Some sm \<and>
        translate_netboot vl (f_Netboot r) = Inr n \<and> d = translated vl r ip sm)"
proof (cases "ParseAddr (f_IPAddress r)")
  case (Some ip)
  show ?thesis
  proof (cases "ParseIP (f_SubnetMask r)")
    case sm: (Some sm)
    have "translate vl r = (case translate_netboot vl (f_Netboot r) of Inl e \<Rightarrow> Inl e | Inr n \<Rightarrow> Inr (translated vl r ip sm, n))"
      by (cases "ParseAddr (f_DefaultGateway r)"; cases "ParseAddr (f_BroadcastAddress r)"; cases "translate_netboot vl (f_Netboot r)")
        (simp_all add: translate_def translated_def new_DHCP_def Some sm)
    then show ?thesis by (auto simp: Some sm split: sum.splits)
  qed (simp add: translate_def Some)
qed (simp add: translate_def)

lemma found_Inr: "found x = Inr (d, n) \<longleftrightarrow> (\<exists>d' n'. x = Inr (d', n') \<and> d = Some d' \<and> n = Some n')"
  by (auto simp: found_def split: sum.splits)

lemma mac_loop_Inr:
  assumes "mac_loop vl mac r = Inr (d, n)"
  shows "\<exists>k v d' n'. (k, v) \<in> set r \<and> equal_fold k (HardwareAddr_String mac) \<and>
     translate vl (v\<lparr>f_MACAddress := Some mac\<rparr>) = Inr (d', n') \<and> d = Some d' \<and> n = Some n'"
  using assms by (induction vl mac r rule: mac_loop.induct) (auto simp: found_Inr split: if_splits)

lemma ip_loop_Inr:
  assumes "ip_loop vl ip r = Inr (d, n)"
  shows "\<exists>k v mac d' n'. (k, v) \<in> set r \<and> f_IPAddress v = IP_String ip \<and> ParseMAC k = Some mac \<and>
     translate vl (v\<lparr>f_IPAddress := IP_String ip, f_MACAddress := Some mac\<rparr>) = Inr (d', n') \<and> d = Some d' \<and> n = Some n'"
  using assms
proof (induction vl ip r rule: ip_loop.induct)
  case (2 vl ip k v r)
  then show ?case
    by (cases "f_IPAddress v = IP_String ip") (fastforce simp: found_Inr split: option.splits, fastforce)
qed simp

text \<open>The file backend keeps the contract of a backend.\<close>

interpretation file_be: backend_reader "file_Backend vl yaml w" for vl yaml w
proof unfold_locales
  fix mac d n
  assume "GetByMac (file_Backend vl yaml w) mac = Ret (Inr (d, n))"
  then obtain r where "mac_loop vl mac r = Inr (d, n)"
    by (auto simp: file_Backend_def file_GetByMac_def split: sum.splits)
  then obtain v d' n' where "translate vl (v\<lparr>f_MACAddress := Some mac\<rparr>) = Inr (d', n')" "d = Some d'" "n = Some n'"
    using mac_loop_Inr by blast
  then show "\<exists>dd nn. d = Some dd \<and> n = Some nn \<and> MACAddress dd = Some mac \<and> wf_addr (IPAddress dd) \<and> IPAddress dd \<noteq> AddrZero"
    by (auto simp: translate_Inr translated_def dest: ParseAddr_wf)
next
  fix ip d n
  assume "GetByIP (file_Backend vl yaml w) ip = Ret (Inr (d, n))"
  then obtain r where "ip_loop vl ip r = Inr (d, n)"
    by (auto simp: file_Backend_def file_GetByIP_def split: sum.splits)
  then obtain v d' n' where "translate vl v = Inr (d', n')" "d = Some d'" "n = Some n'"
    using ip_loop_Inr by blast
  then show "\<exists>dd nn. d = Some dd \<and> n = Some nn \<and> wf_addr (IPAddress dd) \<and> IPAddress dd \<noteq> AddrZero"
    by (auto simp: translate_Inr translated_def dest: ParseAddr_wf)
qed

section \<open>Lookups\<close>

text \<open>The keys of a file name different machines: no two agree up to the case of letters.\<close>

definition distinct_keys :: "(string \<times> 'a) list \<Rightarrow> bool" where
  "distinct_keys r \<longleftrightarrow> distinct (map (\<lambda>(k, v). map lower k) r)"

lemma mac_loop_key:
  assumes "distinct_keys r" "(k, v) \<in> set r" "equal_fold k (HardwareAddr_String mac)"
  shows "mac_loop vl mac r = found (translate vl (v\<lparr>f_MACAddress := Some mac\<rparr>))"
  using assms
proof (induction r)
  case (Cons e r)
  obtain k' v' where e: "e = (k', v')" by fastforce
  show ?case
  proof (cases "equal_fold k' (HardwareAddr_String mac)")
    case True
    then have "map lower k' = map lower k" using Cons.prems(3) by (simp add: equal_fold_def)
    with Cons.prems(1,2) e have "(k, v) = (k', v')" by (force simp: distinct_keys_def)
    with True e show ?thesis by simp
  next
    case False
    with Cons e show ?thesis by (auto simp: distinct_keys_def)
  qed
qed simp

lemma mac_loop_missing:
  assumes "\<forall>(k, v) \<in> set r. \<not> equal_fold k (HardwareAddr_String mac)"
  shows "mac_loop vl mac r = Inl (Errorf (Error_text errRecordNotFound @ '': '' @ HardwareAddr_String mac) errRecordNotFound)"
  using assms by (induction r) auto

text \<open>
  C26. The answer of the file backend to a MAC address does not depend on the order in which Go visits the
  map, for a file whose keys differ by more than the case of letters: it is the translation of the one
  record whose key is that address in any case of letters, or the error "record not found".
\<close>

theorem file_lookup_mac:
  assumes "yaml (w_data w) = Inr r" "distinct_keys r" "mset r' = mset r"
  shows "(\<forall>k v. (k, v) \<in> set r \<and> equal_fold k (HardwareAddr_String mac) \<longrightarrow>
       file_GetByMac vl (\<lambda>_. Inr r') w mac = Ret (found (translate vl (v\<lparr>f_MACAddress := Some mac\<rparr>)))) \<and>
    ((\<forall>(k, v) \<in> set r. \<not> equal_fold k (HardwareAddr_String mac)) \<longrightarrow>
       (\<exists>e. file_GetByMac vl (\<lambda>_. Inr r') w mac = Ret (Inl e) \<and> errors_Is e errRecordNotFound)) \<and>
    file_GetByMac vl (\<lambda>_. Inr r') w mac = file_GetByMac vl yaml w mac"
proof -
  have set: "set r' = set r" and keys: "distinct_keys r'"
    using assms(2,3) mset_eq_setD[OF assms(3)] mset_eq_imp_distinct_iff[of "map (\<lambda>(k, v). map lower k) r'" "map (\<lambda>(k, v). map lower k) r"]
    by (simp_all add: distinct_keys_def)
  note hit = mac_loop_key[OF assms(2), where vl = vl and mac = mac] mac_loop_key[OF keys, unfolded set, where vl = vl and mac = mac]
  note miss = mac_loop_missing[where r = r and mac = mac and vl = vl] mac_loop_missing[where r = r' and mac = mac and vl = vl, unfolded set]
  have "mac_loop vl mac r' = mac_loop vl mac r"
  proof (cases "\<forall>(k, v) \<in> set r. \<not> equal_fold k (HardwareAddr_String mac)")
    case True
    then show ?thesis by (simp only: miss)
  next
    case False
    then obtain k v where "(k, v) \<in> set r" "equal_fold k (HardwareAddr_String mac)" by auto
    then show ?thesis by (simp only: hit)
  qed
  then have eq: "file_GetByMac vl (\<lambda>_. Inr r') w mac = Ret (mac_loop vl mac r)" "file_GetByMac vl yaml w mac = Ret (mac_loop vl mac r)"
    using assms(1) by (simp_all add: file_GetByMac_def)
  show ?thesis
    unfolding eq by (intro conjI allI impI refl) (metis hit(1), simp add: miss(1) errRecordNotFound_def)
qed

section \<open>Watching\<close>

definition write_content :: "u32 \<Rightarrow> watch \<Rightarrow> bytes option" where
  "write_content writeOp e = (case e of Event op (Inr b) \<Rightarrow> if and op writeOp = writeOp then Some b else None | _ \<Rightarrow> None)"

text \<open>
  C27. Whatever the watcher receives, the data it serves is the content of the last successful read after
  a write event before the end of the context, and the initial content when there was none: a failed read, another
  kind of event or an error of the watcher never discards data.
\<close>

theorem watcher_latest:
  "w_data (fst (Watcher_Start writeOp es w)) =
     last (w_data w # List.map_filter (write_content writeOp) (takeWhile (\<lambda>e. e \<noteq> CtxDone) es)) \<and>
   FilePath (fst (Watcher_Start writeOp es w)) = FilePath w \<and>
   (snd (Watcher_Start writeOp es w) \<longleftrightarrow> CtxDone \<in> set es)"
  by (induction writeOp es w rule: Watcher_Start.induct)
    (auto simp: List.map_filter_simps write_content_def split: sum.splits)

section \<open>From the file to the lease\<close>

text \<open>
  C25. End to end: a machine with a record in the file that names its address, with a valid IP address and
  subnet mask and not disabled, gets exactly one answer to a DISCOVER or REQUEST, and the answer leases
  what the record says.
\<close>

theorem file_record_leased:
  assumes "dhcpv4_laws lib" "Pkt dp = Some p" "Peer dp = UDPPeer (Some u)" "cn = Some c"
    and "lib_MessageType lib p \<in> {MessageTypeDiscover, MessageTypeRequest}" "ClientHWAddr p = Some mac"
    and "backend_of h = file_Backend vl yaml w" "yaml (w_data w) = Inr r" "distinct_keys r"
    and "(k, v) \<in> set r" "equal_fold k (HardwareAddr_String mac)"
    and "ParseAddr (f_IPAddress v) = Some ip" "ParseIP (f_SubnetMask v) = Some sm"
    and "translate_netboot vl (f_Netboot v) = Inr n" "\<not> f_Disabled v"
  shows "\<exists>es rep. reservation_Handle lib ot h ctx cn dp = Ret es \<and>
     lease_reply lib h (translated vl (v\<lparr>f_MACAddress := Some mac\<rparr>) ip sm) p (answer_type (lib_MessageType lib p)) rep \<and>
     sends es = [(lib_ToBytes lib rep, cm_IfIndex dp, reply_address (Peer dp) (GatewayIPAddr p))]"
proof -
  let ?v = "v\<lparr>f_MACAddress := Some mac\<rparr>"
  have "translate vl ?v = Inr (translated vl ?v ip sm, n)" using assms(12-14) by (simp add: translate_Inr)
  then have "mac_loop vl mac r = Inr (Some (translated vl ?v ip sm), Some n)"
    using mac_loop_key[OF assms(9,10,11), of vl] by (simp add: found_def)
  then have "GetByMac (backend_of h) (slice_bytes (ClientHWAddr p)) = Ret (Inr (Some (translated vl ?v ip sm), Some n))"
    using assms(6-8) by (simp add: file_Backend_def file_GetByMac_def)
  moreover have "\<not> Disabled (translated vl ?v ip sm)" using assms(15) by (simp add: translated_def)
  ultimately obtain es rep where "reservation_Handle lib ot h ctx cn dp = Ret es"
    "lease_reply lib h (translated vl ?v ip sm) p (answer_type (lib_MessageType lib p)) rep"
    "sends es = [(lib_ToBytes lib rep, cm_IfIndex dp, reply_address (Peer dp) (GatewayIPAddr p))]"
    using Handle_found[OF assms(1-5), where ot = ot and ctx = ctx] by metis
  then show ?thesis by metis
qed

text \<open>A file with one machine.\<close>

definition sample_record :: file_dhcp where
  "sample_record = \<lparr>f_MACAddress = None, f_IPAddress = ''192.168.2.153'', f_SubnetMask = ''255.255.255.0'',
     f_DefaultGateway = ''192.168.2.1'', f_NameServers = [''8.8.8.8'', ''1.1.1.1''], f_Hostname = ''pxe-virtualbox'',
     f_DomainName = ''example.com'', f_BroadcastAddress = ''192.168.2.255'', f_NTPServers = [''132.163.96.2''],
     f_VLANID = [], f_LeaseTime = 86400, f_Arch = [], f_DomainSearch = [''example.com''], f_Disabled = False,
     f_Netboot = \<lparr>f_AllowPXE = True, f_IPXEScriptURL = [], f_IPXEScript = [], f_Console = [], f_Facility = []\<rparr>\<rparr>"

definition sample_file :: "(string \<times> file_dhcp) list" where
  "sample_file = [(map (\<lambda>c. if c = CHR ''e'' then CHR ''E'' else c) (HardwareAddr_String sample_mac), sample_record)]"

definition sample_watcher :: Watcher where
  "sample_watcher = \<lparr>FilePath = ''/etc/smee.yaml'', w_data = []\<rparr>"

definition sample_file_handler :: reservation_Handler where
  "sample_file_handler = sample_handler\<lparr>res_Backend := Some (file_Backend sample_values (\<lambda>_. Inr sample_file) sample_watcher)\<rparr>"

lemma sample_file_key:
  "(fst (sample_file ! 0), sample_record) \<in> set sample_file"
  "equal_fold (fst (sample_file ! 0)) (HardwareAddr_String sample_mac)"
  "distinct_keys sample_file"
proof -
  show "equal_fold (fst (sample_file ! 0)) (HardwareAddr_String sample_mac)" by code_simp
qed (simp_all add: sample_file_def distinct_keys_def)

theorem file_lookup_mac_witness:
  "file_GetByMac sample_values (\<lambda>_. Inr (rev sample_file)) sample_watcher sample_mac =
     Ret (found (translate sample_values (sample_record\<lparr>f_MACAddress := Some sample_mac\<rparr>)))"
  using file_lookup_mac[OF refl sample_file_key(3), of "rev sample_file" sample_mac sample_values sample_watcher]
    sample_file_key(1,2) by (metis mset_rev)

theorem file_record_leased_witness:
  "\<exists>es rep. reservation_Handle sample_lib noop_otel sample_file_handler () (Some sample_conn) sample_packet = Ret es \<and>
     lease_reply sample_lib sample_file_handler
       (translated sample_values (sample_record\<lparr>f_MACAddress := Some sample_mac\<rparr>)
         (the (ParseAddr ''192.168.2.153'')) (the (ParseIP ''255.255.255.0'')))
       sample_discover (answer_type (lib_MessageType sample_lib sample_discover)) rep \<and>
     sends es = [(lib_ToBytes sample_lib rep, cm_IfIndex sample_packet,
       reply_address (Peer sample_packet) (GatewayIPAddr sample_discover))]"
proof -
  have "ParseAddr ''192.168.2.153'' \<noteq> None" "ParseIP ''255.255.255.0'' \<noteq> None" by code_simp+
  then have addrs: "ParseAddr (f_IPAddress sample_record) = Some (the (ParseAddr ''192.168.2.153''))"
    "ParseIP (f_SubnetMask sample_record) = Some (the (ParseIP ''255.255.255.0''))"
    by (simp_all add: sample_record_def)
  have be: "backend_of sample_file_handler = file_Backend sample_values (\<lambda>_. Inr sample_file) sample_watcher"
    by (simp add: sample_file_handler_def backend_of_def)
  have n: "translate_netboot sample_values (f_Netboot sample_record) = Inr (new_Netboot\<lparr>AllowNetboot := True\<rparr>)"
    by (simp add: translate_netboot_def sample_record_def)
  show ?thesis
    by (rule file_record_leased[OF sample_laws sample_packet_simps(1,2) refl _ _ be refl sample_file_key(3,1,2) addrs n])
      (simp add: sample_discover_type, simp add: sample_discover_def, simp add: sample_record_def)
qed

end
