(* ===== verification/Backend_Kube.thy ===== *)
theory Backend_Kube
  imports Backend_Values
begin

text \<open>
  \<open>internal/backend/kube\<close> (\<open>kube.go\<close>, \<open>index.go\<close>, \<open>error.go\<close>): the backend that reads
  Tinkerbell's Hardware objects from a Kubernetes cluster. The cluster client of controller-runtime is a
  parameter; the fields of the Hardware type that the code reads are records.
\<close>

section \<open>Definitions\<close>

subsection \<open>The error for a machine that is not there\<close>

record v1_Status =
  st_Reason :: string
  st_Code :: int

definition hardwareNotFoundError_NotFound :: bool where "hardwareNotFoundError_NotFound = True"

definition hardwareNotFoundError_Error :: string where "hardwareNotFoundError_Error = ''hardware not found''"

definition hardwareNotFoundError_Status :: v1_Status where
  "hardwareNotFoundError_Status = \<lparr>st_Reason = ''NotFound'', st_Code = 404\<rparr>"

lemma hardwareNotFoundError_text: "Error_text HardwareNotFoundError = hardwareNotFoundError_Error"
  by (simp add: hardwareNotFoundError_Error_def)

subsection \<open>Hardware\<close>

record v1_IP =
  ip_Address :: string
  ip_Netmask :: string
  ip_Gateway :: string

record v1_DHCP =
  k_MAC :: string
  k_Hostname :: string
  k_LeaseTime :: int
  k_NameServers :: "string list"
  k_TimeServers :: "string list"
  k_Arch :: string
  k_VLANID :: string
  k_IP :: "v1_IP option"

record v1_IPXE =
  ipxe_URL :: string
  ipxe_Contents :: string

record v1_OSIE =
  osie_BaseURL :: string
  osie_Kernel :: string
  osie_Initrd :: string

record v1_Netboot =
  k_AllowPXE :: "bool option"
  k_IPXE :: "v1_IPXE option"
  k_OSIE :: "v1_OSIE option"

record v1_Interface =
  i_Netboot :: "v1_Netboot option"
  i_DHCP :: "v1_DHCP option"
  i_DisableDHCP :: bool

text \<open>The metadata, down to the facility code.\<close>

record v1_Metadata =
  md_FacilityCode :: "string option"   \<comment> \<open>\<open>None\<close>: \<open>Facility\<close> is nil\<close>

record v1_Hardware =
  Interfaces :: "v1_Interface list"
  hw_Metadata :: "v1_Metadata option"

definition empty_Interface :: v1_Interface where
  "empty_Interface = \<lparr>i_Netboot = None, i_DHCP = None, i_DisableDHCP = False\<rparr>"

subsection \<open>Indexes\<close>

text \<open>An object of the cluster, as the index functions see it.\<close>

datatype client_Object = HardwareObject v1_Hardware | OtherObject

definition MACAddrIndex :: string where "MACAddrIndex = ''.Spec.Interfaces.MAC''"
definition IPAddrIndex :: string where "IPAddrIndex = ''.Spec.Interfaces.DHCP.IP''"

fun macs_of :: "v1_Interface list \<Rightarrow> string list" where
  "macs_of [] = []"
| "macs_of (i # is) =
     (case i_DHCP i of Some d \<Rightarrow> (if k_MAC d \<noteq> [] then [k_MAC d] else []) | None \<Rightarrow> []) @ macs_of is"

definition GetMACs :: "v1_Hardware \<Rightarrow> string list" where
  "GetMACs h = macs_of (Interfaces h)"

definition MACAddrs :: "client_Object \<Rightarrow> string list" where
  "MACAddrs obj = (case obj of HardwareObject hw \<Rightarrow> GetMACs hw | OtherObject \<Rightarrow> [])"

fun ips_of :: "v1_Interface list \<Rightarrow> string list" where
  "ips_of [] = []"
| "ips_of (i # is) =
     (case i_DHCP i of
        Some d \<Rightarrow> (case k_IP d of Some ip \<Rightarrow> (if ip_Address ip \<noteq> [] then [ip_Address ip] else []) | None \<Rightarrow> [])
      | None \<Rightarrow> []) @ ips_of is"

definition GetIPs :: "v1_Hardware \<Rightarrow> string list" where
  "GetIPs h = ips_of (Interfaces h)"

definition IPAddrs :: "client_Object \<Rightarrow> string list" where
  "IPAddrs obj = (case obj of HardwareObject hw \<Rightarrow> GetIPs hw | OtherObject \<Rightarrow> [])"

subsection \<open>The cluster\<close>

record 'c cluster_lib =
  cluster_New :: "go_error + 'c"
  cluster_IndexField :: "'c \<Rightarrow> string \<Rightarrow> (client_Object \<Rightarrow> string list) \<Rightarrow> go_error + 'c"
  cluster_List :: "'c \<Rightarrow> string \<Rightarrow> string \<Rightarrow> go_error + v1_Hardware list"

definition NewBackend :: "'c cluster_lib \<Rightarrow> go_error + 'c" where
  "NewBackend cl =
     (case cluster_New cl of
        Inl err \<Rightarrow> Inl (Errorf (''failed to create new cluster config: '' @ Error_text err) err)
      | Inr c \<Rightarrow>
        (case cluster_IndexField cl c MACAddrIndex MACAddrs of
           Inl err \<Rightarrow> Inl (Errorf (''failed to setup indexer: '' @ Error_text err) err)
         | Inr c \<Rightarrow>
           (case cluster_IndexField cl c IPAddrIndex IPAddrs of
              Inl err \<Rightarrow> Inl (Errorf (''failed to setup indexer(.spec.interfaces.dhcp.ip.address): '' @ Error_text err) err)
            | Inr c \<Rightarrow> Inr c)))"

subsection \<open>Conversion\<close>

definition toDHCPData :: "value_lib \<Rightarrow> v1_DHCP option \<Rightarrow> go_error + data_DHCP" where
  "toDHCPData vl h0 =
     (case h0 of None \<Rightarrow> Inl (ErrorNew ''no DHCP data'')
      | Some h \<Rightarrow>
        (case ParseMAC (k_MAC h) of None \<Rightarrow> Inl (parse_error ''ParseMAC'' (k_MAC h))
         | Some mac \<Rightarrow>
           (case k_IP h of None \<Rightarrow> Inl (ErrorNew ''no IP data'')
            | Some kip \<Rightarrow>
              (case ParseAddr (ip_Address kip) of None \<Rightarrow> Inl (parse_error ''ParseAddr'' (ip_Address kip))
               | Some ip \<Rightarrow>
                 (case ParseIP (ip_Netmask kip) of None \<Rightarrow> Inl (ErrorNew ''no netmask'')
                  | Some sm \<Rightarrow>
                    (let d = new_DHCP\<lparr>MACAddress := Some mac, IPAddress := ip, SubnetMask := To4 (Some sm)\<rparr>;
                         rest = (\<lambda>d. d\<lparr>NameServers := parse_servers (k_NameServers h),
                                       NTPServers := parse_servers (k_TimeServers h),
                                       HostName := k_Hostname h,
                                       LeaseTime := lease_seconds vl (k_LeaseTime h),
                                       DHCP_Arch := k_Arch h,
                                       VLANID := k_VLANID h\<rparr>)
                     in if ip_Gateway kip \<noteq> [] then
                          (case ParseAddr (ip_Gateway kip) of
                             None \<Rightarrow> Inl (parse_error ''ParseAddr'' (ip_Gateway kip))
                           | Some gw \<Rightarrow> Inr (rest (d\<lparr>DefaultGateway := gw\<rparr>)))
                        else Inr (rest d)))))))"

definition toNetbootData :: "value_lib \<Rightarrow> v1_Netboot option \<Rightarrow> string \<Rightarrow> go_error + data_Netboot" where
  "toNetbootData vl i0 facility =
     (case i0 of None \<Rightarrow> Inl (ErrorNew ''no netboot data'')
      | Some i \<Rightarrow>
        (let n = new_Netboot;
             n = (case k_AllowPXE i of Some b \<Rightarrow> n\<lparr>AllowNetboot := b\<rparr> | None \<Rightarrow> n);
             rest = (\<lambda>n.
               let n = (case k_IPXE i of Some x \<Rightarrow> n\<lparr>IPXEScript := ipxe_Contents x\<rparr> | None \<Rightarrow> n);
                   n = n\<lparr>Console := []\<rparr>;
                   n = n\<lparr>Facility := facility\<rparr>;
                   osie = \<lparr>BaseURL = None, Kernel = [], Initrd = []\<rparr>;
                   osie = (case k_OSIE i of None \<Rightarrow> osie
                     | Some os \<Rightarrow>
                        (let osie = (case url_Parse vl (osie_BaseURL os) of Inr b \<Rightarrow> osie\<lparr>BaseURL := Some b\<rparr> | Inl err \<Rightarrow> osie)
                         in osie\<lparr>Kernel := osie_Kernel os, Initrd := osie_Initrd os\<rparr>))
               in n\<lparr>OSIE := osie\<rparr>)
         in case k_IPXE i of
              Some x \<Rightarrow>
                (if ipxe_URL x \<noteq> [] then
                   (case url_ParseRequestURI vl (ipxe_URL x) of
                      Inl err \<Rightarrow> Inl err
                    | Inr u \<Rightarrow> Inr (rest (n\<lparr>IPXEScriptURL := Some u\<rparr>)))
                 else Inr (rest n))
            | None \<Rightarrow> Inr (rest n)))"

definition transform :: "value_lib \<Rightarrow> v1_Interface \<Rightarrow> v1_Metadata option \<Rightarrow> go_error + (data_DHCP \<times> data_Netboot)" where
  "transform vl i m =
     (case toDHCPData vl (i_DHCP i) of
        Inl err \<Rightarrow> Inl (Errorf (''failed to convert hardware to DHCP data: '' @ Error_text err) err)
      | Inr d \<Rightarrow>
        (let d = d\<lparr>Disabled := i_DisableDHCP i\<rparr>;
             facility = (case m of None \<Rightarrow> [] | Some md \<Rightarrow> (case md_FacilityCode md of None \<Rightarrow> [] | Some f \<Rightarrow> f))
         in case toNetbootData vl (i_Netboot i) facility of
              Inl err \<Rightarrow> Inl (Errorf (''failed to convert hardware to netboot data: '' @ Error_text err) err)
            | Inr n \<Rightarrow> Inr (d, n)))"

subsection \<open>Lookups\<close>

text \<open>The loops over the interfaces, which dereference their DHCP data.\<close>

fun mac_iface :: "string \<Rightarrow> v1_Interface list \<Rightarrow> v1_Interface go" where
  "mac_iface mac [] = Ret empty_Interface"
| "mac_iface mac (i # is) =
     (case i_DHCP i of None \<Rightarrow> Panic ''nil pointer dereference''
      | Some d \<Rightarrow> if k_MAC d = mac then Ret i else mac_iface mac is)"

fun ip_iface :: "string \<Rightarrow> v1_Interface list \<Rightarrow> v1_Interface go" where
  "ip_iface ip [] = Ret empty_Interface"
| "ip_iface ip (i # is) =
     (case i_DHCP i of None \<Rightarrow> Panic ''nil pointer dereference''
      | Some d \<Rightarrow>
        (case k_IP d of None \<Rightarrow> Panic ''nil pointer dereference''
         | Some a \<Rightarrow> if ip_Address a = ip then Ret i else ip_iface ip is))"

definition kube_result :: "go_error + (data_DHCP \<times> data_Netboot) \<Rightarrow> go_error + (data_DHCP option \<times> data_Netboot option)" where
  "kube_result r = (case r of Inl err \<Rightarrow> Inl err | Inr (d, n) \<Rightarrow> Inr (Some d, Some n))"

definition kube_GetByMac :: "value_lib \<Rightarrow> 'c cluster_lib \<Rightarrow> 'c \<Rightarrow> bytes \<Rightarrow> backend_result" where
  "kube_GetByMac vl cl c mac =
     (case cluster_List cl c MACAddrIndex (HardwareAddr_String mac) of
        Inl err \<Rightarrow> Ret (Inl (Errorf (''failed listing hardware for ('' @ HardwareAddr_String mac @ ''): '' @ Error_text err) err))
      | Inr hws \<Rightarrow>
        (case hws of
           [] \<Rightarrow> Ret (Inl HardwareNotFoundError)
         | [hw] \<Rightarrow>
            go_bind (mac_iface (HardwareAddr_String mac) (Interfaces hw)) (\<lambda>i.
              Ret (kube_result (transform vl i (hw_Metadata hw))))
         | _ \<Rightarrow> Ret (Inl (ErrorNew (''got '' @ nat_string (length hws) @ '' hardware objects for mac '' @
                  HardwareAddr_String mac @ '', expected only 1'')))))"

definition kube_GetByIP :: "value_lib \<Rightarrow> 'c cluster_lib \<Rightarrow> 'c \<Rightarrow> slice \<Rightarrow> backend_result" where
  "kube_GetByIP vl cl c ip =
     (case cluster_List cl c IPAddrIndex (IP_String ip) of
        Inl err \<Rightarrow> Ret (Inl (Errorf (''failed listing hardware for ('' @ IP_String ip @ ''): '' @ Error_text err) err))
      | Inr hws \<Rightarrow>
        (case hws of
           [] \<Rightarrow> Ret (Inl HardwareNotFoundError)
         | [hw] \<Rightarrow>
            go_bind (ip_iface (IP_String ip) (Interfaces hw)) (\<lambda>i.
              Ret (kube_result (transform vl i (hw_Metadata hw))))
         | _ \<Rightarrow> Ret (Inl (ErrorNew (''got '' @ nat_string (length hws) @ '' hardware objects for ip: '' @
                  IP_String ip @ '', expected only 1'')))))"

definition kube_Backend :: "value_lib \<Rightarrow> 'c cluster_lib \<Rightarrow> 'c \<Rightarrow> BackendReader" where
  "kube_Backend vl cl c = \<lparr>GetByMac = kube_GetByMac vl cl c, GetByIP = kube_GetByIP vl cl c\<rparr>"

section \<open>Conversion\<close>

lemma toDHCPData_Inr:
  assumes "toDHCPData vl h0 = Inr d"
  obtains h kip sm where "h0 = Some h" "ParseMAC (k_MAC h) = MACAddress d" "MACAddress d \<noteq> None" "k_IP h = Some kip"
    "ParseAddr (ip_Address kip) = Some (IPAddress d)" "ParseIP (ip_Netmask kip) = Some sm" "SubnetMask d = To4 (Some sm)"
    "LeaseTime d = lease_seconds vl (k_LeaseTime h)" "HostName d = k_Hostname h" "VLANID d = k_VLANID h"
    "NameServers d = parse_servers (k_NameServers h)" "NTPServers d = parse_servers (k_TimeServers h)" "\<not> Disabled d"
proof -
  from assms obtain h where h: "h0 = Some h" by (cases h0) (auto simp: toDHCPData_def)
  with assms obtain mac where mac: "ParseMAC (k_MAC h) = Some mac" by (cases "ParseMAC (k_MAC h)") (auto simp: toDHCPData_def)
  with assms h obtain kip where kip: "k_IP h = Some kip" by (cases "k_IP h") (auto simp: toDHCPData_def)
  with assms h mac obtain ip where ip: "ParseAddr (ip_Address kip) = Some ip"
    by (cases "ParseAddr (ip_Address kip)") (auto simp: toDHCPData_def)
  with assms h mac kip obtain sm where sm: "ParseIP (ip_Netmask kip) = Some sm"
    by (cases "ParseIP (ip_Netmask kip)") (auto simp: toDHCPData_def)
  from assms h mac kip ip sm show thesis
    by (intro that[of h kip sm]) (auto simp: toDHCPData_def new_DHCP_def Let_def split: if_splits option.splits)
qed

lemma transform_Inr:
  assumes "transform vl i m = Inr (d, n)"
  obtains d' where "toDHCPData vl (i_DHCP i) = Inr d'" "d = d'\<lparr>Disabled := i_DisableDHCP i\<rparr>"
  using assms by (auto simp: transform_def Let_def split: sum.splits)

lemma kube_result_Inr: "kube_result x = Inr (d, n) \<longleftrightarrow> (\<exists>d' n'. x = Inr (d', n') \<and> d = Some d' \<and> n = Some n')"
  by (auto simp: kube_result_def split: sum.splits)

lemma mac_iface_Ret:
  "mac_iface mac is = Ret i \<Longrightarrow> i = empty_Interface \<or> (\<exists>d. i_DHCP i = Some d \<and> k_MAC d = mac)"
  by (induction "is") (auto split: option.splits if_splits)

lemma transform_empty: "transform vl empty_Interface m = Inl (Errorf ''failed to convert hardware to DHCP data: no DHCP data'' (ErrorNew ''no DHCP data''))"
  by (simp add: transform_def empty_Interface_def toDHCPData_def)

text \<open>The Kubernetes backend keeps the contract of a backend.\<close>

interpretation kube_be: backend_reader "kube_Backend vl cl c" for vl and cl :: "'c cluster_lib" and c
proof unfold_locales
  fix mac d n
  assume "GetByMac (kube_Backend vl cl c) mac = Ret (Inr (d, n))"
  then obtain hw :: v1_Hardware and i where i: "mac_iface (HardwareAddr_String mac) (Interfaces hw) = Ret i"
    and "kube_result (transform vl i (hw_Metadata hw)) = Inr (d, n)"
    by (auto simp: kube_Backend_def kube_GetByMac_def split: sum.splits list.splits elim!: go_bind_RetE)
  then obtain dd nn where t: "transform vl i (hw_Metadata hw) = Inr (dd, nn)" "d = Some dd" "n = Some nn"
    by (auto simp: kube_result_Inr)
  then have "i \<noteq> empty_Interface" by (auto simp: transform_empty)
  with mac_iface_Ret[OF i] obtain h where h: "i_DHCP i = Some h" "k_MAC h = HardwareAddr_String mac" by auto
  from t(1) obtain d' where d': "toDHCPData vl (i_DHCP i) = Inr d'" "dd = d'\<lparr>Disabled := i_DisableDHCP i\<rparr>"
    by (rule transform_Inr)
  from d'(1) show "\<exists>dd nn. d = Some dd \<and> n = Some nn \<and> MACAddress dd = Some mac \<and> wf_addr (IPAddress dd) \<and> IPAddress dd \<noteq> AddrZero"
    by (rule toDHCPData_Inr) (use t h d' in \<open>auto dest: ParseAddr_wf ParseMAC_of_String\<close>)
next
  fix ip d n
  assume "GetByIP (kube_Backend vl cl c) ip = Ret (Inr (d, n))"
  then obtain i m where "kube_result (transform vl i m) = Inr (d, n)"
    by (auto simp: kube_Backend_def kube_GetByIP_def split: sum.splits list.splits elim!: go_bind_RetE)
  then obtain dd nn where t: "transform vl i m = Inr (dd, nn)" "d = Some dd" "n = Some nn"
    by (auto simp: kube_result_Inr)
  from t(1) obtain d' where d': "toDHCPData vl (i_DHCP i) = Inr d'" "dd = d'\<lparr>Disabled := i_DisableDHCP i\<rparr>"
    by (rule transform_Inr)
  from d'(1) show "\<exists>dd nn. d = Some dd \<and> n = Some nn \<and> wf_addr (IPAddress dd) \<and> IPAddress dd \<noteq> AddrZero"
    by (rule toDHCPData_Inr) (use t d' in \<open>auto dest: ParseAddr_wf\<close>)
qed

section \<open>Lookups through the indexes\<close>

text \<open>
  What controller-runtime documents of a client with field indexes: \<open>indexed\<close> are the registered index
  functions, none in a new cluster, and listing by a registered field either fails or gives the objects for which the
  index function returns the value.
\<close>

definition cluster_laws :: "'c cluster_lib \<Rightarrow> ('c \<Rightarrow> string \<rightharpoonup> (client_Object \<Rightarrow> string list)) \<Rightarrow> v1_Hardware list \<Rightarrow> bool" where
  "cluster_laws cl indexed objs \<longleftrightarrow>
     (\<forall>c f fn c'. cluster_IndexField cl c f fn = Inr c' \<longrightarrow> indexed c' = (indexed c)(f \<mapsto> fn)) \<and>
     (\<forall>c f fn v. indexed c f = Some fn \<longrightarrow> (\<exists>e. cluster_List cl c f v = Inl e) \<or>
        cluster_List cl c f v = Inr (filter (\<lambda>h. v \<in> set (fn (HardwareObject h))) objs))"

lemma NewBackend_lists:
  assumes "cluster_laws cl indexed objs" "NewBackend cl = Inr c"
  shows "(\<exists>e. cluster_List cl c MACAddrIndex v = Inl e) \<or> cluster_List cl c MACAddrIndex v = Inr (filter (\<lambda>h. v \<in> set (GetMACs h)) objs)"
    "(\<exists>e. cluster_List cl c IPAddrIndex v = Inl e) \<or> cluster_List cl c IPAddrIndex v = Inr (filter (\<lambda>h. v \<in> set (GetIPs h)) objs)"
proof -
  from assms(2) obtain c0 c1 where "cluster_IndexField cl c0 MACAddrIndex MACAddrs = Inr c1"
    "cluster_IndexField cl c1 IPAddrIndex IPAddrs = Inr c"
    by (auto simp: NewBackend_def split: sum.splits)
  then have "indexed c = (indexed c0)(MACAddrIndex \<mapsto> MACAddrs, IPAddrIndex \<mapsto> IPAddrs)"
    using assms(1) by (simp add: cluster_laws_def)
  then have "indexed c MACAddrIndex = Some MACAddrs" "indexed c IPAddrIndex = Some IPAddrs"
    by (simp_all add: MACAddrIndex_def IPAddrIndex_def)
  moreover have "indexed c f = Some fn \<Longrightarrow> (\<exists>e. cluster_List cl c f v = Inl e) \<or>
      cluster_List cl c f v = Inr (filter (\<lambda>h. v \<in> set (fn (HardwareObject h))) objs)" for f fn
    using assms(1) unfolding cluster_laws_def by blast
  ultimately show "(\<exists>e. cluster_List cl c MACAddrIndex v = Inl e) \<or> cluster_List cl c MACAddrIndex v = Inr (filter (\<lambda>h. v \<in> set (GetMACs h)) objs)"
    "(\<exists>e. cluster_List cl c IPAddrIndex v = Inl e) \<or> cluster_List cl c IPAddrIndex v = Inr (filter (\<lambda>h. v \<in> set (GetIPs h)) objs)"
    by (fastforce simp: MACAddrs_def IPAddrs_def)+
qed

definition has_mac :: "string \<Rightarrow> v1_Interface \<Rightarrow> bool" where
  "has_mac mac i \<longleftrightarrow> (\<exists>d. i_DHCP i = Some d \<and> k_MAC d = mac)"

lemma macs_of_iff: "mac \<in> set (macs_of is) \<longleftrightarrow> mac \<noteq> [] \<and> (\<exists>i \<in> set is. has_mac mac i)"
proof (induction "is")
  case (Cons i "is")
  then show ?case by (cases "i_DHCP i") (auto simp: has_mac_def)
qed simp

lemma mac_iface_split:
  assumes "has_mac mac i" "\<forall>j \<in> set pre. \<not> has_mac mac j"
  shows "mac_iface mac (pre @ i # post) =
     (if \<exists>j \<in> set pre. i_DHCP j = None then Panic ''nil pointer dereference'' else Ret i)"
  using assms by (induction pre) (auto simp: has_mac_def split: option.splits)

text \<open>
  C28. Looking a machine up by MAC address in a cluster: a listing that fails gives its error, wrapped; no Hardware object with that address gives the
  error "hardware not found", several give an error, and one gives the data of its first interface
  with that address, unless an earlier interface has no DHCP data: then the lookup panics.
\<close>

theorem kube_lookup_mac:
  assumes "cluster_laws cl indexed objs" "NewBackend cl = Inr c"
    and "hws = filter (\<lambda>h. HardwareAddr_String mac \<in> set (GetMACs h)) objs"
  shows "case cluster_List cl c MACAddrIndex (HardwareAddr_String mac) of
    Inl e \<Rightarrow> kube_GetByMac vl cl c mac =
      Ret (Inl (Errorf (''failed listing hardware for ('' @ HardwareAddr_String mac @ ''): '' @ Error_text e) e))
  | Inr listed \<Rightarrow> listed = hws \<and>
    (hws = [] \<longrightarrow> kube_GetByMac vl cl c mac = Ret (Inl HardwareNotFoundError)) \<and>
    (1 < length hws \<longrightarrow> (\<exists>m. kube_GetByMac vl cl c mac = Ret (Inl (ErrorNew m)))) \<and>
    (\<forall>hw. hws = [hw] \<longrightarrow>
       (\<exists>pre i post. Interfaces hw = pre @ i # post \<and> has_mac (HardwareAddr_String mac) i \<and>
          (\<forall>j \<in> set pre. \<not> has_mac (HardwareAddr_String mac) j) \<and>
          kube_GetByMac vl cl c mac =
            (if \<exists>j \<in> set pre. i_DHCP j = None then Panic ''nil pointer dereference''
             else Ret (kube_result (transform vl i (hw_Metadata hw))))))"
proof (cases "cluster_List cl c MACAddrIndex (HardwareAddr_String mac)")
  case (Inr listed)
  then have list: "cluster_List cl c MACAddrIndex (HardwareAddr_String mac) = Inr hws"
    using NewBackend_lists(1)[OF assms(1,2), of "HardwareAddr_String mac"] unfolding assms(3) by (metis sum.distinct(1))
  have "\<exists>pre i post. Interfaces hw = pre @ i # post \<and> has_mac (HardwareAddr_String mac) i \<and>
          (\<forall>j \<in> set pre. \<not> has_mac (HardwareAddr_String mac) j) \<and>
          kube_GetByMac vl cl c mac =
            (if \<exists>j \<in> set pre. i_DHCP j = None then Panic ''nil pointer dereference''
             else Ret (kube_result (transform vl i (hw_Metadata hw))))" if "hws = [hw]" for hw
  proof -
    have "hw \<in> set hws" using that by simp
    then have "\<exists>i \<in> set (Interfaces hw). has_mac (HardwareAddr_String mac) i"
      unfolding assms(3) by (simp add: GetMACs_def macs_of_iff)
    then obtain pre i post where split: "Interfaces hw = pre @ i # post" "has_mac (HardwareAddr_String mac) i"
        "\<forall>j \<in> set pre. \<not> has_mac (HardwareAddr_String mac) j"
      using split_list_first_prop by metis
    then show ?thesis using list that mac_iface_split[OF split(2,3), of post]
      by (intro exI[of _ pre] exI[of _ i] exI[of _ post]) (simp add: kube_GetByMac_def)
  qed
  moreover have "\<exists>m. kube_GetByMac vl cl c mac = Ret (Inl (ErrorNew m))" if "1 < length hws"
    using that list by (cases hws rule: remdups_adj.cases) (simp_all add: kube_GetByMac_def)
  ultimately show ?thesis using list by (simp add: kube_GetByMac_def)
qed (simp add: kube_GetByMac_def)

text \<open>A cluster with one machine whose first interface has no DHCP data.\<close>

definition sample_cluster :: "v1_Hardware list \<Rightarrow> (string \<rightharpoonup> (client_Object \<Rightarrow> string list)) cluster_lib" where
  "sample_cluster objs = \<lparr>cluster_New = Inr Map.empty, cluster_IndexField = (\<lambda>c f fn. Inr (c(f \<mapsto> fn))),
     cluster_List = (\<lambda>c f v. case c f of None \<Rightarrow> Inl (LibraryError ''no index'')
        | Some fn \<Rightarrow> Inr (filter (\<lambda>h. v \<in> set (fn (HardwareObject h))) objs))\<rparr>"

definition sample_k_DHCP :: v1_DHCP where
  "sample_k_DHCP = \<lparr>k_MAC = ''08:00:27:29:4e:67'', k_Hostname = ''worker'', k_LeaseTime = 3600, k_NameServers = [],
     k_TimeServers = [], k_Arch = [], k_VLANID = [],
     k_IP = Some \<lparr>ip_Address = ''192.168.2.153'', ip_Netmask = ''255.255.255.0'', ip_Gateway = []\<rparr>\<rparr>"

definition sample_hw :: v1_Hardware where
  "sample_hw = \<lparr>Interfaces = [empty_Interface, empty_Interface\<lparr>i_DHCP := Some sample_k_DHCP\<rparr>], hw_Metadata = None\<rparr>"

lemma sample_cluster_laws: "cluster_laws (sample_cluster objs) id objs"
  by (simp add: cluster_laws_def sample_cluster_def)

theorem kube_lookup_mac_witness:
  "kube_GetByMac sample_values (sample_cluster [sample_hw]) [MACAddrIndex \<mapsto> MACAddrs, IPAddrIndex \<mapsto> IPAddrs]
     [CHR 0x08, CHR 0x00, CHR 0x27, CHR 0x29, CHR 0x4E, CHR 0x67] = Panic ''nil pointer dereference''"
proof -
  let ?mac = "[CHR 0x08, CHR 0x00, CHR 0x27, CHR 0x29, CHR 0x4E, CHR 0x67]"
  have mac: "HardwareAddr_String ?mac = ''08:00:27:29:4e:67''" by code_simp
  have new: "NewBackend (sample_cluster [sample_hw]) = Inr [MACAddrIndex \<mapsto> MACAddrs, IPAddrIndex \<mapsto> IPAddrs]"
    by (simp add: NewBackend_def sample_cluster_def)
  have hws: "[sample_hw] = filter (\<lambda>h. HardwareAddr_String ?mac \<in> set (GetMACs h)) [sample_hw]"
  proof -
    have "GetMACs sample_hw = [''08:00:27:29:4e:67'']"
      by (simp add: GetMACs_def sample_hw_def empty_Interface_def sample_k_DHCP_def)
    then show ?thesis unfolding mac by simp
  qed
  have list: "cluster_List (sample_cluster [sample_hw]) [MACAddrIndex \<mapsto> MACAddrs, IPAddrIndex \<mapsto> IPAddrs] MACAddrIndex
      (HardwareAddr_String ?mac) = Inr [sample_hw]"
  proof -
    have "[MACAddrIndex \<mapsto> MACAddrs, IPAddrIndex \<mapsto> IPAddrs] MACAddrIndex = Some MACAddrs"
      by (simp add: MACAddrIndex_def IPAddrIndex_def)
    moreover have "MACAddrs (HardwareObject h) = GetMACs h" for h by (simp add: MACAddrs_def)
    ultimately show ?thesis
      by (simp only: sample_cluster_def cluster_lib.select_convs option.case hws[symmetric])
  qed
  obtain pre i post where split: "Interfaces sample_hw = pre @ i # post" "has_mac (HardwareAddr_String ?mac) i"
      "kube_GetByMac sample_values (sample_cluster [sample_hw]) [MACAddrIndex \<mapsto> MACAddrs, IPAddrIndex \<mapsto> IPAddrs] ?mac =
        (if \<exists>j \<in> set pre. i_DHCP j = None then Panic ''nil pointer dereference''
         else Ret (kube_result (transform sample_values i (hw_Metadata sample_hw))))"
    using kube_lookup_mac[OF sample_cluster_laws new hws, of sample_values] unfolding list sum.case by blast
  have "\<exists>j \<in> set pre. i_DHCP j = None"
  proof (cases pre)
    case Nil
    with split(1) have "i = empty_Interface" by (simp add: sample_hw_def)
    with split(2) show ?thesis unfolding mac by (simp add: has_mac_def empty_Interface_def)
  next
    case (Cons j js)
    with split(1) have "j = empty_Interface" by (simp add: sample_hw_def)
    with Cons show ?thesis by (simp add: empty_Interface_def)
  qed
  with split(3) show ?thesis by metis
qed

end
