(* ===== verification/IPXE_Script.thy ===== *)
theory IPXE_Script
  imports DHCP_Otel HTTP_Server
begin

text \<open>
  \<open>internal/ipxe/script\<close>: the HTTP handler of iPXE scripts (\<open>ipxe.go\<close>), the three templates
  (\<open>hook.go\<close>, \<open>static.go\<close>, \<open>custom.go\<close>) and \<open>GenerateTemplate\<close> (\<open>auto.go\<close>).
  The templates are constants of the program, so each is given as the tree that Go's \<open>text/template\<close> parses it
  into, trim markers applied; executing a tree is modelled for the actions they use: a field, the dot, \<open>if\<close> with a
  field or with \<open>ne\<close> against the empty string, \<open>else\<close> and \<open>range\<close> over a list of strings.
\<close>

section \<open>Templates\<close>

datatype cond = C_Field string | C_NotEmpty string

datatype node =
    N_Text string
  | N_Field string
  | N_Dot
  | N_If cond "node list" "node list"
  | N_Range string "node list"

subsection \<open>Execution\<close>

datatype tvalue = V_String string | V_Bool bool | V_Int int | V_Strings "string list" | V_URL "URL option"

datatype dot = D_Struct "string \<rightharpoonup> tvalue" | D_Elem string

fun truth :: "tvalue \<Rightarrow> bool" where
  "truth (V_String s) = (s \<noteq> [])"
| "truth (V_Bool b) = b"
| "truth (V_Int n) = (n \<noteq> 0)"
| "truth (V_Strings xs) = (xs \<noteq> [])"
| "truth (V_URL u) = (u \<noteq> None)"

fun print :: "tvalue \<Rightarrow> string" where
  "print (V_String s) = s"
| "print (V_Bool b) = bool_string b"
| "print (V_Int n) = int_string n"
| "print (V_Strings xs) = ''['' @ Join xs '' '' @ '']''"
| "print (V_URL u) = (case u of None \<Rightarrow> ''<nil>'' | Some x \<Rightarrow> URL_String x)"

fun dot_field :: "dot \<Rightarrow> string \<Rightarrow> tvalue option" where
  "dot_field (D_Struct fs) f = fs f"
| "dot_field (D_Elem s) f = None"

fun eval_cond :: "dot \<Rightarrow> cond \<Rightarrow> bool option" where
  "eval_cond d (C_Field f) = map_option truth (dot_field d f)"
| "eval_cond d (C_NotEmpty f) = (case dot_field d f of Some (V_String s) \<Rightarrow> Some (s \<noteq> []) | _ \<Rightarrow> None)"

fun append_all :: "string option list \<Rightarrow> string option" where
  "append_all [] = Some []"
| "append_all (None # xs) = None"
| "append_all (Some s # xs) = map_option (\<lambda>t. s @ t) (append_all xs)"

fun exec_node :: "dot \<Rightarrow> node \<Rightarrow> string option" and exec_nodes :: "dot \<Rightarrow> node list \<Rightarrow> string option" where
  "exec_node d (N_Text s) = Some s"
| "exec_node d (N_Field f) = map_option print (dot_field d f)"
| "exec_node d N_Dot = (case d of D_Elem s \<Rightarrow> Some s | D_Struct fs \<Rightarrow> None)"
| "exec_node d (N_If c th el) =
     (case eval_cond d c of None \<Rightarrow> None | Some b \<Rightarrow> if b then exec_nodes d th else exec_nodes d el)"
| "exec_node d (N_Range f body) =
     (case dot_field d f of Some (V_Strings xs) \<Rightarrow> append_all (map (\<lambda>x. exec_nodes (D_Elem x) body) xs) | _ \<Rightarrow> None)"
| "exec_nodes d [] = Some []"
| "exec_nodes d (n # ns) =
     (case exec_node d n of None \<Rightarrow> None | Some s \<Rightarrow> map_option (\<lambda>t. s @ t) (exec_nodes d ns))"

text \<open>\<open>GenerateTemplate\<close>; parsing a constant template never fails.\<close>

definition GenerateTemplate :: "(string \<rightharpoonup> tvalue) \<Rightarrow> node list \<Rightarrow> go_error + string" where
  "GenerateTemplate d script =
     (case exec_nodes (D_Struct d) script of
        None \<Rightarrow> Inl (LibraryError ''template: execution error'')
      | Some s \<Rightarrow> Inr s)"

section \<open>The scripts\<close>

definition lns :: "string list \<Rightarrow> string" where
  "lns ls = Join ls [CHR 0x0A]"

definition HookScript :: "node list" where
  "HookScript =
     [N_Text (lns [''#!ipxe'', [], ''echo Loading the Tinkerbell Hook iPXE script...'']),
      N_If (C_Field ''TraceID'') [N_Text (lns [[], ''echo Debug TraceID: '']), N_Field ''TraceID''] [],
      N_Text (lns [[], [], ''set arch '']),
      N_Field ''Arch'',
      N_Text (lns [[], ''set download-url '']),
      N_Field ''DownloadURL'',
      N_Text (lns [[], ''set kernel '']),
      N_If (C_Field ''Kernel'') [N_Field ''Kernel''] [N_Text ''vmlinuz-${arch}''],
      N_Text (lns [[], ''set initrd '']),
      N_If (C_Field ''Initrd'') [N_Field ''Initrd''] [N_Text ''initramfs-${arch}''],
      N_Text (lns [[], ''set retries:int32 '']),
      N_Field ''Retries'',
      N_Text (lns [[], ''set retry_delay:int32 '']),
      N_Field ''RetryDelay'',
      N_Text (lns [[], [], ''set idx:int32 0'', '':retry_kernel'', ''kernel ${download-url}/${kernel}'']),
      N_If (C_NotEmpty ''VLANID'') [N_Text '' vlan_id='', N_Field ''VLANID''] [],
      N_Range ''ExtraKernelParams'' [N_Text '' '', N_Dot],
      N_Text (lns ['' '' @ [CHR 0x5C], ''facility='']),
      N_Field ''Facility'',
      N_Text '' syslog_host='',
      N_Field ''SyslogHost'',
      N_Text '' grpc_authority='',
      N_Field ''TinkGRPCAuthority'',
      N_Text '' tinkerbell_tls='',
      N_Field ''TinkerbellTLS'',
      N_Text '' tinkerbell_insecure_tls='',
      N_Field ''TinkerbellInsecureTLS'',
      N_Text '' worker_id='',
      N_Field ''WorkerID'',
      N_Text '' hw_addr='',
      N_Field ''HWAddr'',
      N_Text (lns ['' '' @ [CHR 0x5C], ''modules=loop,squashfs,sd-mod,usb-storage intel_iommu=on iommu=pt initrd=initramfs-${arch} console=tty0 console=ttyS1,115200 && goto download_initrd || iseq ${idx} ${retries} && goto kernel-error || inc idx && echo retry in ${retry_delay} seconds ; sleep ${retry_delay} ; goto retry_kernel'', [], '':download_initrd'', ''set idx:int32 0'', '':retry_initrd'', ''initrd ${download-url}/${initrd} && goto boot || iseq ${idx} ${retries} && goto initrd-error || inc idx && echo retry in ${retry_delay} seconds ; sleep ${retry_delay} ; goto retry_initrd'', [], '':boot'', ''set idx:int32 0'', '':retry_boot'', ''boot || iseq ${idx} ${retries} && goto boot-error || inc idx && echo retry in ${retry_delay} seconds ; sleep ${retry_delay} ; goto retry_boot'', [], '':kernel-error'', ''echo Failed to load kernel'', ''imgfree'', ''exit'', [], '':initrd-error'', ''echo Failed to load initrd'', ''imgfree'', ''exit'', [], '':boot-error'', ''echo Failed to boot'', ''imgfree'', ''exit'', []])]"

definition StaticScript :: "node list" where
  "StaticScript =
     [N_Text (lns [''#!ipxe'', [], ''echo Loading the static Tinkerbell iPXE script...'', [], ''set arch ${buildarch}'', ''# Tinkerbell only supports 64 bit archectures.'', ''# The build architecture does not necessarily represent the architecture of the machine on which iPXE is running.'', ''# https://ipxe.org/cfg/buildarch'', ''iseq ${arch} i386 && set arch x86_64 ||'', ''iseq ${arch} arm32 && set arch aarch64 ||'', ''iseq ${arch} arm64 && set arch aarch64 ||'', ''set download-url '']),
      N_Field ''DownloadURL'',
      N_Text (lns [[], ''set retries:int32 '']),
      N_Field ''Retries'',
      N_Text (lns [[], ''set retry_delay:int32 '']),
      N_Field ''RetryDelay'',
      N_Text (lns [[], [], ''set worker_id ${mac}'', ''set grpc_authority '']),
      N_Field ''TinkGRPCAuthority'',
      N_Text (lns [[], ''set syslog_host '']),
      N_Field ''SyslogHost'',
      N_Text (lns [[], ''set tinkerbell_tls '']),
      N_Field ''TinkerbellTLS'',
      N_Text (lns [[], [], ''echo worker_id=${mac}'', ''echo grpc_authority='']),
      N_Field ''TinkGRPCAuthority'',
      N_Text (lns [[], ''echo syslog_host='']),
      N_Field ''SyslogHost'',
      N_Text (lns [[], ''echo tinkerbell_tls='']),
      N_Field ''TinkerbellTLS'',
      N_Text (lns [[], [], ''set idx:int32 0'', '':retry_kernel'', ''kernel ${download-url}/vmlinuz-${arch} '' @ [CHR 0x5C], ''syslog_host=${syslog_host} grpc_authority=${grpc_authority} tinkerbell_tls=${tinkerbell_tls} worker_id=${worker_id} hw_addr=${mac} '' @ [CHR 0x5C], ''console=tty1 console=tty2 console=ttyAMA0,115200 console=ttyAMA1,115200 console=ttyS0,115200 console=ttyS1,115200'']),
      N_Range ''ExtraKernelParams'' [N_Text '' '', N_Dot],
      N_Text (lns ['' '' @ [CHR 0x5C], ''intel_iommu=on iommu=pt'']),
      N_Range ''ExtraKernelParams'' [N_Text '' '', N_Dot],
      N_Text (lns ['' initrd=initramfs-${arch} && goto download_initrd || iseq ${idx} ${retries} && goto kernel-error || inc idx && echo retry in ${retry_delay} seconds ; sleep ${retry_delay} ; goto retry_kernel'', [], '':download_initrd'', ''set idx:int32 0'', '':retry_initrd'', ''initrd ${download-url}/initramfs-${arch} && goto boot || iseq ${idx} ${retries} && goto initrd-error || inc idx && echo retry in ${retry_delay} seconds ; sleep ${retry_delay} ; goto retry_initrd'', [], '':boot'', ''set idx:int32 0'', '':retry_boot'', ''boot || iseq ${idx} ${retries} && goto boot-error || inc idx && echo retry in ${retry_delay} seconds ; sleep ${retry_delay} ; goto retry_boot'', [], '':kernel-error'', ''echo Failed to load kernel'', ''imgfree'', ''exit'', [], '':initrd-error'', ''echo Failed to load initrd'', ''imgfree'', ''exit'', [], '':boot-error'', ''echo Failed to boot'', ''imgfree'', ''exit'', []])]"

definition CustomScript :: "node list" where
  "CustomScript =
     [N_Text (lns [''#!ipxe'', [], ''echo Loading custom Tinkerbell iPXE script...'']),
      N_If (C_Field ''Chain'') [N_Text (lns [[], ''chain --autofree '']), N_Field ''Chain''] [N_Text (lns [[], []]), N_Field ''Script''],
      N_Text (lns [[], []])]"

record Hook =
  h_Arch :: string
  h_Console :: string
  h_DownloadURL :: string
  h_ExtraKernelParams :: "string list"
  h_Facility :: string
  h_HWAddr :: string
  h_SyslogHost :: string
  h_TinkerbellTLS :: bool
  h_TinkerbellInsecureTLS :: bool
  h_TinkGRPCAuthority :: string
  h_TraceID :: string
  h_VLANID :: string
  h_WorkerID :: string
  h_Retries :: int
  h_RetryDelay :: int
  h_Kernel :: string
  h_Initrd :: string

definition Hook_fields :: "Hook \<Rightarrow> (string \<rightharpoonup> tvalue)" where
  "Hook_fields h =
     [''Arch'' \<mapsto> V_String (h_Arch h), ''Console'' \<mapsto> V_String (h_Console h), ''DownloadURL'' \<mapsto> V_String (h_DownloadURL h),
      ''ExtraKernelParams'' \<mapsto> V_Strings (h_ExtraKernelParams h), ''Facility'' \<mapsto> V_String (h_Facility h),
      ''HWAddr'' \<mapsto> V_String (h_HWAddr h), ''SyslogHost'' \<mapsto> V_String (h_SyslogHost h),
      ''TinkerbellTLS'' \<mapsto> V_Bool (h_TinkerbellTLS h), ''TinkerbellInsecureTLS'' \<mapsto> V_Bool (h_TinkerbellInsecureTLS h),
      ''TinkGRPCAuthority'' \<mapsto> V_String (h_TinkGRPCAuthority h), ''TraceID'' \<mapsto> V_String (h_TraceID h),
      ''VLANID'' \<mapsto> V_String (h_VLANID h), ''WorkerID'' \<mapsto> V_String (h_WorkerID h), ''Retries'' \<mapsto> V_Int (h_Retries h),
      ''RetryDelay'' \<mapsto> V_Int (h_RetryDelay h), ''Kernel'' \<mapsto> V_String (h_Kernel h), ''Initrd'' \<mapsto> V_String (h_Initrd h)]"

definition zero_Hook :: Hook where
  "zero_Hook = \<lparr>h_Arch = [], h_Console = [], h_DownloadURL = [], h_ExtraKernelParams = [], h_Facility = [], h_HWAddr = [],
     h_SyslogHost = [], h_TinkerbellTLS = False, h_TinkerbellInsecureTLS = False, h_TinkGRPCAuthority = [],
     h_TraceID = [], h_VLANID = [], h_WorkerID = [], h_Retries = 0, h_RetryDelay = 0, h_Kernel = [], h_Initrd = []\<rparr>"

record Custom =
  c_Chain :: "URL option"
  c_Script :: string

definition Custom_fields :: "Custom \<Rightarrow> (string \<rightharpoonup> tvalue)" where
  "Custom_fields c = [''Chain'' \<mapsto> V_URL (c_Chain c), ''Script'' \<mapsto> V_String (c_Script c)]"

section \<open>The handler\<close>

record script_Handler =
  s_Backend :: "BackendReader option"
  s_OSIEURL :: string
  s_ExtraKernelParams :: "string list"
  s_PublicSyslogFQDN :: string
  s_TinkServerTLS :: bool
  s_TinkServerInsecureTLS :: bool
  s_TinkServerGRPCAddr :: string
  s_IPXEScriptRetries :: int
  s_IPXEScriptRetryDelay :: int
  s_StaticIPXEEnabled :: bool

record script_data =
  sd_AllowNetboot :: bool
  sd_Console :: string
  sd_MACAddress :: slice
  sd_Arch :: string
  sd_VLANID :: string
  sd_WorkflowID :: string
  sd_Facility :: string
  sd_IPXEScript :: string
  sd_IPXEScriptURL :: "URL option"
  sd_OSIE :: data_OSIE

text \<open>The data made of what a backend returns; it dereferences both pointers.\<close>

definition script_data_of :: "data_DHCP option \<times> data_Netboot option \<Rightarrow> script_data go" where
  "script_data_of r =
     (case r of
        (Some d, Some n) \<Rightarrow>
          Ret \<lparr>sd_AllowNetboot = AllowNetboot n, sd_Console = [], sd_MACAddress = MACAddress d, sd_Arch = DHCP_Arch d,
             sd_VLANID = VLANID d, sd_WorkflowID = HardwareAddr_String (slice_bytes (MACAddress d)),
             sd_Facility = Facility n, sd_IPXEScript = IPXEScript n, sd_IPXEScriptURL = IPXEScriptURL n, sd_OSIE = OSIE n\<rparr>
      | _ \<Rightarrow> Panic ''nil pointer dereference'')"

definition getByMac :: "bytes \<Rightarrow> BackendReader option \<Rightarrow> (go_error + script_data) go" where
  "getByMac mac br =
     (case br of None \<Rightarrow> Ret (Inl (ErrorNew ''backend is nil''))
      | Some be \<Rightarrow> go_bind (GetByMac be mac) (\<lambda>r.
          case r of Inl err \<Rightarrow> Ret (Inl err)
          | Inr dn \<Rightarrow> go_bind (script_data_of dn) (\<lambda>d. Ret (Inr d))))"

definition getByIP :: "slice \<Rightarrow> BackendReader option \<Rightarrow> (go_error + script_data) go" where
  "getByIP ip br =
     (case br of None \<Rightarrow> Ret (Inl (ErrorNew ''backend is nil''))
      | Some be \<Rightarrow> go_bind (GetByIP be ip) (\<lambda>r.
          case r of Inl err \<Rightarrow> Ret (Inl err)
          | Inr dn \<Rightarrow> go_bind (script_data_of dn) (\<lambda>d. Ret (Inr d))))"

definition script_getIP :: "string \<Rightarrow> go_error + slice" where
  "script_getIP remoteAddr =
     (case SplitHostPort remoteAddr of
        None \<Rightarrow> (let err = LibraryError (''address '' @ remoteAddr) in
          Inl (Errorf (''error parsing client address: '' @ Error_text err @ '': client: '' @ remoteAddr) err))
      | Some (host, port) \<Rightarrow> Inr (ParseIP host))"

definition script_getMAC :: "string \<Rightarrow> go_error + bytes" where
  "script_getMAC urlPath =
     (let mac = path_Base (path_Dir urlPath) in
      case ParseMAC mac of
        None \<Rightarrow> (let err = LibraryError (''address '' @ mac @ '': invalid MAC address'') in
          Inl (Errorf (''URL path not supported, the second to last element in the URL path must be a valid mac address, err: '' @
            Error_text err) err))
      | Some ha \<Rightarrow> Inr ha)"

text \<open>\<open>sc\<close> is the span context of the request.\<close>

definition defaultScript :: "script_Handler \<Rightarrow> SpanContext \<Rightarrow> script_data \<Rightarrow> go_error + string" where
  "defaultScript h sc hw =
     (let mac = HardwareAddr_String (slice_bytes (sd_MACAddress hw));
          arch = (if sd_Arch hw = [] then ''x86_64'' else sd_Arch hw);
          wID = (if sd_WorkflowID hw \<noteq> [] then sd_WorkflowID hw else mac);
          auto = zero_Hook\<lparr>h_Arch := arch, h_Console := [], h_DownloadURL := s_OSIEURL h,
             h_ExtraKernelParams := s_ExtraKernelParams h, h_Facility := sd_Facility hw, h_HWAddr := mac,
             h_SyslogHost := s_PublicSyslogFQDN h, h_TinkerbellTLS := s_TinkServerTLS h,
             h_TinkerbellInsecureTLS := s_TinkServerInsecureTLS h, h_TinkGRPCAuthority := s_TinkServerGRPCAddr h,
             h_VLANID := sd_VLANID hw, h_WorkerID := wID, h_Retries := s_IPXEScriptRetries h,
             h_RetryDelay := s_IPXEScriptRetryDelay h\<rparr>;
          auto = (case BaseURL (sd_OSIE hw) of Some u \<Rightarrow> if URL_String u \<noteq> [] then auto\<lparr>h_DownloadURL := URL_String u\<rparr> else auto
                  | None \<Rightarrow> auto);
          auto = (if Kernel (sd_OSIE hw) \<noteq> [] then auto\<lparr>h_Kernel := Kernel (sd_OSIE hw)\<rparr> else auto);
          auto = (if Initrd (sd_OSIE hw) \<noteq> [] then auto\<lparr>h_Initrd := Initrd (sd_OSIE hw)\<rparr> else auto);
          auto = (if IsSampled sc then auto\<lparr>h_TraceID := concat (map byte_hex (TraceID sc))\<rparr> else auto)
      in GenerateTemplate (Hook_fields auto) HookScript)"

definition customScript :: "script_data \<Rightarrow> go_error + string" where
  "customScript hw =
     (let no_chain =
        (if sd_IPXEScript hw \<noteq> [] then GenerateTemplate (Custom_fields \<lparr>c_Chain = None, c_Script = sd_IPXEScript hw\<rparr>) CustomScript
         else Inl (ErrorNew ''no custom script or chain defined in the hardware data''))
      in case sd_IPXEScriptURL hw of
           None \<Rightarrow> no_chain
         | Some chain \<Rightarrow>
            (if URL_String chain \<noteq> [] then
               (if Scheme chain \<noteq> ''http'' \<and> Scheme chain \<noteq> ''https''
                then Inl (ErrorNew (''invalid URL scheme: '' @ Scheme chain))
                else GenerateTemplate (Custom_fields \<lparr>c_Chain = Some chain, c_Script = []\<rparr>) CustomScript)
             else no_chain))"

text \<open>
  The functions that write the response give their calls on the response writer; \<open>write_err\<close> says whether
  writing a body fails.
\<close>

definition serveStaticIPXEScript :: "(bytes \<Rightarrow> bool) \<Rightarrow> script_Handler \<Rightarrow> rw_call list" where
  "serveStaticIPXEScript write_err h =
     (let auto = zero_Hook\<lparr>h_DownloadURL := s_OSIEURL h, h_ExtraKernelParams := s_ExtraKernelParams h,
            h_SyslogHost := s_PublicSyslogFQDN h, h_TinkerbellTLS := s_TinkServerTLS h,
            h_TinkGRPCAuthority := s_TinkServerGRPCAddr h\<rparr>
      in case GenerateTemplate (Hook_fields auto) StaticScript of
           Inl err \<Rightarrow> [RW_WriteHeader 500]
         | Inr script \<Rightarrow> [RW_Write script] @ (if write_err script then [RW_WriteHeader 500] else []))"

definition serveBootScript :: "script_Handler \<Rightarrow> SpanContext \<Rightarrow> string \<Rightarrow> script_data \<Rightarrow> rw_call list" where
  "serveBootScript h sc name0 hw =
     (let name = (if sd_IPXEScriptURL hw \<noteq> None \<or> sd_IPXEScript hw \<noteq> [] then ''custom.ipxe'' else name0) in
      if name = ''auto.ipxe'' then
        (case defaultScript h sc hw of Inl err \<Rightarrow> [RW_WriteHeader 500] | Inr s \<Rightarrow> [RW_Write s])
      else if name = ''custom.ipxe'' then
        (case customScript hw of Inl err \<Rightarrow> [RW_WriteHeader 500] | Inr cs \<Rightarrow> [RW_Write cs])
      else [RW_WriteHeader 404])"

text \<open>The part of \<open>HandlerFunc\<close> after a lookup, the same for both kinds of lookup.\<close>

definition serve_found :: "(bytes \<Rightarrow> bool) \<Rightarrow> script_Handler \<Rightarrow> SpanContext \<Rightarrow> string \<Rightarrow> go_error + script_data \<Rightarrow> rw_call list" where
  "serve_found write_err h sc name r =
     (case r of
        Inl err \<Rightarrow> if s_StaticIPXEEnabled h then serveStaticIPXEScript write_err h else [RW_WriteHeader 404]
      | Inr hw \<Rightarrow> if \<not> sd_AllowNetboot hw then [RW_WriteHeader 404] else serveBootScript h sc name hw)"

definition script_HandlerFunc :: "(bytes \<Rightarrow> bool) \<Rightarrow> script_Handler \<Rightarrow> SpanContext \<Rightarrow> string \<Rightarrow> string \<Rightarrow> rw_call list go" where
  "script_HandlerFunc write_err h sc urlPath remoteAddr =
     (if path_Base urlPath \<noteq> ''auto.ipxe'' then Ret [RW_WriteHeader 404]
      else case script_getMAC urlPath of
        Inr ha \<Rightarrow> go_bind (getByMac ha (s_Backend h)) (\<lambda>r. Ret (serve_found write_err h sc (path_Base urlPath) r))
      | Inl err \<Rightarrow>
        (case script_getIP remoteAddr of
           Inr ip \<Rightarrow> go_bind (getByIP ip (s_Backend h)) (\<lambda>r. Ret (serve_found write_err h sc (path_Base urlPath) r))
         | Inl err \<Rightarrow> Ret [RW_WriteHeader 404]))"

section \<open>The texts of the scripts\<close>

text \<open>What the scripts should read, line by line.\<close>

definition text_lines :: "string list \<Rightarrow> string" where
  "text_lines ls = concat (map (\<lambda>l. l @ [CHR 0x0A]) ls)"

definition params_text :: "string list \<Rightarrow> string" where
  "params_text ps = concat (map (\<lambda>p. '' '' @ p) ps)"

definition hook_text :: "Hook \<Rightarrow> string" where
  "hook_text h = text_lines ([''#!ipxe'', [], ''echo Loading the Tinkerbell Hook iPXE script...''] @
      (if h_TraceID h \<noteq> [] then [''echo Debug TraceID: '' @ h_TraceID h] else []) @
     [[],
      ''set arch '' @ h_Arch h,
      ''set download-url '' @ h_DownloadURL h,
      ''set kernel '' @ (if h_Kernel h \<noteq> [] then h_Kernel h else ''vmlinuz-${arch}''),
      ''set initrd '' @ (if h_Initrd h \<noteq> [] then h_Initrd h else ''initramfs-${arch}''),
      ''set retries:int32 '' @ int_string (h_Retries h),
      ''set retry_delay:int32 '' @ int_string (h_RetryDelay h),
      [],
      ''set idx:int32 0'',
      '':retry_kernel'',
      ''kernel ${download-url}/${kernel}'' @ (if h_VLANID h \<noteq> [] then '' vlan_id='' @ h_VLANID h else []) @ params_text (h_ExtraKernelParams h) @ '' '' @ [CHR 0x5C],
      ''facility='' @ h_Facility h @ '' syslog_host='' @ h_SyslogHost h @ '' grpc_authority='' @ h_TinkGRPCAuthority h @ '' tinkerbell_tls='' @ bool_string (h_TinkerbellTLS h) @ '' tinkerbell_insecure_tls='' @ bool_string (h_TinkerbellInsecureTLS h) @ '' worker_id='' @ h_WorkerID h @ '' hw_addr='' @ h_HWAddr h @ '' '' @ [CHR 0x5C],
      ''modules=loop,squashfs,sd-mod,usb-storage intel_iommu=on iommu=pt initrd=initramfs-${arch} console=tty0 console=ttyS1,115200 && goto download_initrd || iseq ${idx} ${retries} && goto kernel-error || inc idx && echo retry in ${retry_delay} seconds ; sleep ${retry_delay} ; goto retry_kernel'',
      [],
      '':download_initrd'',
      ''set idx:int32 0'',
      '':retry_initrd'',
      ''initrd ${download-url}/${initrd} && goto boot || iseq ${idx} ${retries} && goto initrd-error || inc idx && echo retry in ${retry_delay} seconds ; sleep ${retry_delay} ; goto retry_initrd'',
      [],
      '':boot'',
      ''set idx:int32 0'',
      '':retry_boot'',
      ''boot || iseq ${idx} ${retries} && goto boot-error || inc idx && echo retry in ${retry_delay} seconds ; sleep ${retry_delay} ; goto retry_boot'',
      [],
      '':kernel-error'',
      ''echo Failed to load kernel'',
      ''imgfree'',
      ''exit'',
      [],
      '':initrd-error'',
      ''echo Failed to load initrd'',
      ''imgfree'',
      ''exit'',
      [],
      '':boot-error'',
      ''echo Failed to boot'',
      ''imgfree'',
      ''exit''])"

definition static_text :: "Hook \<Rightarrow> string" where
  "static_text h = text_lines
     [''#!ipxe'',
      [],
      ''echo Loading the static Tinkerbell iPXE script...'',
      [],
      ''set arch ${buildarch}'',
      ''# Tinkerbell only supports 64 bit archectures.'',
      ''# The build architecture does not necessarily represent the architecture of the machine on which iPXE is running.'',
      ''# https://ipxe.org/cfg/buildarch'',
      ''iseq ${arch} i386 && set arch x86_64 ||'',
      ''iseq ${arch} arm32 && set arch aarch64 ||'',
      ''iseq ${arch} arm64 && set arch aarch64 ||'',
      ''set download-url '' @ h_DownloadURL h,
      ''set retries:int32 '' @ int_string (h_Retries h),
      ''set retry_delay:int32 '' @ int_string (h_RetryDelay h),
      [],
      ''set worker_id ${mac}'',
      ''set grpc_authority '' @ h_TinkGRPCAuthority h,
      ''set syslog_host '' @ h_SyslogHost h,
      ''set tinkerbell_tls '' @ bool_string (h_TinkerbellTLS h),
      [],
      ''echo worker_id=${mac}'',
      ''echo grpc_authority='' @ h_TinkGRPCAuthority h,
      ''echo syslog_host='' @ h_SyslogHost h,
      ''echo tinkerbell_tls='' @ bool_string (h_TinkerbellTLS h),
      [],
      ''set idx:int32 0'',
      '':retry_kernel'',
      ''kernel ${download-url}/vmlinuz-${arch} '' @ [CHR 0x5C],
      ''syslog_host=${syslog_host} grpc_authority=${grpc_authority} tinkerbell_tls=${tinkerbell_tls} worker_id=${worker_id} hw_addr=${mac} '' @ [CHR 0x5C],
      ''console=tty1 console=tty2 console=ttyAMA0,115200 console=ttyAMA1,115200 console=ttyS0,115200 console=ttyS1,115200'' @ params_text (h_ExtraKernelParams h) @ '' '' @ [CHR 0x5C],
      ''intel_iommu=on iommu=pt'' @ params_text (h_ExtraKernelParams h) @ '' initrd=initramfs-${arch} && goto download_initrd || iseq ${idx} ${retries} && goto kernel-error || inc idx && echo retry in ${retry_delay} seconds ; sleep ${retry_delay} ; goto retry_kernel'',
      [],
      '':download_initrd'',
      ''set idx:int32 0'',
      '':retry_initrd'',
      ''initrd ${download-url}/initramfs-${arch} && goto boot || iseq ${idx} ${retries} && goto initrd-error || inc idx && echo retry in ${retry_delay} seconds ; sleep ${retry_delay} ; goto retry_initrd'',
      [],
      '':boot'',
      ''set idx:int32 0'',
      '':retry_boot'',
      ''boot || iseq ${idx} ${retries} && goto boot-error || inc idx && echo retry in ${retry_delay} seconds ; sleep ${retry_delay} ; goto retry_boot'',
      [],
      '':kernel-error'',
      ''echo Failed to load kernel'',
      ''imgfree'',
      ''exit'',
      [],
      '':initrd-error'',
      ''echo Failed to load initrd'',
      ''imgfree'',
      ''exit'',
      [],
      '':boot-error'',
      ''echo Failed to boot'',
      ''imgfree'',
      ''exit'']"

definition chain_text :: "URL \<Rightarrow> string" where
  "chain_text u = text_lines
     [''#!ipxe'', [], ''echo Loading custom Tinkerbell iPXE script...'', ''chain --autofree '' @ URL_String u]"

definition custom_text :: "string \<Rightarrow> string" where
  "custom_text script = text_lines
     [''#!ipxe'', [], ''echo Loading custom Tinkerbell iPXE script...'', script]"

text \<open>The fields of a hook, and text kept in pieces: no rule below takes a literal text apart.\<close>

lemma Hook_fields_simps:
  "Hook_fields h ''Arch'' = Some (V_String (h_Arch h))" "Hook_fields h ''DownloadURL'' = Some (V_String (h_DownloadURL h))"
  "Hook_fields h ''ExtraKernelParams'' = Some (V_Strings (h_ExtraKernelParams h))"
  "Hook_fields h ''Facility'' = Some (V_String (h_Facility h))" "Hook_fields h ''HWAddr'' = Some (V_String (h_HWAddr h))"
  "Hook_fields h ''SyslogHost'' = Some (V_String (h_SyslogHost h))"
  "Hook_fields h ''TinkerbellTLS'' = Some (V_Bool (h_TinkerbellTLS h))"
  "Hook_fields h ''TinkerbellInsecureTLS'' = Some (V_Bool (h_TinkerbellInsecureTLS h))"
  "Hook_fields h ''TinkGRPCAuthority'' = Some (V_String (h_TinkGRPCAuthority h))"
  "Hook_fields h ''TraceID'' = Some (V_String (h_TraceID h))" "Hook_fields h ''VLANID'' = Some (V_String (h_VLANID h))"
  "Hook_fields h ''WorkerID'' = Some (V_String (h_WorkerID h))" "Hook_fields h ''Retries'' = Some (V_Int (h_Retries h))"
  "Hook_fields h ''RetryDelay'' = Some (V_Int (h_RetryDelay h))" "Hook_fields h ''Kernel'' = Some (V_String (h_Kernel h))"
  "Hook_fields h ''Initrd'' = Some (V_String (h_Initrd h))"
  by (simp_all add: Hook_fields_def)

lemma lns_simps: "lns [x] = x" "lns (x # y # ys) = x @ [CHR 0x0A] @ lns (y # ys)"
  by (simp_all add: lns_def)

lemma text_lines_simps:
  "text_lines [] = []" "text_lines (x # xs) = x @ [CHR 0x0A] @ text_lines xs" "text_lines (xs @ ys) = text_lines xs @ text_lines ys"
  by (simp_all add: text_lines_def)

lemma exec_params:
  "dot_field d f = Some (V_Strings ps) \<Longrightarrow> exec_node d (N_Range f [N_Text '' '', N_Dot]) = Some (params_text ps)"
proof -
  assume a: "dot_field d f = Some (V_Strings ps)"
  have "append_all (map (\<lambda>x. exec_nodes (D_Elem x) [N_Text '' '', N_Dot]) ps) = Some (params_text ps)"
    by (induction ps) (simp_all add: params_text_def)
  with a show ?thesis by simp
qed

lemmas exec_rules = exec_nodes.simps exec_node.simps(1,2,4) exec_params dot_field.simps eval_cond.simps print.simps truth.simps
  tvalue.case option.case option.map lns_simps text_lines_simps append_assoc append_Nil append_Nil2 if_True if_False simp_thms

lemma hook_script_exec: "exec_nodes (D_Struct (Hook_fields h)) HookScript = Some (hook_text h)"
  unfolding HookScript_def hook_text_def
  by (cases "h_TraceID h = []"; cases "h_Kernel h = []"; cases "h_Initrd h = []"; cases "h_VLANID h = []";
      simp only: exec_rules Hook_fields_simps)

lemma static_script_exec: "exec_nodes (D_Struct (Hook_fields h)) StaticScript = Some (static_text h)"
  unfolding StaticScript_def static_text_def by (simp only: exec_rules Hook_fields_simps)

lemma custom_script_exec:
  "exec_nodes (D_Struct (Custom_fields \<lparr>c_Chain = Some u, c_Script = s\<rparr>)) CustomScript = Some (chain_text u)"
  "exec_nodes (D_Struct (Custom_fields \<lparr>c_Chain = None, c_Script = s\<rparr>)) CustomScript = Some (custom_text s)"
proof -
  have "Custom_fields \<lparr>c_Chain = c, c_Script = s\<rparr> ''Chain'' = Some (V_URL c)"
    "Custom_fields \<lparr>c_Chain = c, c_Script = s\<rparr> ''Script'' = Some (V_String s)" for c
    by (simp_all add: Custom_fields_def)
  then show "exec_nodes (D_Struct (Custom_fields \<lparr>c_Chain = Some u, c_Script = s\<rparr>)) CustomScript = Some (chain_text u)"
    "exec_nodes (D_Struct (Custom_fields \<lparr>c_Chain = None, c_Script = s\<rparr>)) CustomScript = Some (custom_text s)"
    unfolding CustomScript_def chain_text_def custom_text_def by (simp_all only: exec_rules option.distinct)
qed

section \<open>Which script a machine gets\<close>

text \<open>The hook data of a machine.\<close>

definition machine_hook :: "script_Handler \<Rightarrow> SpanContext \<Rightarrow> script_data \<Rightarrow> Hook" where
  "machine_hook h sc hw =
     (let mac = HardwareAddr_String (slice_bytes (sd_MACAddress hw)) in
      \<lparr>h_Arch = (if sd_Arch hw = [] then ''x86_64'' else sd_Arch hw), h_Console = [],
       h_DownloadURL = (case BaseURL (sd_OSIE hw) of Some u \<Rightarrow> if URL_String u \<noteq> [] then URL_String u else s_OSIEURL h
          | None \<Rightarrow> s_OSIEURL h),
       h_ExtraKernelParams = s_ExtraKernelParams h, h_Facility = sd_Facility hw, h_HWAddr = mac,
       h_SyslogHost = s_PublicSyslogFQDN h, h_TinkerbellTLS = s_TinkServerTLS h,
       h_TinkerbellInsecureTLS = s_TinkServerInsecureTLS h, h_TinkGRPCAuthority = s_TinkServerGRPCAddr h,
       h_TraceID = (if IsSampled sc then concat (map byte_hex (TraceID sc)) else []), h_VLANID = sd_VLANID hw,
       h_WorkerID = (if sd_WorkflowID hw \<noteq> [] then sd_WorkflowID hw else mac),
       h_Retries = s_IPXEScriptRetries h, h_RetryDelay = s_IPXEScriptRetryDelay h,
       h_Kernel = Kernel (sd_OSIE hw), h_Initrd = Initrd (sd_OSIE hw)\<rparr>)"

lemma defaultScript_text: "defaultScript h sc hw = Inr (hook_text (machine_hook h sc hw))"
proof -
  have "\<exists>k. defaultScript h sc hw = GenerateTemplate (Hook_fields k) HookScript \<and> k = machine_hook h sc hw"
    by (cases "BaseURL (sd_OSIE hw)")
      (simp_all add: defaultScript_def machine_hook_def zero_Hook_def Let_def)
  then show ?thesis by (auto simp: GenerateTemplate_def hook_script_exec)
qed

lemma customScript_text:
  "customScript hw =
     (case sd_IPXEScriptURL hw of
        Some u \<Rightarrow>
          (if URL_String u \<noteq> [] then
             (if Scheme u \<in> {''http'', ''https''} then Inr (chain_text u)
              else Inl (ErrorNew (''invalid URL scheme: '' @ Scheme u)))
           else if sd_IPXEScript hw \<noteq> [] then Inr (custom_text (sd_IPXEScript hw))
           else Inl (ErrorNew ''no custom script or chain defined in the hardware data''))
      | None \<Rightarrow>
          (if sd_IPXEScript hw \<noteq> [] then Inr (custom_text (sd_IPXEScript hw))
           else Inl (ErrorNew ''no custom script or chain defined in the hardware data'')))"
  by (cases "sd_IPXEScriptURL hw") (simp_all add: customScript_def Let_def GenerateTemplate_def custom_script_exec)

lemma serveStatic_text:
  "serveStaticIPXEScript write_err h =
     (let s = static_text (zero_Hook\<lparr>h_DownloadURL := s_OSIEURL h, h_ExtraKernelParams := s_ExtraKernelParams h,
            h_SyslogHost := s_PublicSyslogFQDN h, h_TinkerbellTLS := s_TinkServerTLS h,
            h_TinkGRPCAuthority := s_TinkServerGRPCAddr h\<rparr>)
      in RW_Write s # (if write_err s then [RW_WriteHeader 500] else []))"
  by (simp add: serveStaticIPXEScript_def GenerateTemplate_def static_script_exec Let_def)

context backend_reader
begin

text \<open>What a lawful backend's answer gives the script handler: never a nil dereference.\<close>

lemma getByMac_found:
  assumes "GetByMac be mac = Ret (Inr (d, n))"
  shows "\<exists>dd nn hw. d = Some dd \<and> n = Some nn \<and> getByMac mac (Some be) = Ret (Inr hw) \<and>
     script_data_of (Some dd, Some nn) = Ret hw \<and> sd_MACAddress hw = Some mac"
proof -
  from mac_found[OF assms] obtain dd nn where "d = Some dd" "n = Some nn" "MACAddress dd = Some mac" by blast
  then show ?thesis using assms by (simp add: getByMac_def script_data_of_def)
qed

end

text \<open>The hook data of a machine with these DHCP and netboot data.\<close>

definition hook_of :: "script_Handler \<Rightarrow> SpanContext \<Rightarrow> data_DHCP \<Rightarrow> data_Netboot \<Rightarrow> Hook" where
  "hook_of h sc d n = machine_hook h sc
     \<lparr>sd_AllowNetboot = AllowNetboot n, sd_Console = [], sd_MACAddress = MACAddress d, sd_Arch = DHCP_Arch d,
      sd_VLANID = VLANID d, sd_WorkflowID = HardwareAddr_String (slice_bytes (MACAddress d)),
      sd_Facility = Facility n, sd_IPXEScript = IPXEScript n, sd_IPXEScriptURL = IPXEScriptURL n, sd_OSIE = OSIE n\<rparr>"

definition script_response :: "script_Handler \<Rightarrow> SpanContext \<Rightarrow> data_DHCP \<Rightarrow> data_Netboot \<Rightarrow> rw_call list" where
  "script_response h sc d n =
     (if \<not> AllowNetboot n then [RW_WriteHeader 404]
      else case IPXEScriptURL n of
          Some u \<Rightarrow>
            (if URL_String u \<noteq> [] then (if Scheme u \<in> {''http'', ''https''} then [RW_Write (chain_text u)] else [RW_WriteHeader 500])
             else if IPXEScript n \<noteq> [] then [RW_Write (custom_text (IPXEScript n))]
             else [RW_WriteHeader 500])
        | None \<Rightarrow>
            (if IPXEScript n \<noteq> [] then [RW_Write (custom_text (IPXEScript n))]
             else [RW_Write (hook_text (hook_of h sc d n))]))"

lemma serve_found_response:
  assumes "script_data_of (Some d, Some n) = Ret hw"
  shows "serve_found write_err h sc ''auto.ipxe'' (Inr hw) = script_response h sc d n"
  using assms
  by (cases "IPXEScriptURL n")
    (auto simp: script_data_of_def serve_found_def serveBootScript_def script_response_def defaultScript_text
      customScript_text hook_of_def)

lemma auto_ipxe_path:
  assumes "length mac \<in> {6, 8, 20}"
  shows "path_Base (p @ ''/'' @ HardwareAddr_String mac @ ''/auto.ipxe'') = ''auto.ipxe''"
    "script_getMAC (p @ ''/'' @ HardwareAddr_String mac @ ''/auto.ipxe'') = Inr mac"
proof -
  have "plain_elem ''auto.ipxe''" by code_simp
  from path_Base_elem[OF this, of "p @ ''/'' @ HardwareAddr_String mac @ ''/''"]
  show "path_Base (p @ ''/'' @ HardwareAddr_String mac @ ''/auto.ipxe'') = ''auto.ipxe''" by simp
  show "script_getMAC (p @ ''/'' @ HardwareAddr_String mac @ ''/auto.ipxe'') = Inr mac"
    using path_mac_elem[OF assms, of "''auto.ipxe''" p] ParseMAC_String[OF assms] by (simp add: script_getMAC_def)
qed

text \<open>
  C29. A request for \<open>auto.ipxe\<close> under a hardware address is answered, without a panic, by what the backend
  says of that machine: nothing (404) when it may not boot; the chain to its own URL when that has the scheme
  http or https; its own script; otherwise the default script with the machine's address as worker id and
  hardware address, its VLAN, facility, kernel and initrd. A machine the backend does not know gets 404, or the
  static script when that is enabled.
\<close>

theorem script_for_machine:
  assumes "backend_reader be" "s_Backend h = Some be" "length mac \<in> {6, 8, 20}" "GetByMac be mac = Ret res"
  shows "script_HandlerFunc write_err h sc (p @ ''/'' @ HardwareAddr_String mac @ ''/auto.ipxe'') remote =
     Ret (case res of
        Inl e \<Rightarrow> if s_StaticIPXEEnabled h then serveStaticIPXEScript write_err h else [RW_WriteHeader 404]
      | Inr (d, n) \<Rightarrow> script_response h sc (the d) (the n)) \<and>
    (\<forall>d n. res = Inr (Some d, Some n) \<longrightarrow>
       h_WorkerID (hook_of h sc d n) = HardwareAddr_String mac \<and> h_HWAddr (hook_of h sc d n) = HardwareAddr_String mac \<and>
       h_VLANID (hook_of h sc d n) = VLANID d \<and> h_Facility (hook_of h sc d n) = Facility n \<and>
       h_Kernel (hook_of h sc d n) = Kernel (OSIE n) \<and> h_Initrd (hook_of h sc d n) = Initrd (OSIE n))"
proof -
  let ?path = "p @ ''/'' @ HardwareAddr_String mac @ ''/auto.ipxe''"
  have H: "script_HandlerFunc write_err h sc ?path remote =
      go_bind (getByMac mac (Some be)) (\<lambda>r. Ret (serve_found write_err h sc ''auto.ipxe'' r))"
    by (simp only: script_HandlerFunc_def auto_ipxe_path[OF assms(3)] assms(2) sum.case not_True_eq_False if_False simp_thms)
  have "script_HandlerFunc write_err h sc ?path remote = Ret (case res of
        Inl e \<Rightarrow> if s_StaticIPXEEnabled h then serveStaticIPXEScript write_err h else [RW_WriteHeader 404]
      | Inr (d, n) \<Rightarrow> script_response h sc (the d) (the n))"
  proof (cases res)
    case (Inl e)
    then show ?thesis unfolding H using assms(4) by (simp add: getByMac_def serve_found_def)
  next
    case (Inr dn)
    obtain d n where dn: "dn = (d, n)" by fastforce
    with Inr assms(4) have "GetByMac be mac = Ret (Inr (d, n))" by simp
    from backend_reader.getByMac_found[OF assms(1) this] obtain dd nn hw where
      "d = Some dd" "n = Some nn" "getByMac mac (Some be) = Ret (Inr hw)" "script_data_of (Some dd, Some nn) = Ret hw"
      by blast
    with Inr dn show ?thesis unfolding H by (simp add: serve_found_response)
  qed
  moreover have "MACAddress d = Some mac" if "res = Inr (Some d, n)" for d n
    using that assms(4) backend_reader.mac_found[OF assms(1)] by fastforce
  ultimately show ?thesis by (simp add: hook_of_def machine_hook_def Let_def)
qed

text \<open>A backend that knows one machine.\<close>

definition script_sample_backend :: BackendReader where
  "script_sample_backend =
     \<lparr>GetByMac = (\<lambda>m. Ret (Inr (Some (new_DHCP\<lparr>MACAddress := Some m, IPAddress := Addr4 ''abcd''\<rparr>),
          Some (new_Netboot\<lparr>AllowNetboot := True, IPXEScript := ''echo hi''\<rparr>)))),
      GetByIP = (\<lambda>ip. Ret (Inl HardwareNotFoundError))\<rparr>"

definition script_sample_handler :: script_Handler where
  "script_sample_handler = \<lparr>s_Backend = Some script_sample_backend, s_OSIEURL = ''http://osie'', s_ExtraKernelParams = [],
     s_PublicSyslogFQDN = ''192.168.2.4'', s_TinkServerTLS = False, s_TinkServerInsecureTLS = False,
     s_TinkServerGRPCAddr = ''192.168.2.4:42113'', s_IPXEScriptRetries = 3, s_IPXEScriptRetryDelay = 2, s_StaticIPXEEnabled = False\<rparr>"

theorem script_for_machine_witness:
  "script_HandlerFunc (\<lambda>_. False) script_sample_handler \<lparr>TraceID = [], SpanID = [], IsSampled = False\<rparr>
     ([] @ ''/'' @ HardwareAddr_String ''abcdef'' @ ''/auto.ipxe'') ''192.168.2.5:1030'' = Ret [RW_Write (custom_text ''echo hi'')]"
proof -
  have b: "backend_reader script_sample_backend"
    by unfold_locales (auto simp: script_sample_backend_def new_DHCP_def)
  have g: "GetByMac script_sample_backend ''abcdef'' =
      Ret (Inr (Some (new_DHCP\<lparr>MACAddress := Some ''abcdef'', IPAddress := Addr4 ''abcd''\<rparr>),
          Some (new_Netboot\<lparr>AllowNetboot := True, IPXEScript := ''echo hi''\<rparr>)))"
    by (simp add: script_sample_backend_def)
  note m = script_for_machine[OF b _ _ g, of script_sample_handler "\<lambda>_. False" "\<lparr>TraceID = [], SpanID = [], IsSampled = False\<rparr>" "[]" "''192.168.2.5:1030''"]
  have "s_Backend script_sample_handler = Some script_sample_backend" "length ''abcdef'' \<in> {6, 8, 20}"
    by (simp_all add: script_sample_handler_def)
  note served = m[OF this, THEN conjunct1]
  have "script_response script_sample_handler \<lparr>TraceID = [], SpanID = [], IsSampled = False\<rparr>
       (new_DHCP\<lparr>MACAddress := Some ''abcdef'', IPAddress := Addr4 ''abcd''\<rparr>)
       (new_Netboot\<lparr>AllowNetboot := True, IPXEScript := ''echo hi''\<rparr>) = [RW_Write (custom_text ''echo hi'')]"
    by (simp add: script_response_def new_Netboot_def)
  with served show ?thesis by (simp only: sum.case prod.case option.sel)
qed

text \<open>
  C30. The default script reads, line by line, as \<open>hook_text\<close> says for every machine: the values stand where the
  template names them, optional parts appear exactly when their value is not empty, and the extra kernel
  parameters follow in order. The static script and the custom scripts likewise.
\<close>

theorem script_texts:
  "defaultScript h sc hw = Inr (hook_text (machine_hook h sc hw)) \<and>
   GenerateTemplate (Hook_fields k) StaticScript = Inr (static_text k) \<and>
   GenerateTemplate (Custom_fields \<lparr>c_Chain = Some u, c_Script = s\<rparr>) CustomScript = Inr (chain_text u) \<and>
   GenerateTemplate (Custom_fields \<lparr>c_Chain = None, c_Script = s\<rparr>) CustomScript = Inr (custom_text s)"
  by (simp_all add: defaultScript_text GenerateTemplate_def static_script_exec custom_script_exec)

text \<open>
  The static script ignores the configured number of retries and their delay: whatever the handler's
  configuration, it is the text with zero retries and a delay of zero seconds.
\<close>

lemma static_script_no_retries:
  "serveStaticIPXEScript (\<lambda>_. False) h =
     [RW_Write (static_text (zero_Hook\<lparr>h_DownloadURL := s_OSIEURL h, h_ExtraKernelParams := s_ExtraKernelParams h,
        h_SyslogHost := s_PublicSyslogFQDN h, h_TinkerbellTLS := s_TinkServerTLS h,
        h_TinkGRPCAuthority := s_TinkServerGRPCAddr h, h_Retries := 0, h_RetryDelay := 0\<rparr>))]"
  by (simp add: serveStatic_text zero_Hook_def)

end
