(* ===== verification/Proxy_Headers.thy ===== *)
theory Proxy_Headers
  imports Backend_Values HTTP_Server
begin

text \<open>
  The parts of \<open>internal/iso/internal\<close> that work on texts, URLs and headers: \<open>acsii.go\<close>, and from
  \<open>reverseproxy.go\<close> joining URL paths, rewriting the URL of a request, copying headers, removing hop-by-hop
  headers, the upgrade type, the forwarding headers and cleaning query parameters. What the code calls of
  \<open>golang.org/x/net/http/httpguts\<close> and of Go's query parser is the record \<open>proxy_lib\<close>.
\<close>

section \<open>ASCII\<close>

text \<open>The loops of \<open>EqualFold\<close> and \<open>IsPrint\<close>; \<open>lower\<close> is the function of \<open>acsii.go\<close>.\<close>

fun EqualFold_loop :: "bytes \<Rightarrow> bytes \<Rightarrow> bool" where
  "EqualFold_loop (a # s) (b # t) = (if lower a \<noteq> lower b then False else EqualFold_loop s t)"
| "EqualFold_loop s t = True"

definition ascii_EqualFold :: "bytes \<Rightarrow> bytes \<Rightarrow> bool" where
  "ascii_EqualFold s t = (if length s \<noteq> length t then False else EqualFold_loop s t)"

fun IsPrint :: "bytes \<Rightarrow> bool" where
  "IsPrint [] = True"
| "IsPrint (c # s) = (if (of_char c :: nat) < 32 \<or> (of_char c :: nat) > 126 then False else IsPrint s)"

section \<open>Headers\<close>

text \<open>\<open>textproto.CanonicalMIMEHeaderKey\<close>: a key that is a token is put in canonical case, any other is kept.\<close>

definition upper :: "byte \<Rightarrow> byte" where
  "upper b = (let k = (of_char b :: nat) in if 97 \<le> k \<and> k \<le> 122 then char_of (k - 32) else b)"

definition token_byte :: "byte \<Rightarrow> bool" where
  "token_byte c \<longleftrightarrow> is_alnum c \<or> c \<in> set [CHR ''!'', CHR ''#'', CHR ''$'', CHR ''%'', CHR ''&'', CHR 0x27, CHR ''*'',
     CHR ''+'', CHR ''-'', CHR ''.'', CHR ''^'', CHR ''_'', CHR 0x60, CHR ''|'', CHR ''~'']"

fun canonical_case :: "bool \<Rightarrow> string \<Rightarrow> string" where
  "canonical_case up [] = []"
| "canonical_case up (c # s) = (if up then upper c else lower c) # canonical_case (c = CHR ''-'') s"

definition CanonicalHeaderKey :: "string \<Rightarrow> string" where
  "CanonicalHeaderKey k = (if list_all token_byte k then canonical_case True k else k)"

definition Header_values :: "Header \<Rightarrow> string \<Rightarrow> string list" where
  "Header_values h k = (case h k of None \<Rightarrow> [] | Some vs \<Rightarrow> vs)"

definition Header_Set :: "Header \<Rightarrow> string \<Rightarrow> string \<Rightarrow> Header" where
  "Header_Set h k v = h(CanonicalHeaderKey k \<mapsto> [v])"

definition Header_Add :: "Header \<Rightarrow> string \<Rightarrow> string \<Rightarrow> Header" where
  "Header_Add h k v = h(CanonicalHeaderKey k \<mapsto> Header_values h (CanonicalHeaderKey k) @ [v])"

definition Header_Del :: "Header \<Rightarrow> string \<Rightarrow> Header" where
  "Header_Del h k = h(CanonicalHeaderKey k := None)"

text \<open>
  What the proxy calls of other packages: the order in which \<open>range\<close> visits a header, \<open>httpguts.HeaderValuesContainsToken\<close>,
  parsing and encoding a query, and the media type of a \<open>Content-Type\<close>.
\<close>

record proxy_lib =
  range_Header :: "Header \<Rightarrow> (string \<times> string list) list"
  ContainsToken :: "string list \<Rightarrow> string \<Rightarrow> bool"
  reencode_query :: "string \<Rightarrow> string"
  media_type :: "string \<Rightarrow> string"

text \<open>\<open>range\<close> over the header \<open>h\<close> visits every entry once.\<close>

definition range_ok :: "proxy_lib \<Rightarrow> Header \<Rightarrow> bool" where
  "range_ok pl h \<longleftrightarrow> distinct (map fst (range_Header pl h)) \<and> map_of (range_Header pl h) = h"

definition copyHeader :: "proxy_lib \<Rightarrow> Header \<Rightarrow> Header \<Rightarrow> Header" where
  "copyHeader pl dst src = fold (\<lambda>(k, vv) d. fold (\<lambda>v d. Header_Add d k v) vv d) (range_Header pl src) dst"

definition hopHeaders :: "string list" where
  "hopHeaders = [''Connection'', ''Proxy-Connection'', ''Keep-Alive'', ''Proxy-Authenticate'', ''Proxy-Authorization'',
     ''Te'', ''Trailer'', ''Transfer-Encoding'', ''Upgrade'']"

definition is_header_space :: "byte \<Rightarrow> bool" where
  "is_header_space c \<longleftrightarrow> c = CHR '' '' \<or> c = CHR 0x09 \<or> c = CHR 0x0A \<or> c = CHR 0x0D"

definition TrimString :: "string \<Rightarrow> string" where
  "TrimString s = rev (dropWhile is_header_space (rev (dropWhile is_header_space s)))"

text \<open>The fields named by the \<open>Connection\<close> header.\<close>

definition connection_fields :: "Header \<Rightarrow> string list" where
  "connection_fields h =
     filter (\<lambda>sf. sf \<noteq> []) (map TrimString (concat (map (\<lambda>f. Split f (CHR '','')) (Header_values h ''Connection''))))"

definition removeHopByHopHeaders :: "Header \<Rightarrow> Header" where
  "removeHopByHopHeaders h =
     (let h1 = fold (\<lambda>sf h. Header_Del h sf) (connection_fields h) h
      in fold (\<lambda>f h. Header_Del h f) hopHeaders h1)"

definition upgradeType :: "proxy_lib \<Rightarrow> Header \<Rightarrow> string" where
  "upgradeType pl h =
     (if \<not> ContainsToken pl (Header_values h ''Connection'') ''Upgrade'' then [] else Header_Get h ''Upgrade'')"

section \<open>URLs\<close>

definition singleJoiningSlash :: "string \<Rightarrow> string \<Rightarrow> string" where
  "singleJoiningSlash a b =
     (let aslash = HasSuffix a ''/''; bslash = HasPrefix b ''/'' in
      if aslash \<and> bslash then a @ drop 1 b
      else if \<not> aslash \<and> \<not> bslash then a @ ''/'' @ b
      else a @ b)"

definition joinURLPath :: "URL \<Rightarrow> URL \<Rightarrow> string \<times> string" where
  "joinURLPath a b =
     (if RawPath a = [] \<and> RawPath b = [] then (singleJoiningSlash (Path a) (Path b), [])
      else let apath = EscapedPath a; bpath = EscapedPath b;
               aslash = HasSuffix apath ''/''; bslash = HasPrefix bpath ''/'' in
        if aslash \<and> bslash then (Path a @ drop 1 (Path b), apath @ drop 1 bpath)
        else if \<not> aslash \<and> \<not> bslash then (Path a @ ''/'' @ Path b, apath @ ''/'' @ bpath)
        else (Path a @ Path b, apath @ bpath))"

definition rewriteRequestURL :: "URL \<Rightarrow> URL \<Rightarrow> URL" where
  "rewriteRequestURL u target =
     (let targetQuery = RawQuery target;
          u = u\<lparr>Scheme := Scheme target, Host := Host target\<rparr>;
          (p, rp) = joinURLPath target u;
          u = u\<lparr>Path := p, RawPath := rp\<rparr>
      in if targetQuery = [] \<or> RawQuery u = [] then u\<lparr>RawQuery := targetQuery @ RawQuery u\<rparr>
         else u\<lparr>RawQuery := targetQuery @ ''&'' @ RawQuery u\<rparr>)"

section \<open>Queries\<close>

definition ishex :: "byte \<Rightarrow> bool" where
  "ishex c \<longleftrightarrow> (let k = (of_char c :: nat) in 48 \<le> k \<and> k \<le> 57 \<or> 97 \<le> k \<and> k \<le> 102 \<or> 65 \<le> k \<and> k \<le> 70)"

text \<open>The loop of \<open>cleanQueryParams\<close>: whether the query needs to be parsed and encoded anew.\<close>

fun query_dirty :: "string \<Rightarrow> bool" where
  "query_dirty [] = False"
| "query_dirty (c # s) =
     (if c = CHR '';'' then True
      else if c = CHR ''%'' then
        (case s of a # b # s' \<Rightarrow> if \<not> ishex a \<or> \<not> ishex b then True else query_dirty s' | _ \<Rightarrow> True)
      else query_dirty s)"

definition cleanQueryParams :: "proxy_lib \<Rightarrow> string \<Rightarrow> string" where
  "cleanQueryParams pl s = (if query_dirty s then reencode_query pl s else s)"

section \<open>Properties of texts and headers\<close>

lemma EqualFold_loop_map: "length s = length t \<Longrightarrow> EqualFold_loop s t \<longleftrightarrow> map lower s = map lower t"
  by (induction s t rule: EqualFold_loop.induct) auto

text \<open>
  The byte-wise comparison, with its check of the lengths first, decides exactly whether two texts become
  the same text when every ASCII letter is put in lower case.
\<close>

lemma ascii_EqualFold_spec: "ascii_EqualFold s t \<longleftrightarrow> map lower s = map lower t"
  unfolding ascii_EqualFold_def using EqualFold_loop_map[of s t] map_eq_imp_length_eq[of lower s lower t] by auto

lemma IsPrint_iff: "IsPrint s \<longleftrightarrow> (\<forall>c \<in> set s. 32 \<le> (of_char c :: nat) \<and> (of_char c :: nat) \<le> 126)"
  by (induction s) auto

lemma fold_Del: "fold (\<lambda>f h. Header_Del h f) fs h = h |` (- CanonicalHeaderKey ` set fs)"
  by (induction fs arbitrary: h) (auto simp: Header_Del_def restrict_map_def fun_eq_iff)

text \<open>
  What passes the proxy: exactly the header fields that are neither hop-by-hop fields of RFC 2616 nor named by
  the Connection header of the message, in any case of letters, with their values unchanged.
\<close>

lemma removeHopByHopHeaders_spec:
  "removeHopByHopHeaders h =
     h |` {k. k \<notin> CanonicalHeaderKey ` set hopHeaders \<and> k \<notin> CanonicalHeaderKey ` set (connection_fields h)}"
  by (auto simp: removeHopByHopHeaders_def fold_Del restrict_map_def fun_eq_iff)

section \<open>Copying headers\<close>

definition canonical_keys :: "Header \<Rightarrow> bool" where
  "canonical_keys h \<longleftrightarrow> (\<forall>k \<in> dom h. CanonicalHeaderKey k = k)"

lemma fold_Add:
  "CanonicalHeaderKey k = k \<Longrightarrow> fold (\<lambda>v d. Header_Add d k v) vv d =
     (if vv = [] then d else d(k \<mapsto> Header_values d k @ vv))"
proof (induction vv arbitrary: d)
  case (Cons v vv)
  have add: "Header_Add d k v = d(k \<mapsto> Header_values d k @ [v])" using Cons.prems by (simp add: Header_Add_def)
  have val: "Header_values (d(k \<mapsto> xs)) k = xs" for xs by (simp add: Header_values_def)
  have "fold (\<lambda>v d. Header_Add d k v) (v # vv) d =
      (if vv = [] then d(k \<mapsto> Header_values d k @ [v]) else (d(k \<mapsto> Header_values d k @ [v]))(k \<mapsto> (Header_values d k @ [v]) @ vv))"
    unfolding fold_simps add Cons.IH[OF Cons.prems] val ..
  also have "\<dots> = d(k \<mapsto> Header_values d k @ v # vv)" by (cases vv) (simp_all only: fun_upd_upd append_assoc append.simps if_True if_False list.distinct simp_thms)
  finally show ?case by (simp only: list.distinct if_False)
qed simp

lemma fold_copy:
  assumes "\<forall>(k, vv) \<in> set es. CanonicalHeaderKey k = k" "distinct (map fst es)"
  shows "fold (\<lambda>(k, vv) d. fold (\<lambda>v d. Header_Add d k v) vv d) es d =
     (\<lambda>k. case map_of es k of None \<Rightarrow> d k | Some vv \<Rightarrow> if vv = [] then d k else Some (Header_values d k @ vv))"
  using assms
proof (induction es arbitrary: d)
  case (Cons e es)
  obtain k vv where e: "e = (k, vv)" by fastforce
  with Cons.prems have "k \<notin> dom (map_of es)" by (auto simp: dom_map_of_conv_image_fst)
  then have "map_of es k = None" by auto
  with Cons e show ?case
    by (auto simp: fold_Add fun_eq_iff Header_values_def split: option.splits)
qed simp

text \<open>
  Copying a header into another adds, for every field of the source with canonical name, its values after
  those already there, in order, and leaves the other fields alone, whatever order the map is visited in.
\<close>

lemma copyHeader_spec:
  assumes "range_ok pl src" "canonical_keys src"
  shows "copyHeader pl dst src k =
     (case src k of None \<Rightarrow> dst k | Some vv \<Rightarrow> if vv = [] then dst k else Some (Header_values dst k @ vv))"
proof -
  have r: "distinct (map fst (range_Header pl src))" "map_of (range_Header pl src) = src"
    using assms by (simp_all add: range_ok_def)
  have "CanonicalHeaderKey k = k" if "(k, vv) \<in> set (range_Header pl src)" for k vv
  proof -
    have "map_of (range_Header pl src) k = Some vv" using r(1) that by (rule map_of_is_SomeI)
    then show ?thesis using r(2) assms(2) by (auto simp: canonical_keys_def)
  qed
  then have "\<forall>(k, vv) \<in> set (range_Header pl src). CanonicalHeaderKey k = k" by auto
  then show ?thesis unfolding copyHeader_def using fold_copy[of "range_Header pl src" dst] r by simp
qed

section \<open>Joining URLs and cleaning queries\<close>

text \<open>
  Two paths are joined by exactly one slash: at most one is dropped from the end of the first and at most one
  from the start of the second, and nothing else changes.
\<close>

lemma singleJoiningSlash_spec:
  "singleJoiningSlash a b =
     (if HasSuffix a ''/'' then butlast a else a) @ ''/'' @ (if HasPrefix b ''/'' then List.tl b else b)"
proof -
  have "a = butlast a @ ''/''" if "HasSuffix a ''/''"
    using that unfolding HasSuffix_def by (metis append_take_drop_id butlast_snoc)
  moreover have "b = ''/'' @ List.tl b" if "HasPrefix b ''/''" using that by (cases b) (auto simp: HasPrefix_def)
  moreover have "drop 1 b = List.tl b" by (simp add: drop_Suc)
  ultimately show ?thesis
    by (cases "HasSuffix a ''/''"; cases "HasPrefix b ''/''") (simp_all add: singleJoiningSlash_def Let_def, metis append.assoc append_Cons append_Nil)
qed

lemma ishex_hex_val: "ishex c \<longleftrightarrow> hex_val c \<noteq> None"
  by (auto simp: ishex_def hex_val_def Let_def)

text \<open>
  A query is passed on unchanged exactly when it has no semicolon and every percent sign starts an escape that
  can be decoded; otherwise it is parsed and encoded anew.
\<close>

lemma cleanQueryParams_spec:
  "cleanQueryParams pl s =
     (if CHR '';'' \<notin> set s \<and> url_unescape s \<noteq> None then s else reencode_query pl s)"
proof -
  have "query_dirty s \<longleftrightarrow> \<not> (CHR '';'' \<notin> set s \<and> url_unescape s \<noteq> None)"
  proof (induction s rule: query_dirty.induct)
    case (2 c s)
    show ?case
    proof (cases "c = CHR ''%''")
      case True
      have semi: "ishex a \<Longrightarrow> a \<noteq> CHR '';''" for a by (auto simp: ishex_def)
      show ?thesis
      proof (cases "\<exists>a b r. s = a # b # r")
        case True
        then obtain a b r where s: "s = a # b # r" by blast
        show ?thesis
        proof (cases "ishex a \<and> ishex b")
          case hex: True
          then obtain x y where "hex_val a = Some x" "hex_val b = Some y" by (auto simp: ishex_hex_val)
          moreover have "a \<noteq> CHR '';''" "b \<noteq> CHR '';''" using hex semi by blast+
          ultimately show ?thesis using "2.IH"(1)[OF _ \<open>c = CHR ''%''\<close> s] hex by (simp add: s \<open>c = CHR ''%''\<close>)
        next
          case False
          then show ?thesis by (auto simp: s \<open>c = CHR ''%''\<close> ishex_hex_val split: option.splits)
        qed
      next
        case False
        then show ?thesis by (auto simp: \<open>c = CHR ''%''\<close> split: list.splits)
      qed
    qed (use "2.IH" in auto)
  qed simp
  then show ?thesis by (simp add: cleanQueryParams_def)
qed

end
