(* ===== verification/Proxy_Copy.thy ===== *)
theory Proxy_Copy
  imports ISO_Patch
begin

text \<open>
  How the proxy of \<open>internal/iso/internal/reverseproxy.go\<close> copies a response body to the client:
  \<open>copyBuffer\<close>, \<open>copyResponse\<close> and \<open>maxLatencyWriter\<close>, the writer that flushes at the latest
  some time after a write. The three methods of that writer hold its mutex and are single steps; the timer and
  the goroutines it starts are steps of a transition system.
\<close>

section \<open>The client\<close>

text \<open>
  The client's \<open>http.ResponseWriter\<close>: its header map and the calls made on it. What a write returns
  may depend on what was done before; that function is \<open>acc\<close> below. A flush is recorded as a call, and the code
  ignores what it returns; whether the writer can flush at all is its own affair. Behind the logging middleware it cannot
  (\<open>flushes_lost\<close> in \<open>Reverse_Proxy\<close>).
\<close>

datatype client_event =
    WroteHeader int Header
  | Wrote bytes
  | FlushCall
  | HijackCall
  | WroteResponse int Header  \<comment> \<open>on the hijacked connection\<close>
  | Piped                     \<comment> \<open>both directions, until one ends\<close>

record client =
  c_Header :: Header
  c_calls :: "client_event list"

type_synonym accepts = "client_event list \<Rightarrow> bytes \<Rightarrow> int \<times> go_error option"

definition client_Write :: "accepts \<Rightarrow> client \<Rightarrow> bytes \<Rightarrow> client \<times> int \<times> go_error option" where
  "client_Write acc c p = (c\<lparr>c_calls := c_calls c @ [Wrote p]\<rparr>, acc (c_calls c) p)"

definition client_Flush :: "client \<Rightarrow> client" where
  "client_Flush c = c\<lparr>c_calls := c_calls c @ [FlushCall]\<rparr>"

text \<open>The bytes of the body among the calls, and whether the last call still waits for a flush.\<close>

definition body_of :: "client_event list \<Rightarrow> bytes" where
  "body_of es = List.concat (map (\<lambda>e. case e of Wrote b \<Rightarrow> b | _ \<Rightarrow> []) es)"

definition unflushed :: "client_event list \<Rightarrow> bool" where
  "unflushed es \<longleftrightarrow> es \<noteq> [] \<and> last es \<noteq> FlushCall"

section \<open>The latency writer\<close>

text \<open>The timer: not made yet, or made and either running or not.\<close>

record maxLatencyWriter =
  dst :: client
  latency :: int
  timer_running :: "bool option"
  flushPending :: bool

definition maxLatencyWriter_Write ::
  "accepts \<Rightarrow> maxLatencyWriter \<Rightarrow> bytes \<Rightarrow> maxLatencyWriter \<times> int \<times> go_error option" where
  "maxLatencyWriter_Write acc m p =
     (let (d, n, err) = client_Write acc (dst m) p;
          m = m\<lparr>dst := d\<rparr>
      in if latency m < 0 then (m\<lparr>dst := client_Flush (dst m)\<rparr>, n, err)
         else if flushPending m then (m, n, err)
         else (m\<lparr>timer_running := Some True, flushPending := True\<rparr>, n, err))"

definition delayedFlush :: "maxLatencyWriter \<Rightarrow> maxLatencyWriter" where
  "delayedFlush m =
     (if \<not> flushPending m then m
      else m\<lparr>dst := client_Flush (dst m), flushPending := False\<rparr>)"

definition maxLatencyWriter_stop :: "maxLatencyWriter \<Rightarrow> maxLatencyWriter" where
  "maxLatencyWriter_stop m =
     (let m = m\<lparr>flushPending := False\<rparr>
      in if timer_running m \<noteq> None then m\<lparr>timer_running := Some False\<rparr> else m)"

text \<open>The writer as \<open>copyResponse\<close> sets it up.\<close>

definition mlw_start :: "client \<Rightarrow> int \<Rightarrow> maxLatencyWriter" where
  "mlw_start d interval = \<lparr>dst = d, latency = interval, timer_running = Some True, flushPending = True\<rparr>"

text \<open>
  The writer with the goroutines the timer has started that wait for the mutex, and whether the copying
  goroutine has called \<open>stop\<close>.
\<close>

record mlw_system =
  writer :: maxLatencyWriter
  waiting :: nat
  stopped :: bool

inductive mlw_step :: "accepts \<Rightarrow> mlw_system \<Rightarrow> mlw_system \<Rightarrow> bool" for acc where
  mlw_write: "\<not> stopped s \<Longrightarrow> mlw_step acc s (s\<lparr>writer := fst (maxLatencyWriter_Write acc (writer s) p)\<rparr>)"
| mlw_fire: "timer_running (writer s) = Some True \<Longrightarrow>
     mlw_step acc s (s\<lparr>writer := (writer s)\<lparr>timer_running := Some False\<rparr>, waiting := waiting s + 1\<rparr>)"
| mlw_flush: "0 < waiting s \<Longrightarrow> mlw_step acc s (s\<lparr>writer := delayedFlush (writer s), waiting := waiting s - 1\<rparr>)"
| mlw_halt: "\<not> stopped s \<Longrightarrow> mlw_step acc s (s\<lparr>writer := maxLatencyWriter_stop (writer s), stopped := True\<rparr>)"

inductive_cases mlw_stepE: "mlw_step acc s t"

definition mlw_init :: "client \<Rightarrow> int \<Rightarrow> mlw_system" where
  "mlw_init d interval = \<lparr>writer = mlw_start d interval, waiting = 0, stopped = False\<rparr>"

section \<open>Copying\<close>

text \<open>
  The writer the body is copied to: the client itself, or a latency writer. \<open>due\<close> says, for each call
  on the latency writer, whether the timer fires and its flush happens before that call.
\<close>

datatype p_writer = Direct client | Latency maxLatencyWriter "bool list"

definition timer_due :: "bool \<Rightarrow> maxLatencyWriter \<Rightarrow> maxLatencyWriter" where
  "timer_due b m =
     (if b \<and> timer_running m = Some True then delayedFlush (m\<lparr>timer_running := Some False\<rparr>) else m)"

definition next_due :: "bool list \<Rightarrow> bool \<times> bool list" where
  "next_due due = (case due of [] \<Rightarrow> (False, []) | b # bs \<Rightarrow> (b, bs))"

fun p_writer_Write :: "accepts \<Rightarrow> p_writer \<Rightarrow> bytes \<Rightarrow> p_writer \<times> int \<times> go_error option" where
  "p_writer_Write acc (Direct c) p = (let (c, n, err) = client_Write acc c p in (Direct c, n, err))"
| "p_writer_Write acc (Latency m due) p =
     (let (b, due) = next_due due; (m, n, err) = maxLatencyWriter_Write acc (timer_due b m) p
      in (Latency m due, n, err))"

text \<open>\<open>copyBuffer\<close>, over the returns of the reader as in \<^const>\<open>Copy\<close>.\<close>

fun copyBuffer :: "('w \<Rightarrow> bytes \<Rightarrow> 'w \<times> int \<times> go_error option) \<Rightarrow> read list \<Rightarrow> 'w \<Rightarrow> int
    \<Rightarrow> ('w \<times> int \<times> go_error option) option" where
  "copyBuffer write [] w written = None"
| "copyBuffer write ((buf, rerr) # reads) w written =
     (let nr = int (length buf);
          (w', written', stop) =
            (if nr > 0 then
               (let (w', nw, werr) = write w buf;
                    written' = (if nw > 0 then written + nw else written)
                in (w', written', (case werr of Some e \<Rightarrow> Some e | None \<Rightarrow> if nr \<noteq> nw then Some ErrShortWrite else None)))
             else (w, written, None))
      in case stop of
           Some e \<Rightarrow> Some (w', written', Some e)
         | None \<Rightarrow>
           (case rerr of
              None \<Rightarrow> copyBuffer write reads w' written'
            | Some EOF \<Rightarrow> Some (w', written', None)
            | Some (ReadFailed e) \<Rightarrow> Some (w', written', Some e)))"

text \<open>The interface \<open>CopyBuffer\<close>; the buffer is left out.\<close>

type_synonym CopyBuffer =
  "(p_writer \<Rightarrow> bytes \<Rightarrow> p_writer \<times> int \<times> go_error option) \<Rightarrow> patch_ctx \<Rightarrow> read list \<Rightarrow> p_writer
     \<Rightarrow> (p_writer \<times> int \<times> go_error option) option"

text \<open>What is left of the writer when the copy has ended: the deferred \<open>stop\<close>.\<close>

fun p_writer_done :: "p_writer \<Rightarrow> client" where
  "p_writer_done (Direct c) = c"
| "p_writer_done (Latency m due) = dst (maxLatencyWriter_stop (timer_due (fst (next_due due)) m))"

text \<open>\<open>copyResponse\<close>: the client afterwards and the error. \<^const>\<open>None\<close>: still copying.\<close>

definition copyResponse ::
  "accepts \<Rightarrow> bool list \<Rightarrow> CopyBuffer option \<Rightarrow> patch_ctx \<Rightarrow> client \<Rightarrow> read list \<Rightarrow> int \<Rightarrow> (client \<times> go_error option) option" where
  "copyResponse acc due cb ctx d src interval =
     (let w = (if interval \<noteq> 0 then Latency (mlw_start d interval) due else Direct d)
      in case (case cb of
                 Some copy \<Rightarrow> copy (p_writer_Write acc) ctx src w
               | None \<Rightarrow> copyBuffer (p_writer_Write acc) src w 0) of
           None \<Rightarrow> None
         | Some (w, written, err) \<Rightarrow> Some (p_writer_done w, err))"

text \<open>The handler of \<open>internal/iso\<close> as a \<open>CopyBuffer\<close>.\<close>

definition iso_CopyBuffer :: "iso_Handler \<Rightarrow> CopyBuffer" where
  "iso_CopyBuffer h write ctx src w = Copy h write ctx src w 0"

section \<open>Writers that take everything\<close>

text \<open>
  A writer that takes every write whole: \<open>out\<close> is what it was given. Both copy loops behave on any such
  writer as on the one that appends.
\<close>

locale accepting_writer =
  fixes put :: "'w \<Rightarrow> bytes \<Rightarrow> 'w \<times> int \<times> go_error option"
    and ok :: "'w \<Rightarrow> bool" and out :: "'w \<Rightarrow> bytes"
  assumes accepts_all: "ok w \<Longrightarrow> snd (put w p) = (int (length p), None)"
    and appends: "ok w \<Longrightarrow> ok (fst (put w p)) \<and> out (fst (put w p)) = out w @ p"
begin

lemma Copy_out:
  "ok w \<Longrightarrow> map_option (\<lambda>(w, n, err). (out w, n, err)) (Copy h put ctx reads w n) = Copy h append_writer ctx reads (out w) n"
proof (induction reads arbitrary: w n)
  case (Cons r reads)
  obtain b rerr where r: "r = (b, rerr)" by fastforce
  obtain w' k err where w: "put w (patch_chunk h ctx b) = (w', k, err)" by (cases "put w (patch_chunk h ctx b)") auto
  with accepts_all[OF Cons.prems, of "patch_chunk h ctx b"] appends[OF Cons.prems, of "patch_chunk h ctx b"]
  have k: "k = int (length b)" "err = None" "ok w'" "out w' = out w @ patch_chunk h ctx b" by auto
  show ?case
  proof (cases "b = []")
    case True
    with Cons r show ?thesis by (simp split: option.split read_err.split)
  next
    case False
    moreover from this have "patch_chunk h ctx b \<noteq> []" by (metis length_0_conv patch_chunk_length)
    ultimately show ?thesis using w k r Cons.IH[OF k(3)]
      by (simp add: append_writer_def Let_def split: option.split read_err.split)
  qed
qed simp

end

definition accept_all :: accepts where
  "accept_all es p = (int (length p), None)"

lemma body_of_append [simp]: "body_of (es @ fs) = body_of es @ body_of fs"
  by (simp add: body_of_def)

lemma body_of_Cons [simp]: "body_of [] = []" "body_of (e # es) = (case e of Wrote b \<Rightarrow> b | _ \<Rightarrow> []) @ body_of es"
  by (simp_all add: body_of_def)

fun p_writer_client :: "p_writer \<Rightarrow> client" where
  "p_writer_client (Direct c) = c"
| "p_writer_client (Latency m due) = dst m"

lemmas mlw_defs = maxLatencyWriter_Write_def delayedFlush_def maxLatencyWriter_stop_def client_Write_def client_Flush_def

lemma timer_due_body [simp]: "body_of (c_calls (dst (timer_due b m))) = body_of (c_calls (dst m))"
  by (simp add: timer_due_def mlw_defs)

lemma mlw_Write_body:
  "body_of (c_calls (dst (fst (maxLatencyWriter_Write acc m p)))) = body_of (c_calls (dst m)) @ p"
  by (simp add: mlw_defs Let_def)

text \<open>The client is such a writer, directly and behind a latency writer, whenever the timer fires.\<close>

interpretation accepting_client: accepting_writer "p_writer_Write accept_all" "\<lambda>w. True"
  "\<lambda>w. body_of (c_calls (p_writer_client w))"
proof
  fix w p
  show "snd (p_writer_Write accept_all w p) = (int (length p), None)"
    by (cases w) (auto simp: mlw_defs accept_all_def Let_def split: prod.split)
  show "True \<and> body_of (c_calls (p_writer_client (fst (p_writer_Write accept_all w p)))) =
      body_of (c_calls (p_writer_client w)) @ p"
  proof (cases w)
    case (Latency m due)
    obtain b due' where d: "next_due due = (b, due')" by fastforce
    obtain m' n e where m: "maxLatencyWriter_Write accept_all (timer_due b m) p = (m', n, e)"
      by (cases "maxLatencyWriter_Write accept_all (timer_due b m) p") auto
    with mlw_Write_body[of accept_all "timer_due b m" p] show ?thesis by (simp add: Latency d)
  qed (simp add: client_Write_def Let_def accept_all_def)
qed

lemma p_writer_done_body [simp]: "body_of (c_calls (p_writer_done w)) = body_of (c_calls (p_writer_client w))"
  by (cases w) (simp_all add: maxLatencyWriter_stop_def Let_def)

section \<open>The guarantees of the latency writer\<close>

definition mlw_inv :: "mlw_system \<Rightarrow> bool" where
  "mlw_inv s \<longleftrightarrow>
     (\<not> stopped s \<longrightarrow> (flushPending (writer s) \<longleftrightarrow> timer_running (writer s) = Some True \<or> 0 < waiting s)) \<and>
     (timer_running (writer s) = Some True \<longrightarrow> waiting s = 0) \<and> waiting s \<le> 1 \<and> timer_running (writer s) \<noteq> None \<and>
     (\<not> stopped s \<longrightarrow> unflushed (c_calls (dst (writer s))) \<longrightarrow> flushPending (writer s)) \<and>
     (stopped s \<longrightarrow> \<not> flushPending (writer s) \<and> timer_running (writer s) \<noteq> Some True)"

lemma unflushed_append [simp]: "unflushed (es @ [e]) \<longleftrightarrow> e \<noteq> FlushCall"
  by (simp add: unflushed_def)

lemma mlw_step_inv: "mlw_inv s \<Longrightarrow> mlw_step acc s t \<Longrightarrow> mlw_inv t"
  by (erule mlw_stepE)
    (auto simp: mlw_inv_def mlw_defs Let_def unflushed_def split: prod.splits if_splits)

interpretation mlw: invariant_system "\<lambda>s. \<exists>d interval. interval \<noteq> 0 \<and> s = mlw_init d interval" "mlw_step acc" mlw_inv for acc
proof
  show "\<exists>d interval. interval \<noteq> 0 \<and> s = mlw_init d interval \<Longrightarrow> mlw_inv s" for s
    by (auto simp: mlw_init_def mlw_start_def mlw_inv_def)
qed (rule mlw_step_inv)

text \<open>Once the copying goroutine has stopped the writer, nothing reaches the client through it.\<close>

lemma stopped_silent:
  assumes "(mlw_step acc)\<^sup>*\<^sup>* s t" "stopped s" "mlw_inv s"
  shows "stopped t \<and> dst (writer t) = dst (writer s)"
  using assms
proof (induction rule: rtranclp_induct)
  case (step t u)
  then have "stopped t" "mlw_inv t" "dst (writer t) = dst (writer s)" using mlw.steps_inv by blast+
  with step.hyps(2) show ?case
    by (auto elim!: mlw_stepE simp: mlw_inv_def delayedFlush_def)
qed simp

text \<open>What waits for a flush can be flushed by the timer and its goroutine alone.\<close>

lemma pending_flushes:
  assumes "mlw_inv s" "\<not> stopped s" "unflushed (c_calls (dst (writer s)))"
  shows "\<exists>t. (mlw_step acc)\<^sup>*\<^sup>* s t \<and> \<not> stopped t \<and> c_calls (dst (writer t)) = c_calls (dst (writer s)) @ [FlushCall]"
proof -
  have p: "flushPending (writer s)" using assms unfolding mlw_inv_def by blast
  have run: "\<exists>t. mlw_step acc u t \<and> \<not> stopped t \<and> c_calls (dst (writer t)) = c_calls (dst (writer u)) @ [FlushCall]"
    if "0 < waiting u" "flushPending (writer u)" "\<not> stopped u" for u
    using mlw_flush[of u acc] that by (intro exI conjI) (assumption, simp_all add: delayedFlush_def client_Flush_def)
  show ?thesis
  proof (cases "0 < waiting s")
    case True
    then show ?thesis using run[OF _ p assms(2)] by blast
  next
    case False
    then have t: "timer_running (writer s) = Some True" using assms p by (simp only: mlw_inv_def) blast
    let ?u = "s\<lparr>writer := (writer s)\<lparr>timer_running := Some False\<rparr>, waiting := waiting s + 1\<rparr>"
    have "mlw_step acc s ?u" using t by (rule mlw_fire)
    moreover obtain v where "mlw_step acc ?u v" "\<not> stopped v" "c_calls (dst (writer v)) = c_calls (dst (writer s)) @ [FlushCall]"
      using run[of ?u] p assms(2) by auto
    ultimately show ?thesis by (meson converse_rtranclp_into_rtranclp r_into_rtranclp)
  qed
qed

text \<open>
  C31. In every state of the latency writer that the copying goroutine, the timer and the timer's goroutines can
  reach by any interleaving, as long as it is not stopped: anything the client was sent that still waits for a
  flush has a flush pending, with the timer running or one goroutine waiting for the mutex, and these
  flush it without any further write. There is never more than one such goroutine. A writer with a negative
  latency has flushed whenever a write returns. After the stop the writer never touches the client again, so
  the handler may return.
\<close>

theorem latency_writer_flushes:
  assumes "interval \<noteq> 0" "(mlw_step acc)\<^sup>*\<^sup>* (mlw_init d interval) s"
  shows "waiting s \<le> 1 \<and>
     (\<not> stopped s \<and> unflushed (c_calls (dst (writer s))) \<longrightarrow>
        (timer_running (writer s) = Some True \<or> waiting s = 1) \<and>
        (\<exists>t. (mlw_step acc)\<^sup>*\<^sup>* s t \<and> \<not> stopped t \<and>
           c_calls (dst (writer t)) = c_calls (dst (writer s)) @ [FlushCall])) \<and>
     (latency (writer s) < 0 \<longrightarrow>
        \<not> unflushed (c_calls (dst (fst (maxLatencyWriter_Write acc (writer s) p))))) \<and>
     (stopped s \<longrightarrow> (\<forall>t. (mlw_step acc)\<^sup>*\<^sup>* s t \<longrightarrow> dst (writer t) = dst (writer s)))"
proof -
  have i: "mlw_inv s" using assms mlw.reachable_inv[of "mlw_init d interval"] by blast
  have "flushPending (writer s) \<longrightarrow> \<not> stopped s \<longrightarrow> timer_running (writer s) = Some True \<or> waiting s = 1"
    "\<not> stopped s \<and> unflushed (c_calls (dst (writer s))) \<longrightarrow> flushPending (writer s)" "waiting s \<le> 1"
    using i unfolding mlw_inv_def by linarith+
  moreover have "latency (writer s) < 0 \<longrightarrow> \<not> unflushed (c_calls (dst (fst (maxLatencyWriter_Write acc (writer s) p))))"
    by (simp add: mlw_defs Let_def unflushed_def split: prod.split)
  ultimately show ?thesis using i pending_flushes[OF i] stopped_silent[OF _ _ i] by blast
qed

definition sample_client :: client where
  "sample_client = \<lparr>c_Header = Map.empty, c_calls = [WroteHeader 200 Map.empty]\<rparr>"

theorem latency_writer_flushes_witness:
  "\<exists>t. (mlw_step accept_all)\<^sup>*\<^sup>* (mlw_init sample_client 100) t \<and>
     c_calls (dst (writer t)) = [WroteHeader 200 Map.empty, FlushCall]"
proof -
  have "\<not> stopped (mlw_init sample_client 100) \<and> unflushed (c_calls (dst (writer (mlw_init sample_client 100))))"
    by (simp add: mlw_init_def mlw_start_def sample_client_def unflushed_def)
  then show ?thesis
    using latency_writer_flushes[of 100 accept_all sample_client "mlw_init sample_client 100" "[]"]
    by (auto simp: mlw_init_def mlw_start_def sample_client_def)
qed

section \<open>Copying with and without the patch\<close>

lemma Copy_copyBuffer:
  "\<forall>(b, e) \<in> set reads. Index b (MagicString h) = None \<Longrightarrow> Copy h put ctx reads w n = copyBuffer put reads w n"
proof (induction reads arbitrary: w n)
  case (Cons r reads)
  obtain b e where r: "r = (b, e)" by fastforce
  with Cons.prems have "patch_chunk h ctx b = b" by (simp add: patch_chunk_def)
  with Cons r show ?case by (simp add: Let_def split: prod.split option.split read_err.split)
qed simp

text \<open>A copy ends as soon as the reader returns an error, the end of the file included.\<close>

lemma Copy_ends: "r \<noteq> None \<Longrightarrow> (b, r) \<in> set reads \<Longrightarrow> Copy h put ctx reads w n \<noteq> None"
  by (induction reads arbitrary: w n) (auto simp: Let_def split: prod.splits option.splits read_err.splits if_splits)

lemma copyBuffer_ends: "r \<noteq> None \<Longrightarrow> (b, r) \<in> set reads \<Longrightarrow> copyBuffer put reads w n \<noteq> None"
  by (induction reads arbitrary: w n) (auto simp: Let_def split: prod.splits option.splits read_err.splits if_splits)

section \<open>Sequential runs are runs of the transition system\<close>

lemma Copy_keeps:
  assumes keeps: "\<And>w p. ok w \<Longrightarrow> ok (fst (put w p))"
  shows "ok w \<Longrightarrow> Copy h put ctx reads w n = Some (w', k, err) \<Longrightarrow> ok w'"
proof (induction reads arbitrary: w n)
  case (Cons r reads)
  obtain b e where r: "r = (b, e)" by fastforce
  obtain v j we where v: "put w (patch_chunk h ctx b) = (v, j, we)" by (cases "put w (patch_chunk h ctx b)") auto
  then have "ok v" using keeps[OF Cons.prems(1), of "patch_chunk h ctx b"] by simp
  with v r Cons show ?case by (auto simp: Let_def split: option.splits read_err.splits if_splits)
qed simp

lemma copyBuffer_keeps:
  assumes keeps: "\<And>w p. ok w \<Longrightarrow> ok (fst (put w p))"
  shows "ok w \<Longrightarrow> copyBuffer put reads w n = Some (w', k, err) \<Longrightarrow> ok w'"
proof (induction reads arbitrary: w n)
  case (Cons r reads)
  obtain b e where r: "r = (b, e)" by fastforce
  obtain v j we where v: "put w b = (v, j, we)" by (cases "put w b") auto
  then have "ok v" using keeps[OF Cons.prems(1), of b] by simp
  with v r Cons show ?case by (auto simp: Let_def split: option.splits read_err.splits if_splits)
qed simp

text \<open>The latency writers of copies that have started are reachable, with no goroutine waiting.\<close>

fun run_of :: "accepts \<Rightarrow> mlw_system \<Rightarrow> p_writer \<Rightarrow> bool" where
  "run_of acc s (Direct c) = False"
| "run_of acc s (Latency m due) = (mlw_step acc)\<^sup>*\<^sup>* s \<lparr>writer = m, waiting = 0, stopped = False\<rparr>"

lemma run_of_timer:
  assumes "(mlw_step acc)\<^sup>*\<^sup>* s \<lparr>writer = m, waiting = 0, stopped = False\<rparr>"
  shows "(mlw_step acc)\<^sup>*\<^sup>* s \<lparr>writer = timer_due b m, waiting = 0, stopped = False\<rparr>"
proof (cases "b \<and> timer_running m = Some True")
  case True
  let ?t = "\<lparr>writer = m\<lparr>timer_running := Some False\<rparr>, waiting = Suc 0, stopped = False\<rparr>"
  have "mlw_step acc \<lparr>writer = m, waiting = 0, stopped = False\<rparr> ?t"
    using mlw_fire[of "\<lparr>writer = m, waiting = 0, stopped = False\<rparr>" acc] True by simp
  moreover have "mlw_step acc ?t \<lparr>writer = timer_due b m, waiting = 0, stopped = False\<rparr>"
    using mlw_flush[of ?t acc] True by (simp add: timer_due_def)
  ultimately show ?thesis using assms by (meson rtranclp.rtrancl_into_rtrancl)
next
  case False
  with assms show ?thesis by (auto simp: timer_due_def)
qed

lemma run_of_Write: "run_of acc s w \<Longrightarrow> run_of acc s (fst (p_writer_Write acc w p))"
proof (cases w)
  case (Latency m due)
  obtain b due' where d: "next_due due = (b, due')" by fastforce
  assume "run_of acc s w"
  then have "(mlw_step acc)\<^sup>*\<^sup>* s \<lparr>writer = timer_due b m, waiting = 0, stopped = False\<rparr>"
    using run_of_timer by (simp add: Latency)
  from rtranclp.rtrancl_into_rtrancl[OF this mlw_write[of _ acc p]] show ?thesis
    by (cases "maxLatencyWriter_Write acc (timer_due b m) p") (simp add: Latency d)
qed simp

text \<open>
  C32. With a flush interval, every run of \<open>copyResponse\<close>, with the patching copy or the plain one, whatever
  the client answers and whenever the timer fires, is a run of the latency writer's transition system that ends with the
  stop, so that its guarantees hold for the response the client gets.
\<close>

theorem copyResponse_refines:
  assumes "interval \<noteq> 0" "copyResponse acc due cb ctx d src interval = Some (c, err)"
    and "cb = None \<or> cb = Some (iso_CopyBuffer h)"
  shows "\<exists>s. (mlw_step acc)\<^sup>*\<^sup>* (mlw_init d interval) s \<and> stopped s \<and> dst (writer s) = c"
proof -
  let ?w = "Latency (mlw_start d interval) due"
  let ?s = "mlw_init d interval"
  have "run_of acc ?s ?w" by (simp add: mlw_init_def)
  moreover obtain w n where w: "c = p_writer_done w"
      "copyBuffer (p_writer_Write acc) src ?w 0 = Some (w, n, err) \<or> Copy h (p_writer_Write acc) ctx src ?w 0 = Some (w, n, err)"
    using assms(3)
  proof
    assume "cb = None"
    with assms(1,2) that show thesis by (auto simp: copyResponse_def split: option.splits)
  next
    assume "cb = Some (iso_CopyBuffer h)"
    with assms(1,2) that show thesis by (auto simp: copyResponse_def iso_CopyBuffer_def split: option.splits)
  qed
  ultimately have "run_of acc ?s w"
    using copyBuffer_keeps[of "run_of acc ?s"] Copy_keeps[of "run_of acc ?s"] run_of_Write by metis
  then obtain m due' where m: "w = Latency m due'" "(mlw_step acc)\<^sup>*\<^sup>* ?s \<lparr>writer = m, waiting = 0, stopped = False\<rparr>"
    by (cases w) auto
  let ?m = "timer_due (fst (next_due due')) m"
  have "(mlw_step acc)\<^sup>*\<^sup>* ?s \<lparr>writer = maxLatencyWriter_stop ?m, waiting = 0, stopped = True\<rparr>"
    using rtranclp.rtrancl_into_rtrancl[OF run_of_timer[OF m(2)] mlw_halt[of _ acc]] by simp
  then show ?thesis using w(1) m(1) by (intro exI conjI) (assumption, simp_all)
qed

theorem copyResponse_refines_witness:
  "\<exists>s. (mlw_step accept_all)\<^sup>*\<^sup>* (mlw_init sample_client 5) s \<and> stopped s \<and>
     c_calls (dst (writer s)) = [WroteHeader 200 Map.empty, Wrote ''ab'', FlushCall, Wrote ''c'']"
proof -
  let ?c = "sample_client\<lparr>c_calls := [WroteHeader 200 Map.empty, Wrote ''ab'', FlushCall, Wrote ''c'']\<rparr>"
  have "copyResponse accept_all [False, True, False] None None sample_client [(''ab'', None), (''c'', Some EOF)] 5 = Some (?c, None)"
    by (simp add: copyResponse_def Let_def mlw_start_def mlw_defs next_due_def timer_due_def accept_all_def sample_client_def)
  with copyResponse_refines[of 5 accept_all "[False, True, False]" None None sample_client _ ?c None] show ?thesis by fastforce
qed

section \<open>When a copy ends\<close>

context accepting_writer
begin

lemma copyBuffer_waits: "ok w \<Longrightarrow> \<forall>(b, e) \<in> set reads. e = None \<Longrightarrow> copyBuffer put reads w n = None"
proof (induction reads arbitrary: w n)
  case (Cons r reads)
  obtain b where r: "r = (b, None)" using Cons.prems(2) by auto
  obtain w' k err where w: "put w b = (w', k, err)" by (cases "put w b") auto
  with accepts_all[OF Cons.prems(1), of b] appends[OF Cons.prems(1), of b] have "k = int (length b)" "err = None" "ok w'" by auto
  with Cons r w show ?case by (simp add: Let_def)
qed simp

lemma Copy_waits: "ok w \<Longrightarrow> \<forall>(b, e) \<in> set reads. e = None \<Longrightarrow> Copy h put ctx reads w n = None"
proof (induction reads arbitrary: w n)
  case (Cons r reads)
  obtain b where r: "r = (b, None)" using Cons.prems(2) by auto
  obtain w' k err where w: "put w (patch_chunk h ctx b) = (w', k, err)" by (cases "put w (patch_chunk h ctx b)") auto
  with accepts_all[OF Cons.prems(1), of "patch_chunk h ctx b"] appends[OF Cons.prems(1), of "patch_chunk h ctx b"]
  have "k = int (length b)" "err = None" "ok w'" by auto
  with Cons r w show ?case by (simp add: Let_def)
qed simp

end

text \<open>
  C37. Copying a response ends: with the patching copy or the plain one, whatever the client answers to writes and whenever the timer
  of the latency writer fires, as soon as the source's reader returns the end of the file or an error. For a client that
  takes every write this is the only way it ends.
\<close>

theorem copyResponse_ends:
  assumes "cb = None \<or> cb = Some (iso_CopyBuffer h)"
  shows "((\<exists>(b, e) \<in> set src. e \<noteq> None) \<longrightarrow> copyResponse acc due cb ctx d src interval \<noteq> None) \<and>
     (copyResponse accept_all due cb ctx d src interval = None \<longleftrightarrow> (\<forall>(b, e) \<in> set src. e = None))"
proof -
  let ?w = "if interval \<noteq> 0 then Latency (mlw_start d interval) due else Direct d"
  have none: "copyResponse a due cb ctx d src interval = None \<longleftrightarrow>
      (case cb of Some copy \<Rightarrow> copy (p_writer_Write a) ctx src ?w | None \<Rightarrow> copyBuffer (p_writer_Write a) src ?w 0) = None" for a
    by (auto simp: copyResponse_def Let_def split: option.split)
  have ends: "copyResponse a due cb ctx d src interval \<noteq> None" if "(b, e) \<in> set src" "e \<noteq> None" for a b e
    using assms Copy_ends[OF that(2,1)] copyBuffer_ends[OF that(2,1)] unfolding none by (auto simp: iso_CopyBuffer_def)
  have waits: "copyResponse accept_all due cb ctx d src interval = None" if "\<forall>(b, e) \<in> set src. e = None"
    using assms accepting_client.Copy_waits[OF _ that] accepting_client.copyBuffer_waits[OF _ that]
    unfolding none by (auto simp: iso_CopyBuffer_def)
  show ?thesis
  proof (intro conjI impI iffI)
    assume "\<exists>(b, e) \<in> set src. e \<noteq> None"
    then show "copyResponse acc due cb ctx d src interval \<noteq> None" using ends by auto
  next
    assume "copyResponse accept_all due cb ctx d src interval = None"
    then show "\<forall>(b, e) \<in> set src. e = None" using ends[of _ _ accept_all] by blast
  qed (rule waits)
qed

theorem copyResponse_ends_witness:
  "copyResponse (\<lambda>es p. (0, None)) [] None None sample_client [(''ab'', None), ([], Some EOF)] 5 \<noteq> None"
  using copyResponse_ends[of None sample_iso "[(''ab'', None), ([], Some EOF)]" "\<lambda>es p. (0, None)" "[]" None sample_client 5] by simp

end
