(* ===== verification/Reverse_Proxy.thy ===== *)
theory Reverse_Proxy
  imports Proxy_Headers Proxy_Copy
begin

text \<open>
  \<open>ReverseProxy\<close> of \<open>internal/iso/internal/reverseproxy.go\<close>: making the outbound request, handling the
  response, switching protocols, and the proxy \<open>internal/iso\<close> builds from it. Responses with a 1xx
  status come before the final one. Left out: cancelling the request's context, closing bodies and log lines; the
  connection after a switch of protocols is in \<open>Switch_Protocol\<close>.
\<close>

section \<open>Requests\<close>

text \<open>
  A header entry without values stands for Go's nil entry. \<open>pr_Body\<close> says whether there is a body, \<open>pr_TLS\<close>
  whether the connection is encrypted, \<open>pr_Form\<close> whether the form was parsed and \<open>pr_UnderServer\<close> whether the
  context is one of an HTTP server.
\<close>

record p_Request = iso_Request +
  pr_Host :: string
  pr_Header :: Header
  pr_RemoteAddr :: string
  pr_TLS :: bool
  pr_ContentLength :: int
  pr_Body :: bool
  pr_Form :: bool
  pr_Close :: bool
  pr_UnderServer :: bool

record ProxyRequest =
  pr_In :: p_Request
  pr_Out :: p_Request

definition SetURL :: "URL \<Rightarrow> ProxyRequest \<Rightarrow> ProxyRequest" where
  "SetURL target r = r\<lparr>pr_Out := (pr_Out r)\<lparr>iso_URL := rewriteRequestURL (iso_URL (pr_Out r)) target, pr_Host := []\<rparr>\<rparr>"

definition SetXForwarded :: "ProxyRequest \<Rightarrow> ProxyRequest" where
  "SetXForwarded r =
     (let h = pr_Header (pr_Out r);
          h = (case SplitHostPort (pr_RemoteAddr (pr_In r)) of
                 Some (client_ip, _) \<Rightarrow>
                   (let prior = Header_values h ''X-Forwarded-For'';
                        client_ip = (if length prior > 0 then Join prior '', '' @ '', '' @ client_ip else client_ip)
                    in Header_Set h ''X-Forwarded-For'' client_ip)
               | None \<Rightarrow> Header_Del h ''X-Forwarded-For'');
          h = Header_Set h ''X-Forwarded-Host'' (pr_Host (pr_In r));
          h = (if \<not> pr_TLS (pr_In r) then Header_Set h ''X-Forwarded-Proto'' ''http''
               else Header_Set h ''X-Forwarded-Proto'' ''https'')
      in r\<lparr>pr_Out := (pr_Out r)\<lparr>pr_Header := h\<rparr>\<rparr>)"

section \<open>The proxy\<close>

text \<open>A transport also says which request it sent on, if any.\<close>

type_synonym p_transport = "p_Request \<Rightarrow> (p_Request option \<times> (go_error + iso_Response)) go"

record ReverseProxy =
  Rewrite :: "(ProxyRequest \<Rightarrow> ProxyRequest) option"
  Director :: "(p_Request \<Rightarrow> p_Request) option"
  Transport :: "p_transport option"
  FlushInterval :: int
  ModifyResponse :: "(iso_Response \<Rightarrow> iso_Response \<times> go_error option) option"
  ErrorHandler :: "(client \<Rightarrow> p_Request \<Rightarrow> go_error \<Rightarrow> client) option"
  p_CopyBuffer :: "CopyBuffer option"

text \<open>
  The surroundings of one request: libraries, what the client's writes return, when the timer of the latency
  writer fires, and the results of hijacking the connection and of writing and flushing the response on it.
  \<open>pe_quote\<close> is the verb \<open>%q\<close> and \<open>pe_writer_type\<close> the verb \<open>%T\<close> of the response writer.
\<close>

record proxy_env =
  pe_lib :: proxy_lib
  DefaultTransport :: p_transport
  pe_accepts :: accepts
  pe_due :: "bool list"
  pe_Hijack :: "go_error option"
  pe_writeResponse :: "go_error option"
  pe_flushResponse :: "go_error option"
  pe_quote :: "string \<Rightarrow> string"
  pe_writer_type :: string
  pe_early :: "(int \<times> Header) list"     \<comment> \<open>the 1xx responses of the source before its response\<close>

definition NewSingleHostReverseProxy :: "URL \<Rightarrow> ReverseProxy" where
  "NewSingleHostReverseProxy target =
     \<lparr>Rewrite = None, Director = Some (\<lambda>req. req\<lparr>iso_URL := rewriteRequestURL (iso_URL req) target\<rparr>), Transport = None,
      FlushInterval = 0, ModifyResponse = None, ErrorHandler = None, p_CopyBuffer = None\<rparr>"

definition client_WriteHeader :: "client \<Rightarrow> int \<Rightarrow> client" where
  "client_WriteHeader c code = c\<lparr>c_calls := c_calls c @ [WroteHeader code (c_Header c)]\<rparr>"

text \<open>The hook that forwards a 1xx response, until the round trip is done.\<close>

definition Got1xxResponse :: "proxy_lib \<Rightarrow> bool \<Rightarrow> client \<Rightarrow> int \<times> Header \<Rightarrow> client" where
  "Got1xxResponse pl roundTripDone rw e =
     (if roundTripDone then rw
      else let rw = rw\<lparr>c_Header := copyHeader pl (c_Header rw) (snd e)\<rparr>;
               rw = client_WriteHeader rw (fst e)
           in rw\<lparr>c_Header := Map.empty\<rparr>)"

definition early_responses :: "proxy_env \<Rightarrow> client \<Rightarrow> client" where
  "early_responses env rw = foldl (Got1xxResponse (pe_lib env) False) rw (pe_early env)"

definition defaultErrorHandler :: "client \<Rightarrow> p_Request \<Rightarrow> go_error \<Rightarrow> client" where
  "defaultErrorHandler rw req err = client_WriteHeader rw 502"

definition getErrorHandler :: "ReverseProxy \<Rightarrow> client \<Rightarrow> p_Request \<Rightarrow> go_error \<Rightarrow> client" where
  "getErrorHandler p = (case ErrorHandler p of Some f \<Rightarrow> f | None \<Rightarrow> defaultErrorHandler)"

text \<open>The client, the response as modified, and whether the request proceeds.\<close>

definition modifyResponse :: "ReverseProxy \<Rightarrow> client \<Rightarrow> iso_Response \<Rightarrow> p_Request \<Rightarrow> client \<times> iso_Response \<times> bool" where
  "modifyResponse p rw res req =
     (case ModifyResponse p of
        None \<Rightarrow> (rw, res, True)
      | Some f \<Rightarrow>
        (case f res of
           (res, Some err) \<Rightarrow> (getErrorHandler p rw req err, res, False)
         | (res, None) \<Rightarrow> (rw, res, True)))"

subsection \<open>The outbound request\<close>

text \<open>The headers after hop-by-hop removal, with those for trailers and for an upgrade put back.\<close>

definition end_to_end :: "proxy_lib \<Rightarrow> Header \<Rightarrow> Header \<Rightarrow> string \<Rightarrow> Header" where
  "end_to_end pl reqHeader h reqUpType =
     (let h = removeHopByHopHeaders h;
          h = (if ContainsToken pl (Header_values reqHeader ''Te'') ''trailers'' then Header_Set h ''Te'' ''trailers'' else h)
      in if reqUpType \<noteq> [] then Header_Set (Header_Set h ''Connection'' ''Upgrade'') ''Upgrade'' reqUpType else h)"

definition strip_forwarding :: "Header \<Rightarrow> Header" where
  "strip_forwarding h =
     Header_Del (Header_Del (Header_Del (Header_Del h ''Forwarded'') ''X-Forwarded-For'') ''X-Forwarded-Host'') ''X-Forwarded-Proto''"

definition forwarded_for :: "string \<Rightarrow> Header \<Rightarrow> Header" where
  "forwarded_for remote h =
     (case SplitHostPort remote of
        Some (client_ip, _) \<Rightarrow>
          (let prior = Header_values h ''X-Forwarded-For'';
               omit = (h ''X-Forwarded-For'' = Some []);
               client_ip = (if length prior > 0 then Join prior '', '' @ '', '' @ client_ip else client_ip)
           in if \<not> omit then Header_Set h ''X-Forwarded-For'' client_ip else h)
      | None \<Rightarrow> h)"

definition outgoing :: "proxy_env \<Rightarrow> ReverseProxy \<Rightarrow> p_Request \<Rightarrow> go_error + p_Request" where
  "outgoing env p req =
     (let pl = pe_lib env;
          outreq = (if pr_ContentLength req = 0 then req\<lparr>pr_Body := False\<rparr> else req)
      in if (Director p \<noteq> None) = (Rewrite p \<noteq> None) then
           Inl (ErrorNew ''ReverseProxy must have exactly one of Director or Rewrite set'')
         else
           (let outreq = (case Director p of
                  None \<Rightarrow> outreq
                | Some f \<Rightarrow> (let o' = f outreq in
                    if pr_Form o' then o'\<lparr>iso_URL := (iso_URL o')\<lparr>RawQuery := cleanQueryParams pl (RawQuery (iso_URL o'))\<rparr>\<rparr> else o'));
                outreq = outreq\<lparr>pr_Close := False\<rparr>;
                reqUpType = upgradeType pl (pr_Header outreq)
            in if \<not> IsPrint reqUpType then
                 Inl (ErrorNew (''client tried to switch to invalid protocol '' @ pe_quote env reqUpType))
               else
                 (let outreq = outreq\<lparr>pr_Header := end_to_end pl (pr_Header req) (pr_Header outreq) reqUpType\<rparr>;
                      outreq = (case Rewrite p of
                        Some f \<Rightarrow>
                          (let o' = outreq\<lparr>pr_Header := strip_forwarding (pr_Header outreq),
                                 iso_URL := (iso_URL outreq)\<lparr>RawQuery := cleanQueryParams pl (RawQuery (iso_URL outreq))\<rparr>\<rparr>
                           in pr_Out (f \<lparr>pr_In = req, pr_Out = o'\<rparr>))
                      | None \<Rightarrow> outreq\<lparr>pr_Header := forwarded_for (pr_RemoteAddr req) (pr_Header outreq)\<rparr>)
                  in if pr_Header outreq ''User-Agent'' = None
                     then Inr (outreq\<lparr>pr_Header := Header_Set (pr_Header outreq) ''User-Agent'' []\<rparr>)
                     else Inr outreq)))"

subsection \<open>The response\<close>

definition flushInterval :: "proxy_lib \<Rightarrow> ReverseProxy \<Rightarrow> iso_Response \<Rightarrow> int" where
  "flushInterval pl p res =
     (let resCT = Header_Get (iso_Header res) ''Content-Type'' in
      if media_type pl resCT = ''text/event-stream'' then -1
      else if iso_ContentLength res = -1 then -1
      else FlushInterval p)"

definition inOurTests :: bool where "inOurTests = False"

definition shouldPanicOnCopyError :: "p_Request \<Rightarrow> bool" where
  "shouldPanicOnCopyError req = (if inOurTests then True else if pr_UnderServer req then True else False)"

definition handleUpgradeResponse :: "proxy_env \<Rightarrow> ReverseProxy \<Rightarrow> client \<Rightarrow> p_Request \<Rightarrow> iso_Response \<Rightarrow> client" where
  "handleUpgradeResponse env p rw req res =
     (let pl = pe_lib env;
          fail = (\<lambda>rw m. getErrorHandler p rw req (ErrorNew m));
          reqUpType = upgradeType pl (pr_Header req);
          resUpType = upgradeType pl (iso_Header res);
          rw = (if \<not> IsPrint resUpType
                then fail rw (''backend tried to switch to invalid protocol '' @ pe_quote env resUpType) else rw)
      in if \<not> ascii_EqualFold reqUpType resUpType then
           fail rw (''backend tried to switch protocol '' @ pe_quote env resUpType @ '' when '' @ pe_quote env reqUpType @ '' was requested'')
         else if \<not> iso_Conn res then
           fail rw ''internal error: 101 switching protocols response with non-writable body''
         else
           (let rw = rw\<lparr>c_calls := c_calls rw @ [HijackCall]\<rparr>
            in case pe_Hijack env of
                 Some e \<Rightarrow>
                   if errors_Is e ErrNotSupported
                   then fail rw (''can't switch protocols using non-Hijacker ResponseWriter type '' @ pe_writer_type env)
                   else fail rw (''Hijack failed on protocol switch: '' @ Error_text e)
               | None \<Rightarrow>
                 (let rw = rw\<lparr>c_Header := copyHeader pl (c_Header rw) (iso_Header res)\<rparr>
                  in case pe_writeResponse env of
                       Some e \<Rightarrow> fail rw (''response write: '' @ Error_text e)
                     | None \<Rightarrow>
                       (let rw = rw\<lparr>c_calls := c_calls rw @ [WroteResponse (iso_StatusCode res) (c_Header rw)]\<rparr>
                        in case pe_flushResponse env of
                             Some e \<Rightarrow> fail rw (''response flush: '' @ Error_text e)
                           | None \<Rightarrow> rw\<lparr>c_calls := c_calls rw @ [Piped]\<rparr>))))"

text \<open>The handler returns, panics with \<open>http.ErrAbortHandler\<close>, or is still copying.\<close>

datatype p_outcome = Finished client | Aborted client | Copying

text \<open>The trailers, after the body was copied.\<close>

definition send_trailers :: "proxy_lib \<Rightarrow> nat \<Rightarrow> client \<Rightarrow> Header \<Rightarrow> client" where
  "send_trailers pl announced rw trailer =
     (let n = length (range_Header pl trailer);
          rw = (if n > 0 then client_Flush rw else rw)
      in if n = announced then rw\<lparr>c_Header := copyHeader pl (c_Header rw) trailer\<rparr>
         else rw\<lparr>c_Header := fold (\<lambda>(k, vv) h. fold (\<lambda>v h. Header_Add h (''Trailer:'' @ k) v) vv h) (range_Header pl trailer) (c_Header rw)\<rparr>)"

definition respond :: "proxy_env \<Rightarrow> ReverseProxy \<Rightarrow> client \<Rightarrow> p_Request \<Rightarrow> p_Request \<Rightarrow> iso_Response \<Rightarrow> p_outcome" where
  "respond env p rw req outreq res =
     (let pl = pe_lib env in
      if iso_StatusCode res = 101 then
        (let (rw, res, proceed) = modifyResponse p rw res outreq
         in if \<not> proceed then Finished rw else Finished (handleUpgradeResponse env p rw outreq res))
      else
        (let res = res\<lparr>iso_Header := removeHopByHopHeaders (iso_Header res)\<rparr>;
             (rw, res, proceed) = modifyResponse p rw res outreq
         in if \<not> proceed then Finished rw
            else
              (let rw = rw\<lparr>c_Header := copyHeader pl (c_Header rw) (iso_Header res)\<rparr>;
                   trailerKeys = map fst (range_Header pl (iso_Trailer res));
                   announced = length trailerKeys;
                   rw = (if announced > 0 then rw\<lparr>c_Header := Header_Add (c_Header rw) ''Trailer'' (Join trailerKeys '', '')\<rparr> else rw);
                   rw = client_WriteHeader rw (iso_StatusCode res)
               in case copyResponse (pe_accepts env) (pe_due env) (p_CopyBuffer p) (iso_Request_ctx res) rw (iso_Body res) (flushInterval pl p res) of
                    None \<Rightarrow> Copying
                  | Some (rw, Some err) \<Rightarrow> if \<not> shouldPanicOnCopyError req then Finished rw else Aborted rw
                  | Some (rw, None) \<Rightarrow> Finished (send_trailers pl announced rw (iso_EndTrailer res)))))"

text \<open>The request the transport sent, if any, and the outcome.\<close>

definition proxy_ServeHTTP :: "proxy_env \<Rightarrow> ReverseProxy \<Rightarrow> client \<Rightarrow> p_Request \<Rightarrow> (p_Request option \<times> p_outcome) go" where
  "proxy_ServeHTTP env p rw req =
     (let transport = (case Transport p of Some t \<Rightarrow> t | None \<Rightarrow> DefaultTransport env)
      in case outgoing env p req of
           Inl err \<Rightarrow> Ret (None, Finished (getErrorHandler p rw req err))
         | Inr outreq \<Rightarrow>
             go_bind (transport outreq) (\<lambda>(sent, r).
               let rw = (if sent = None then rw else early_responses env rw) in
               case r of
                 Inl err \<Rightarrow> Ret (sent, Finished (getErrorHandler p rw outreq err))
               | Inr res \<Rightarrow> Ret (sent, respond env p rw req outreq res)))"

text \<open>The proxy of \<open>HandlerFunc\<close> in \<open>iso.go\<close>.\<close>

definition iso_proxy :: "(go_error \<Rightarrow> bool) \<Rightarrow> (p_Request \<Rightarrow> go_error + iso_Response) \<Rightarrow> iso_Handler \<Rightarrow> URL \<Rightarrow> ReverseProxy" where
  "iso_proxy isNotFound transport h target =
     \<lparr>Rewrite = Some (SetURL target), Director = None, Transport = Some (RoundTrip isNotFound transport h), FlushInterval = -1,
      ModifyResponse = None, ErrorHandler = None, p_CopyBuffer = Some (iso_CopyBuffer h)\<rparr>"

section \<open>What the source is asked\<close>

lemma canonical_names [simp]:
  "CanonicalHeaderKey ''Te'' = ''Te''" "CanonicalHeaderKey ''Connection'' = ''Connection''"
  "CanonicalHeaderKey ''Upgrade'' = ''Upgrade''" "CanonicalHeaderKey ''Forwarded'' = ''Forwarded''"
  "CanonicalHeaderKey ''X-Forwarded-For'' = ''X-Forwarded-For''" "CanonicalHeaderKey ''X-Forwarded-Host'' = ''X-Forwarded-Host''"
  "CanonicalHeaderKey ''X-Forwarded-Proto'' = ''X-Forwarded-Proto''" "CanonicalHeaderKey ''User-Agent'' = ''User-Agent''"
  by code_simp+

lemma canonical_hop: "CanonicalHeaderKey ` set hopHeaders = set hopHeaders"
proof -
  have "map CanonicalHeaderKey hopHeaders = hopHeaders" by code_simp
  then show ?thesis by (metis set_map)
qed

definition forwardingHeaders :: "string list" where
  "forwardingHeaders = [''Forwarded'', ''X-Forwarded-For'', ''X-Forwarded-Host'', ''X-Forwarded-Proto'']"

lemma strip_forwarding_spec: "strip_forwarding h = h |` (- set forwardingHeaders)"
  by (simp add: strip_forwarding_def Header_Del_def forwardingHeaders_def restrict_map_def fun_eq_iff)

lemma end_to_end_spec:
  "end_to_end pl rh h up k =
     (if k = ''Connection'' then if up = [] then None else Some [''Upgrade'']
      else if k = ''Upgrade'' then if up = [] then None else Some [up]
      else if k = ''Te'' then if ContainsToken pl (Header_values rh ''Te'') ''trailers'' then Some [''trailers''] else None
      else if k \<in> set hopHeaders \<or> k \<in> CanonicalHeaderKey ` set (connection_fields h) then None else h k)"
proof -
  have "''Connection'' \<in> set hopHeaders" "''Upgrade'' \<in> set hopHeaders" "''Te'' \<in> set hopHeaders"
    by (simp_all add: hopHeaders_def)
  then show ?thesis
    by (simp add: end_to_end_def Let_def Header_Set_def removeHopByHopHeaders_spec canonical_hop restrict_map_def)
qed

lemma name_classes:
  "k \<in> set forwardingHeaders \<Longrightarrow> k \<notin> set hopHeaders \<and> k \<noteq> ''User-Agent''" "''User-Agent'' \<notin> set hopHeaders"
  "''Connection'' \<in> set hopHeaders" "''Upgrade'' \<in> set hopHeaders" "''Te'' \<in> set hopHeaders"
  by (auto simp: forwardingHeaders_def hopHeaders_def)

lemma iso_proxy_Transport: "Transport (iso_proxy nf t h target) = Some (RoundTrip nf t h)"
  by (simp add: iso_proxy_def)

lemma outgoing_iso_proxy:
  "outgoing env (iso_proxy nf t h target) req =
     (let pl = pe_lib env;
          up = upgradeType pl (pr_Header req);
          u = (iso_URL req)\<lparr>RawQuery := cleanQueryParams pl (RawQuery (iso_URL req))\<rparr>;
          hd = strip_forwarding (end_to_end pl (pr_Header req) (pr_Header req) up)
      in if \<not> IsPrint up then Inl (ErrorNew (''client tried to switch to invalid protocol '' @ pe_quote env up))
         else Inr (req\<lparr>iso_URL := rewriteRequestURL u target, pr_Host := [], pr_Body := (pr_ContentLength req \<noteq> 0 \<and> pr_Body req),
             pr_Close := False, pr_Header := (if hd ''User-Agent'' = None then hd(''User-Agent'' \<mapsto> [[]]) else hd)\<rparr>))"
  by (cases req) (simp add: outgoing_def iso_proxy_def SetURL_def Let_def Header_Set_def)

lemma RoundTrip_sent:
  "RoundTrip nf t h req = Ret (Some s, r) \<Longrightarrow>
     \<exists>u patch. parsedURL h = Some u \<and> s = req\<lparr>iso_ctx := WithPatch (iso_ctx req) patch, iso_URL := (iso_URL req)\<lparr>Path := Path u\<rparr>\<rparr>"
  by (auto simp: RoundTrip_def Let_def split: if_splits sum.splits option.splits elim!: go_bind_RetE; blast)

lemma iso_proxy_sends:
  "if \<not> IsPrint (upgradeType (pe_lib env) (pr_Header req))
   then proxy_ServeHTTP env (iso_proxy nf t h target) rw req = Ret (None, Finished (client_WriteHeader rw 502))
   else \<exists>out. outgoing env (iso_proxy nf t h target) req = Inr out \<and>
     (case RoundTrip nf t h out of
        Panic m \<Rightarrow> proxy_ServeHTTP env (iso_proxy nf t h target) rw req = Panic m
      | Ret (None, r) \<Rightarrow> \<exists>o'. proxy_ServeHTTP env (iso_proxy nf t h target) rw req = Ret (None, o')
      | Ret (Some s, r) \<Rightarrow> \<exists>o' u ctx. proxy_ServeHTTP env (iso_proxy nf t h target) rw req = Ret (Some s, o') \<and>
          parsedURL h = Some u \<and> s = out\<lparr>iso_ctx := ctx, iso_URL := (iso_URL out)\<lparr>Path := Path u\<rparr>\<rparr>)"
proof (cases "outgoing env (iso_proxy nf t h target) req")
  case (Inl e)
  have "getErrorHandler (iso_proxy nf t h target) rw req e = client_WriteHeader rw 502"
    by (simp add: getErrorHandler_def iso_proxy_def defaultErrorHandler_def)
  with Inl show ?thesis
    by (simp add: proxy_ServeHTTP_def iso_proxy_Transport) (simp add: outgoing_iso_proxy Let_def split: if_splits)
next
  case (Inr out)
  then have "IsPrint (upgradeType (pe_lib env) (pr_Header req))" by (simp add: outgoing_iso_proxy Let_def split: if_splits)
  moreover have "case RoundTrip nf t h out of
        Panic m \<Rightarrow> proxy_ServeHTTP env (iso_proxy nf t h target) rw req = Panic m
      | Ret (None, r) \<Rightarrow> \<exists>o'. proxy_ServeHTTP env (iso_proxy nf t h target) rw req = Ret (None, o')
      | Ret (Some s, r) \<Rightarrow> \<exists>o' u ctx. proxy_ServeHTTP env (iso_proxy nf t h target) rw req = Ret (Some s, o') \<and>
          parsedURL h = Some u \<and> s = out\<lparr>iso_ctx := ctx, iso_URL := (iso_URL out)\<lparr>Path := Path u\<rparr>\<rparr>"
  proof (cases "RoundTrip nf t h out")
    case (Ret x)
    obtain sent r where x: "x = (sent, r)" by fastforce
    have "\<exists>o'. proxy_ServeHTTP env (iso_proxy nf t h target) rw req = Ret (sent, o')"
      by (cases r) (simp_all add: proxy_ServeHTTP_def Inr iso_proxy_Transport Ret x Let_def)
    moreover have "\<exists>u ctx. parsedURL h = Some u \<and> s = out\<lparr>iso_ctx := ctx, iso_URL := (iso_URL out)\<lparr>Path := Path u\<rparr>\<rparr>"
      if "sent = Some s" for s
      using RoundTrip_sent[of nf t h out s r] Ret x that by blast
    ultimately show ?thesis unfolding Ret x go.case prod.case by (cases sent) (simp_all only: option.case, blast)
  qed (simp add: proxy_ServeHTTP_def Inr iso_proxy_Transport)
  ultimately show ?thesis using Inr by auto
qed

text \<open>A field that only the comment of \<open>ReverseProxy.Rewrite\<close> says is removed.\<close>

lemma x_forwarded_passes:
  assumes "outgoing env (iso_proxy nf t h target) req = Inr out"
    and "''X-Forwarded'' \<notin> CanonicalHeaderKey ` set (connection_fields (pr_Header req))"
  shows "pr_Header out ''X-Forwarded'' = pr_Header req ''X-Forwarded''"
proof -
  have "''X-Forwarded'' \<notin> set forwardingHeaders" "''X-Forwarded'' \<notin> set hopHeaders"
    by (simp_all add: forwardingHeaders_def hopHeaders_def)
  with assms show ?thesis
    by (auto simp: outgoing_iso_proxy Let_def strip_forwarding_spec end_to_end_spec split: if_splits)
qed

text \<open>
  C33. What the source of the ISO learns of a client's request. The proxy itself refuses the request, with the status 502 and
  before its transport is asked, exactly when it asks to switch to a protocol with a name that is not printable ASCII. Otherwise
  the outbound request is for the configured source joined with the client's path and cleaned query, with the client's
  context, and of its header fields only these
  pass: a field that is not a hop-by-hop field, not named by the Connection header and not one of the four forwarding
  headers the code deletes, unchanged; so X-Forwarded, which the comment on \<open>Rewrite\<close> counts among the removed, does pass. Connection
  and Upgrade are only those of an announced upgrade, Te only
  says trailers, and a missing User-Agent is sent as an empty one. \<open>RoundTrip\<close> then decides whether the request is sent, with further
  refusals (C19); what it sends to the source is this request, changed only in its context and its path, which
  becomes that of the source.
\<close>

theorem iso_request_headers:
  "(case outgoing env (iso_proxy nf t h target) req of
     Inl e \<Rightarrow> \<not> IsPrint (upgradeType (pe_lib env) (pr_Header req))
   | Inr out \<Rightarrow> IsPrint (upgradeType (pe_lib env) (pr_Header req)) \<and> pr_Host out = [] \<and> iso_ctx out = iso_ctx req \<and>
       iso_URL out = rewriteRequestURL ((iso_URL req)\<lparr>RawQuery := cleanQueryParams (pe_lib env) (RawQuery (iso_URL req))\<rparr>) target \<and>
       pr_Header out = (\<lambda>k.
         let up = upgradeType (pe_lib env) (pr_Header req);
             named = k \<in> CanonicalHeaderKey ` set (connection_fields (pr_Header req))
         in if k = ''Connection'' then if up = [] then None else Some [''Upgrade'']
            else if k = ''Upgrade'' then if up = [] then None else Some [up]
            else if k = ''Te'' then
              if ContainsToken (pe_lib env) (Header_values (pr_Header req) ''Te'') ''trailers'' then Some [''trailers''] else None
            else if k \<in> set hopHeaders \<or> k \<in> set forwardingHeaders then None
            else if k = ''User-Agent'' \<and> (named \<or> pr_Header req k = None) then Some [[]]
            else if named then None
            else pr_Header req k)) \<and>
   (if \<not> IsPrint (upgradeType (pe_lib env) (pr_Header req))
    then proxy_ServeHTTP env (iso_proxy nf t h target) rw req = Ret (None, Finished (client_WriteHeader rw 502))
    else \<exists>out. outgoing env (iso_proxy nf t h target) req = Inr out \<and>
      (case RoundTrip nf t h out of
         Panic m \<Rightarrow> proxy_ServeHTTP env (iso_proxy nf t h target) rw req = Panic m
       | Ret (None, r) \<Rightarrow> \<exists>o'. proxy_ServeHTTP env (iso_proxy nf t h target) rw req = Ret (None, o')
       | Ret (Some s, r) \<Rightarrow> \<exists>o' u ctx. proxy_ServeHTTP env (iso_proxy nf t h target) rw req = Ret (Some s, o') \<and>
           parsedURL h = Some u \<and> s = out\<lparr>iso_ctx := ctx, iso_URL := (iso_URL out)\<lparr>Path := Path u\<rparr>\<rparr>))"
    (is "?headers \<and> ?sent")
proof -
  let ?up = "upgradeType (pe_lib env) (pr_Header req)"
  let ?e = "end_to_end (pe_lib env) (pr_Header req) (pr_Header req) ?up"
  let ?ua = "''User-Agent''"
  have ua: "?ua \<noteq> ''Connection''" "?ua \<noteq> ''Upgrade''" "?ua \<noteq> ''Te''" by simp_all
  have strip: "strip_forwarding ?e k = (if k \<in> set forwardingHeaders then None else ?e k)" for k
    by (simp add: strip_forwarding_spec restrict_map_def)
  have ua_none: "?e ?ua = None \<longleftrightarrow> ?ua \<in> CanonicalHeaderKey ` set (connection_fields (pr_Header req)) \<or> pr_Header req ?ua = None"
    unfolding end_to_end_spec using ua name_classes(2) by auto
  have "?ua \<notin> set forwardingHeaders" using name_classes(1) by blast
  then have k: "(if strip_forwarding ?e ?ua = None then (strip_forwarding ?e)(?ua \<mapsto> [[]]) else strip_forwarding ?e) k =
      (if k \<in> set forwardingHeaders then None
       else if k = ?ua \<and> (?ua \<in> CanonicalHeaderKey ` set (connection_fields (pr_Header req)) \<or> pr_Header req ?ua = None) then Some [[]]
       else ?e k)" for k
    by (simp add: strip ua_none del: canonical_names)
  have pass: "k \<noteq> ''Connection'' \<and> k \<noteq> ''Upgrade'' \<and> k \<noteq> ''Te''" if "k \<in> set forwardingHeaders" for k
    using name_classes that by blast
  have hdr: "(if strip_forwarding ?e ?ua = None then (strip_forwarding ?e)(?ua \<mapsto> [[]]) else strip_forwarding ?e) = (\<lambda>k.
         let up = ?up; named = k \<in> CanonicalHeaderKey ` set (connection_fields (pr_Header req))
         in if k = ''Connection'' then if up = [] then None else Some [''Upgrade'']
            else if k = ''Upgrade'' then if up = [] then None else Some [up]
            else if k = ''Te'' then
              if ContainsToken (pe_lib env) (Header_values (pr_Header req) ''Te'') ''trailers'' then Some [''trailers''] else None
            else if k \<in> set hopHeaders \<or> k \<in> set forwardingHeaders then None
            else if k = ?ua \<and> (named \<or> pr_Header req k = None) then Some [[]]
            else if named then None
            else pr_Header req k)" (is "_ = ?spec")
  proof
    fix k
    show "(if strip_forwarding ?e ?ua = None then (strip_forwarding ?e)(?ua \<mapsto> [[]]) else strip_forwarding ?e) k = ?spec k"
      unfolding k end_to_end_spec Let_def using pass[of k] name_classes ua by (smt (verit))
  qed
  have headers: ?headers
  proof (cases "IsPrint ?up")
    case True
    then show ?thesis unfolding outgoing_iso_proxy Let_def[of "strip_forwarding ?e"] by (simp add: hdr Let_def)
  qed (simp add: outgoing_iso_proxy)
  have ?sent by (rule iso_proxy_sends)
  with headers show ?thesis by blast
qed

section \<open>Serving an ISO\<close>

definition body_event :: "client_event \<Rightarrow> bool" where
  "body_event e \<longleftrightarrow> (case e of Wrote b \<Rightarrow> True | FlushCall \<Rightarrow> True | _ \<Rightarrow> False)"

text \<open>A client that was sent a base of calls, and then only parts of the body and flushes.\<close>

definition sent_after :: "client_event list \<Rightarrow> client \<Rightarrow> bool" where
  "sent_after base c \<longleftrightarrow> (\<exists>es. c_calls c = base @ es \<and> list_all body_event es)"

lemma sent_after_add: "sent_after base c \<Longrightarrow> body_event e \<Longrightarrow> sent_after base (c\<lparr>c_calls := c_calls c @ [e]\<rparr>)"
  by (auto simp: sent_after_def)

lemma sent_after_timer: "sent_after base (dst m) \<Longrightarrow> sent_after base (dst (timer_due b m))"
  by (auto simp: timer_due_def mlw_defs body_event_def intro: sent_after_add)

lemma sent_after_Write: "sent_after base (p_writer_client w) \<Longrightarrow> sent_after base (p_writer_client (fst (p_writer_Write acc w p)))"
proof (cases w)
  case (Direct c)
  moreover assume "sent_after base (p_writer_client w)"
  ultimately show ?thesis by (auto simp: client_Write_def body_event_def Let_def split: prod.split intro!: sent_after_add)
next
  case (Latency m due)
  obtain b due' where d: "next_due due = (b, due')" by fastforce
  assume "sent_after base (p_writer_client w)"
  with sent_after_timer have s: "sent_after base (dst (timer_due b m))" by (simp add: Latency)
  have "sent_after base (dst (fst (maxLatencyWriter_Write acc (timer_due b m) p)))"
    using sent_after_add[OF s, of "Wrote p"] sent_after_add[OF sent_after_add[OF s, of "Wrote p"], of FlushCall]
    by (auto simp: maxLatencyWriter_Write_def client_Write_def client_Flush_def Let_def body_event_def)
  then show ?thesis by (cases "maxLatencyWriter_Write acc (timer_due b m) p") (simp add: Latency d)
qed

lemma sent_after_done: "sent_after base (p_writer_client w) \<Longrightarrow> sent_after base (p_writer_done w)"
  by (cases w) (auto simp: maxLatencyWriter_stop_def Let_def intro: sent_after_timer)

lemma copyResponse_iso:
  "\<exists>c. copyResponse accept_all due (Some (iso_CopyBuffer h)) ctx d (map (\<lambda>b. (b, None)) bs @ [(b, Some EOF)]) interval = Some (c, None) \<and>
     body_of (c_calls c) = body_of (c_calls d) @ List.concat (map (patch_chunk h ctx) (bs @ [b])) \<and> sent_after (c_calls d) c"
proof -
  let ?w = "if interval \<noteq> 0 then Latency (mlw_start d interval) due else Direct d"
  let ?reads = "map (\<lambda>b. (b, None)) bs @ [(b, Some EOF)]"
  let ?out = "\<lambda>w. body_of (c_calls (p_writer_client w))"
  have w: "p_writer_client ?w = d" by (simp add: mlw_start_def)
  have "map_option (\<lambda>(w, n, err). (?out w, n, err)) (Copy h (p_writer_Write accept_all) ctx ?reads ?w 0) =
      Some (body_of (c_calls d) @ List.concat (map (patch_chunk h ctx) (bs @ [b])), int (length (List.concat (bs @ [b]))), None)"
    using accepting_client.Copy_out[where w = "?w" and h = h and ctx = ctx and reads = "?reads" and n = 0] Copy_append_reads[of h ctx bs b EOF "[]" "?out ?w" 0]
    unfolding w by simp
  then obtain w' n where c: "Copy h (p_writer_Write accept_all) ctx ?reads ?w 0 = Some (w', n, None)"
      "?out w' = body_of (c_calls d) @ List.concat (map (patch_chunk h ctx) (bs @ [b]))" by auto
  have "sent_after (c_calls d) (p_writer_client ?w)" by (simp only: w) (simp add: sent_after_def)
  with Copy_keeps[of "\<lambda>w. sent_after (c_calls d) (p_writer_client w)", OF sent_after_Write _ c(1)] sent_after_done
  have "sent_after (c_calls d) (p_writer_done w')" by blast
  moreover have "copyResponse accept_all due (Some (iso_CopyBuffer h)) ctx d ?reads interval = Some (p_writer_done w', None)"
    using c(1) by (simp add: copyResponse_def Let_def iso_CopyBuffer_def)
  ultimately show ?thesis using c(2) by (intro exI[of _ "p_writer_done w'"]) simp
qed

lemma filepath_Ext_last:
  assumes "CHR ''/'' \<notin> set fname"
  shows "filepath_Ext (q @ CHR ''/'' # fname) = filepath_Ext fname"
proof -
  have "LastIndexByte fname (CHR ''/'') = None" using assms by (simp add: LastIndexByte_def IndexByte_None)
  then show ?thesis using LastIndexByte_append[OF assms, of q] by (simp add: filepath_Ext_def)
qed

lemma singleJoiningSlash_ends: "\<exists>q. singleJoiningSlash a (p @ CHR ''/'' # s) = q @ CHR ''/'' # s"
proof (cases p)
  case Nil
  then show ?thesis by (auto simp: singleJoiningSlash_spec HasPrefix_def)
next
  case (Cons c p')
  show ?thesis
    by (rule exI[of _ "(if HasSuffix a ''/'' then butlast a else a) @ ''/'' @ (if HasPrefix (p @ CHR ''/'' # s) ''/'' then p' else p)"])
      (simp add: singleJoiningSlash_spec Cons)
qed

text \<open>A source response the proxy passes on whole: no switch of protocols, no trailers, and a body that ends.\<close>

definition plain_source :: "proxy_lib \<Rightarrow> iso_Response \<Rightarrow> bytes list \<Rightarrow> bytes \<Rightarrow> bool" where
  "plain_source pl r bs b \<longleftrightarrow> iso_StatusCode r \<noteq> 101 \<and> iso_Body r = map (\<lambda>b. (b, None)) bs @ [(b, Some EOF)] \<and>
     iso_Trailer r = Map.empty \<and> iso_EndTrailer r = Map.empty \<and> range_Header pl Map.empty = []"

lemma respond_iso:
  assumes "plain_source (pe_lib env) r bs b" "pe_accepts env = accept_all"
  shows "\<exists>c. respond env (iso_proxy nf t h target) rw req outreq r = Finished c \<and>
     body_of (c_calls c) = body_of (c_calls rw) @ List.concat (map (patch_chunk h (iso_Request_ctx r)) (bs @ [b])) \<and>
     sent_after (c_calls rw @ [WroteHeader (iso_StatusCode r)
        (copyHeader (pe_lib env) (c_Header rw) (removeHopByHopHeaders (iso_Header r)))]) c"
proof -
  let ?hd = "copyHeader (pe_lib env) (c_Header rw) (removeHopByHopHeaders (iso_Header r))"
  let ?rw = "client_WriteHeader (rw\<lparr>c_Header := ?hd\<rparr>) (iso_StatusCode r)"
  obtain c where c: "copyResponse accept_all (pe_due env) (Some (iso_CopyBuffer h)) (iso_Request_ctx r) ?rw
        (map (\<lambda>b. (b, None)) bs @ [(b, Some EOF)]) (-1) = Some (c, None)"
      "body_of (c_calls c) = body_of (c_calls ?rw) @ List.concat (map (patch_chunk h (iso_Request_ctx r)) (bs @ [b]))"
      "sent_after (c_calls ?rw) c"
    using copyResponse_iso by blast
  have "flushInterval (pe_lib env) (iso_proxy nf t h target) x = -1" for x
    by (simp add: flushInterval_def iso_proxy_def)
  then have "respond env (iso_proxy nf t h target) rw req outreq r = Finished (c\<lparr>c_Header := copyHeader (pe_lib env) (c_Header c) Map.empty\<rparr>)"
    using assms c(1)
    by (simp add: respond_def plain_source_def modifyResponse_def iso_proxy_def send_trailers_def Let_def)
  then show ?thesis using c(2,3) by (auto simp: client_WriteHeader_def sent_after_def)
qed

lemma iso_joined_path:
  assumes "Path u = p @ ''/'' @ elem @ ''/'' @ fname" "RawPath u = []" "RawPath target = []"
  shows "\<exists>q. Path (rewriteRequestURL u target) = q @ ''/'' @ elem @ ''/'' @ fname"
  using assms singleJoiningSlash_ends[of "Path target" p "elem @ ''/'' @ fname"]
  by (auto simp: rewriteRequestURL_def joinURLPath_def Let_def)

text \<open>
  C34. Serving an ISO from the client's request to the last byte. A request whose path ends in the hardware address
  of a machine the backend knows and a file with the extension \<open>.iso\<close> makes the proxy ask the source for the configured path at the
  configured host, and a source that answers with a body reaches the client, whatever the timer of the latency writer
  does, after the 1xx responses of the source, as one header with the source's status, its header fields but the hop-by-hop ones and the mark that turns the request log
  off, followed by only body and flushes; and the body is the source's, chunk by chunk, with the
  magic string replaced by the kernel parameters of that very machine.
\<close>

theorem iso_serves:
  assumes machine: "iso_Backend h = Some be" "GetByMac be hw = Ret (Inr (d, Some n))" "parsedURL h = Some target"
    and request: "Path (iso_URL req) = p @ ''/'' @ HardwareAddr_String hw @ ''/'' @ fname" "length hw \<in> {6, 8, 20}"
      "CHR ''/'' \<notin> set fname" "filepath_Ext fname = ''.iso''" "RawPath (iso_URL req) = []" "RawPath target = []"
      "IsPrint (upgradeType (pe_lib env) (pr_Header req))"
    and source: "\<And>q. Path (iso_URL q) = Path target \<Longrightarrow> transport q = Inr r" "plain_source (pe_lib env) r bs b"
    and client: "pe_accepts env = accept_all"
  shows "\<exists>sent c es. proxy_ServeHTTP env (iso_proxy nf transport h target) rw req = Ret (Some sent, Finished c) \<and>
     Path (iso_URL sent) = Path target \<and> Host (iso_URL sent) = Host target \<and>
     c_calls c = c_calls (early_responses env rw) @ WroteHeader (iso_StatusCode r)
        (copyHeader (pe_lib env) (c_Header (early_responses env rw))
          (removeHopByHopHeaders ((iso_Header r)(''X-Global-Logging'' \<mapsto> [''false''])))) # es \<and>
     list_all body_event es \<and>
     body_of es = List.concat (map (patch_chunk h
        (Some (constructPatch h (iso_consoles (Facility n)) (HardwareAddr_String hw) d))) (bs @ [b]))"
proof -
  let ?ctx = "Some (constructPatch h (iso_consoles (Facility n)) (HardwareAddr_String hw) d)"
  obtain out where out: "outgoing env (iso_proxy nf transport h target) req = Inr out"
      "iso_URL out = rewriteRequestURL ((iso_URL req)\<lparr>RawQuery := cleanQueryParams (pe_lib env) (RawQuery (iso_URL req))\<rparr>) target"
    using request(7) by (auto simp: outgoing_iso_proxy Let_def)
  obtain q where q: "Path (iso_URL out) = q @ ''/'' @ HardwareAddr_String hw @ ''/'' @ fname"
    using iso_joined_path[of "(iso_URL req)\<lparr>RawQuery := cleanQueryParams (pe_lib env) (RawQuery (iso_URL req))\<rparr>" p
      "HardwareAddr_String hw" fname target] request(1,5,6) unfolding out(2) by simp blast
  have ext: "filepath_Ext (Path (iso_URL out)) = ''.iso''"
    using filepath_Ext_last[OF request(3), of "q @ ''/'' @ HardwareAddr_String hw"] request(4) by (simp add: q)
  have mac: "iso_getMAC (Path (iso_URL out)) = Inr hw"
    using iso_getMAC_roundtrip[OF request(2,3), of q] by (simp add: q)
  let ?sent = "out\<lparr>iso_ctx := ?ctx, iso_URL := (iso_URL out)\<lparr>Path := Path target\<rparr>\<rparr>"
  let ?r = "r\<lparr>iso_Header := (iso_Header r)(''X-Global-Logging'' \<mapsto> [''false'']), iso_Request_ctx := ?ctx\<rparr>"
  have rt: "RoundTrip nf transport h out = Ret (Some ?sent, Inr ?r)"
    using ext mac machine source(1)[of ?sent] by (simp add: RoundTrip_def getFacility_def WithPatch_def Let_def)
  have "plain_source (pe_lib env) ?r bs b" using source(2) by (simp add: plain_source_def)
  let ?rw = "early_responses env rw"
  from respond_iso[OF \<open>plain_source (pe_lib env) ?r bs b\<close> client, of nf transport h target ?rw req out] obtain c where c:
    "respond env (iso_proxy nf transport h target) ?rw req out ?r = Finished c"
    "body_of (c_calls c) = body_of (c_calls ?rw) @ List.concat (map (patch_chunk h ?ctx) (bs @ [b]))"
    "sent_after (c_calls ?rw @ [WroteHeader (iso_StatusCode r) (copyHeader (pe_lib env) (c_Header ?rw) (removeHopByHopHeaders (iso_Header ?r)))]) c"
    by auto
  have "proxy_ServeHTTP env (iso_proxy nf transport h target) rw req = Ret (Some ?sent, Finished c)"
    using c(1) by (simp add: proxy_ServeHTTP_def out(1) rt iso_proxy_Transport)
  moreover have "Host (iso_URL ?sent) = Host target"
    by (simp add: out(2) rewriteRequestURL_def Let_def split: prod.split)
  ultimately show ?thesis using c(2,3) by (auto simp: sent_after_def intro!: exI[of _ ?sent] exI[of _ c])
qed

definition sample_proxy_lib :: proxy_lib where
  "sample_proxy_lib = \<lparr>range_Header = (\<lambda>h. []), ContainsToken = (\<lambda>vs t. t \<in> set vs), reencode_query = (\<lambda>s. s), media_type = (\<lambda>s. s)\<rparr>"

definition sample_env :: proxy_env where
  "sample_env = \<lparr>pe_lib = sample_proxy_lib, DefaultTransport = (\<lambda>r. Ret (None, Inl HardwareNotFoundError)), pe_accepts = accept_all,
     pe_due = [], pe_Hijack = None, pe_writeResponse = None, pe_flushResponse = None, pe_quote = (\<lambda>s. s), pe_writer_type = [],
     pe_early = []\<rparr>"

definition sample_iso_request :: p_Request where
  "sample_iso_request = \<lparr>iso_URL = empty_URL\<lparr>Path := ''/iso'' @ ''/'' @ HardwareAddr_String ''abcdef'' @ ''/'' @ ''hook.iso''\<rparr>,
     iso_ctx = None, pr_Host = [], pr_Header = Map.empty, pr_RemoteAddr = [], pr_TLS = False, pr_ContentLength = 0,
     pr_Body = False, pr_Form = False, pr_Close = False, pr_UnderServer = True\<rparr>"

definition sample_source :: iso_Response where
  "sample_source = \<lparr>iso_StatusCode = 200, iso_Header = Map.empty, iso_Body = [(''ISO'', None), ([], Some EOF)], iso_Conn = False,
     iso_ContentLength = 3, iso_Trailer = Map.empty, iso_EndTrailer = Map.empty, iso_Request_ctx = None\<rparr>"

theorem iso_serves_witness:
  "\<exists>sent c es hdr. proxy_ServeHTTP sample_env (iso_proxy (\<lambda>e. False) (\<lambda>q. Inr sample_source)
        (sample_iso\<lparr>iso_Backend := Some iso_sample_backend, parsedURL := Some empty_URL\<rparr>) empty_URL)
        \<lparr>c_Header = Map.empty, c_calls = []\<rparr> sample_iso_request = Ret (Some sent, Finished c) \<and>
     c_calls c = WroteHeader 200 hdr # es \<and> length (body_of es) = 3"
proof -
  let ?h = "sample_iso\<lparr>iso_Backend := Some iso_sample_backend, parsedURL := Some empty_URL\<rparr>"
  let ?hw = "''abcdef''"
  let ?d = "Some (new_DHCP\<lparr>MACAddress := Some ?hw, IPAddress := Addr4 ''abcd''\<rparr>)"
  have ext: "filepath_Ext ''hook.iso'' = ''.iso''" by code_simp
  have be: "GetByMac iso_sample_backend ?hw = Ret (Inr (?d, Some new_Netboot))" by (simp add: iso_sample_backend_def)
  have up: "IsPrint (upgradeType (pe_lib sample_env) (pr_Header sample_iso_request))"
    by (simp add: sample_env_def sample_proxy_lib_def sample_iso_request_def upgradeType_def Header_values_def)
  have src: "plain_source (pe_lib sample_env) sample_source [''ISO''] []"
    by (simp add: plain_source_def sample_source_def sample_env_def sample_proxy_lib_def)
  have "\<exists>sent c es. proxy_ServeHTTP sample_env (iso_proxy (\<lambda>e. False) (\<lambda>q. Inr sample_source) ?h empty_URL)
        \<lparr>c_Header = Map.empty, c_calls = []\<rparr> sample_iso_request = Ret (Some sent, Finished c) \<and>
      Path (iso_URL sent) = Path empty_URL \<and> Host (iso_URL sent) = Host empty_URL \<and>
      c_calls c = c_calls (early_responses sample_env \<lparr>c_Header = Map.empty, c_calls = []\<rparr>) @ WroteHeader (iso_StatusCode sample_source)
        (copyHeader (pe_lib sample_env) (c_Header (early_responses sample_env \<lparr>c_Header = Map.empty, c_calls = []\<rparr>))
          (removeHopByHopHeaders ((iso_Header sample_source)(''X-Global-Logging'' \<mapsto> [''false''])))) # es \<and>
      list_all body_event es \<and>
      body_of es = List.concat (map (patch_chunk ?h
        (Some (constructPatch ?h (iso_consoles (Facility new_Netboot)) (HardwareAddr_String ?hw) ?d))) ([''ISO''] @ [[]]))"
    by (rule iso_serves[where be = iso_sample_backend and p = "''/iso''" and fname = "''hook.iso''", OF _ be _ _ _ _ ext _ _ up _ src])
      (simp_all add: sample_iso_request_def sample_env_def empty_URL_def)
  then show ?thesis by (auto simp: sample_source_def early_responses_def sample_env_def)
qed

section \<open>Switching protocols\<close>

lemma lower_print: "lower a = lower b \<Longrightarrow> 32 \<le> (of_char a :: nat) \<and> (of_char a :: nat) \<le> 126 \<Longrightarrow>
    32 \<le> (of_char b :: nat) \<and> (of_char b :: nat) \<le> 126"
proof -
  assume eq: "lower a = lower b" and a: "32 \<le> (of_char a :: nat) \<and> (of_char a :: nat) \<le> 126"
  have low: "(of_char (lower c) :: nat) = (if 65 \<le> (of_char c :: nat) \<and> (of_char c :: nat) \<le> 90 then of_char c + 32 else of_char c)" for c
    by (simp add: lower_def Let_def of_char_of take_bit_nat_eq_self)
  from eq have "(of_char (lower a) :: nat) = of_char (lower b)" by simp
  with a show ?thesis unfolding low by (auto split: if_splits)
qed

lemma EqualFold_print: "ascii_EqualFold s t \<Longrightarrow> IsPrint s \<Longrightarrow> IsPrint t"
proof -
  assume "ascii_EqualFold s t" and s: "IsPrint s"
  then have eq: "map lower s = map lower t" by (simp add: ascii_EqualFold_spec)
  show "IsPrint t"
    unfolding IsPrint_iff
  proof
    fix c
    assume "c \<in> set t"
    then have "lower c \<in> set (map lower s)" unfolding eq by simp
    then obtain a where "a \<in> set s" "lower a = lower c" by auto
    with s lower_print[of a c] show "32 \<le> (of_char c :: nat) \<and> (of_char c :: nat) \<le> 126" by (auto simp: IsPrint_iff)
  qed
qed

text \<open>
  C35. Switching protocols, with the default error handler and a request whose own upgrade type the proxy has accepted: what the
  client is sent on every branch. The connection is taken over only when the source switches to
  the protocol that was asked for, up to the case of letters, and gave a connection; every failure is
  answered with a 502, and exactly once, except for a source that names a protocol that is not printable
  ASCII: no return follows that error, so the mismatch after it answers a second time.
\<close>

theorem upgrade_outcome:
  assumes "ErrorHandler p = None" "IsPrint (upgradeType (pe_lib env) (pr_Header req))"
  shows "c_calls (handleUpgradeResponse env p rw req res) = c_calls rw @
     (let refused = WroteHeader 502 (c_Header rw);
          hdr = copyHeader (pe_lib env) (c_Header rw) (iso_Header res);
          resUpType = upgradeType (pe_lib env) (iso_Header res)
      in if \<not> IsPrint resUpType then [refused, refused]
         else if map lower (upgradeType (pe_lib env) (pr_Header req)) \<noteq> map lower resUpType \<or> \<not> iso_Conn res then [refused]
         else HijackCall #
           (if pe_Hijack env \<noteq> None then [refused]
            else if pe_writeResponse env \<noteq> None then [WroteHeader 502 hdr]
            else WroteResponse (iso_StatusCode res) hdr #
              (if pe_flushResponse env \<noteq> None then [WroteHeader 502 hdr] else [Piped])))"
proof -
  let ?r = "upgradeType (pe_lib env) (iso_Header res)"
  have fails: "getErrorHandler p = defaultErrorHandler" using assms(1) by (simp add: getErrorHandler_def)
  have handler: "c_calls (defaultErrorHandler c q e) = c_calls c @ [WroteHeader 502 (c_Header c)]"
    "c_Header (defaultErrorHandler c q e) = c_Header c" for c q e
    by (simp_all add: defaultErrorHandler_def client_WriteHeader_def)
  have "\<not> ascii_EqualFold (upgradeType (pe_lib env) (pr_Header req)) ?r" if "\<not> IsPrint ?r"
    using that assms(2) EqualFold_print by blast
  then show ?thesis
    by (cases "IsPrint ?r"; cases "iso_Conn res"; cases "pe_Hijack env"; cases "pe_writeResponse env"; cases "pe_flushResponse env")
      (simp_all add: handleUpgradeResponse_def fails handler Let_def ascii_EqualFold_spec)
qed

text \<open>A source that switches to a protocol with an unprintable name.\<close>

theorem upgrade_outcome_witness:
  "c_calls (handleUpgradeResponse sample_env (NewSingleHostReverseProxy empty_URL) \<lparr>c_Header = Map.empty, c_calls = []\<rparr> sample_iso_request
     (sample_source\<lparr>iso_Header := [''Connection'' \<mapsto> [''Upgrade''], ''Upgrade'' \<mapsto> [[CHR 0x07]]]\<rparr>)) =
   [WroteHeader 502 Map.empty, WroteHeader 502 Map.empty]"
proof -
  have "ErrorHandler (NewSingleHostReverseProxy empty_URL) = None" by (simp add: NewSingleHostReverseProxy_def)
  moreover have "IsPrint (upgradeType (pe_lib sample_env) (pr_Header sample_iso_request))"
    by (simp add: sample_env_def sample_proxy_lib_def sample_iso_request_def upgradeType_def Header_values_def)
  moreover have "upgradeType (pe_lib sample_env) [''Connection'' \<mapsto> [''Upgrade''], ''Upgrade'' \<mapsto> [[CHR 0x07]]] = [CHR 0x07]"
    by (simp add: sample_env_def sample_proxy_lib_def upgradeType_def Header_values_def Header_Get_def)
  moreover have "\<not> IsPrint [CHR 0x07]" by simp
  ultimately show ?thesis
    using upgrade_outcome[of "NewSingleHostReverseProxy empty_URL" sample_env sample_iso_request] by (simp add: Let_def)
qed

subsection \<open>Behind the logging middleware\<close>

text \<open>
  In Smee the response writer of the proxy is the one of the logging middleware, which can neither be flushed nor taken over. So
  the flushes of a body copy have no effect on the client, and every switch of protocols ends with a 502.
\<close>

fun client_run :: "client_event list \<Rightarrow> handler_run" where
  "client_run [] = DoReturn Map.empty"
| "client_run (Wrote b # es) = DoWrite b (\<lambda>_. client_run es)"
| "client_run (WroteHeader code h # es) = DoWriteHeader code (client_run es)"
| "client_run (FlushCall # es) = DoFlush (\<lambda>_. client_run es)"
| "client_run (HijackCall # es) = DoHijack (\<lambda>_. client_run es)"
| "client_run (WroteResponse code h # es) = client_run es"
| "client_run (Piped # es) = client_run es"

lemma flushes_lost:
  "fst (run_handler (middleware_writer wr) (client_run es) s) =
   fst (run_handler (middleware_writer wr) (client_run (filter (\<lambda>e. e \<noteq> FlushCall) es)) s)"
proof (induction es arbitrary: s)
  case (Cons e es)
  have "w_Flush (middleware_writer wr) s = (s, Some errNotSupported)" "w_Hijack (middleware_writer wr) s = (s, Some errNotSupported)"
    by (simp_all add: middleware_writer_def)
  with Cons show ?case by (cases e) (simp_all add: case_prod_beta)
qed simp

lemma upgrade_behind_logging:
  assumes "ErrorHandler p = None" "pe_Hijack env = Some errNotSupported"
  shows "\<exists>es. c_calls (handleUpgradeResponse env p rw req res) = c_calls rw @ es @ [WroteHeader 502 (c_Header rw)] \<and>
     set es \<subseteq> {HijackCall, WroteHeader 502 (c_Header rw)}"
proof -
  have fails: "getErrorHandler p = defaultErrorHandler" using assms(1) by (simp add: getErrorHandler_def)
  show ?thesis
    by (auto simp: handleUpgradeResponse_def fails assms(2) defaultErrorHandler_def client_WriteHeader_def Let_def)
qed

end
