(* ===== verification/Switch_Protocol.thy ===== *)
theory Switch_Protocol
  imports Smee_Prelude "HOL-Library.Sublist"
begin

text \<open>
  The end of \<open>handleUpgradeResponse\<close> in \<open>internal/iso/internal/reverseproxy.go\<close>, after a switch of protocols: two goroutines,
  one for each direction, copy between the connections and report how they ended on a channel of capacity
  one; the handler waits for the first report, returns, and its deferred calls have both connections closed. This is
  what the event \<open>Piped\<close> of \<open>Reverse_Proxy\<close> stands for. All interleavings are covered, with finite streams.
\<close>

section \<open>Definitions\<close>

text \<open>One \<open>io.Copy\<close>: what its source will still give, what it has read and not yet written, and what has arrived.\<close>

datatype stage = CopyingOn | Ending "go_error option" | Ended "go_error option"

record direction =
  unread :: bytes
  held :: bytes
  carried :: bytes
  stage :: stage

text \<open>
  Reads succeed only while the source of the copy is open, writes while its destination is; a failing write may have
  written a part. On a closed connection the next call fails. The flags say which of the two is closed.
\<close>

inductive copy_step :: "bool \<Rightarrow> bool \<Rightarrow> direction \<Rightarrow> direction \<Rightarrow> bool" where
  copy_read: "stage d = CopyingOn \<Longrightarrow> held d = [] \<Longrightarrow> unread d = b @ rest \<Longrightarrow> b \<noteq> [] \<Longrightarrow>
    copy_step False dst d (d\<lparr>unread := rest, held := b\<rparr>)"
| copy_write: "stage d = CopyingOn \<Longrightarrow> held d \<noteq> [] \<Longrightarrow>
    copy_step src False d (d\<lparr>held := [], carried := carried d @ held d\<rparr>)"
| copy_write_fails: "stage d = CopyingOn \<Longrightarrow> held d \<noteq> [] \<Longrightarrow> dst \<longrightarrow> n = 0 \<Longrightarrow>
    copy_step src dst d (d\<lparr>held := [], carried := carried d @ take n (held d), stage := Ending (Some e)\<rparr>)"
| copy_eof: "stage d = CopyingOn \<Longrightarrow> held d = [] \<Longrightarrow> unread d = [] \<Longrightarrow>
    copy_step False dst d (d\<lparr>stage := Ending None\<rparr>)"
| copy_read_fails: "stage d = CopyingOn \<Longrightarrow> held d = [] \<Longrightarrow>
    copy_step src dst d (d\<lparr>stage := Ending (Some e)\<rparr>)"

record switched =
  to_backend :: direction
  from_backend :: direction
  errc :: "go_error option list"
  returned :: bool            \<comment> \<open>the handler, which closes the connection of the client\<close>
  backend_closed :: bool
  cancels :: bool             \<comment> \<open>the request is cancelled at some time\<close>

definition new_direction :: "bytes \<Rightarrow> direction" where
  "new_direction b = \<lparr>unread = b, held = [], carried = [], stage = CopyingOn\<rparr>"

definition switch_init :: "bytes \<Rightarrow> bytes \<Rightarrow> bool \<Rightarrow> switched" where
  "switch_init x y c = \<lparr>to_backend = new_direction x, from_backend = new_direction y, errc = [], returned = False,
     backend_closed = False, cancels = c\<rparr>"

text \<open>
  Sending blocks while the channel is full. The deferred calls of the handler close the connection of the client and
  the channel \<open>backConnCloseCh\<close>; a third goroutine waits for that channel or the end of the request, and
  closes the other connection.
\<close>

definition errc_cap :: nat where "errc_cap = 1"

inductive switch_step :: "switched \<Rightarrow> switched \<Rightarrow> bool" where
  copyToBackend: "copy_step (returned s) (backend_closed s) (to_backend s) d \<Longrightarrow> switch_step s (s\<lparr>to_backend := d\<rparr>)"
| copyFromBackend: "copy_step (backend_closed s) (returned s) (from_backend s) d \<Longrightarrow> switch_step s (s\<lparr>from_backend := d\<rparr>)"
| to_backend_sends: "stage (to_backend s) = Ending e \<Longrightarrow> length (errc s) < errc_cap \<Longrightarrow>
    switch_step s (s\<lparr>errc := errc s @ [e], to_backend := (to_backend s)\<lparr>stage := Ended e\<rparr>\<rparr>)"
| from_backend_sends: "stage (from_backend s) = Ending e \<Longrightarrow> length (errc s) < errc_cap \<Longrightarrow>
    switch_step s (s\<lparr>errc := errc s @ [e], from_backend := (from_backend s)\<lparr>stage := Ended e\<rparr>\<rparr>)"
| handler_returns: "errc s = e # es \<Longrightarrow> \<not> returned s \<Longrightarrow> switch_step s (s\<lparr>errc := es, returned := True\<rparr>)"
| backend_closes: "returned s \<or> cancels s \<Longrightarrow> \<not> backend_closed s \<Longrightarrow> switch_step s (s\<lparr>backend_closed := True\<rparr>)"

section \<open>What every step keeps\<close>

text \<open>Of a direction with the stream \<open>x\<close>: what arrived is a prefix, and all of it after a clean end.\<close>

definition direction_inv :: "bytes \<Rightarrow> direction \<Rightarrow> bool" where
  "direction_inv x d \<longleftrightarrow> prefix (carried d) x \<and>
     (case stage d of CopyingOn \<Rightarrow> x = carried d @ held d @ unread d
      | Ending e \<Rightarrow> e = None \<longrightarrow> carried d = x
      | Ended e \<Rightarrow> e = None \<longrightarrow> carried d = x)"

definition has_ended :: "direction \<Rightarrow> bool" where
  "has_ended d \<longleftrightarrow> (\<exists>e. stage d = Ended e)"

definition ended_count :: "switched \<Rightarrow> nat" where
  "ended_count s = of_bool (has_ended (to_backend s)) + of_bool (has_ended (from_backend s))"

text \<open>Each report is in the channel or has been taken by the handler.\<close>

definition switch_inv :: "bytes \<Rightarrow> bytes \<Rightarrow> switched \<Rightarrow> bool" where
  "switch_inv x y s \<longleftrightarrow> direction_inv x (to_backend s) \<and> direction_inv y (from_backend s) \<and>
     length (errc s) \<le> errc_cap \<and> length (errc s) + of_bool (returned s) = ended_count s"

lemma copy_step_inv: "copy_step a b d d' \<Longrightarrow> direction_inv x d \<Longrightarrow> direction_inv x d'"
proof (induction rule: copy_step.induct)
  case (copy_write_fails d dst n src e)
  then have "x = (carried d @ take n (held d)) @ drop n (held d) @ unread d" by (simp add: direction_inv_def)
  then show ?case by (auto simp: direction_inv_def prefix_def)
qed (auto simp: direction_inv_def prefix_def)

lemma copy_step_running: "copy_step a b d d' \<Longrightarrow> stage d = CopyingOn \<and> \<not> has_ended d'"
  by (induction rule: copy_step.induct) (auto simp: has_ended_def)

lemma running_not_ended [simp]: "stage d = CopyingOn \<Longrightarrow> \<not> has_ended d" "stage d = Ending e \<Longrightarrow> \<not> has_ended d"
  "has_ended (d\<lparr>stage := Ended e\<rparr>)"
  by (simp_all add: has_ended_def)

lemma switch_step_inv: "switch_step s t \<Longrightarrow> switch_inv x y s \<Longrightarrow> switch_inv x y t"
proof (induction rule: switch_step.induct)
  case (copyToBackend s d)
  with copy_step_inv[OF this(1)] copy_step_running[OF this(1)] show ?case by (simp add: switch_inv_def ended_count_def)
next
  case (copyFromBackend s d)
  with copy_step_inv[OF this(1)] copy_step_running[OF this(1)] show ?case by (simp add: switch_inv_def ended_count_def)
qed (auto simp: switch_inv_def ended_count_def direction_inv_def errc_cap_def)

interpretation sw: invariant_system "\<lambda>s. s = switch_init x y c" switch_step "switch_inv x y" for x y c
proof
  show "switch_inv x y s" if "s = switch_init x y c" for s
    using that by (simp add: switch_init_def new_direction_def switch_inv_def direction_inv_def ended_count_def has_ended_def)
  show "switch_inv x y t" if "switch_inv x y s" "switch_step s t" for s t
    using that switch_step_inv by blast
qed

section \<open>Every session ends\<close>

text \<open>What is left to do.\<close>

definition direction_left :: "direction \<Rightarrow> nat" where
  "direction_left d = 2 * length (unread d) + of_bool (held d \<noteq> []) +
     (case stage d of CopyingOn \<Rightarrow> 2 | Ending e \<Rightarrow> 1 | Ended e \<Rightarrow> 0)"

definition switch_left :: "switched \<Rightarrow> nat" where
  "switch_left s = direction_left (to_backend s) + direction_left (from_backend s) + of_bool (\<not> returned s) +
     of_bool (\<not> backend_closed s)"

lemma copy_step_left: "copy_step a b d d' \<Longrightarrow> direction_left d' < direction_left d"
proof (induction rule: copy_step.induct)
  case (copy_read d b rest dst)
  then show ?case by (cases b) (auto simp: direction_left_def)
qed (auto simp: direction_left_def)

lemma switch_step_left: "switch_step s t \<Longrightarrow> switch_left t < switch_left s"
  by (induction rule: switch_step.induct) (auto simp: switch_left_def direction_left_def dest: copy_step_left)

lemma switch_steps_left: "(switch_step ^^ n) s t \<Longrightarrow> n + switch_left t \<le> switch_left s"
proof (induction n arbitrary: t)
  case (Suc n)
  then obtain u where "(switch_step ^^ n) s u" "switch_step u t" by auto
  with Suc.IH switch_step_left show ?case by fastforce
qed simp

text \<open>A direction that copies can go on, whichever connections are closed.\<close>

lemma copy_step_total: "stage d = CopyingOn \<Longrightarrow> \<exists>d'. copy_step a b d d'"
  using copy_read_fails[of d] copy_write_fails[of d b 0] by blast

text \<open>Without a failure too, as long as the connections are open.\<close>

lemma copy_step_succeeds:
  assumes "stage d = CopyingOn"
  shows "\<exists>d'. copy_step False False d d' \<and> (\<forall>e. stage d' \<noteq> Ending (Some e))"
proof -
  consider "held d \<noteq> []" | "held d = []" "unread d = []" | "held d = []" "unread d \<noteq> []" by blast
  then show ?thesis
  proof cases
    case 1
    then show ?thesis using copy_write[of d False] assms by force
  next
    case 2
    then show ?thesis using copy_eof[of d False] assms by force
  next
    case 3
    then show ?thesis using copy_read[of d "unread d" "[]" False] assms by force
  qed
qed

lemma stuck_is_over:
  assumes "switch_inv x y s" "\<And>t. \<not> switch_step s t"
  shows "returned s \<and> backend_closed s \<and> has_ended (to_backend s) \<and> has_ended (from_backend s)"
proof -
  have closed: "returned s \<Longrightarrow> backend_closed s" using assms(2) backend_closes by blast
  have running: "stage (to_backend s) \<noteq> CopyingOn" "stage (from_backend s) \<noteq> CopyingOn"
    using assms(2) copy_step_total copyToBackend copyFromBackend by metis+
  have empty: "errc s = [] \<or> returned s" using assms(2) handler_returns by (cases "errc s") auto
  have sent: "(\<exists>e. stage (to_backend s) = Ending e) \<or> (\<exists>e. stage (from_backend s) = Ending e) \<Longrightarrow> errc s \<noteq> []"
    using assms(2) to_backend_sends[of s] from_backend_sends[of s] by (auto simp: errc_cap_def)
  have over: "has_ended d" if "stage d \<noteq> CopyingOn" "\<nexists>e. stage d = Ending e" for d
    using that by (cases "stage d") (auto simp: has_ended_def)
  show ?thesis
  proof (cases "errc s = []")
    case True
    with sent over running have "has_ended (to_backend s)" "has_ended (from_backend s)" by blast+
    with True assms(1) show ?thesis using closed by (cases "returned s") (simp_all add: switch_inv_def ended_count_def)
  next
    case False
    with empty have "returned s" by simp
    moreover have "length (errc s) = 1" using False assms(1) by (cases "errc s") (auto simp: switch_inv_def errc_cap_def)
    ultimately have "ended_count s = 2" using assms(1) by (simp add: switch_inv_def)
    then show ?thesis using \<open>returned s\<close> closed by (auto simp: ended_count_def of_bool_def split: if_splits)
  qed
qed

text \<open>
  C36. A session after a switch of protocols, under every interleaving of its two copies, the handler and the goroutine that
  closes the source, whether or not the request is cancelled: it takes at most two steps for each byte and six
  more; what has arrived on either side is a prefix of what the other side sent, and all of it where a copy
  ended without an error; the handler has returned only if one direction is at its end; and a session that
  cannot go on is over: the handler has returned, both connections are closed and no goroutine is left behind.
\<close>

theorem switch_protocol_ends:
  assumes "(switch_step ^^ n) (switch_init x y c) s"
  shows "n \<le> 2 * (length x + length y) + 6 \<and>
     prefix (carried (to_backend s)) x \<and> prefix (carried (from_backend s)) y \<and>
     (stage (to_backend s) = Ended None \<longrightarrow> carried (to_backend s) = x) \<and>
     (stage (from_backend s) = Ended None \<longrightarrow> carried (from_backend s) = y) \<and>
     (returned s \<longrightarrow> has_ended (to_backend s) \<or> has_ended (from_backend s)) \<and>
     ((\<forall>t. \<not> switch_step s t) \<longrightarrow>
        returned s \<and> backend_closed s \<and> has_ended (to_backend s) \<and> has_ended (from_backend s))"
proof -
  have "switch_left (switch_init x y c) = 2 * (length x + length y) + 6"
    by (simp add: switch_left_def direction_left_def switch_init_def new_direction_def)
  then have bound: "n \<le> 2 * (length x + length y) + 6" using switch_steps_left[OF assms] by simp
  have inv: "switch_inv x y s" using sw.reachable_inv[OF refl] relpowp_imp_rtranclp[OF assms] by blast
  then have "returned s \<longrightarrow> has_ended (to_backend s) \<or> has_ended (from_backend s)"
    by (auto simp: switch_inv_def ended_count_def of_bool_def split: if_splits)
  with bound inv stuck_is_over[OF inv] show ?thesis by (auto simp: switch_inv_def direction_inv_def)
qed

text \<open>The client ends its side at once; the handler returns, and what the source still had to say is lost.\<close>

theorem switch_protocol_ends_witness:
  "\<exists>s. (switch_step ^^ 3) (switch_init [] ''late'' False) s \<and> returned s \<and> has_ended (to_backend s) \<and>
     prefix (carried (from_backend s)) ''late'' \<and> carried (from_backend s) \<noteq> ''late''"
proof -
  let ?d = "\<lambda>st. \<lparr>unread = [], held = [], carried = [], stage = st\<rparr>"
  let ?s = "\<lambda>st c r. \<lparr>to_backend = ?d st, from_backend = new_direction ''late'', errc = c, returned = r,
     backend_closed = False, cancels = False\<rparr>"
  have "switch_step (?s CopyingOn [] False) (?s (Ending None) [] False)"
    using copyToBackend[of "?s CopyingOn [] False" "?d (Ending None)"] copy_eof[of "?d CopyingOn" False] by simp
  moreover have "switch_step (?s (Ending None) [] False) (?s (Ended None) [None] False)"
    using to_backend_sends[of "?s (Ending None) [] False" None] by (simp add: errc_cap_def)
  moreover have "switch_step (?s (Ended None) [None] False) (?s (Ended None) [] True)"
    using handler_returns[of "?s (Ended None) [None] False" None "[]"] by simp
  moreover have "switch_init [] ''late'' False = ?s CopyingOn [] False" by (simp add: switch_init_def new_direction_def)
  ultimately have "(switch_step ^^ 3) (switch_init [] ''late'' False) (?s (Ended None) [] True)"
    by (auto simp: numeral_3_eq_3)
  from this switch_protocol_ends[OF this] show ?thesis
    by (intro exI[of _ "?s (Ended None) [] True"]) (simp add: new_direction_def has_ended_def)
qed

end
