(* ===== verification/Smee_Config.thy ===== *)
theory Smee_Config
  imports HTTP_Server
begin

text \<open>
  The configuration of the program: the records of \<open>cmd/smee/main.go\<close> and \<open>backend.go\<close>, the flags of
  \<open>flag.go\<close> with their defaults, and the detection of the address the defaults use. Reading the command
  line and the environment is left to the libraries; the usage text is in \<open>CLI_Usage\<close>.
\<close>

section \<open>The records\<close>

record syslogConfig =
  sys_enabled :: bool
  sys_bindAddr :: string
  sys_bindPort :: int

record tftp =
  tftp_bindAddr :: string
  tftp_bindPort :: int
  tftp_blockSize :: int
  tftp_enabled :: bool
  tftp_ipxeScriptPatch :: string
  tftp_timeout :: int  \<comment> \<open>in nanoseconds\<close>

record ipxeHTTPBinary =
  bin_enabled :: bool

record ipxeHTTPScript =
  http_enabled :: bool
  http_bindAddr :: string
  http_bindPort :: int
  http_extraKernelArgs :: string
  http_hookURL :: string
  http_tinkServer :: string
  http_tinkServerUseTLS :: bool
  http_tinkServerInsecureTLS :: bool
  http_trustedProxies :: string
  http_retries :: int
  http_retryDelay :: int

definition dhcpModeProxy :: string where "dhcpModeProxy = ''proxy''"
definition dhcpModeReservation :: string where "dhcpModeReservation = ''reservation''"
definition dhcpModeAutoProxy :: string where "dhcpModeAutoProxy = ''auto-proxy''"

record urlBuilder =
  ub_Scheme :: string
  ub_Host :: string
  ub_Port :: int
  ub_Path :: string

record httpIpxeScript = urlBuilder +
  injectMacAddress :: bool

record dhcpConfig =
  dhcp_enabled :: bool
  dhcp_mode :: string
  dhcp_bindAddr :: string
  dhcp_bindInterface :: string
  dhcp_ipForPacket :: string
  dhcp_syslogIP :: string
  dhcp_tftpIP :: string
  dhcp_tftpPort :: int
  dhcp_httpIpxeBinaryURL :: urlBuilder
  dhcp_httpIpxeScript :: httpIpxeScript
  dhcp_httpIpxeScriptURL :: string

record Kube =
  kube_ConfigFilePath :: string
  kube_APIURL :: string
  kube_Namespace :: string
  kube_Enabled :: bool

record File =
  file_FilePath :: string
  file_Enabled :: bool

record Noop =
  noop_Enabled :: bool

record dhcpBackends =
  be_file :: File
  be_kubernetes :: Kube
  be_Noop :: Noop

record otelConfig =
  otel_endpoint :: string
  otel_insecure :: bool

record isoConfig =
  isoc_enabled :: bool
  isoc_url :: string
  isoc_magicString :: string
  isoc_staticIPAMEnabled :: bool

record config =
  cfg_syslog :: syslogConfig
  cfg_tftp :: tftp
  cfg_ipxeHTTPBinary :: ipxeHTTPBinary
  cfg_ipxeHTTPScript :: ipxeHTTPScript
  cfg_dhcp :: dhcpConfig
  cfg_iso :: isoConfig
  cfg_logLevel :: string
  cfg_backends :: dhcpBackends
  cfg_otel :: otelConfig

text \<open>\<open>&config{}\<close>.\<close>

definition zero_urlBuilder :: urlBuilder where
  "zero_urlBuilder = \<lparr>ub_Scheme = [], ub_Host = [], ub_Port = 0, ub_Path = []\<rparr>"

definition zero_config :: config where
  "zero_config =
     \<lparr>cfg_syslog = \<lparr>sys_enabled = False, sys_bindAddr = [], sys_bindPort = 0\<rparr>,
      cfg_tftp = \<lparr>tftp_bindAddr = [], tftp_bindPort = 0, tftp_blockSize = 0, tftp_enabled = False,
        tftp_ipxeScriptPatch = [], tftp_timeout = 0\<rparr>,
      cfg_ipxeHTTPBinary = \<lparr>bin_enabled = False\<rparr>,
      cfg_ipxeHTTPScript = \<lparr>http_enabled = False, http_bindAddr = [], http_bindPort = 0, http_extraKernelArgs = [],
        http_hookURL = [], http_tinkServer = [], http_tinkServerUseTLS = False, http_tinkServerInsecureTLS = False,
        http_trustedProxies = [], http_retries = 0, http_retryDelay = 0\<rparr>,
      cfg_dhcp = \<lparr>dhcp_enabled = False, dhcp_mode = [], dhcp_bindAddr = [], dhcp_bindInterface = [], dhcp_ipForPacket = [],
        dhcp_syslogIP = [], dhcp_tftpIP = [], dhcp_tftpPort = 0, dhcp_httpIpxeBinaryURL = zero_urlBuilder,
        dhcp_httpIpxeScript = \<lparr>ub_Scheme = [], ub_Host = [], ub_Port = 0, ub_Path = [], injectMacAddress = False\<rparr>,
        dhcp_httpIpxeScriptURL = []\<rparr>,
      cfg_iso = \<lparr>isoc_enabled = False, isoc_url = [], isoc_magicString = [], isoc_staticIPAMEnabled = False\<rparr>,
      cfg_logLevel = [],
      cfg_backends = \<lparr>be_file = \<lparr>file_FilePath = [], file_Enabled = False\<rparr>,
        be_kubernetes = \<lparr>kube_ConfigFilePath = [], kube_APIURL = [], kube_Namespace = [], kube_Enabled = False\<rparr>,
        be_Noop = \<lparr>noop_Enabled = False\<rparr>\<rparr>,
      cfg_otel = \<lparr>otel_endpoint = [], otel_insecure = False\<rparr>\<rparr>"

section \<open>The flags\<close>

text \<open>
  A flag: its name, its default, its usage text and the field it sets. Registering a flag sets the field to the
  default, and panics for a name that is already taken.
\<close>

datatype flag =
    BoolVar string bool string "bool \<Rightarrow> config \<Rightarrow> config"
  | StringVar string string string "string \<Rightarrow> config \<Rightarrow> config"
  | IntVar string int string "int \<Rightarrow> config \<Rightarrow> config"
  | DurationVar string int string "int \<Rightarrow> config \<Rightarrow> config"

fun flag_name :: "flag \<Rightarrow> string" where
  "flag_name (BoolVar n d w u) = n"
| "flag_name (StringVar n d w u) = n"
| "flag_name (IntVar n d w u) = n"
| "flag_name (DurationVar n d w u) = n"

fun flag_default :: "flag \<Rightarrow> config \<Rightarrow> config" where
  "flag_default (BoolVar n d w u) = u d"
| "flag_default (StringVar n d w u) = u d"
| "flag_default (IntVar n d w u) = u d"
| "flag_default (DurationVar n d w u) = u d"

fun register_flags :: "flag list \<Rightarrow> config \<times> flag list \<Rightarrow> (config \<times> flag list) go" where
  "register_flags [] s = Ret s"
| "register_flags (f # fs) (c, regd) =
     (if flag_name f \<in> set (map flag_name regd) then Panic (''flag redefined: '' @ flag_name f)
      else register_flags fs (flag_default f c, regd @ [f]))"

definition syslogFlags :: "string \<Rightarrow> flag list" where
  "syslogFlags ip =
     [BoolVar ''syslog-enabled'' True
        ''[syslog] enable Syslog server(receiver)'' (\<lambda>v c. c\<lparr>cfg_syslog := (cfg_syslog c)\<lparr>sys_enabled := v\<rparr>\<rparr>),
      StringVar ''syslog-addr'' ip
        ''[syslog] local IP to listen on for Syslog messages'' (\<lambda>v c. c\<lparr>cfg_syslog := (cfg_syslog c)\<lparr>sys_bindAddr := v\<rparr>\<rparr>),
      IntVar ''syslog-port'' 514
        ''[syslog] local port to listen on for Syslog messages'' (\<lambda>v c. c\<lparr>cfg_syslog := (cfg_syslog c)\<lparr>sys_bindPort := v\<rparr>\<rparr>)]"

definition tftpFlags :: "string \<Rightarrow> flag list" where
  "tftpFlags ip =
     [BoolVar ''tftp-enabled'' True
        ''[tftp] enable iPXE TFTP binary server)'' (\<lambda>v c. c\<lparr>cfg_tftp := (cfg_tftp c)\<lparr>tftp_enabled := v\<rparr>\<rparr>),
      StringVar ''tftp-addr'' ip
        ''[tftp] local IP to listen on for iPXE TFTP binary requests'' (\<lambda>v c. c\<lparr>cfg_tftp := (cfg_tftp c)\<lparr>tftp_bindAddr := v\<rparr>\<rparr>),
      IntVar ''tftp-port'' 69
        ''[tftp] local port to listen on for iPXE TFTP binary requests'' (\<lambda>v c. c\<lparr>cfg_tftp := (cfg_tftp c)\<lparr>tftp_bindPort := v\<rparr>\<rparr>),
      DurationVar ''tftp-timeout'' 5000000000
        ''[tftp] iPXE TFTP binary server requests timeout'' (\<lambda>v c. c\<lparr>cfg_tftp := (cfg_tftp c)\<lparr>tftp_timeout := v\<rparr>\<rparr>),
      StringVar ''ipxe-script-patch'' []
        ''[tftp/http] iPXE script fragment to patch into served iPXE binaries served via TFTP or HTTP'' (\<lambda>v c. c\<lparr>cfg_tftp := (cfg_tftp c)\<lparr>tftp_ipxeScriptPatch := v\<rparr>\<rparr>),
      IntVar ''tftp-block-size'' 512
        ''[tftp] TFTP block size a value between 512 (the default block size for TFTP) and 65456 (the max size a UDP packet payload can be)'' (\<lambda>v c. c\<lparr>cfg_tftp := (cfg_tftp c)\<lparr>tftp_blockSize := v\<rparr>\<rparr>)]"

definition ipxeHTTPBinaryFlags :: "flag list" where
  "ipxeHTTPBinaryFlags =
     [BoolVar ''http-ipxe-binary-enabled'' True
        ''[http] enable iPXE HTTP binary server'' (\<lambda>v c. c\<lparr>cfg_ipxeHTTPBinary := (cfg_ipxeHTTPBinary c)\<lparr>bin_enabled := v\<rparr>\<rparr>)]"

definition ipxeHTTPScriptFlags :: "string \<Rightarrow> flag list" where
  "ipxeHTTPScriptFlags ip =
     [BoolVar ''http-ipxe-script-enabled'' True
        ''[http] enable iPXE HTTP script server'' (\<lambda>v c. c\<lparr>cfg_ipxeHTTPScript := (cfg_ipxeHTTPScript c)\<lparr>http_enabled := v\<rparr>\<rparr>),
      StringVar ''http-addr'' ip
        ''[http] local IP to listen on for iPXE HTTP script requests'' (\<lambda>v c. c\<lparr>cfg_ipxeHTTPScript := (cfg_ipxeHTTPScript c)\<lparr>http_bindAddr := v\<rparr>\<rparr>),
      IntVar ''http-port'' 8080
        ''[http] local port to listen on for iPXE HTTP script requests'' (\<lambda>v c. c\<lparr>cfg_ipxeHTTPScript := (cfg_ipxeHTTPScript c)\<lparr>http_bindPort := v\<rparr>\<rparr>),
      StringVar ''extra-kernel-args'' []
        ''[http] extra set of kernel args (k=v k=v) that are appended to the kernel cmdline iPXE script'' (\<lambda>v c. c\<lparr>cfg_ipxeHTTPScript := (cfg_ipxeHTTPScript c)\<lparr>http_extraKernelArgs := v\<rparr>\<rparr>),
      StringVar ''trusted-proxies'' []
        ''[http] comma separated list of trusted proxies in CIDR notation'' (\<lambda>v c. c\<lparr>cfg_ipxeHTTPScript := (cfg_ipxeHTTPScript c)\<lparr>http_trustedProxies := v\<rparr>\<rparr>),
      StringVar ''osie-url'' []
        ''[http] URL where OSIE (HookOS) images are located'' (\<lambda>v c. c\<lparr>cfg_ipxeHTTPScript := (cfg_ipxeHTTPScript c)\<lparr>http_hookURL := v\<rparr>\<rparr>),
      StringVar ''tink-server'' []
        ''[http] IP:Port for the Tink server'' (\<lambda>v c. c\<lparr>cfg_ipxeHTTPScript := (cfg_ipxeHTTPScript c)\<lparr>http_tinkServer := v\<rparr>\<rparr>),
      BoolVar ''tink-server-tls'' False
        ''[http] use TLS for Tink server'' (\<lambda>v c. c\<lparr>cfg_ipxeHTTPScript := (cfg_ipxeHTTPScript c)\<lparr>http_tinkServerUseTLS := v\<rparr>\<rparr>),
      BoolVar ''tink-server-insecure-tls'' False
        ''[http] use insecure TLS for Tink server'' (\<lambda>v c. c\<lparr>cfg_ipxeHTTPScript := (cfg_ipxeHTTPScript c)\<lparr>http_tinkServerInsecureTLS := v\<rparr>\<rparr>),
      IntVar ''ipxe-script-retries'' 0
        ''[http] number of retries to attempt when fetching kernel and initrd files in the iPXE script'' (\<lambda>v c. c\<lparr>cfg_ipxeHTTPScript := (cfg_ipxeHTTPScript c)\<lparr>http_retries := v\<rparr>\<rparr>),
      IntVar ''ipxe-script-retry-delay'' 2
        ''[http] delay (in seconds) between retries when fetching kernel and initrd files in the iPXE script'' (\<lambda>v c. c\<lparr>cfg_ipxeHTTPScript := (cfg_ipxeHTTPScript c)\<lparr>http_retryDelay := v\<rparr>\<rparr>)]"

definition dhcpFlags :: "string \<Rightarrow> flag list" where
  "dhcpFlags ip =
     [BoolVar ''dhcp-enabled'' True
        ''[dhcp] enable DHCP server'' (\<lambda>v c. c\<lparr>cfg_dhcp := (cfg_dhcp c)\<lparr>dhcp_enabled := v\<rparr>\<rparr>),
      StringVar ''dhcp-mode'' dhcpModeReservation
        (''[dhcp] DHCP mode ('' @ dhcpModeReservation @ '', '' @ dhcpModeProxy @ '', '' @ dhcpModeAutoProxy @ '')'') (\<lambda>v c. c\<lparr>cfg_dhcp := (cfg_dhcp c)\<lparr>dhcp_mode := v\<rparr>\<rparr>),
      StringVar ''dhcp-addr'' ''0.0.0.0:67''
        ''[dhcp] local IP:Port to listen on for DHCP requests'' (\<lambda>v c. c\<lparr>cfg_dhcp := (cfg_dhcp c)\<lparr>dhcp_bindAddr := v\<rparr>\<rparr>),
      StringVar ''dhcp-iface'' []
        ''[dhcp] interface to bind to for DHCP requests'' (\<lambda>v c. c\<lparr>cfg_dhcp := (cfg_dhcp c)\<lparr>dhcp_bindInterface := v\<rparr>\<rparr>),
      StringVar ''dhcp-ip-for-packet'' ip
        ''[dhcp] IP address to use in DHCP packets (opt 54, etc)'' (\<lambda>v c. c\<lparr>cfg_dhcp := (cfg_dhcp c)\<lparr>dhcp_ipForPacket := v\<rparr>\<rparr>),
      StringVar ''dhcp-syslog-ip'' ip
        ''[dhcp] Syslog server IP address to use in DHCP packets (opt 7)'' (\<lambda>v c. c\<lparr>cfg_dhcp := (cfg_dhcp c)\<lparr>dhcp_syslogIP := v\<rparr>\<rparr>),
      StringVar ''dhcp-tftp-ip'' ip
        ''[dhcp] TFTP server IP address to use in DHCP packets (opt 66, etc)'' (\<lambda>v c. c\<lparr>cfg_dhcp := (cfg_dhcp c)\<lparr>dhcp_tftpIP := v\<rparr>\<rparr>),
      IntVar ''dhcp-tftp-port'' 69
        ''[dhcp] TFTP server port to use in DHCP packets (opt 66, etc)'' (\<lambda>v c. c\<lparr>cfg_dhcp := (cfg_dhcp c)\<lparr>dhcp_tftpPort := v\<rparr>\<rparr>),
      StringVar ''dhcp-http-ipxe-binary-scheme'' ''http''
        ''[dhcp] HTTP iPXE binaries scheme to use in DHCP packets'' (\<lambda>v c. c\<lparr>cfg_dhcp := (cfg_dhcp c)\<lparr>dhcp_httpIpxeBinaryURL := (dhcp_httpIpxeBinaryURL (cfg_dhcp c))\<lparr>ub_Scheme := v\<rparr>\<rparr>\<rparr>),
      StringVar ''dhcp-http-ipxe-binary-host'' ip
        ''[dhcp] HTTP iPXE binaries host or IP to use in DHCP packets'' (\<lambda>v c. c\<lparr>cfg_dhcp := (cfg_dhcp c)\<lparr>dhcp_httpIpxeBinaryURL := (dhcp_httpIpxeBinaryURL (cfg_dhcp c))\<lparr>ub_Host := v\<rparr>\<rparr>\<rparr>),
      IntVar ''dhcp-http-ipxe-binary-port'' 8080
        ''[dhcp] HTTP iPXE binaries port to use in DHCP packets'' (\<lambda>v c. c\<lparr>cfg_dhcp := (cfg_dhcp c)\<lparr>dhcp_httpIpxeBinaryURL := (dhcp_httpIpxeBinaryURL (cfg_dhcp c))\<lparr>ub_Port := v\<rparr>\<rparr>\<rparr>),
      StringVar ''dhcp-http-ipxe-binary-path'' ''/ipxe/''
        ''[dhcp] HTTP iPXE binaries path to use in DHCP packets'' (\<lambda>v c. c\<lparr>cfg_dhcp := (cfg_dhcp c)\<lparr>dhcp_httpIpxeBinaryURL := (dhcp_httpIpxeBinaryURL (cfg_dhcp c))\<lparr>ub_Path := v\<rparr>\<rparr>\<rparr>),
      StringVar ''dhcp-http-ipxe-script-scheme'' ''http''
        ''[dhcp] HTTP iPXE script scheme to use in DHCP packets'' (\<lambda>v c. c\<lparr>cfg_dhcp := (cfg_dhcp c)\<lparr>dhcp_httpIpxeScript := (dhcp_httpIpxeScript (cfg_dhcp c))\<lparr>ub_Scheme := v\<rparr>\<rparr>\<rparr>),
      StringVar ''dhcp-http-ipxe-script-host'' ip
        ''[dhcp] HTTP iPXE script host or IP to use in DHCP packets'' (\<lambda>v c. c\<lparr>cfg_dhcp := (cfg_dhcp c)\<lparr>dhcp_httpIpxeScript := (dhcp_httpIpxeScript (cfg_dhcp c))\<lparr>ub_Host := v\<rparr>\<rparr>\<rparr>),
      IntVar ''dhcp-http-ipxe-script-port'' 8080
        ''[dhcp] HTTP iPXE script port to use in DHCP packets'' (\<lambda>v c. c\<lparr>cfg_dhcp := (cfg_dhcp c)\<lparr>dhcp_httpIpxeScript := (dhcp_httpIpxeScript (cfg_dhcp c))\<lparr>ub_Port := v\<rparr>\<rparr>\<rparr>),
      StringVar ''dhcp-http-ipxe-script-path'' ''/auto.ipxe''
        ''[dhcp] HTTP iPXE script path to use in DHCP packets'' (\<lambda>v c. c\<lparr>cfg_dhcp := (cfg_dhcp c)\<lparr>dhcp_httpIpxeScript := (dhcp_httpIpxeScript (cfg_dhcp c))\<lparr>ub_Path := v\<rparr>\<rparr>\<rparr>),
      StringVar ''dhcp-http-ipxe-script-url'' []
        ''[dhcp] HTTP iPXE script URL to use in DHCP packets, this overrides the flags for dhcp-http-ipxe-script-{scheme, host, port, path}'' (\<lambda>v c. c\<lparr>cfg_dhcp := (cfg_dhcp c)\<lparr>dhcp_httpIpxeScriptURL := v\<rparr>\<rparr>),
      BoolVar ''dhcp-http-ipxe-script-prepend-mac'' True
        ''[dhcp] prepend the hardware MAC address to iPXE script URL base, http://1.2.3.4/auto.ipxe -> http://1.2.3.4/40:15:ff:89:cc:0e/auto.ipxe'' (\<lambda>v c. c\<lparr>cfg_dhcp := (cfg_dhcp c)\<lparr>dhcp_httpIpxeScript := (dhcp_httpIpxeScript (cfg_dhcp c))\<lparr>injectMacAddress := v\<rparr>\<rparr>\<rparr>)]"

definition backendFlags :: "flag list" where
  "backendFlags =
     [BoolVar ''backend-file-enabled'' False
        ''[backend] enable the file backend for DHCP and the HTTP iPXE script'' (\<lambda>v c. c\<lparr>cfg_backends := (cfg_backends c)\<lparr>be_file := (be_file (cfg_backends c))\<lparr>file_Enabled := v\<rparr>\<rparr>\<rparr>),
      StringVar ''backend-file-path'' []
        ''[backend] the hardware yaml file path for the file backend'' (\<lambda>v c. c\<lparr>cfg_backends := (cfg_backends c)\<lparr>be_file := (be_file (cfg_backends c))\<lparr>file_FilePath := v\<rparr>\<rparr>\<rparr>),
      BoolVar ''backend-kube-enabled'' True
        ''[backend] enable the kubernetes backend for DHCP and the HTTP iPXE script'' (\<lambda>v c. c\<lparr>cfg_backends := (cfg_backends c)\<lparr>be_kubernetes := (be_kubernetes (cfg_backends c))\<lparr>kube_Enabled := v\<rparr>\<rparr>\<rparr>),
      StringVar ''backend-kube-config'' []
        ''[backend] the Kubernetes config file location, kube backend only'' (\<lambda>v c. c\<lparr>cfg_backends := (cfg_backends c)\<lparr>be_kubernetes := (be_kubernetes (cfg_backends c))\<lparr>kube_ConfigFilePath := v\<rparr>\<rparr>\<rparr>),
      StringVar ''backend-kube-api'' []
        ''[backend] the Kubernetes API URL, used for in-cluster client construction, kube backend only'' (\<lambda>v c. c\<lparr>cfg_backends := (cfg_backends c)\<lparr>be_kubernetes := (be_kubernetes (cfg_backends c))\<lparr>kube_APIURL := v\<rparr>\<rparr>\<rparr>),
      StringVar ''backend-kube-namespace'' []
        ''[backend] an optional Kubernetes namespace override to query hardware data from, kube backend only'' (\<lambda>v c. c\<lparr>cfg_backends := (cfg_backends c)\<lparr>be_kubernetes := (be_kubernetes (cfg_backends c))\<lparr>kube_Namespace := v\<rparr>\<rparr>\<rparr>),
      BoolVar ''backend-noop-enabled'' False
        ''[backend] enable the noop backend for DHCP and the HTTP iPXE script'' (\<lambda>v c. c\<lparr>cfg_backends := (cfg_backends c)\<lparr>be_Noop := (be_Noop (cfg_backends c))\<lparr>noop_Enabled := v\<rparr>\<rparr>\<rparr>)]"

definition otelFlags :: "flag list" where
  "otelFlags =
     [StringVar ''otel-endpoint'' []
        ''[otel] OpenTelemetry collector endpoint'' (\<lambda>v c. c\<lparr>cfg_otel := (cfg_otel c)\<lparr>otel_endpoint := v\<rparr>\<rparr>),
      BoolVar ''otel-insecure'' True
        ''[otel] OpenTelemetry collector insecure'' (\<lambda>v c. c\<lparr>cfg_otel := (cfg_otel c)\<lparr>otel_insecure := v\<rparr>\<rparr>)]"

definition isoFlags :: "flag list" where
  "isoFlags =
     [BoolVar ''iso-enabled'' False
        ''[iso] enable patching an OSIE ISO'' (\<lambda>v c. c\<lparr>cfg_iso := (cfg_iso c)\<lparr>isoc_enabled := v\<rparr>\<rparr>),
      StringVar ''iso-url'' []
        ''[iso] an ISO source URL target for patching'' (\<lambda>v c. c\<lparr>cfg_iso := (cfg_iso c)\<lparr>isoc_url := v\<rparr>\<rparr>),
      StringVar ''iso-magic-string'' []
        ''[iso] the string pattern to match for in the source ISO, defaults to the one defined in HookOS'' (\<lambda>v c. c\<lparr>cfg_iso := (cfg_iso c)\<lparr>isoc_magicString := v\<rparr>\<rparr>),
      BoolVar ''iso-static-ipam-enabled'' False
        ''[iso] enable static IPAM for HookOS'' (\<lambda>v c. c\<lparr>cfg_iso := (cfg_iso c)\<lparr>isoc_staticIPAMEnabled := v\<rparr>\<rparr>)]"

text \<open>\<open>setFlags\<close>, with the address \<open>detectPublicIPv4\<close> gives.\<close>

definition all_flags :: "string \<Rightarrow> flag list" where
  "all_flags ip =
     [StringVar ''log-level'' ''info''
        ''log level (debug, info)'' (\<lambda>v c. c\<lparr>cfg_logLevel := v\<rparr>)] @
     dhcpFlags ip @ tftpFlags ip @ ipxeHTTPBinaryFlags @ ipxeHTTPScriptFlags ip @ syslogFlags ip @ backendFlags @ otelFlags @ isoFlags"

definition setFlags :: "string \<Rightarrow> config \<Rightarrow> (config \<times> flag list) go" where
  "setFlags ip c = register_flags (all_flags ip) (c, [])"

definition countFlags :: "flag list \<Rightarrow> nat" where
  "countFlags fs = foldl (\<lambda>n f. n + 1) 0 fs"

section \<open>The defaults\<close>

text \<open>The configuration without any flag, spelled out.\<close>

definition default_config :: "string \<Rightarrow> config" where
  "default_config ip =
     \<lparr>cfg_syslog = \<lparr>sys_enabled = True, sys_bindAddr = ip, sys_bindPort = 514\<rparr>,
      cfg_tftp = \<lparr>tftp_bindAddr = ip, tftp_bindPort = 69, tftp_blockSize = 512, tftp_enabled = True, tftp_ipxeScriptPatch = [], tftp_timeout = 5000000000\<rparr>,
      cfg_ipxeHTTPBinary = \<lparr>bin_enabled = True\<rparr>,
      cfg_ipxeHTTPScript = \<lparr>http_enabled = True, http_bindAddr = ip, http_bindPort = 8080, http_extraKernelArgs = [], http_hookURL = [], http_tinkServer = [], http_tinkServerUseTLS = False, http_tinkServerInsecureTLS = False, http_trustedProxies = [], http_retries = 0, http_retryDelay = 2\<rparr>,
      cfg_dhcp = \<lparr>dhcp_enabled = True, dhcp_mode = dhcpModeReservation, dhcp_bindAddr = ''0.0.0.0:67'', dhcp_bindInterface = [], dhcp_ipForPacket = ip, dhcp_syslogIP = ip, dhcp_tftpIP = ip, dhcp_tftpPort = 69, dhcp_httpIpxeBinaryURL = \<lparr>ub_Scheme = ''http'', ub_Host = ip, ub_Port = 8080, ub_Path = ''/ipxe/''\<rparr>, dhcp_httpIpxeScript = \<lparr>ub_Scheme = ''http'', ub_Host = ip, ub_Port = 8080, ub_Path = ''/auto.ipxe'', injectMacAddress = True\<rparr>, dhcp_httpIpxeScriptURL = []\<rparr>,
      cfg_iso = \<lparr>isoc_enabled = False, isoc_url = [], isoc_magicString = [], isoc_staticIPAMEnabled = False\<rparr>,
      cfg_logLevel = ''info'',
      cfg_backends = \<lparr>be_file = \<lparr>file_FilePath = [], file_Enabled = False\<rparr>, be_kubernetes = \<lparr>kube_ConfigFilePath = [], kube_APIURL = [], kube_Namespace = [], kube_Enabled = True\<rparr>, be_Noop = \<lparr>noop_Enabled = False\<rparr>\<rparr>,
      cfg_otel = \<lparr>otel_endpoint = [], otel_insecure = True\<rparr>\<rparr>"

lemma register_flags_distinct:
  "distinct (map flag_name (fs @ gs)) \<Longrightarrow> register_flags gs (c, fs) = Ret (fold flag_default gs c, fs @ gs)"
  by (induction gs arbitrary: c fs) auto

lemmas flag_lists = dhcpFlags_def tftpFlags_def ipxeHTTPBinaryFlags_def ipxeHTTPScriptFlags_def syslogFlags_def
  backendFlags_def otelFlags_def isoFlags_def

lemma all_flag_names: "map flag_name (all_flags ip) = map flag_name (all_flags [])"
  by (simp add: all_flags_def flag_lists)

lemma flag_names_distinct: "distinct (map flag_name (all_flags ip))"
proof -
  have "distinct (map flag_name (all_flags []))" by code_simp
  then show ?thesis by (simp only: all_flag_names[of ip])
qed

lemma flag_defaults: "fold flag_default (all_flags ip) zero_config = default_config ip"
  by (simp add: all_flags_def flag_lists zero_config_def zero_urlBuilder_def default_config_def)

text \<open>No two flags have the same name, so that registering them does not panic, and the defaults are those above.\<close>

lemma setFlags_defaults: "setFlags ip zero_config = Ret (default_config ip, all_flags ip)"
  using register_flags_distinct[of "[]" "all_flags ip"] flag_names_distinct by (simp add: setFlags_def flag_defaults)

section \<open>Detecting the address\<close>

text \<open>
  What the operating system answers: the environment variable \<open>SMEE_PUBLIC_IP_INTERFACE\<close>, the addresses of
  interfaces by name and by index, all addresses, and the routes.
\<close>

datatype iface_addr = IPNetAddr bytes | OtherAddr

record route =
  r_Dst :: bool   \<comment> \<open>whether the destination is set\<close>
  r_Gw :: bool    \<comment> \<open>whether the gateway is set\<close>
  r_LinkIndex :: int

record os_net =
  os_Getenv :: string
  os_InterfaceByName :: "string \<Rightarrow> go_error + (go_error + iface_addr list)"
  os_InterfaceByIndex :: "int \<Rightarrow> go_error + string \<times> (go_error + iface_addr list)"
  os_InterfaceAddrs :: "go_error + iface_addr list"
  os_RouteList :: "go_error + route list"

definition IsLoopback :: "bytes \<Rightarrow> bool" where
  "IsLoopback ip =
     (case To4 (Some ip) of
        Some b \<Rightarrow> b ! 0 = CHR 0x7F
      | None \<Rightarrow> ip = replicate 15 (CHR 0x00) @ [CHR 0x01])"

text \<open>\<open>IsGlobalUnicast\<close> on an IPv4 address in its four-byte form.\<close>

definition IsGlobalUnicast4 :: "bytes \<Rightarrow> bool" where
  "IsGlobalUnicast4 b \<longleftrightarrow>
     \<not> IP_Equal (Some b) IPv4bcast \<and> \<not> IsUnspecified (Some b) \<and> \<not> IsLoopback b \<and>
     \<not> (224 \<le> (of_char (b ! 0) :: nat) \<and> (of_char (b ! 0) :: nat) < 240) \<and>
     \<not> (b ! 0 = CHR 0xA9 \<and> b ! 1 = CHR 0xFE)"

fun first_v4 :: "iface_addr list \<Rightarrow> string" where
  "first_v4 [] = []"
| "first_v4 (IPNetAddr ip # as) = (if To4 (Some ip) \<noteq> None then IP_String (Some ip) else first_v4 as)"
| "first_v4 (OtherAddr # as) = first_v4 as"

definition ipByInterface :: "os_net \<Rightarrow> string \<Rightarrow> string" where
  "ipByInterface os name =
     (case os_InterfaceByName os name of Inl err \<Rightarrow> []
      | Inr (Inl err) \<Rightarrow> []
      | Inr (Inr addrs) \<Rightarrow> first_v4 addrs)"

fun first_global :: "iface_addr list \<Rightarrow> bytes option" where
  "first_global [] = None"
| "first_global (IPNetAddr ip # as) =
     (case To4 (Some ip) of
        None \<Rightarrow> first_global as
      | Some v4 \<Rightarrow> if \<not> IsGlobalUnicast4 v4 then first_global as else Some v4)"
| "first_global (OtherAddr # as) = first_global as"

definition autoDetectPublicIPv4 :: "os_net \<Rightarrow> go_error + bytes" where
  "autoDetectPublicIPv4 os =
     (case os_InterfaceAddrs os of
        Inl err \<Rightarrow> Inl (Errorf (''unable to auto-detect public IPv4: '' @ Error_text err) err)
      | Inr addrs \<Rightarrow>
        (case first_global addrs of Some v4 \<Rightarrow> Inr v4 | None \<Rightarrow> Inl (ErrorNew ''unable to auto-detect public IPv4'')))"

fun first_not_loopback :: "iface_addr list \<Rightarrow> bytes option" where
  "first_not_loopback [] = None"
| "first_not_loopback (IPNetAddr ip # as) =
     (if \<not> IsLoopback ip then (if To4 (Some ip) \<noteq> None then Some ip else first_not_loopback as)
      else first_not_loopback as)"
| "first_not_loopback (OtherAddr # as) = first_not_loopback as"

fun gateway_address :: "os_net \<Rightarrow> route list \<Rightarrow> go_error + bytes" where
  "gateway_address os [] = Inl (ErrorNew ''no default gateway found'')"
| "gateway_address os (r # rs) =
     (if \<not> r_Dst r \<and> r_Gw r then
        (case os_InterfaceByIndex os (r_LinkIndex r) of
           Inl err \<Rightarrow> Inl (ErrorNew (''failed to get interface by index: '' @ Error_text err))
         | Inr (name, Inl err) \<Rightarrow> Inl (ErrorNew (''failed to get addresses for interface '' @ name @ '': '' @ Error_text err))
         | Inr (name, Inr addrs) \<Rightarrow>
             (case first_not_loopback addrs of Some ip \<Rightarrow> Inr ip | None \<Rightarrow> gateway_address os rs))
      else gateway_address os rs)"

definition autoDetectPublicIpv4WithDefaultGateway :: "os_net \<Rightarrow> go_error + bytes" where
  "autoDetectPublicIpv4WithDefaultGateway os =
     (case os_RouteList os of
        Inl err \<Rightarrow> Inl (ErrorNew (''failed to list routes: '' @ Error_text err))
      | Inr routes \<Rightarrow> gateway_address os routes)"

definition detectPublicIPv4 :: "os_net \<Rightarrow> string" where
  "detectPublicIPv4 os =
     (let netint = os_Getenv os;
          rest = (case autoDetectPublicIpv4WithDefaultGateway os of
                    Inr ip \<Rightarrow> IP_String (Some ip)
                  | Inl err \<Rightarrow>
                    (case autoDetectPublicIPv4 os of Inl err \<Rightarrow> [] | Inr ip \<Rightarrow> IP_String (Some ip)))
      in if netint \<noteq> [] then
           (let ip = ipByInterface os netint in if ip \<noteq> [] then ip else rest)
         else rest)"

text \<open>
  Whatever the operating system answers, the address is empty or the text of an IPv4 address: the interface named by the
  environment, else the one of the default route, else the first global address.
\<close>

lemma IP_String_To4: "To4 (Some ip) = Some b \<Longrightarrow> IP_String (Some ip) = dotted b"
proof -
  assume a: "To4 (Some ip) = Some b"
  then have "length ip = 4 \<or> length ip = 16" by (auto simp: To4_def Let_def split: if_splits)
  with a show ?thesis by (cases ip) (auto simp: IP_String_def Let_def)
qed

lemma first_v4_text: "first_v4 as = [] \<or> (\<exists>b. length b = 4 \<and> first_v4 as = dotted b)"
proof (induction "as" rule: first_v4.induct)
  case (2 ip "as")
  then show ?case
    by (cases "To4 (Some ip)") (auto simp: IP_String_To4 dest: To4_length)
qed auto

lemma first_global_v4: "first_global as = Some b \<Longrightarrow> length b = 4"
  by (induction "as" rule: first_global.induct) (auto split: option.splits if_splits dest: To4_length)

lemma first_not_loopback_v4: "first_not_loopback as = Some ip \<Longrightarrow> To4 (Some ip) \<noteq> None"
  by (induction "as" rule: first_not_loopback.induct) (auto split: if_splits)

lemma gateway_address_v4: "gateway_address os rs = Inr ip \<Longrightarrow> To4 (Some ip) \<noteq> None"
  by (induction os rs rule: gateway_address.induct)
    (auto split: if_splits sum.splits option.splits dest: first_not_loopback_v4)

lemma detectPublicIPv4_text: "detectPublicIPv4 os = [] \<or> (\<exists>b. length b = 4 \<and> detectPublicIPv4 os = dotted b)"
proof -
  have v4: "\<exists>b. length b = 4 \<and> IP_String (Some ip) = dotted b" if "To4 (Some ip) \<noteq> None" for ip
    using that by (auto simp: IP_String_To4 dest: To4_length)
  have "\<exists>b. length b = 4 \<and> IP_String (Some ip) = dotted b" if "autoDetectPublicIpv4WithDefaultGateway os = Inr ip" for ip
    using that v4 gateway_address_v4 by (auto simp: autoDetectPublicIpv4WithDefaultGateway_def split: sum.splits)
  moreover have "\<exists>b. length b = 4 \<and> IP_String (Some ip) = dotted b" if "autoDetectPublicIPv4 os = Inr ip" for ip
    using that first_global_v4 IP_String_v4 by (auto simp: autoDetectPublicIPv4_def split: sum.splits option.splits)
  moreover have "ipByInterface os name = [] \<or> (\<exists>b. length b = 4 \<and> ipByInterface os name = dotted b)" for name
    using first_v4_text by (auto simp: ipByInterface_def split: sum.split)
  ultimately show ?thesis
    by (auto simp: detectPublicIPv4_def Let_def split: sum.splits)
qed

end
