(* ===== verification/CLI_Usage.thy ===== *)
theory CLI_Usage
  imports Smee_Config "HOL-Library.List_Lexorder" "HOL-Library.Char_ord" "HOL-Library.Multiset"
begin

text \<open>
  The command of \<open>cmd/smee/flag.go\<close> and its usage text: \<open>newCLI\<close> and \<open>customUsageFunc\<close>. Go's strings compare as their
  bytes do, which is the lexicographic order of character lists here. The tab writer, the quoting of \<open>%q\<close>
  and the text of a duration are parameters.
\<close>

section \<open>Definitions\<close>

record usage_lib =
  ul_tabs :: "string \<Rightarrow> string"      \<comment> \<open>\<open>tabwriter.NewWriter(_, 0, 2, 2, ' ', 0)\<close>, flushed\<close>
  ul_quote :: "string \<Rightarrow> string"
  ul_duration :: "int \<Rightarrow> string"

record Command =
  cmd_Name :: string
  cmd_ShortUsage :: string
  cmd_LongHelp :: string
  cmd_Subcommands :: "(string \<times> string) list"   \<comment> \<open>name and short help\<close>
  cmd_FlagSet :: "flag list"

fun flag_usage :: "flag \<Rightarrow> string" where
  "flag_usage (BoolVar n d w u) = w"
| "flag_usage (StringVar n d w u) = w"
| "flag_usage (IntVar n d w u) = w"
| "flag_usage (DurationVar n d w u) = w"

text \<open>\<open>DefValue\<close>, the default as text.\<close>

fun flag_DefValue :: "usage_lib \<Rightarrow> flag \<Rightarrow> string" where
  "flag_DefValue ul (BoolVar n d w u) = bool_string d"
| "flag_DefValue ul (StringVar n d w u) = d"
| "flag_DefValue ul (IntVar n d w u) = int_string d"
| "flag_DefValue ul (DurationVar n d w u) = ul_duration ul d"

text \<open>What the pattern \<open>^\[(.*?)\]\<close> finds in a text of one line.\<close>

definition service_of :: "string \<Rightarrow> string" where
  "service_of u =
     (if HasPrefix u ''['' then (case IndexByte u (CHR '']'') of Some i \<Rightarrow> take (Suc i) u | None \<Rightarrow> []) else [])"

text \<open>\<open>VisitAll\<close> goes through the flags by name; the sort by service is stable.\<close>

definition usage_flags :: "flag list \<Rightarrow> flag list" where
  "usage_flags fs = sort_key (\<lambda>f. service_of (flag_usage f)) (sort_key flag_name fs)"

definition flag_line :: "usage_lib \<Rightarrow> flag \<Rightarrow> string" where
  "flag_line ul f =
     (if flag_DefValue ul f \<noteq> []
      then ''  -'' @ flag_name f @ [CHR 0x09] @ flag_usage f @ '' (default '' @ ul_quote ul (flag_DefValue ul f) @ '')'' @ [CHR 0x0A]
      else ''  -'' @ flag_name f @ [CHR 0x09] @ flag_usage f @ [CHR 0x0A])"

definition customUsageFunc :: "usage_lib \<Rightarrow> Command \<Rightarrow> string" where
  "customUsageFunc ul c =
     (let b = (if cmd_LongHelp c \<noteq> [] then cmd_LongHelp c @ [CHR 0x0A, CHR 0x0A] else []);
          b = b @ ''USAGE'' @ [CHR 0x0A];
          b = b @ ''  '' @ (if cmd_ShortUsage c \<noteq> [] then cmd_ShortUsage c else cmd_Name c) @ [CHR 0x0A];
          b = b @ [CHR 0x0A];
          b = (if length (cmd_Subcommands c) > 0
               then b @ ''SUBCOMMANDS'' @ [CHR 0x0A] @
                 ul_tabs ul (concat (map (\<lambda>(n, h). ''  '' @ n @ [CHR 0x09] @ h @ [CHR 0x0A]) (cmd_Subcommands c))) @ [CHR 0x0A]
               else b);
          b = (if countFlags (cmd_FlagSet c) > 0
               then b @ ''FLAGS'' @ [CHR 0x0A] @ ul_tabs ul (concat (map (flag_line ul) (usage_flags (cmd_FlagSet c)))) @ [CHR 0x0A]
               else b)
      in TrimSpace b @ [CHR 0x0A])"

text \<open>\<open>newCLI\<close> with the configuration that has the defaults; parsing and the environment prefix are the library's.\<close>

definition newCLI :: "string \<Rightarrow> config \<Rightarrow> (config \<times> Command) go" where
  "newCLI ip cfg =
     go_bind (setFlags ip cfg) (\<lambda>(cfg, fs).
       Ret (cfg, \<lparr>cmd_Name = ''smee'', cmd_ShortUsage = ''smee [flags]'',
         cmd_LongHelp = ''Smee is the DHCP and Network boot service for use in the Tinkerbell stack.'',
         cmd_Subcommands = [], cmd_FlagSet = fs\<rparr>))"

section \<open>The list of flags\<close>

text \<open>
  The usage lists every flag as often as it is registered, grouped by service, and within a service by name.
\<close>

lemma usage_flags_mset: "mset (usage_flags fs) = mset fs"
  by (simp add: usage_flags_def)

lemma usage_flags_grouped: "sorted (map (\<lambda>f. service_of (flag_usage f)) (usage_flags fs))"
  by (simp add: usage_flags_def)

lemma usage_flags_by_name:
  "sorted (map flag_name (filter (\<lambda>f. service_of (flag_usage f) = k) (usage_flags fs)))"
  by (simp add: usage_flags_def sort_key_stable filter_sort)

text \<open>The usage of the program names every flag of \<open>all_flags\<close> once.\<close>

lemma newCLI_flags:
  "newCLI ip zero_config = Ret (cfg, c) \<Longrightarrow> cfg = default_config ip \<and> cmd_FlagSet c = all_flags ip \<and> length (usage_flags (cmd_FlagSet c)) = length (all_flags ip)"
  by (auto simp: newCLI_def setFlags_defaults usage_flags_def)

end
