(* ===== verification/Smee_Main.thy ===== *)
theory Smee_Main
  imports Smee_Config DHCP_Server Backend_File Backend_Kube IPXE_Script Reverse_Proxy
begin

text \<open>
  \<open>cmd/smee\<close>: how \<open>main.go\<close> and \<open>backend.go\<close> make the backend, the DHCP handler, the HTTP routes and
  the services from the configuration. \<open>main_start\<close> is \<open>main\<close> up to the point where it waits: the
  services in the order they are started, or a panic. The cluster client, the file system and \<open>url.Parse\<close>
  are parameters.
\<close>

section \<open>Addresses with ports\<close>

text \<open>\<open>netip.ParseAddrPort\<close>, and \<open>strconv.ParseUint\<close> for 16 bits in base 10.\<close>

definition ParseUint16 :: "string \<Rightarrow> nat option" where
  "ParseUint16 s =
     (if s = [] \<or> \<not> list_all is_digit s then None
      else (let n = foldl (\<lambda>n c. 10 * n + digit_val c) 0 s in if n < 65536 then Some n else None))"

definition addr_port :: "string \<Rightarrow> string \<Rightarrow> bool \<Rightarrow> AddrPort option" where
  "addr_port ip port brackets =
     (case (ParseUint16 port, ParseAddr ip) of
        (Some p, Some a) \<Rightarrow>
          if brackets \<and> BitLen a = 32 \<or> \<not> brackets \<and> BitLen a = 128 then None else Some (a, p)
      | _ \<Rightarrow> None)"

definition ParseAddrPort :: "string \<Rightarrow> AddrPort option" where
  "ParseAddrPort s =
     (case LastIndexByte s (CHR '':'') of
        None \<Rightarrow> None
      | Some i \<Rightarrow>
        (let ip = take i s; port = drop (Suc i) s in
         if ip = [] \<or> port = [] then None
         else if hd ip = CHR ''['' then
           (if length ip < 2 \<or> last ip \<noteq> CHR '']'' then None else addr_port (butlast (List.tl ip)) port True)
         else addr_port ip port False))"

definition host_port :: "string \<Rightarrow> int \<Rightarrow> string" where
  "host_port h p = h @ '':'' @ int_string p"

section \<open>Backends\<close>

text \<open>What the loader of the cluster's client configuration is given.\<close>

record client_loader =
  ExplicitPath :: string
  ClusterInfo_Server :: string
  Context_Namespace :: string

record 'c main_lib =
  ml_values :: value_lib
  ml_yaml :: yaml_lib
  ml_newWatcher :: "unit \<Rightarrow> go_error option"
  ml_add :: "string \<Rightarrow> go_error option"
  ml_ReadFile :: "string \<Rightarrow> go_error + bytes"
  ml_ClientConfig :: "client_loader \<Rightarrow> go_error option"
  ml_scheme :: "go_error option"
  ml_v1alpha1 :: "go_error option"
  ml_cluster :: "client_loader \<Rightarrow> string list \<Rightarrow> 'c cluster_lib"   \<comment> \<open>the configuration it loads, the namespaces of its cache\<close>

text \<open>
  The three \<open>backend\<close> methods. The file backend is the watcher as it is when it starts; what it serves later
  is \<^const>\<open>Watcher_Start\<close>. The client configuration is known by the loader that gives it; a cache without
  namespaces of its own watches all of them.
\<close>

definition noop_backend :: "Noop \<Rightarrow> BackendReader" where
  "noop_backend n = noop_Backend"

definition File_backend :: "'c main_lib \<Rightarrow> File \<Rightarrow> go_error + BackendReader" where
  "File_backend ml s =
     (case NewWatcher (ml_newWatcher ml) (ml_add ml) (ml_ReadFile ml) (file_FilePath s) of
        Inl err \<Rightarrow> Inl err
      | Inr f \<Rightarrow> Inr (file_Backend (ml_values ml) (ml_yaml ml) f))"

definition kube_loader :: "Kube \<Rightarrow> client_loader" where
  "kube_loader k = \<lparr>ExplicitPath = kube_ConfigFilePath k, ClusterInfo_Server = kube_APIURL k, Context_Namespace = kube_Namespace k\<rparr>"

definition getClient :: "'c main_lib \<Rightarrow> Kube \<Rightarrow> go_error + client_loader" where
  "getClient ml k =
     (let loader = kube_loader k in case ml_ClientConfig ml loader of Some err \<Rightarrow> Inl err | None \<Rightarrow> Inr loader)"

definition DefaultNamespaces :: "Kube \<Rightarrow> string list" where
  "DefaultNamespaces k = (if kube_Namespace k \<noteq> [] then [kube_Namespace k] else [])"

definition Kube_backend :: "'c main_lib \<Rightarrow> Kube \<Rightarrow> go_error + BackendReader" where
  "Kube_backend ml k =
     (case getClient ml k of Inl err \<Rightarrow> Inl err
      | Inr client \<Rightarrow> (case ml_scheme ml of Some err \<Rightarrow> Inl err
      | None \<Rightarrow> (case ml_v1alpha1 ml of Some err \<Rightarrow> Inl err
      | None \<Rightarrow> (case NewBackend (ml_cluster ml client (DefaultNamespaces k)) of Inl err \<Rightarrow> Inl err
                | Inr kb \<Rightarrow> Inr (kube_Backend (ml_values ml) (ml_cluster ml client (DefaultNamespaces k)) kb)))))"

definition numTrue :: "bool list \<Rightarrow> int" where
  "numTrue b = foldl (\<lambda>n v. if v then n + 1 else n) 0 b"

text \<open>\<open>config.backend\<close>, which also switches the Kubernetes backend off in the configuration.\<close>

definition disable_kube :: "config \<Rightarrow> config" where
  "disable_kube c =
     (if file_Enabled (be_file (cfg_backends c)) \<or> noop_Enabled (be_Noop (cfg_backends c))
      then c\<lparr>cfg_backends := (cfg_backends c)\<lparr>be_kubernetes := (be_kubernetes (cfg_backends c))\<lparr>kube_Enabled := False\<rparr>\<rparr>\<rparr>
      else c)"

definition config_backend :: "'c main_lib \<Rightarrow> config \<Rightarrow> config \<times> (go_error + BackendReader)" where
  "config_backend ml c0 =
     (let c = disable_kube c0;
          bs = cfg_backends c
      in (c,
          if 1 < numTrue [file_Enabled (be_file bs), kube_Enabled (be_kubernetes bs), noop_Enabled (be_Noop bs)] then
            Inl (ErrorNew ''only one backend can be enabled at a time'')
          else if noop_Enabled (be_Noop bs) then
            (if dhcp_mode (cfg_dhcp c) \<noteq> dhcpModeAutoProxy
             then Inl (ErrorNew ''noop backend can only be used with --dhcp-mode=auto-proxy'')
             else Inr (noop_backend (be_Noop bs)))
          else if file_Enabled (be_file bs) then
            (case File_backend ml (be_file bs) of
               Inl err \<Rightarrow> Inl (Errorf (''failed to create file backend: '' @ Error_text err) err)
             | Inr b \<Rightarrow> Inr b)
          else
            (case Kube_backend ml (be_kubernetes bs) of
               Inl err \<Rightarrow> Inl (Errorf (''failed to create kubernetes backend: '' @ Error_text err) err)
             | Inr b \<Rightarrow> Inr b)))"

section \<open>The DHCP handler\<close>

datatype server_Handler = ReservationHandler reservation_Handler | ProxyHandler proxy_Handler

definition script_host :: "httpIpxeScript \<Rightarrow> string" where
  "script_host s =
     (if ub_Scheme s = ''http'' \<and> ub_Port s = 80 \<or> ub_Scheme s = ''https'' \<and> ub_Port s = 443 then ub_Host s
      else host_port (ub_Host s) (ub_Port s))"

definition binary_url :: "dhcpConfig \<Rightarrow> URL" where
  "binary_url c = empty_URL\<lparr>Scheme := ub_Scheme (dhcp_httpIpxeBinaryURL c),
     Host := host_port (ub_Host (dhcp_httpIpxeBinaryURL c)) (ub_Port (dhcp_httpIpxeBinaryURL c)),
     Path := ub_Path (dhcp_httpIpxeBinaryURL c)\<rparr>"

definition script_url :: "value_lib \<Rightarrow> dhcpConfig \<Rightarrow> go_error + URL" where
  "script_url vl c =
     (if dhcp_httpIpxeScriptURL c \<noteq> [] then url_Parse vl (dhcp_httpIpxeScriptURL c)
      else Inr (empty_URL\<lparr>Scheme := ub_Scheme (dhcp_httpIpxeScript c), Host := script_host (dhcp_httpIpxeScript c),
             Path := ub_Path (dhcp_httpIpxeScript c)\<rparr>))"

definition ipxe_script :: "bool \<Rightarrow> URL \<Rightarrow> dhcpv4 \<Rightarrow> URL option" where
  "ipxe_script inject u d =
     (if inject then
        (let p = path_Base (Path u)
         in Some (u\<lparr>Path := path_Join [path_Dir (Path u), HardwareAddr_String (slice_bytes (ClientHWAddr d)), p]\<rparr>))
      else Some u)"

definition wrap_error :: "string \<Rightarrow> go_error \<Rightarrow> go_error" where
  "wrap_error m err = Errorf (m @ Error_text err) err"

definition dhcpHandler :: "'c main_lib \<Rightarrow> config \<Rightarrow> config \<times> (go_error + server_Handler)" where
  "dhcpHandler ml c =
     (let vl = ml_values ml; dc = cfg_dhcp c;
          tftp = host_port (dhcp_tftpIP dc) (dhcp_tftpPort dc)
      in case ParseAddr (dhcp_ipForPacket dc) of
           None \<Rightarrow> (c, Inl (wrap_error ''invalid bind address: '' (parse_error ''ParseAddr'' (dhcp_ipForPacket dc))))
         | Some pktIP \<Rightarrow>
      (case ParseAddrPort tftp of
           None \<Rightarrow> (c, Inl (wrap_error ''invalid tftp address for DHCP server: '' (parse_error ''ParseAddrPort'' tftp)))
         | Some tftpIP \<Rightarrow>
      (case url_Parse vl (URL_String (binary_url dc)) of
           Inl err \<Rightarrow> (c, Inl (wrap_error ''invalid http ipxe binary url: '' err))
         | Inr _ \<Rightarrow>
      (case script_url vl dc of
           Inl err \<Rightarrow> (c, Inl (wrap_error ''invalid http ipxe script url: '' err))
         | Inr httpScriptURL \<Rightarrow>
      (case url_Parse vl (URL_String httpScriptURL) of
           Inl err \<Rightarrow> (c, Inl (wrap_error ''invalid http ipxe script url: '' err))
         | Inr _ \<Rightarrow>
      (case config_backend ml c of
           (c, Inl err) \<Rightarrow> (c, Inl (wrap_error ''failed to create backend: '' err))
         | (c, Inr be) \<Rightarrow>
      (let netboot = \<lparr>IPXEBinServerTFTP = tftpIP, IPXEBinServerHTTP = Some (binary_url dc),
             ScriptURL = Some (ipxe_script (injectMacAddress (dhcp_httpIpxeScript dc)) httpScriptURL), Enabled = True, UserClass = []\<rparr>;
           proxy = (\<lambda>auto. ProxyHandler \<lparr>prx_Backend = Some be, prx_IPAddr = pktIP, prx_Netboot = netboot,
             prx_OTELEnabled = True, prx_AutoProxyEnabled = auto\<rparr>)
       in if dhcp_mode dc = dhcpModeReservation then
            (case ParseAddr (dhcp_syslogIP dc) of
               None \<Rightarrow> (c, Inl (wrap_error ''invalid syslog address: '' (parse_error ''ParseAddr'' (dhcp_syslogIP dc))))
             | Some syslogIP \<Rightarrow>
                 (c, Inr (ReservationHandler \<lparr>res_Backend = Some be, res_IPAddr = pktIP, res_Netboot = netboot,
                    res_OTELEnabled = True, res_SyslogAddr = syslogIP\<rparr>)))
          else if dhcp_mode dc = dhcpModeProxy then (c, Inr (proxy False))
          else if dhcp_mode dc = dhcpModeAutoProxy then (c, Inr (proxy True))
          else (c, Inl (ErrorNew ''invalid dhcp mode'')))))))))"

section \<open>The services\<close>

text \<open>The HTTP handlers by what serves them: iPXE binaries with a patch, scripts, and the ISO.\<close>

datatype http_Handler = Binaries bytes | Scripts script_Handler | ISO iso_Handler

datatype service =
    SyslogService string nat  \<comment> \<open>address and number of parsers\<close>
  | TFTPService AddrPort int bytes int
  | HTTPService string "string list" "(string \<times> http_Handler) list"
  | DHCPService string string server_Handler

definition magicString :: string where
  "magicString = ''464vn90e7rbj08xbwdjejmdf4it17c5zfzjyfhthbh19eij201hjgit021bmpdb9ctrc87x2ymc8e7icu4ffi15x1hah9iyaiz38ckyap8hwx2vt5rm44ixv4hau8iw718q5yd019um5dt2xpqqa2rjtdypzr5v1gun8un110hhwp8cex7pqrh2ivh0ynpm4zkkwc8wcn367zyethzy7q8hzudyeyzx3cgmxqbkh825gcak7kxzjbgjajwizryv7ec1xm2h0hh7pz29qmvtgfjj1vphpgq1zcbiiehv52wrjy9yq473d9t1rvryy6929nk435hfx55du3ih05kn5tju3vijreru1p6knc988d4gfdz28eragvryq5x8aibe5trxd0t6t7jwxkde34v6pj1khmp50k6qqj3nzgcfzabtgqkmeqhdedbvwf3byfdma4nkv3rcxugaj2d0ru30pa2fqadjqrtjnv8bu52xzxv7irbhyvygygxu1nt5z4fh9w1vwbdcmagep26d298zknykf2e88kumt59ab7nq79d8amnhhvbexgh48e8qc61vq2e9qkihzt1twk1ijfgw70nwizai15iqyted2dt9gfmf2gg7amzufre79hwqkddc1cd935ywacnkrnak6r7xzcz7zbmq3kt04u2hg1iuupid8rt4nyrju51e6uejb2ruu36g9aibmz3hnmvazptu8x5tyxk820g2cdpxjdij766bt2n3djur7v623a2v44juyfgz80ekgfb9hkibpxh3zgknw8a34t4jifhf116x15cei9hwch0fye3xyq0acuym8uhitu5evc4rag3ui0fny3qg4kju7zkfyy8hwh537urd5uixkzwu5bdvafz4jmv7imypj543xg5em8jk8cgk7c4504xdd5e4e71ihaumt6u5u2t1w7um92fepzae8p0vq93wdrd1756npu1pziiur1payc7kmdwyxg3hj5n4phxbc29x0tcddamjrwt260b0w''"

definition script_handler :: "config \<Rightarrow> BackendReader \<Rightarrow> script_Handler" where
  "script_handler c br =
     (let s = cfg_ipxeHTTPScript c in
      \<lparr>s_Backend = Some br, s_OSIEURL = http_hookURL s, s_ExtraKernelParams = Split (http_extraKernelArgs s) (CHR '' ''),
       s_PublicSyslogFQDN = dhcp_syslogIP (cfg_dhcp c), s_TinkServerTLS = http_tinkServerUseTLS s,
       s_TinkServerInsecureTLS = http_tinkServerInsecureTLS s, s_TinkServerGRPCAddr = http_tinkServer s,
       s_IPXEScriptRetries = http_retries s, s_IPXEScriptRetryDelay = http_retryDelay s,
       s_StaticIPXEEnabled = (dhcp_mode (cfg_dhcp c) = dhcpModeAutoProxy)\<rparr>)"

definition iso_handler :: "config \<Rightarrow> BackendReader \<Rightarrow> iso_Handler" where
  "iso_handler c br =
     (let s = cfg_ipxeHTTPScript c in
      \<lparr>iso_Backend = Some br, ExtraKernelParams = Split (http_extraKernelArgs s) (CHR '' ''),
       MagicString = (if isoc_magicString (cfg_iso c) = [] then magicString else isoc_magicString (cfg_iso c)),
       SourceISO = isoc_url (cfg_iso c), Syslog = dhcp_syslogIP (cfg_dhcp c), TinkServerTLS = http_tinkServerUseTLS s,
       TinkServerGRPCAddr = http_tinkServer s, StaticIPAMEnabled = isoc_staticIPAMEnabled (cfg_iso c),
       parsedURL = None, magicStrPadding = []\<rparr>)"

definition failed :: "string \<Rightarrow> go_error \<Rightarrow> 'a go" where
  "failed m err = Panic (m @ Error_text err)"

definition start_tftp :: "tftp \<Rightarrow> service list go" where
  "start_tftp t =
     (if \<not> tftp_enabled t then Ret []
      else (let addr = host_port (tftp_bindAddr t) (tftp_bindPort t) in
        case ParseAddrPort addr of
          Some ip \<Rightarrow> Ret [TFTPService ip (tftp_timeout t) (tftp_ipxeScriptPatch t) (tftp_blockSize t)]
        | None \<Rightarrow> failed ''invalid bind address: '' (parse_error ''ParseAddrPort'' addr)))"

definition script_route :: "'c main_lib \<Rightarrow> config \<Rightarrow> (config \<times> (string \<times> http_Handler) list) go" where
  "script_route ml c =
     (if \<not> http_enabled (cfg_ipxeHTTPScript c) then Ret (c, [])
      else case config_backend ml c of
          (c, Inl err) \<Rightarrow> failed ''failed to create backend: '' err
        | (c, Inr br) \<Rightarrow> Ret (c, [(''/'', Scripts (script_handler c br))]))"

definition iso_route :: "'c main_lib \<Rightarrow> config \<Rightarrow> (config \<times> (string \<times> http_Handler) list) go" where
  "iso_route ml c =
     (if \<not> isoc_enabled (cfg_iso c) then Ret (c, [])
      else case config_backend ml c of
          (c, Inl err) \<Rightarrow> failed ''failed to create backend: '' err
        | (c, Inr br) \<Rightarrow>
          (case iso_HandlerFunc (url_Parse (ml_values ml)) (iso_handler c br) of
             Inl err \<Rightarrow> failed ''failed to create iso handler: '' err
           | Inr ih \<Rightarrow> Ret (c, [(''/iso/'', ISO ih)])))"

definition start_http :: "config \<Rightarrow> (string \<times> http_Handler) list \<Rightarrow> service list go" where
  "start_http c handlers =
     (if length handlers > 0 then
        go_bind (parseTrustedProxies (http_trustedProxies (cfg_ipxeHTTPScript c))) (\<lambda>tp.
          Ret [HTTPService (host_port (http_bindAddr (cfg_ipxeHTTPScript c)) (http_bindPort (cfg_ipxeHTTPScript c))) tp handlers])
      else Ret [])"

definition start_dhcp :: "'c main_lib \<Rightarrow> config \<Rightarrow> service list go" where
  "start_dhcp ml c =
     (if \<not> dhcp_enabled (cfg_dhcp c) then Ret []
      else case dhcpHandler ml c of
          (c, Inl err) \<Rightarrow> failed ''failed to create dhcp listener: '' err
        | (c, Inr dh) \<Rightarrow> Ret [DHCPService (dhcp_bindAddr (cfg_dhcp c)) (dhcp_bindInterface (cfg_dhcp c)) dh])"

text \<open>
  Each service that needs a backend calls \<open>cfg.backend\<close> for itself and gets one of its own: the file is read
  again, and the cluster is asked for a client again. So the surroundings of the program are those of each call.
\<close>

datatype backend_call = ForScripts | ForISO | ForDHCP

definition main_start :: "(backend_call \<Rightarrow> 'c main_lib) \<Rightarrow> config \<Rightarrow> service list go" where
  "main_start ml c =
     (let syslog = (if sys_enabled (cfg_syslog c)
            then [SyslogService (host_port (sys_bindAddr (cfg_syslog c)) (sys_bindPort (cfg_syslog c))) 1] else []);
          binaries = (if bin_enabled (cfg_ipxeHTTPBinary c) then [(''/ipxe/'', Binaries (tftp_ipxeScriptPatch (cfg_tftp c)))] else [])
      in go_bind (start_tftp (cfg_tftp c)) (\<lambda>tftp.
         go_bind (script_route (ml ForScripts) c) (\<lambda>(c, scripts).
         go_bind (iso_route (ml ForISO) c) (\<lambda>(c, iso).
         go_bind (start_http c (binaries @ scripts @ iso)) (\<lambda>http.
         go_bind (start_dhcp (ml ForDHCP) c) (\<lambda>dhcp.
           Ret (syslog @ tftp @ http @ dhcp)))))))"

text \<open>\<open>dhcpMode.String\<close>.\<close>

definition dhcpMode_String :: "string \<Rightarrow> string" where
  "dhcpMode_String d = d"

section \<open>Making the backend\<close>

lemma disable_kube_simps [simp]:
  "disable_kube (disable_kube c) = disable_kube c" "cfg_dhcp (disable_kube c) = cfg_dhcp c"
  "cfg_ipxeHTTPScript (disable_kube c) = cfg_ipxeHTTPScript c" "cfg_iso (disable_kube c) = cfg_iso c"
  by (simp_all add: disable_kube_def)

lemma config_backend_fst: "fst (config_backend ml c) = disable_kube c"
  by (simp add: config_backend_def Let_def)

lemma config_backend_again: "config_backend ml (disable_kube c) = config_backend ml c"
  by (simp add: config_backend_def Let_def)

lemma script_handler_disable: "script_handler (disable_kube c) br = script_handler c br"
  by (simp add: script_handler_def)

section \<open>The handler that is made\<close>

lemma backend_lawful:
  assumes "config_backend ml c = (c', Inr be)"
  shows "backend_reader be \<and> (noop_Enabled (be_Noop (cfg_backends c)) \<longrightarrow> dhcp_mode (cfg_dhcp c) = dhcpModeAutoProxy)"
proof -
  have "dhcp_mode (cfg_dhcp (disable_kube c)) = dhcp_mode (cfg_dhcp c)"
    "be_Noop (cfg_backends (disable_kube c)) = be_Noop (cfg_backends c)" by (simp_all add: disable_kube_def)
  then show ?thesis
    using assms noop_be.backend_reader_axioms file_be.backend_reader_axioms kube_be.backend_reader_axioms
    by (auto simp: config_backend_def Let_def noop_backend_def File_backend_def Kube_backend_def
        split: if_splits sum.splits option.splits)
qed

lemma ParseAddrPort_wf: "ParseAddrPort s = Some (a, p) \<Longrightarrow> wf_addr a \<and> a \<noteq> AddrZero \<and> p < 65536"
  by (auto simp: ParseAddrPort_def addr_port_def ParseUint16_def Let_def dest: ParseAddr_wf
      split: option.splits if_splits)

text \<open>
  C38. The DHCP handler the program starts with is well formed: whatever the flags, when one is made it has a backend that
  keeps the contract of backends, valid addresses for itself, for TFTP and for syslog, an HTTP server for binaries, a script URL for
  every packet, and netboot switched on; it is the handler of the configured mode, answering for unknown machines exactly in
  the mode auto-proxy, which is also the only mode a handler over the backend that knows nothing is made in.
\<close>

theorem dhcp_handler_wellformed:
  assumes "snd (dhcpHandler ml c) = Inr dh"
  shows "\<exists>be nb ip. backend_reader be \<and> wf_addr ip \<and> ip \<noteq> AddrZero \<and>
     Enabled nb \<and> IPXEBinServerHTTP nb \<noteq> None \<and> (\<exists>f. ScriptURL nb = Some f \<and> (\<forall>p. f p \<noteq> None)) \<and>
     wf_addr (fst (IPXEBinServerTFTP nb)) \<and> fst (IPXEBinServerTFTP nb) \<noteq> AddrZero \<and> snd (IPXEBinServerTFTP nb) < 65536 \<and>
     (noop_Enabled (be_Noop (cfg_backends c)) \<longrightarrow> dhcp_mode (cfg_dhcp c) = ''auto-proxy'') \<and>
     (case dh of
        ReservationHandler r \<Rightarrow> dhcp_mode (cfg_dhcp c) = ''reservation'' \<and> wf_addr (res_SyslogAddr r) \<and>
          res_Backend r = Some be \<and> res_IPAddr r = ip \<and> res_Netboot r = nb
      | ProxyHandler p \<Rightarrow>
          dhcp_mode (cfg_dhcp c) = (if prx_AutoProxyEnabled p then ''auto-proxy'' else ''proxy'') \<and>
          prx_Backend p = Some be \<and> prx_IPAddr p = ip \<and> prx_Netboot p = nb)"
proof -
  obtain ip tftp su c' be where h: "ParseAddr (dhcp_ipForPacket (cfg_dhcp c)) = Some ip"
      "ParseAddrPort (host_port (dhcp_tftpIP (cfg_dhcp c)) (dhcp_tftpPort (cfg_dhcp c))) = Some tftp"
      "script_url (ml_values ml) (cfg_dhcp c) = Inr su" "config_backend ml c = (c', Inr be)"
    using assms by (auto simp: dhcpHandler_def Let_def split: option.splits sum.splits prod.splits)
  let ?nb = "\<lparr>IPXEBinServerTFTP = tftp, IPXEBinServerHTTP = Some (binary_url (cfg_dhcp c)),
     ScriptURL = Some (ipxe_script (injectMacAddress (dhcp_httpIpxeScript (cfg_dhcp c))) su), Enabled = True, UserClass = []\<rparr>"
  have wf: "wf_addr (fst tftp)" "fst tftp \<noteq> AddrZero" "snd tftp < 65536"
    using ParseAddrPort_wf[of _ "fst tftp" "snd tftp"] h(2) by auto
  have script: "ipxe_script b su p \<noteq> None" for b p by (simp add: ipxe_script_def Let_def)
  have dh: "case dh of
        ReservationHandler r \<Rightarrow> dhcp_mode (cfg_dhcp c) = ''reservation'' \<and> wf_addr (res_SyslogAddr r) \<and>
          res_Backend r = Some be \<and> res_IPAddr r = ip \<and> res_Netboot r = ?nb
      | ProxyHandler p \<Rightarrow> dhcp_mode (cfg_dhcp c) = (if prx_AutoProxyEnabled p then ''auto-proxy'' else ''proxy'') \<and>
          prx_Backend p = Some be \<and> prx_IPAddr p = ip \<and> prx_Netboot p = ?nb"
    using assms h ParseAddr_wf
    by (auto simp: dhcpHandler_def Let_def dhcpModeReservation_def dhcpModeProxy_def dhcpModeAutoProxy_def
        split: option.splits sum.splits if_splits)
  have "backend_reader be" "noop_Enabled (be_Noop (cfg_backends c)) \<longrightarrow> dhcp_mode (cfg_dhcp c) = ''auto-proxy''"
    using backend_lawful[OF h(4)] by (simp_all add: dhcpModeAutoProxy_def)
  with wf script dh ParseAddr_wf[OF h(1)] show ?thesis
    by (intro exI[of _ be] exI[of _ ?nb] exI[of _ ip]) simp
qed

section \<open>From the DHCP reply to the script\<close>

lemma auto_ipxe_plain: "plain_elem ''auto.ipxe''" "CHR ''/'' \<notin> set ''auto.ipxe''"
  by (code_simp, simp)

lemma ipxe_script_path:
  assumes "Path u = dir @ ''/auto.ipxe''" "HasPrefix (Path u) ''/''" "length mac \<in> {6, 8, 20}" "ClientHWAddr d = Some mac"
  shows "\<exists>u' p. ipxe_script True u d = Some u' \<and> Path u' = p @ ''/'' @ HardwareAddr_String mac @ ''/auto.ipxe'' \<and>
     Path u' = path_Join [path_Dir (Path u), HardwareAddr_String mac, ''auto.ipxe''] \<and> Scheme u' = Scheme u \<and> Host u' = Host u"
proof -
  have base: "path_Base (Path u) = ''auto.ipxe''"
    using path_Base_elem[OF auto_ipxe_plain(1), of "dir @ ''/''"] by (simp add: assms(1))
  have rooted: "HasPrefix (path_Dir (Path u)) ''/''"
    using path_Dir_rooted[OF auto_ipxe_plain(2), of dir] assms(1,2) by simp
  have "plain_elem (HardwareAddr_String mac)" using assms(3) by (intro HardwareAddr_String_plain) auto
  from path_Join_rooted[OF rooted this auto_ipxe_plain(1)] show ?thesis
    by (auto simp: ipxe_script_def base assms(4))
qed

text \<open>The reservation handler of a configuration without a script URL of its own.\<close>

lemma reservation_of_config:
  assumes "dhcpHandler ml c = (c', Inr (ReservationHandler h))" "dhcp_httpIpxeScriptURL (cfg_dhcp c) = []"
  shows "Enabled (res_Netboot h) \<and> UserClass (res_Netboot h) = [] \<and>
     (\<exists>u. ScriptURL (res_Netboot h) = Some (ipxe_script (injectMacAddress (dhcp_httpIpxeScript (cfg_dhcp c))) u) \<and>
        Path u = ub_Path (dhcp_httpIpxeScript (cfg_dhcp c)) \<and> Scheme u = ub_Scheme (dhcp_httpIpxeScript (cfg_dhcp c)) \<and>
        Host u = script_host (dhcp_httpIpxeScript (cfg_dhcp c))) \<and>
     (\<exists>be. res_Backend h = Some be \<and> config_backend ml c = (c', Inr be) \<and> backend_reader be)"
proof -
  obtain be where be: "config_backend ml c = (c', Inr be)" "res_Backend h = Some be"
    using assms(1) by (auto simp: dhcpHandler_def Let_def split: option.splits sum.splits prod.splits if_splits)
  moreover have "backend_reader be" using backend_lawful[OF be(1)] by blast
  ultimately show ?thesis
    using assms by (auto simp: dhcpHandler_def script_url_def Let_def split: option.splits sum.splits prod.splits if_splits)
qed

text \<open>
  The reply of a handler made from a configuration, with the hardware address put into the path of the script, as is the
  default, to a machine that runs Tinkerbell's iPXE and may boot: it names a URL at the configured host with the
  address of that machine in its path.
\<close>

lemma reply_names_script:
  assumes made: "dhcpHandler ml c = (c', Inr (ReservationHandler h))"
    and paths: "dhcp_httpIpxeScriptURL (cfg_dhcp c) = []" "injectMacAddress (dhcp_httpIpxeScript (cfg_dhcp c))"
      "ub_Path (dhcp_httpIpxeScript (cfg_dhcp c)) = dir @ ''/auto.ipxe''" "HasPrefix (ub_Path (dhcp_httpIpxeScript (cfg_dhcp c))) ''/''"
    and machine: "length mac \<in> {6, 8, 20}" "AllowNetboot n" "IPXEScriptURL n = None"
    and client: "dhcpv4_laws lib" "netboot_client lib p" "ClientHWAddr p = Some mac" "ArchToBootFile (Arch lib p) \<noteq> None"
      "Options p OptionUserClassInformation = Some (Some ''Tinkerbell'')"
    and reply: "updateMsg lib ot h ctx p d n mt = Some r"
  shows "\<exists>u q. BootFileName r = URL_String u \<and> Host u = script_host (dhcp_httpIpxeScript (cfg_dhcp c)) \<and>
     Path u = path_Join [path_Dir (ub_Path (dhcp_httpIpxeScript (cfg_dhcp c))), HardwareAddr_String mac, ''auto.ipxe''] \<and>
     Path u = q @ ''/'' @ HardwareAddr_String mac @ ''/auto.ipxe''"
proof -
  note cfg = reservation_of_config[OF made paths(1)]
  then obtain u0 where u0: "ScriptURL (res_Netboot h) = Some (ipxe_script True u0)"
      "Path u0 = ub_Path (dhcp_httpIpxeScript (cfg_dhcp c))" "Host u0 = script_host (dhcp_httpIpxeScript (cfg_dhcp c))"
    using paths(2) by auto
  obtain u q where u: "ipxe_script True u0 p = Some u" "Path u = q @ ''/'' @ HardwareAddr_String mac @ ''/auto.ipxe''"
      "Path u = path_Join [path_Dir (Path u0), HardwareAddr_String mac, ''auto.ipxe'']" "Host u = Host u0"
    using ipxe_script_path[of u0 dir mac p] paths(3,4) machine(1) client(3) u0(2) by auto
  have sf: "script_for (res_Netboot h) n p = Some u" using u0(1) u(1) machine(3) by (simp add: script_for_def)
  have uc: "UserClassFrom lib (NewInfo lib (Some p)) = Tinkerbell"
    using client(5) by (simp add: UserClassFrom_def dhcpv4_law[OF client(1)] Tinkerbell_def)
  have bin: "Info_IPXEBinary (NewInfo lib (Some p)) \<noteq> []" using client(4) by (auto simp: IPXEBinary_Nil)
  have boot: "BootFileName r = URL_String u"
    using updateMsg_netboot[OF client(1) reply _ client(2)] cfg sf
    by (simp add: setNetworkBootOpts_allowed(1)[OF client(1) machine(2) bin] bootfile_script[OF uc])
  with u u0(2,3) show ?thesis by (intro exI[of _ u] exI[of _ q]) simp
qed

text \<open>A request for the script of a machine that may boot and has no script URL of its own.\<close>

lemma machine_script_served:
  assumes "backend_reader br" "s_Backend sh = Some br" "length mac \<in> {6, 8, 20}"
    and "GetByMac br mac = Ret (Inr (Some d, Some n))" "AllowNetboot n" "IPXEScriptURL n = None"
  shows "script_HandlerFunc write_err sh sc (q @ ''/'' @ HardwareAddr_String mac @ ''/auto.ipxe'') remote =
     Ret [RW_Write (if IPXEScript n \<noteq> [] then custom_text (IPXEScript n) else hook_text (hook_of sh sc d n))]"
proof -
  from backend_reader.getByMac_found[OF assms(1,4)] obtain hw where hw:
    "getByMac mac (Some br) = Ret (Inr hw)" "script_data_of (Some d, Some n) = Ret hw" by auto
  have "script_HandlerFunc write_err sh sc (q @ ''/'' @ HardwareAddr_String mac @ ''/auto.ipxe'') remote = Ret (script_response sh sc d n)"
    unfolding script_HandlerFunc_def auto_ipxe_path[OF assms(3)]
    using hw(1) serve_found_response[OF hw(2)] assms(2) by (simp add: Let_def)
  with assms(5,6) show ?thesis by (simp add: script_response_def)
qed

section \<open>A plain start\<close>

lemma ParseAddrPort_dotted:
  assumes "length b = 4" "CHR '':'' \<notin> set port" "ParseUint16 port = Some p"
  shows "ParseAddrPort (dotted b @ '':'' @ port) = Some (Addr4 b, p)"
proof -
  have a: "ParseAddr (dotted b) = Some (Addr4 b)" using assms(1) by (rule ParseAddr_dotted)
  have ne: "dotted b \<noteq> []" "port \<noteq> []" using assms a by (auto simp: ParseAddr_def ParseUint16_def split: option.splits)
  have "list_all addr_char (dotted b)" using ParseAddr_chars[OF a] by simp
  moreover have "\<not> addr_char (CHR ''['')" by simp
  ultimately have "hd (dotted b) \<noteq> CHR ''[''" using addr_char_not ne(1) hd_in_set by metis
  moreover have "LastIndexByte (dotted b @ '':'' @ port) (CHR '':'') = Some (length (dotted b))"
    using LastIndexByte_append[OF assms(2), of "dotted b"] by simp
  ultimately show ?thesis
    using assms(3) a ne by (simp add: ParseAddrPort_def addr_port_def Let_def)
qed

text \<open>
  A start without any flag: the cluster answers, and the two URLs made from the address, which are spelled out here, are
  URLs that \<open>url.Parse\<close> accepts.
\<close>

definition default_urls :: "value_lib \<Rightarrow> bytes \<Rightarrow> bool" where
  "default_urls vl b \<longleftrightarrow> (\<exists>u. url_Parse vl (''http://'' @ dotted b @ '':8080/ipxe/'') = Inr u) \<and>
     (\<exists>u. url_Parse vl (''http://'' @ dotted b @ '':8080/auto.ipxe'') = Inr u)"

definition default_cluster :: "'c main_lib \<Rightarrow> 'c \<Rightarrow> bool" where
  "default_cluster ml kb \<longleftrightarrow>
     (let k = kube_loader (be_kubernetes (cfg_backends (default_config []))) in
        ml_ClientConfig ml k = None \<and> NewBackend (ml_cluster ml k []) = Inr kb) \<and> ml_scheme ml = None \<and> ml_v1alpha1 ml = None"

lemma default_URL_String:
  "URL_String (empty_URL\<lparr>Scheme := ''http'', Host := dotted b @ '':8080'', Path := ''/ipxe/''\<rparr>) = ''http://'' @ dotted b @ '':8080/ipxe/''"
  "URL_String (empty_URL\<lparr>Scheme := ''http'', Host := dotted b @ '':8080'', Path := ''/auto.ipxe''\<rparr>) = ''http://'' @ dotted b @ '':8080/auto.ipxe''"
proof -
  have "nat_string 8080 = ''8080''"
    by (simp add: nat_string.simps[of 8080] nat_string.simps[of 808] nat_string.simps[of 80] nat_string.simps[of 8] char_of_def bit_0)
  then have h: "url_escape (dotted b @ '':8080'') encodeHost = dotted b @ '':8080''"
    using escape_plain[OF dotted_host_plain[of b 8080]] by simp
  have p: "url_escape ''/ipxe/'' encodePath = ''/ipxe/''" "url_escape ''/auto.ipxe'' encodePath = ''/auto.ipxe''" by code_simp+
  show "URL_String (empty_URL\<lparr>Scheme := ''http'', Host := dotted b @ '':8080'', Path := ''/ipxe/''\<rparr>) = ''http://'' @ dotted b @ '':8080/ipxe/''"
    "URL_String (empty_URL\<lparr>Scheme := ''http'', Host := dotted b @ '':8080'', Path := ''/auto.ipxe''\<rparr>) = ''http://'' @ dotted b @ '':8080/auto.ipxe''"
    by (simp_all add: URL_String_def URL_front_def EscapedPath_def empty_URL_def h p)
qed

definition default_backend :: "'c main_lib \<Rightarrow> 'c \<Rightarrow> BackendReader" where
  "default_backend ml kb = kube_Backend (ml_values ml) (ml_cluster ml (kube_loader (be_kubernetes (cfg_backends (default_config [])))) []) kb"

lemma default_config_backend:
  "default_cluster ml kb \<Longrightarrow> config_backend ml (default_config ip) = (default_config ip, Inr (default_backend ml kb))"
  by (simp add: config_backend_def disable_kube_def default_config_def numTrue_def Kube_backend_def
      default_cluster_def default_backend_def Let_def getClient_def DefaultNamespaces_def)

definition default_netboot :: "bytes \<Rightarrow> handler_Netboot" where
  "default_netboot b =
     \<lparr>IPXEBinServerTFTP = (Addr4 b, 69),
      IPXEBinServerHTTP = Some (empty_URL\<lparr>Scheme := ''http'', Host := dotted b @ '':8080'', Path := ''/ipxe/''\<rparr>),
      ScriptURL = Some (ipxe_script True (empty_URL\<lparr>Scheme := ''http'', Host := dotted b @ '':8080'', Path := ''/auto.ipxe''\<rparr>)),
      Enabled = True, UserClass = []\<rparr>"

text \<open>The handler made from the default flags of \<open>dhcp\<close> over a backend.\<close>

definition default_handler :: "BackendReader \<Rightarrow> bytes \<Rightarrow> reservation_Handler" where
  "default_handler be b = \<lparr>res_Backend = Some be, res_IPAddr = Addr4 b, res_Netboot = default_netboot b,
     res_OTELEnabled = True, res_SyslogAddr = Addr4 b\<rparr>"

lemma default_ports:
  "int_string 8080 = ''8080''" "int_string 69 = ''69''" "int_string 514 = ''514''" "ParseUint16 ''69'' = Some 69"
  by (simp_all add: int_string_def nat_string.simps[of 8080] nat_string.simps[of 808] nat_string.simps[of 80] nat_string.simps[of 8]
      nat_string.simps[of 69] nat_string.simps[of 6] nat_string.simps[of 514] nat_string.simps[of 51] nat_string.simps[of 5]
      char_of_def bit_0 ParseUint16_def is_digit_def digit_val_def)

lemma dhcpHandler_default:
  assumes "length b = 4" "default_urls (ml_values ml) b" "cfg_dhcp cf = cfg_dhcp (default_config (dotted b))"
    and "config_backend ml cf = (cf', Inr be)"
  shows "dhcpHandler ml cf = (cf', Inr (ReservationHandler (default_handler be b)))"
proof -
  let ?c = "cfg_dhcp cf"
  have c: "dhcp_ipForPacket ?c = dotted b" "dhcp_tftpIP ?c = dotted b" "dhcp_tftpPort ?c = 69" "dhcp_syslogIP ?c = dotted b"
    "dhcp_mode ?c = dhcpModeReservation" "injectMacAddress (dhcp_httpIpxeScript ?c)"
    by (simp_all add: assms(3) default_config_def)
  have script: "script_url (ml_values ml) ?c = Inr (empty_URL\<lparr>Scheme := ''http'', Host := dotted b @ '':8080'', Path := ''/auto.ipxe''\<rparr>)"
    by (simp add: assms(3) script_url_def default_config_def script_host_def host_port_def default_ports)
  have binary: "binary_url ?c = empty_URL\<lparr>Scheme := ''http'', Host := dotted b @ '':8080'', Path := ''/ipxe/''\<rparr>"
    by (simp add: assms(3) binary_url_def default_config_def host_port_def default_ports)
  have addr: "ParseAddr (dotted b) = Some (Addr4 b)" "ParseAddrPort (host_port (dotted b) 69) = Some (Addr4 b, 69)"
    using ParseAddr_dotted[OF assms(1)] ParseAddrPort_dotted[OF assms(1), of "''69''"] default_ports by (simp_all add: host_port_def)
  obtain u v where "url_Parse (ml_values ml) (URL_String (binary_url ?c)) = Inr u"
    "url_Parse (ml_values ml) (URL_String (empty_URL\<lparr>Scheme := ''http'', Host := dotted b @ '':8080'', Path := ''/auto.ipxe''\<rparr>)) = Inr v"
    using assms(2) unfolding binary default_URL_String default_urls_def by blast
  then show ?thesis
    by (simp add: dhcpHandler_def Let_def c addr script assms(4) default_handler_def default_netboot_def
        binary[symmetric])
qed

text \<open>
  The services of a configuration that differs from the default one in the backends at most, when a backend can be made.
\<close>

lemma default_services:
  assumes "length b = 4" "default_urls (ml_values (ml ForDHCP)) b"
    and "config_backend (ml ForScripts) cf = (cf', Inr br)" "config_backend (ml ForDHCP) cf = (cf', Inr be)"
    and cf: "cf = (default_config (dotted b))\<lparr>cfg_backends := bs\<rparr>"
  shows "main_start ml cf = Ret
       [SyslogService (dotted b @ '':514'') 1,
        TFTPService (Addr4 b, 69) 5000000000 [] 512,
        HTTPService (dotted b @ '':8080'') [] [(''/ipxe/'', Binaries []), (''/'', Scripts (script_handler cf br))],
        DHCPService ''0.0.0.0:67'' [] (ReservationHandler (default_handler be b))]"
proof -
  have cf': "cf' = disable_kube cf" using assms(3) config_backend_fst[of "ml ForScripts" cf] by simp
  have again: "config_backend (ml ForDHCP) cf' = (cf', Inr be)"
    using assms(4) config_backend_again[of "ml ForDHCP" cf] by (simp add: cf')
  have tftp: "start_tftp (cfg_tftp cf) = Ret [TFTPService (Addr4 b, 69) 5000000000 [] 512]"
    using ParseAddrPort_dotted[OF assms(1), of "''69''"] default_ports
    by (simp add: start_tftp_def default_config_def host_port_def cf)
  have scripts: "script_route (ml ForScripts) cf = Ret (cf', [(''/'', Scripts (script_handler cf' br))])"
    using assms(3) by (simp add: script_route_def) (simp add: cf default_config_def)
  have iso: "iso_route (ml ForISO) cf' = Ret (cf', [])" by (simp add: iso_route_def cf') (simp add: cf default_config_def)
  have "parseTrustedProxies [] = Ret []" by code_simp
  then have http: "start_http cf' hs = Ret [HTTPService (dotted b @ '':8080'') [] hs]" if "hs \<noteq> []" for hs
    using that default_ports by (simp add: start_http_def host_port_def cf') (simp add: cf default_config_def)
  have same: "cfg_dhcp cf' = cfg_dhcp (default_config (dotted b))" by (simp add: cf' cf)
  have dhcp: "start_dhcp (ml ForDHCP) cf' = Ret [DHCPService ''0.0.0.0:67'' [] (ReservationHandler (default_handler be b))]"
    using dhcpHandler_default[OF assms(1,2) same again] by (simp add: start_dhcp_def same) (simp add: default_config_def)
  have "sys_enabled (cfg_syslog cf)" "bin_enabled (cfg_ipxeHTTPBinary cf)" "tftp_ipxeScriptPatch (cfg_tftp cf) = []"
    "host_port (sys_bindAddr (cfg_syslog cf)) (sys_bindPort (cfg_syslog cf)) = dotted b @ '':514''"
    using default_ports by (simp_all add: cf default_config_def host_port_def)
  then show ?thesis by (simp add: main_start_def tftp scripts iso http dhcp) (simp add: cf' script_handler_disable)
qed

text \<open>
  C40. What the program starts without any flag, on a machine whose detected address is an IPv4 address, with a cluster that
  answers both times it is asked for a client: no two flags clash, and there are four services, in this order: syslog on
  port 514 with one parser, TFTP on port 69, HTTP on port 8080 with the binaries under \<open>/ipxe/\<close> and the scripts everywhere
  else and no trusted proxies, and a reservation DHCP handler on port 67 that announces this address for itself, TFTP and
  syslog, with netboot on and the URLs of this HTTP server for binaries and scripts. The script server and the DHCP
  handler each have a cluster backend of their own, made with the default options.
\<close>

theorem plain_start:
  assumes "length b = 4" "default_urls (ml_values (ml ForDHCP)) b"
    and "default_cluster (ml ForScripts) kb" "default_cluster (ml ForDHCP) kb'"
  shows "\<exists>c fs sh h. setFlags (dotted b) zero_config = Ret (c, fs) \<and> countFlags fs = 53 \<and>
     main_start ml c = Ret
       [SyslogService (dotted b @ '':514'') 1,
        TFTPService (Addr4 b, 69) 5000000000 [] 512,
        HTTPService (dotted b @ '':8080'') [] [(''/ipxe/'', Binaries []), (''/'', Scripts sh)],
        DHCPService ''0.0.0.0:67'' [] (ReservationHandler h)] \<and>
     s_Backend sh = Some (default_backend (ml ForScripts) kb) \<and> backend_reader (default_backend (ml ForScripts) kb) \<and>
     res_Backend h = Some (default_backend (ml ForDHCP) kb') \<and> backend_reader (default_backend (ml ForDHCP) kb') \<and>
     res_IPAddr h = Addr4 b \<and> res_SyslogAddr h = Addr4 b \<and> IPXEBinServerTFTP (res_Netboot h) = (Addr4 b, 69) \<and>
     Enabled (res_Netboot h) \<and>
     map_option URL_String (IPXEBinServerHTTP (res_Netboot h)) = Some (''http://'' @ dotted b @ '':8080/ipxe/'') \<and>
     ScriptURL (res_Netboot h) =
       Some (ipxe_script True (empty_URL\<lparr>Scheme := ''http'', Host := dotted b @ '':8080'', Path := ''/auto.ipxe''\<rparr>))"
proof -
  let ?c = "default_config (dotted b)"
  note made = default_config_backend[OF assms(3), of "dotted b"] default_config_backend[OF assms(4), of "dotted b"]
  have "?c = ?c\<lparr>cfg_backends := cfg_backends ?c\<rparr>" by simp
  note services = default_services[of b ml, OF assms(1,2) made this]
  have "countFlags (all_flags (dotted b)) = 53" by (simp add: countFlags_def all_flags_def flag_lists)
  then show ?thesis
    using services setFlags_defaults[of "dotted b"] backend_lawful[OF made(1)] backend_lawful[OF made(2)]
    by (intro exI[of _ ?c] exI[of _ "all_flags (dotted b)"] exI[of _ "script_handler ?c (default_backend (ml ForScripts) kb)"]
        exI[of _ "default_handler (default_backend (ml ForDHCP) kb') b"])
      (simp add: script_handler_def default_handler_def default_netboot_def default_URL_String Let_def)
qed

section \<open>Concrete starts\<close>

definition sample_main :: "(string \<rightharpoonup> (client_Object \<Rightarrow> string list)) main_lib" where
  "sample_main = \<lparr>ml_values = sample_values\<lparr>url_Parse := (\<lambda>s. Inr empty_URL)\<rparr>, ml_yaml = (\<lambda>_. Inr []), ml_newWatcher = (\<lambda>_. None),
     ml_add = (\<lambda>_. None), ml_ReadFile = (\<lambda>_. Inr []), ml_ClientConfig = (\<lambda>_. None), ml_scheme = None, ml_v1alpha1 = None,
     ml_cluster = (\<lambda>_ _. sample_cluster [])\<rparr>"

definition sample_indexes :: "string \<rightharpoonup> (client_Object \<Rightarrow> string list)" where
  "sample_indexes = [MACAddrIndex \<mapsto> MACAddrs, IPAddrIndex \<mapsto> IPAddrs]"

lemma sample_main_cluster: "default_cluster sample_main sample_indexes"
  by (simp add: default_cluster_def sample_main_def NewBackend_def sample_cluster_def sample_indexes_def)

lemma sample_main_urls: "default_urls (ml_values sample_main) b"
  by (simp add: default_urls_def sample_main_def)

theorem plain_start_witness:
  "\<exists>c fs svcs. setFlags (dotted ''abcd'') zero_config = Ret (c, fs) \<and> main_start (\<lambda>_. sample_main) c = Ret svcs \<and> length svcs = 4"
  using plain_start[of "''abcd''" "\<lambda>_. sample_main", OF _ sample_main_urls sample_main_cluster sample_main_cluster] by fastforce

theorem dhcp_handler_wellformed_witness:
  "\<exists>h. snd (dhcpHandler sample_main (default_config (dotted ''abcd''))) = Inr (ReservationHandler h) \<and>
     Enabled (res_Netboot h) \<and> wf_addr (res_SyslogAddr h)"
proof -
  have "snd (dhcpHandler sample_main (default_config (dotted ''abcd''))) =
      Inr (ReservationHandler (default_handler (default_backend sample_main sample_indexes) ''abcd''))"
    using dhcpHandler_default[OF _ sample_main_urls refl default_config_backend[OF sample_main_cluster], of "''abcd''"] by simp
  with dhcp_handler_wellformed[OF this] show ?thesis by auto
qed

text \<open>The program over a file with one machine.\<close>

definition sample_file_main :: "(string \<rightharpoonup> (client_Object \<Rightarrow> string list)) main_lib" where
  "sample_file_main = sample_main\<lparr>ml_yaml := (\<lambda>_. Inr sample_file)\<rparr>"

definition sample_file_config :: config where
  "sample_file_config = (default_config (dotted ''abcd''))\<lparr>cfg_backends :=
     (cfg_backends (default_config []))\<lparr>be_file := \<lparr>file_FilePath = ''/etc/smee.yaml'', file_Enabled = True\<rparr>\<rparr>\<rparr>"

definition sample_file_backend :: BackendReader where
  "sample_file_backend = file_Backend (ml_values sample_main) (\<lambda>_. Inr sample_file) sample_watcher"

lemma sample_file_config_backend: "\<exists>c. config_backend sample_file_main sample_file_config = (c, Inr sample_file_backend)"
  by (simp add: config_backend_def sample_file_config_def disable_kube_def default_config_def numTrue_def File_backend_def
      NewWatcher_def sample_file_main_def sample_main_def sample_file_backend_def sample_watcher_def)

lemma sample_file_machine:
  "\<exists>d. GetByMac sample_file_backend sample_mac = Ret (Inr (Some d, Some (new_Netboot\<lparr>AllowNetboot := True\<rparr>)))"
proof -
  have "ParseAddr ''192.168.2.153'' \<noteq> None" "ParseIP ''255.255.255.0'' \<noteq> None" by code_simp+
  then obtain ip sm where "ParseAddr (f_IPAddress sample_record) = Some ip" "ParseIP (f_SubnetMask sample_record) = Some sm"
    by (auto simp: sample_record_def)
  moreover have "translate_netboot (ml_values sample_main) (f_Netboot sample_record) = Inr (new_Netboot\<lparr>AllowNetboot := True\<rparr>)"
    by (simp add: translate_netboot_def sample_record_def)
  ultimately obtain d where "translate (ml_values sample_main) (sample_record\<lparr>f_MACAddress := Some sample_mac\<rparr>) =
      Inr (d, new_Netboot\<lparr>AllowNetboot := True\<rparr>)" by (auto simp: translate_Inr)
  then show ?thesis
    using mac_loop_key[OF sample_file_key(3,1,2)] by (simp add: sample_file_backend_def file_Backend_def file_GetByMac_def found_def)
qed

end
