(* ===== verification/HTTP_Routes.thy ===== *)
theory HTTP_Routes
  imports HTTP_Server Go_URL
begin

text \<open>
  The HTTP server of \<open>internal/ipxe/http/http.go\<close>: the routes it registers, the handler it wraps around
  them, the health check, and what \<open>Config.ServeHTTP\<close> returns. \<open>net/http\<close>'s multiplexer is modelled for the patterns
  the program uses, which are paths without host, method, wildcard and percent-encoding. What the standard
  library and Prometheus write themselves (redirects, 404, metrics, JSON) is the record \<open>http_env\<close>.
\<close>

section \<open>The multiplexer\<close>

text \<open>A pattern with a slash at its end stands for everything below it, any other one for itself.\<close>

definition pattern_matches :: "string \<Rightarrow> string \<Rightarrow> bool" where
  "pattern_matches pat p = (if HasSuffix pat ''/'' then HasPrefix p pat else p = pat)"

definition cleanPath :: "string \<Rightarrow> string" where
  "cleanPath p0 =
     (if p0 = [] then ''/''
      else (let p = (if hd p0 \<noteq> CHR ''/'' then CHR ''/'' # p0 else p0);
                np = path_Clean p
            in if last p = CHR ''/'' \<and> np \<noteq> ''/'' then np @ ''/'' else np))"

text \<open>Registering a pattern a second time is a panic, and the most specific pattern is the longest that matches.\<close>

definition mux_Handle :: "(string \<times> 'h) list \<Rightarrow> string \<times> 'h \<Rightarrow> (string \<times> 'h) list go" where
  "mux_Handle mux r =
     (if fst r \<in> set (map fst mux) then Panic (''pattern '' @ fst r @ '' conflicts'') else Ret (mux @ [r]))"

fun mux_register :: "(string \<times> 'h) list \<Rightarrow> (string \<times> 'h) list \<Rightarrow> (string \<times> 'h) list go" where
  "mux_register mux [] = Ret mux"
| "mux_register mux (r # rs) = go_bind (mux_Handle mux r) (\<lambda>mux. mux_register mux rs)"

fun mux_match :: "(string \<times> 'h) list \<Rightarrow> string \<Rightarrow> (string \<times> 'h) option" where
  "mux_match [] p = None"
| "mux_match ((pat, h) # rs) p =
     (case mux_match rs p of
        None \<Rightarrow> if pattern_matches pat p then Some (pat, h) else None
      | Some (q, k) \<Rightarrow> if pattern_matches pat p \<and> length q < length pat then Some (pat, h) else Some (q, k))"

datatype 'h routed = Routed 'h | Redirected string | Unrouted

text \<open>
  \<open>findHandler\<close>: a path that only lacks the slash of a pattern is redirected to it, then one that is not clean to its
  clean form; \<open>CONNECT\<close> requests are taken as they are.
\<close>

definition mux_find :: "(string \<times> 'h) list \<Rightarrow> string \<Rightarrow> string \<Rightarrow> 'h routed" where
  "mux_find mux meth escapedPath =
     (let path = (if meth = ''CONNECT'' then escapedPath else cleanPath escapedPath);
          n = mux_match mux path;
          exact = (case n of None \<Rightarrow> False | Some (pat, h) \<Rightarrow> pat = path)
      in if \<not> exact \<and> \<not> HasSuffix path ''/'' \<and> path @ ''/'' \<in> set (map fst mux) then Redirected (path @ ''/'')
         else if path \<noteq> escapedPath then Redirected path
         else (case n of None \<Rightarrow> Unrouted | Some (pat, h) \<Rightarrow> Routed h))"

section \<open>The server\<close>

type_synonym response = "Header \<times> rw_call list"

record health =
  h_GitRev :: string      \<comment> \<open>\<open>git_rev\<close>\<close>
  h_Uptime :: int         \<comment> \<open>nanoseconds; \<open>uptime\<close> is written in seconds\<close>
  h_Goroutines :: int

record http_env =
  he_URL :: "string \<Rightarrow> string \<Rightarrow> URL"              \<comment> \<open>\<open>r.URL\<close>, parsed from method and target\<close>
  he_redirect :: "string \<Rightarrow> Request \<Rightarrow> response"   \<comment> \<open>\<open>RedirectHandler\<close> with status 301\<close>
  he_notFound :: "Request \<Rightarrow> response"
  he_metrics :: "Request \<Rightarrow> response"              \<comment> \<open>\<open>promhttp.Handler\<close>\<close>
  he_json :: "health \<Rightarrow> go_error + bytes"          \<comment> \<open>what the JSON encoder writes\<close>
  he_write :: "bytes \<Rightarrow> int \<times> go_error option"     \<comment> \<open>what writing to the client returns\<close>
  he_since :: "int \<Rightarrow> int"                         \<comment> \<open>\<open>time.Since\<close>, with times as nanoseconds\<close>
  he_goroutines :: int

definition request_URL :: "http_env \<Rightarrow> Request \<Rightarrow> URL" where
  "request_URL env req = he_URL env (Req_Method req) (Req_RequestURI req)"

record http_Config =
  GitRev :: string
  StartTime :: int
  TrustedProxies :: "string list"

definition serveHealthchecker :: "http_env \<Rightarrow> string \<Rightarrow> int \<Rightarrow> Request \<Rightarrow> response" where
  "serveHealthchecker env gitRev start req =
     (let hdr = [''Content-Type'' \<mapsto> [''application/json'']];
          res = \<lparr>h_GitRev = gitRev, h_Uptime = he_since env start, h_Goroutines = he_goroutines env\<rparr>
      in case he_json env res of
           Inl err \<Rightarrow> (hdr, [RW_WriteHeader 500])
         | Inr b \<Rightarrow> (case snd (he_write env b) of
             Some err \<Rightarrow> (hdr, [RW_Write b, RW_WriteHeader 500])
           | None \<Rightarrow> (hdr, [RW_Write b])))"

text \<open>The handlers of the program's own routes are of type \<open>'h\<close>; \<open>run\<close> says how they answer.\<close>

datatype 'h route = App 'h | MetricsRoute | HealthRoute

definition run_route :: "http_env \<Rightarrow> http_Config \<Rightarrow> ('h \<Rightarrow> Request \<Rightarrow> response) \<Rightarrow> 'h route \<Rightarrow> Request \<Rightarrow> response" where
  "run_route env s run r req =
     (case r of App h \<Rightarrow> run h req | MetricsRoute \<Rightarrow> he_metrics env req
      | HealthRoute \<Rightarrow> serveHealthchecker env (GitRev s) (StartTime s) req)"

definition mux_ServeHTTP ::
  "http_env \<Rightarrow> http_Config \<Rightarrow> ('h \<Rightarrow> Request \<Rightarrow> response) \<Rightarrow> (string \<times> 'h route) list \<Rightarrow> Request \<Rightarrow> response" where
  "mux_ServeHTTP env s run mux req =
     (if Req_RequestURI req = ''*'' then (Map.empty, [RW_WriteHeader 400])
      else (case mux_find mux (Req_Method req) (EscapedPath (request_URL env req)) of
          Routed r \<Rightarrow> run_route env s run r req
        | Redirected p \<Rightarrow> he_redirect env p req
        | Unrouted \<Rightarrow> he_notFound env req))"

text \<open>
  The first part of \<open>Config.ServeHTTP\<close>: the handler of the server. The OpenTelemetry wrappers pass
  requests and responses on. A \<open>*\<close> request is a bad request.
\<close>

definition server_handler ::
  "http_env \<Rightarrow> http_Config \<Rightarrow> ('h \<Rightarrow> Request \<Rightarrow> response) \<Rightarrow> (string \<times> 'h) list \<Rightarrow>
     (Request \<Rightarrow> rw_call list \<times> log_entry option) go" where
  "server_handler env s run handlers =
     go_bind (mux_register [] (map (\<lambda>(pattern, h). (pattern, App h)) handlers)) (\<lambda>mux.
     go_bind (mux_Handle mux (''/metrics'', MetricsRoute)) (\<lambda>mux.
     go_bind (mux_Handle mux (''/healthcheck'', HealthRoute)) (\<lambda>mux.
       http_handler (TrustedProxies s) (he_write env) (mux_ServeHTTP env s run mux))))"

text \<open>The second part: what is returned once the listener has ended with an error.\<close>

definition ErrServerClosed :: go_error where "ErrServerClosed = LibraryError ''http: Server closed''"

definition listen_result :: "go_error \<Rightarrow> go_error option" where
  "listen_result err = (if errors_Is err ErrServerClosed then None else Some err)"

section \<open>Which route answers\<close>

lemma HasSuffix_slash [simp]: "HasSuffix (s @ ''/'') ''/''" "\<not> HasSuffix [] ''/''"
  by (simp_all add: HasSuffix_def)

lemma HasSuffix_last: "s \<noteq> [] \<Longrightarrow> HasSuffix s ''/'' \<longleftrightarrow> last s = CHR ''/''"
  by (cases s rule: rev_cases) (simp_all add: HasSuffix_def)

lemma mux_match_mem:
  "mux_match mux p = Some (pat, h) \<Longrightarrow> (pat, h) \<in> set mux \<and> pattern_matches pat p"
  by (induction mux p arbitrary: pat h rule: mux_match.induct) (auto split: option.splits if_splits)

lemma mux_match_None: "mux_match mux p = None \<longleftrightarrow> (\<forall>(q, k) \<in> set mux. \<not> pattern_matches q p)"
  by (induction mux p rule: mux_match.induct) (auto split: option.splits)

lemma mux_match_longest:
  "mux_match mux p = Some (pat, h) \<Longrightarrow> (q, k) \<in> set mux \<Longrightarrow> pattern_matches q p \<Longrightarrow> length q \<le> length pat"
proof (induction mux arbitrary: pat h)
  case (Cons r rs)
  show ?case
  proof (cases "mux_match rs p")
    case None
    with Cons.prems show ?thesis by (cases r) (auto simp: mux_match_None split: if_splits)
  next
    case (Some x)
    then obtain pat' h' where x: "mux_match rs p = Some (pat', h')" by (cases x) simp
    show ?thesis
    proof (cases "(q, k) \<in> set rs")
      case True
      with Cons.IH[OF x True Cons.prems(3)] Cons.prems(1) x show ?thesis by (cases r) (auto split: if_splits)
    next
      case False
      with Cons.prems x show ?thesis by (cases r) (auto split: if_splits)
    qed
  qed
qed simp

text \<open>Two patterns of the same length that match the same path are the same.\<close>

lemma pattern_matches_prefix: "pattern_matches q p \<Longrightarrow> q = take (length q) p"
  by (auto simp: pattern_matches_def HasPrefix_def split: if_splits)

lemma mux_match_eqI:
  assumes "distinct (map fst mux)" "(pat, h) \<in> set mux" "pattern_matches pat p"
    and "\<And>q k. (q, k) \<in> set mux \<Longrightarrow> pattern_matches q p \<Longrightarrow> length q \<le> length pat"
  shows "mux_match mux p = Some (pat, h)"
proof -
  from assms(2,3) obtain q k where m: "mux_match mux p = Some (q, k)"
    by (cases "mux_match mux p") (auto simp: mux_match_None)
  from mux_match_mem[OF m] mux_match_longest[OF m assms(2,3)] assms(4)[of q k] have "length q = length pat" by auto
  with pattern_matches_prefix[OF assms(3)] mux_match_mem[OF m] have "q = pat" using pattern_matches_prefix by metis
  with mux_match_mem[OF m] assms(1,2) m show ?thesis by (metis eq_key_imp_eq_value)
qed

lemma mux_register_Ret:
  "mux_register mux rs = Ret m \<longleftrightarrow> m = mux @ rs \<and> distinct (map fst rs) \<and> set (map fst rs) \<inter> set (map fst mux) = {}"
  by (induction rs arbitrary: mux) (auto simp: mux_Handle_def go_bind_iffs)

section \<open>Clean paths\<close>

text \<open>The elements of a clean path.\<close>

definition clean_elem :: "bytes \<Rightarrow> bool" where
  "clean_elem e \<longleftrightarrow> e \<noteq> [] \<and> e \<noteq> ''.'' \<and> e \<noteq> ''..'' \<and> CHR ''/'' \<notin> set e"

lemma plain_clean_elem: "plain_elem e \<Longrightarrow> clean_elem e"
  by (auto simp: plain_elem_def clean_elem_def plain_byte_def)

lemma clean_elems_up: "''..'' \<notin> set acc \<Longrightarrow> clean_elems True (''..'' # es) acc = clean_elems True es (List.tl acc)"
  by (cases acc) auto

lemma clean_elems_clean:
  "\<forall>e \<in> set es. CHR ''/'' \<notin> set e \<Longrightarrow> \<forall>e \<in> set acc. clean_elem e \<Longrightarrow> \<forall>e \<in> set (clean_elems True es acc). clean_elem e"
proof (induction es arbitrary: acc)
  case (Cons e es)
  from Cons.prems(1) have es: "\<forall>x \<in> set es. CHR ''/'' \<notin> set x" by simp
  show ?case
  proof (cases "e = [] \<or> e = ''.''")
    case True
    then have "clean_elems True (e # es) acc = clean_elems True es acc" by (simp only: clean_elems.simps if_True)
    then show ?thesis using Cons.IH[OF es Cons.prems(2)] by metis
  next
    case False
    show ?thesis
    proof (cases "e = ''..''")
      case True
      have "''..'' \<notin> set acc" using Cons.prems(2) unfolding clean_elem_def by blast
      from clean_elems_up[OF this] have "clean_elems True (e # es) acc = clean_elems True es (List.tl acc)" by (simp only: True)
      moreover have "\<forall>e \<in> set (List.tl acc). clean_elem e" using Cons.prems(2) by (cases acc) auto
      ultimately show ?thesis using Cons.IH[OF es, of "List.tl acc"] by metis
    next
      case up: False
      with False have "clean_elems True (e # es) acc = clean_elems True es (e # acc)" by (simp only: clean_elems.simps if_False)
      moreover have "clean_elem e" unfolding clean_elem_def using False up Cons.prems(1) by (meson list.set_intros(1))
      ultimately show ?thesis using Cons.IH[OF es, of "e # acc"] Cons.prems(2) by (metis set_ConsD)
    qed
  qed
qed simp

lemma clean_elems_id: "\<forall>e \<in> set es. clean_elem e \<Longrightarrow> clean_elems r (es @ fs) acc = clean_elems r fs (rev es @ acc)"
  by (induction es arbitrary: acc) (auto simp: clean_elem_def)

text \<open>The clean path with given elements, with or without a slash at its end.\<close>

definition rooted_path :: "bytes list \<Rightarrow> bool \<Rightarrow> bytes" where
  "rooted_path es dir = CHR ''/'' # Join es ''/'' @ (if dir then ''/'' else [])"

lemma path_Clean_rooted:
  assumes "\<forall>e \<in> set es. clean_elem e" "dir \<Longrightarrow> es \<noteq> []"
  shows "path_Clean (rooted_path es dir) = rooted_path es False"
proof -
  have no_slash: "\<forall>e \<in> set es. CHR ''/'' \<notin> set e" using assms(1) unfolding clean_elem_def by blast
  have split: "Split (Join es ''/'' @ (if dir then ''/'' else [])) (CHR ''/'') = (if es = [] then [[]] else es @ (if dir then [[]] else []))"
  proof (cases "es = []")
    case False
    have "Split (Join (es @ (if dir then [[]] else [])) ''/'') (CHR ''/'') = es @ (if dir then [[]] else [])"
      using no_slash False by (intro Split_Join) auto
    moreover have "Join (es @ (if dir then [[]] else [])) ''/'' = Join es ''/'' @ (if dir then ''/'' else [])"
      using False by (simp add: Join_snoc)
    ultimately show ?thesis using False by simp
  qed (use assms(2) in auto)
  define ps where "ps = [] # (if es = [] then [[]] else es @ (if dir then [[]] else []))"
  have clean: "clean_elems True ps [] = es"
    using clean_elems_id[OF assms(1), of True "if dir then [[]] else []" "[]"] by (simp add: ps_def)
  have ps: "Split (rooted_path es dir) (CHR ''/'') = ps"
    unfolding rooted_path_def ps_def using split by (simp only: Split.simps simp_thms if_True)
  have rooted: "HasPrefix (rooted_path es dir) ''/''" by (simp add: rooted_path_def HasPrefix_def)
  show ?thesis
    unfolding path_Clean_def Let_def ps by (simp only: rooted if_True clean) (simp add: rooted_path_def)
qed

lemma path_Clean_shape: "\<exists>es. (\<forall>e \<in> set es. clean_elem e) \<and> path_Clean (CHR ''/'' # s) = rooted_path es False"
proof -
  let ?es = "clean_elems True (Split (CHR ''/'' # s) (CHR ''/'')) []"
  have "\<forall>e \<in> set ?es. clean_elem e" by (rule clean_elems_clean) (auto dest: Split_no_sep)
  then show ?thesis by (intro exI[of _ ?es]) (simp add: path_Clean_def rooted_path_def HasPrefix_def Let_def)
qed

lemma rooted_path_last:
  assumes "\<forall>e \<in> set es. clean_elem e" "es \<noteq> []"
  shows "last (rooted_path es dir) = CHR ''/'' \<longleftrightarrow> dir"
proof -
  obtain fs e where es: "es = fs @ [e]" using assms(2) by (cases es rule: rev_cases) auto
  with assms(1) have e: "e \<noteq> []" "CHR ''/'' \<notin> set e" by (auto simp: clean_elem_def)
  have "Join es ''/'' = (if fs = [] then [] else Join fs ''/'' @ ''/'') @ e" by (simp add: es Join_snoc)
  with e have "Join es ''/'' \<noteq> []" "last (Join es ''/'') = last e" by auto
  moreover have "last e \<noteq> CHR ''/''" using e last_in_set by metis
  ultimately show ?thesis by (auto simp: rooted_path_def)
qed

lemma cleanPath_rooted:
  assumes "\<forall>e \<in> set es. clean_elem e" "dir \<Longrightarrow> es \<noteq> []"
  shows "cleanPath (rooted_path es dir) = rooted_path es dir"
proof (cases "es = []")
  case True
  with assms(2) have "\<not> dir" by blast
  with True show ?thesis
    using path_Clean_rooted[of "[]" False] by (simp add: cleanPath_def rooted_path_def)
next
  case False
  have "rooted_path es False \<noteq> ''/''" using rooted_path_last[OF assms(1) False, of False] by auto
  moreover have "rooted_path es dir \<noteq> []" "hd (rooted_path es dir) = CHR ''/''"
    "rooted_path es False @ ''/'' = rooted_path es True" by (simp_all add: rooted_path_def)
  ultimately show ?thesis
    using path_Clean_rooted[OF assms] rooted_path_last[OF assms(1) False, of dir]
    by (cases dir) (simp_all add: cleanPath_def Let_def)
qed

lemma cleanPath_shape: "\<exists>es dir. (\<forall>e \<in> set es. clean_elem e) \<and> (dir \<longrightarrow> es \<noteq> []) \<and> cleanPath p = rooted_path es dir"
proof (cases "p = []")
  case True
  then show ?thesis by (intro exI[of _ "[]"] exI[of _ False]) (simp add: cleanPath_def rooted_path_def)
next
  case False
  define q where "q = (if hd p \<noteq> CHR ''/'' then CHR ''/'' # p else p)"
  obtain s where s: "q = CHR ''/'' # s" using False by (cases p; cases "hd p = CHR ''/''") (auto simp: q_def)
  obtain es where es: "\<forall>e \<in> set es. clean_elem e" "path_Clean q = rooted_path es False" using path_Clean_shape s by metis
  have c: "cleanPath p = (if last q = CHR ''/'' \<and> path_Clean q \<noteq> ''/'' then path_Clean q @ ''/'' else path_Clean q)"
    using False by (simp add: cleanPath_def q_def Let_def)
  have "path_Clean q = ''/'' \<longleftrightarrow> es = []" using rooted_path_last[OF es(1), of False] by (cases "es = []") (auto simp: es(2) rooted_path_def)
  then show ?thesis
    using es by (intro exI[of _ es] exI[of _ "last q = CHR ''/'' \<and> es \<noteq> []"]) (auto simp: c rooted_path_def)
qed

lemma cleanPath_idem: "cleanPath (cleanPath p) = cleanPath p"
  using cleanPath_shape[of p] cleanPath_rooted by metis

lemma cleanPath_slash:
  assumes "\<not> HasSuffix (cleanPath p) ''/''"
  shows "cleanPath (cleanPath p @ ''/'') = cleanPath p @ ''/''"
proof -
  obtain es dir where es: "\<forall>e \<in> set es. clean_elem e" "cleanPath p = rooted_path es dir" using cleanPath_shape by blast
  have "rooted_path es True = (CHR ''/'' # Join es ''/'') @ ''/''" "rooted_path [] False = [] @ ''/''" by (simp_all add: rooted_path_def)
  then have "\<not> dir" "es \<noteq> []" using assms es(2) HasSuffix_slash(1) by (metis (full_types))+
  with cleanPath_rooted[OF es(1), of True] es(2) show ?thesis by (simp add: rooted_path_def)
qed

lemma cleanPath_prefix: "HasPrefix (cleanPath p) ''/''"
  using cleanPath_shape[of p] by (auto simp: rooted_path_def HasPrefix_def)

text \<open>A path that is clean and is not the root of a subtree without its slash goes to the longest pattern.\<close>

lemma mux_find_clean:
  assumes "cleanPath p = p" "p @ ''/'' \<notin> set (map fst mux)" "mux_match mux p = Some (pat, h)"
  shows "mux_find mux meth p = Routed h"
  using assms by (simp add: mux_find_def Let_def)

text \<open>The path a request is looked up by.\<close>

definition looked_up :: "string \<Rightarrow> string \<Rightarrow> string" where
  "looked_up meth p = (if meth = ''CONNECT'' then p else cleanPath p)"

lemma looked_up_idem: "looked_up meth (looked_up meth p) = looked_up meth p"
  by (simp add: looked_up_def cleanPath_idem)

lemma looked_up_slash: "\<not> HasSuffix (looked_up meth p) ''/'' \<Longrightarrow> looked_up meth (looked_up meth p @ ''/'') = looked_up meth p @ ''/''"
  using cleanPath_slash[of p] by (auto simp: looked_up_def split: if_splits)

lemma mux_find_unfold:
  "mux_find mux meth p =
     (let c = looked_up meth p
      in if c \<notin> set (map fst mux) \<and> \<not> HasSuffix c ''/'' \<and> c @ ''/'' \<in> set (map fst mux) then Redirected (c @ ''/'')
         else if c \<noteq> p then Redirected c
         else (case mux_match mux c of None \<Rightarrow> Unrouted | Some (pat, h) \<Rightarrow> Routed h))"
proof -
  have exact: "(case mux_match mux c of None \<Rightarrow> False | Some (pat, h) \<Rightarrow> pat = c) \<longleftrightarrow> c \<in> set (map fst mux)"
    if suffix: "\<not> HasSuffix c ''/''" for c
  proof
    assume "case mux_match mux c of None \<Rightarrow> False | Some (pat, h) \<Rightarrow> pat = c"
    then show "c \<in> set (map fst mux)" by (auto split: option.splits dest!: mux_match_mem simp: rev_image_eqI)
  next
    assume "c \<in> set (map fst mux)"
    then obtain k where k: "(c, k) \<in> set mux" by auto
    have self: "pattern_matches c c" by (simp add: pattern_matches_def suffix)
    from k self obtain pat h where m: "mux_match mux c = Some (pat, h)"
      by (cases "mux_match mux c") (auto simp: mux_match_None)
    have "length c \<le> length pat" using mux_match_longest[OF m k self] .
    moreover have "pat = take (length pat) c" using mux_match_mem[OF m] pattern_matches_prefix by blast
    ultimately have "pat = c" by simp
    with m show "case mux_match mux c of None \<Rightarrow> False | Some (pat, h) \<Rightarrow> pat = c" by simp
  qed
  show ?thesis
    unfolding mux_find_def looked_up_def[symmetric] Let_def using exact[of "looked_up meth p"]
    by (cases "HasSuffix (looked_up meth p) ''/''") (simp_all cong: if_cong)
qed

text \<open>
  No path that is redirected to is redirected again; a path that is not redirected goes to the longest pattern that matches it; and with
  a pattern for the root every path has a route.
\<close>

lemma mux_find_total:
  "(\<forall>q q'. mux_find mux meth p = Redirected q \<longrightarrow> mux_find mux meth q \<noteq> Redirected q') \<and>
   (\<forall>h. mux_find mux meth p = Routed h \<longrightarrow>
      (\<exists>pat. (pat, h) \<in> set mux \<and> pattern_matches pat p \<and>
         (\<forall>(q, k) \<in> set mux. pattern_matches q p \<longrightarrow> length q \<le> length pat))) \<and>
   (''/'' \<in> set (map fst mux) \<and> meth \<noteq> ''CONNECT'' \<longrightarrow> mux_find mux meth p \<noteq> Unrouted)"
proof (intro conjI allI impI)
  fix q q' assume q: "mux_find mux meth p = Redirected q"
  let ?c = "looked_up meth p"
  let ?sub = "?c \<notin> set (map fst mux) \<and> \<not> HasSuffix ?c ''/'' \<and> ?c @ ''/'' \<in> set (map fst mux)"
  consider "?sub" "q = ?c @ ''/''" | "\<not> ?sub" "q = ?c"
    using q by (auto simp: mux_find_unfold Let_def split: if_splits option.splits)
  then show "mux_find mux meth q \<noteq> Redirected q'"
  proof cases
    case 1
    with looked_up_slash[of meth p] have "looked_up meth q = q" "HasSuffix q ''/''" by simp_all
    then show ?thesis by (auto simp: mux_find_unfold Let_def split: option.split)
  next
    case 2
    with looked_up_idem[of meth p] have "looked_up meth q = q" by simp
    with 2 show ?thesis by (auto simp: mux_find_unfold Let_def split: option.split)
  qed
next
  fix h assume "mux_find mux meth p = Routed h"
  then obtain pat where m: "mux_match mux p = Some (pat, h)"
    by (auto simp: mux_find_unfold Let_def split: if_splits option.splits)
  with mux_match_mem[OF m] mux_match_longest[OF m]
  show "\<exists>pat. (pat, h) \<in> set mux \<and> pattern_matches pat p \<and>
         (\<forall>(q, k) \<in> set mux. pattern_matches q p \<longrightarrow> length q \<le> length pat)" by blast
next
  assume root: "''/'' \<in> set (map fst mux) \<and> meth \<noteq> ''CONNECT''"
  have "pattern_matches ''/'' (looked_up meth p)"
    using root cleanPath_prefix by (simp add: pattern_matches_def looked_up_def HasSuffix_def)
  with root show "mux_find mux meth p \<noteq> Unrouted"
    by (auto simp: mux_find_unfold Let_def mux_match_None split: option.split)
qed

text \<open>
  C23. The routes of the server. When the handler of the server can be made, it is the X-Forwarded-For and logging middleware
  around a multiplexer that holds every given route, the metrics and the health check, each pattern once. A client is redirected at most once,
  because no path that the multiplexer redirects to is redirected again; a path that is not redirected goes to a
  pattern that matches it and is at least as long as every other one that matches it; and with a handler at
  \<open>/\<close> no request other than a \<open>CONNECT\<close> is left without a route.
\<close>

theorem http_routes:
  assumes "server_handler env s run handlers = Ret serve"
  shows "\<exists>mux. http_handler (TrustedProxies s) (he_write env) (mux_ServeHTTP env s run mux) = Ret serve \<and>
     distinct (map fst mux) \<and>
     set mux = (\<lambda>(pattern, h). (pattern, App h)) ` set handlers \<union> {(''/metrics'', MetricsRoute), (''/healthcheck'', HealthRoute)} \<and>
     (\<forall>meth p.
       (\<forall>q q'. mux_find mux meth p = Redirected q \<longrightarrow> mux_find mux meth q \<noteq> Redirected q') \<and>
       (\<forall>h. mux_find mux meth p = Routed h \<longrightarrow>
          (\<exists>pat. (pat, h) \<in> set mux \<and> pattern_matches pat p \<and>
             (\<forall>(q, k) \<in> set mux. pattern_matches q p \<longrightarrow> length q \<le> length pat))) \<and>
       (''/'' \<in> set (map fst handlers) \<and> meth \<noteq> ''CONNECT'' \<longrightarrow> mux_find mux meth p \<noteq> Unrouted))"
proof -
  let ?app = "\<lambda>(pattern, h). (pattern, App h)"
  let ?mux = "map ?app handlers @ [(''/metrics'', MetricsRoute), (''/healthcheck'', HealthRoute)]"
  have parts: "distinct (map fst ?mux)"
      "http_handler (TrustedProxies s) (he_write env) (mux_ServeHTTP env s run ?mux) = Ret serve"
    using assms by (auto simp: server_handler_def go_bind_iffs mux_register_Ret mux_Handle_def split: if_splits)
  have root: "''/'' \<in> set (map fst handlers) \<Longrightarrow> ''/'' \<in> set (map fst ?mux)" by force
  have "\<forall>meth p.
       (\<forall>q q'. mux_find ?mux meth p = Redirected q \<longrightarrow> mux_find ?mux meth q \<noteq> Redirected q') \<and>
       (\<forall>h. mux_find ?mux meth p = Routed h \<longrightarrow>
          (\<exists>pat. (pat, h) \<in> set ?mux \<and> pattern_matches pat p \<and>
             (\<forall>(q, k) \<in> set ?mux. pattern_matches q p \<longrightarrow> length q \<le> length pat))) \<and>
       (''/'' \<in> set (map fst handlers) \<and> meth \<noteq> ''CONNECT'' \<longrightarrow> mux_find ?mux meth p \<noteq> Unrouted)" (is "\<forall>meth p. ?P meth p")
  proof (intro allI)
    fix meth p
    note total = mux_find_total[of ?mux meth p]
    show "?P meth p" by (intro conjI conjunct1[OF total] conjunct1[OF conjunct2[OF total]]) (use conjunct2[OF conjunct2[OF total]] root in blast)
  qed
  moreover have "set ?mux = ?app ` set handlers \<union> {(''/metrics'', MetricsRoute), (''/healthcheck'', HealthRoute)}" by auto
  ultimately show ?thesis using parts by (intro exI[of _ ?mux] conjI)
qed

text \<open>Binaries and scripts, with a health check that writes an empty object.\<close>

definition sample_http_env :: http_env where
  "sample_http_env = \<lparr>he_URL = (\<lambda>meth target. empty_URL\<lparr>Path := target\<rparr>), he_redirect = (\<lambda>p req. (Map.empty, [RW_WriteHeader 301])),
     he_notFound = (\<lambda>req. (Map.empty, [RW_WriteHeader 404])), he_metrics = (\<lambda>req. (Map.empty, [])),
     he_json = (\<lambda>h. Inr ''{}''), he_write = (\<lambda>b. (int (length b), None)), he_since = (\<lambda>t. 0), he_goroutines = 1\<rparr>"

theorem http_routes_witness:
  "\<exists>serve mux. server_handler sample_http_env \<lparr>GitRev = [], StartTime = 0, TrustedProxies = []\<rparr> (\<lambda>h req. (Map.empty, [RW_Write h]))
       [(''/ipxe/'', ''binaries''), (''/'', ''scripts'')] = Ret serve \<and>
     distinct (map fst mux) \<and> (''/'', App ''scripts'') \<in> set mux \<and> mux_find mux ''GET'' ''/auto.ipxe'' \<noteq> Unrouted"
proof -
  let ?run = "\<lambda>h req. (Map.empty, [RW_Write h]) :: response"
  let ?hs = "[(''/ipxe/'', ''binaries''), (''/'', ''scripts'')]"
  let ?s = "\<lparr>GitRev = [], StartTime = 0, TrustedProxies = []\<rparr>"
  have "\<exists>serve. server_handler sample_http_env ?s ?run ?hs = Ret serve"
    by (simp add: server_handler_def mux_Handle_def http_handler_def)
  then obtain serve where serve: "server_handler sample_http_env ?s ?run ?hs = Ret serve" by blast
  from http_routes[OF serve] serve show ?thesis
    by (elim exE conjE) (intro exI conjI, assumption, assumption, simp,
      drule spec[of _ "''GET''"], drule spec[of _ "''/auto.ipxe''"], simp)
qed

end
