(* ===== verification/Metric.thy ===== *)
theory Metric
  imports Smee_Prelude Complex_Main
begin

text \<open>
  \<open>internal/metric/metric.go\<close>: the metrics of the program, with what the code relies on of the Prometheus
  client: a name can be registered once, and a series is selected by exactly the labels its vector was
  made with; both are panics otherwise. A vector is kept with the label values of its series, in the
  order in which they came up; their values are not kept.
\<close>

section \<open>Vectors\<close>

type_synonym Labels = "(string \<times> string) list"

datatype vec_kind = CounterVec | GaugeVec | HistogramVec "rat list"

record vec =
  vec_kind :: vec_kind
  vec_name :: string
  vec_labels :: "string list"
  vec_series :: "string list list"

text \<open>The client's \<open>MustRegister\<close>, for a registry that is the list of the names in it.\<close>

definition promauto_New :: "vec_kind \<Rightarrow> string \<Rightarrow> string list \<Rightarrow> string list \<Rightarrow> (vec \<times> string list) go" where
  "promauto_New k name labels reg =
     (if name \<in> set reg then Panic ''duplicate metrics collector registration attempted''
      else Ret (\<lparr>vec_kind = k, vec_name = name, vec_labels = labels, vec_series = []\<rparr>, reg @ [name]))"

definition vec_With :: "vec \<Rightarrow> Labels \<Rightarrow> vec go" where
  "vec_With v ls =
     (if length ls \<noteq> length (vec_labels v) then Panic ''inconsistent label cardinality''
      else case those (map (map_of ls) (vec_labels v)) of
          None \<Rightarrow> Panic ''label name missing in label map''
        | Some vs \<Rightarrow> Ret (if vs \<in> set (vec_series v) then v else v\<lparr>vec_series := vec_series v @ [vs]\<rparr>))"

fun LinearBuckets :: "rat \<Rightarrow> rat \<Rightarrow> nat \<Rightarrow> rat list" where
  "LinearBuckets start width 0 = []"
| "LinearBuckets start width (Suc n) = start # LinearBuckets (start + width) width n"

text \<open>The three functions that create series, which differ in the type of the vector only.\<close>

fun initCounterLabels :: "vec \<Rightarrow> Labels list \<Rightarrow> vec go" where
  "initCounterLabels m [] = Ret m"
| "initCounterLabels m (labels # l) = go_bind (vec_With m labels) (\<lambda>m. initCounterLabels m l)"

definition initGaugeLabels :: "vec \<Rightarrow> Labels list \<Rightarrow> vec go" where
  "initGaugeLabels = initCounterLabels"

definition initObserverLabels :: "vec \<Rightarrow> Labels list \<Rightarrow> vec go" where
  "initObserverLabels = initCounterLabels"

section \<open>The metrics of the program\<close>

record metrics =
  DHCPTotal :: vec
  DiscoverDuration :: vec
  HardwareDiscovers :: vec
  DiscoversInProgress :: vec
  JobDuration :: vec
  JobsTotal :: vec
  JobsInProgress :: vec

definition dhcp_labels :: "Labels list" where
  "dhcp_labels = map (\<lambda>(op, t). [(''op'', op), (''type'', t), (''giaddr'', ''0.0.0.0'')])
     [(''recv'', ''DHCPACK''), (''recv'', ''DHCPDECLINE''), (''recv'', ''DHCPDISCOVER''), (''recv'', ''DHCPINFORM''),
      (''recv'', ''DHCPNAK''), (''recv'', ''DHCPOFFER''), (''recv'', ''DHCPRELEASE''), (''recv'', ''DHCPREQUEST''),
      (''send'', ''DHCPOFFER'')]"

definition discover_labels :: "Labels list" where
  "discover_labels = [[(''from'', ''dhcp'')], [(''from'', ''ip'')]]"

definition job_labels :: "Labels list" where
  "job_labels = map (\<lambda>(source, op). [(''from'', source), (''op'', op)])
     [(''dhcp'', ''DHCPACK''), (''dhcp'', ''DHCPDECLINE''), (''dhcp'', ''DHCPDISCOVER''), (''dhcp'', ''DHCPINFORM''),
      (''dhcp'', ''DHCPNAK''), (''dhcp'', ''DHCPOFFER''), (''dhcp'', ''DHCPRELEASE''), (''dhcp'', ''DHCPREQUEST''),
      (''http'', ''file''), (''http'', ''hardware-components''), (''http'', ''phone-home''), (''http'', ''problem''),
      (''http'', ''event''), (''tftp'', ''read'')]"

definition metric_Init :: "string list \<Rightarrow> (metrics \<times> string list) go" where
  "metric_Init reg =
     (let buckets = LinearBuckets (1 / 100) (5 / 100) 10 in
      go_bind (promauto_New CounterVec ''dhcp_total'' [''op'', ''type'', ''giaddr''] reg) (\<lambda>(dhcp, reg).
      go_bind (initCounterLabels dhcp dhcp_labels) (\<lambda>dhcp.
      go_bind (promauto_New (HistogramVec buckets) ''discover_duration_seconds'' [''from''] reg) (\<lambda>(dd, reg).
      go_bind (promauto_New CounterVec ''discover_total'' [''from''] reg) (\<lambda>(hd, reg).
      go_bind (promauto_New GaugeVec ''discover_in_progress'' [''from''] reg) (\<lambda>(dp, reg).
      go_bind (initObserverLabels dd discover_labels) (\<lambda>dd.
      go_bind (initCounterLabels hd discover_labels) (\<lambda>hd.
      go_bind (initGaugeLabels dp discover_labels) (\<lambda>dp.
      go_bind (promauto_New (HistogramVec buckets) ''jobs_duration_seconds'' [''from'', ''op''] reg) (\<lambda>(jd, reg).
      go_bind (promauto_New CounterVec ''jobs_total'' [''from'', ''op''] reg) (\<lambda>(jt, reg).
      go_bind (promauto_New GaugeVec ''jobs_in_progress'' [''from'', ''op''] reg) (\<lambda>(jp, reg).
      go_bind (initObserverLabels jd job_labels) (\<lambda>jd.
      go_bind (initCounterLabels jt job_labels) (\<lambda>jt.
      go_bind (initGaugeLabels jp job_labels) (\<lambda>jp.
        Ret (\<lparr>DHCPTotal = dhcp, DiscoverDuration = dd, HardwareDiscovers = hd, DiscoversInProgress = dp,
               JobDuration = jd, JobsTotal = jt, JobsInProgress = jp\<rparr>, reg))))))))))))))))"

text \<open>The metrics the script handler touches on a request for \<open>auto.ipxe\<close>, all with the labels \<open>from\<close> and \<open>op\<close>.\<close>

definition script_labels :: Labels where
  "script_labels = [(''from'', ''http''), (''op'', ''file'')]"

definition script_metrics :: "metrics \<Rightarrow> metrics go" where
  "script_metrics m =
     go_bind (vec_With (JobsTotal m) script_labels) (\<lambda>jt.
     go_bind (vec_With (JobsInProgress m) script_labels) (\<lambda>jp.
     go_bind (vec_With (JobDuration m) script_labels) (\<lambda>jd.
       Ret (m\<lparr>JobsTotal := jt, JobsInProgress := jp, JobDuration := jd\<rparr>))))"

section \<open>Series\<close>

text \<open>Labels fit a vector when they are its labels, each once.\<close>

definition labels_fit :: "vec \<Rightarrow> Labels \<Rightarrow> bool" where
  "labels_fit v ls \<longleftrightarrow> length ls = length (vec_labels v) \<and> set (vec_labels v) \<subseteq> fst ` set ls"

definition series_of :: "vec \<Rightarrow> Labels \<Rightarrow> string list" where
  "series_of v ls = map (\<lambda>n. the (map_of ls n)) (vec_labels v)"

lemma those_map_of: "set ns \<subseteq> fst ` set ls \<Longrightarrow> those (map (map_of ls) ns) = Some (map (\<lambda>n. the (map_of ls n)) ns)"
proof (induction ns)
  case (Cons n ns)
  then obtain v where "map_of ls n = Some v" by (cases "map_of ls n") (auto simp: map_of_eq_None_iff)
  with Cons show ?case by simp
qed simp

lemma vec_With_fits:
  assumes "labels_fit v ls"
  shows "vec_With v ls = Ret (if series_of v ls \<in> set (vec_series v) then v else v\<lparr>vec_series := vec_series v @ [series_of v ls]\<rparr>)"
  using assms those_map_of[of "vec_labels v" ls] by (simp add: vec_With_def labels_fit_def series_of_def)

lemma initCounterLabels_fits:
  assumes "\<forall>ls \<in> set l. labels_fit v ls" "distinct (vec_series v @ map (series_of v) l)"
  shows "initCounterLabels v l = Ret (v\<lparr>vec_series := vec_series v @ map (series_of v) l\<rparr>)"
  using assms
proof (induction l arbitrary: v)
  case (Cons ls l)
  let ?v = "v\<lparr>vec_series := vec_series v @ [series_of v ls]\<rparr>"
  have same: "series_of ?v = series_of v" "labels_fit ?v = labels_fit v" by (simp_all add: series_of_def labels_fit_def fun_eq_iff)
  from Cons.prems have "vec_With v ls = Ret ?v" by (simp add: vec_With_fits)
  moreover have "initCounterLabels ?v l = Ret (?v\<lparr>vec_series := vec_series ?v @ map (series_of ?v) l\<rparr>)"
    using Cons.prems by (intro Cons.IH) (simp_all add: same)
  ultimately show ?case by (simp add: same)
qed simp

lemmas init_labels_fits = initCounterLabels_fits initCounterLabels_fits[folded initGaugeLabels_def] initCounterLabels_fits[folded initObserverLabels_def]

text \<open>
  The metrics come up: on an empty registry \<open>Init\<close> creates every series named in its tables and never panics; a second
  \<open>Init\<close> panics; and the script handler finds its series, so that a request neither panics nor creates one.
\<close>

lemma metric_Init_ok:
  "\<exists>m reg. metric_Init [] = Ret (m, reg) \<and> length reg = 7 \<and> script_metrics m = Ret m \<and> (\<exists>e. metric_Init reg = Panic e) \<and>
     length (vec_series (DHCPTotal m)) = 9 \<and> length (vec_series (JobsTotal m)) = 14 \<and> length (vec_series (HardwareDiscovers m)) = 2"
proof -
  have fits: "\<forall>ls \<in> set l. labels_fit v ls" "distinct (vec_series v @ map (series_of v) l)"
    if "vec_series v = []" "(vec_labels v, l) \<in> {([''op'', ''type'', ''giaddr''], dhcp_labels), ([''from''], discover_labels), ([''from'', ''op''], job_labels)}"
    for v l using that by (auto simp: labels_fit_def series_of_def dhcp_labels_def discover_labels_def job_labels_def)
  note init = init_labels_fits[OF fits]
  let ?vec = "\<lambda>k name labels l. \<lparr>vec_kind = k, vec_name = name, vec_labels = labels,
    vec_series = map (\<lambda>ls. map (\<lambda>n. the (map_of ls n)) labels) l\<rparr>"
  let ?h = "HistogramVec (LinearBuckets (1 / 100) (5 / 100) 10)"
  let ?m = "\<lparr>DHCPTotal = ?vec CounterVec ''dhcp_total'' [''op'', ''type'', ''giaddr''] dhcp_labels,
    DiscoverDuration = ?vec ?h ''discover_duration_seconds'' [''from''] discover_labels,
    HardwareDiscovers = ?vec CounterVec ''discover_total'' [''from''] discover_labels,
    DiscoversInProgress = ?vec GaugeVec ''discover_in_progress'' [''from''] discover_labels,
    JobDuration = ?vec ?h ''jobs_duration_seconds'' [''from'', ''op''] job_labels,
    JobsTotal = ?vec CounterVec ''jobs_total'' [''from'', ''op''] job_labels,
    JobsInProgress = ?vec GaugeVec ''jobs_in_progress'' [''from'', ''op''] job_labels\<rparr>"
  let ?reg = "[''dhcp_total'', ''discover_duration_seconds'', ''discover_total'', ''discover_in_progress'',
    ''jobs_duration_seconds'', ''jobs_total'', ''jobs_in_progress'']"
  have "metric_Init [] = Ret (?m, ?reg)"
    by (simp add: metric_Init_def Let_def promauto_New_def init series_of_def del: LinearBuckets.simps)
  moreover have fit: "vec_With v script_labels = Ret v"
    if "vec_labels v = [''from'', ''op'']" "vec_series v = map (\<lambda>ls. map (\<lambda>n. the (map_of ls n)) [''from'', ''op'']) job_labels" for v
    using that by (simp add: vec_With_def script_labels_def job_labels_def)
  have "script_metrics ?m = Ret ?m" by (simp add: script_metrics_def fit)
  moreover have "\<exists>e. metric_Init ?reg = Panic e" by (simp add: metric_Init_def Let_def promauto_New_def)
  moreover have "length dhcp_labels = 9" "length job_labels = 14" "length discover_labels = 2"
    by (simp_all add: dhcp_labels_def job_labels_def discover_labels_def)
  ultimately show ?thesis by (intro exI[of _ ?m] exI[of _ ?reg]) simp
qed

end
