(* ===== verification/Otel_Setup.thy ===== *)
theory Otel_Setup
  imports Smee_Prelude
begin

text \<open>
  \<open>Init\<close> of \<open>internal/otel/otel.go\<close>, which connects the program to an OpenTelemetry collector. The SDK's
  constructors are parameters that may fail; what the code sets globally is recorded in order, and so is
  what the returned function does at shutdown.
\<close>

record otel_Config =
  Servicename :: string
  Endpoint :: string
  Insecure :: bool

datatype grpc_Option =
    WithEndpoint string
  | WithServiceConfig int string string int string   \<comment> \<open>attempts, initial and maximal backoff, multiplier, status\<close>
  | WithRetry bool int int int                       \<comment> \<open>enabled, initial and maximal interval, maximal time, in seconds\<close>
  | WithInsecure
  | WithTLSCredentials

datatype otel_global =
    SetTextMapPropagator "string list"
  | SetTracerProvider string   \<comment> \<open>with the resource of this service, exporting in batches\<close>
  | SetLogger
  | SetErrorHandler

datatype otel_stop =
    ShutdownProvider int       \<comment> \<open>with this timeout in seconds\<close>
  | ShutdownExporter int

record otel_sdk =
  sdk_resource_New :: "string \<Rightarrow> go_error option"
  sdk_exporter_New :: "grpc_Option list \<Rightarrow> go_error option"

definition retryPolicy :: grpc_Option where
  "retryPolicy = WithServiceConfig 1000 ''.01s'' ''.01s'' 1 ''UNAVAILABLE''"

definition grpcOpts :: "otel_Config \<Rightarrow> grpc_Option list" where
  "grpcOpts c =
     [WithEndpoint (Endpoint c), retryPolicy, WithRetry True 5 30 300] @
     (if Insecure c then [WithInsecure] else [WithTLSCredentials])"

definition initTracing :: "otel_sdk \<Rightarrow> otel_Config \<Rightarrow> otel_global list \<times> (go_error + otel_stop list)" where
  "initTracing sdk c =
     (case sdk_resource_New sdk (Servicename c) of
        Some err \<Rightarrow> ([], Inl (Errorf (''failed to create OpenTelemetry service name resource: '' @ Error_text err) err))
      | None \<Rightarrow>
     (case sdk_exporter_New sdk (grpcOpts c) of
        Some err \<Rightarrow> ([], Inl (Errorf (''failed to configure OTLP exporter: '' @ Error_text err) err))
      | None \<Rightarrow>
          ([SetTextMapPropagator [''tracecontext'', ''baggage''], SetTracerProvider (Servicename c), SetLogger, SetErrorHandler],
           Inr [ShutdownProvider 5, ShutdownExporter 5])))"

definition otel_Init :: "otel_sdk \<Rightarrow> otel_Config \<Rightarrow> otel_global list \<times> (go_error + otel_stop list)" where
  "otel_Init sdk c = (if Endpoint c \<noteq> [] then initTracing sdk c else ([], Inr []))"

text \<open>\<open>Handle\<close>, the error handler that is set: the line it logs.\<close>

definition otel_Handle :: "go_error option \<Rightarrow> (string \<times> go_error) option" where
  "otel_Handle err = map_option (\<lambda>e. (''OpenTelemetry error'', e)) err"

text \<open>Globals are set only when everything could be made, and then all of them.\<close>

lemma otel_Init_all_or_nothing:
  "fst (otel_Init sdk c) = [] \<or>
     (\<exists>stop. snd (otel_Init sdk c) = Inr stop \<and> stop \<noteq> [] \<and> Endpoint c \<noteq> [] \<and>
        fst (otel_Init sdk c) = [SetTextMapPropagator [''tracecontext'', ''baggage''], SetTracerProvider (Servicename c), SetLogger, SetErrorHandler])"
  by (auto simp: otel_Init_def initTracing_def split: option.split)

end
