(* ===== verification/Smee_Boot.thy ===== *)
theory Smee_Boot
  imports Smee_Main HTTP_Routes Metric Otel_Setup
begin

text \<open>
  The servers of \<open>cmd/smee\<close> together: the HTTP server \<open>main\<close> starts, with its routes and middleware, and the
  DHCP handler it starts beside it, from the reply to a machine to the script it gets; with the logger, the start of
  tracing, and what \<open>main\<close> does with the first error.
\<close>

section \<open>The handlers behind the routes\<close>

text \<open>
  The script handler as the server runs it; a panic ends the connection without a response. The handlers of the binaries
  and of the ISO are arguments.
\<close>

definition run_script :: "http_env \<Rightarrow> SpanContext \<Rightarrow> script_Handler \<Rightarrow> Request \<Rightarrow> response" where
  "run_script env sc sh req =
     (case script_HandlerFunc (\<lambda>b. snd (he_write env b) \<noteq> None) sh sc (Path (request_URL env req)) (Req_RemoteAddr req) of
        Ret calls \<Rightarrow> (Map.empty, calls)
      | Panic m \<Rightarrow> (Map.empty, []))"

definition run_app ::
  "http_env \<Rightarrow> SpanContext \<Rightarrow> (bytes \<Rightarrow> Request \<Rightarrow> response) \<Rightarrow> (iso_Handler \<Rightarrow> Request \<Rightarrow> response) \<Rightarrow>
     http_Handler \<Rightarrow> Request \<Rightarrow> response" where
  "run_app env sc binaries images h req =
     (case h of Binaries patch \<Rightarrow> binaries patch req | Scripts sh \<Rightarrow> run_script env sc sh req | ISO ih \<Rightarrow> images ih req)"

section \<open>The logger\<close>

text \<open>
  \<open>defaultLogger\<close>: the level, and the function that shortens the source position in each line. The value of an
  attribute is a source position (function and file, or nil) or something else.
\<close>

datatype slog_Level = LevelDebug | LevelInfo
datatype slog_Value = SourceValue "(string \<times> string) option" | OtherValue string

definition last_parts :: "string \<Rightarrow> string" where
  "last_parts s = (let f = Split s (CHR ''/'') in if length f > 3 then path_Join (drop (length f - 3) f) else s)"

definition customAttr :: "string \<times> slog_Value \<Rightarrow> string \<times> slog_Value" where
  "customAttr a =
     (if fst a = ''source'' then
        (case snd a of
           SourceValue (Some (func, fname)) \<Rightarrow> (fst a, SourceValue (Some (last_parts func, last_parts fname)))
         | _ \<Rightarrow> a)
      else a)"

definition defaultLogger :: "string \<Rightarrow> slog_Level \<times> (string \<times> slog_Value \<Rightarrow> string \<times> slog_Value)" where
  "defaultLogger level = (if level = ''debug'' then LevelDebug else LevelInfo, customAttr)"

text \<open>No more than three parts of a path are logged.\<close>

lemma last_parts_short:
  "length (Split s (CHR ''/'')) \<le> 3 \<Longrightarrow> last_parts s = s"
  "last_parts ''github.com/tinkerbell/smee/internal/syslog.parse'' = ''smee/internal/syslog.parse''"
  by (simp add: last_parts_def, code_simp)

section \<open>The program\<close>

text \<open>
  \<open>main\<close> up to the point where it waits: tracing, metrics, then the services. A failure of tracing is a panic.
\<close>

definition otel_config :: "config \<Rightarrow> otel_Config" where
  "otel_config c = \<lparr>Servicename = ''smee'', Endpoint = otel_endpoint (cfg_otel c), Insecure = otel_insecure (cfg_otel c)\<rparr>"

definition smee_main :: "otel_sdk \<Rightarrow> (backend_call \<Rightarrow> 'c main_lib) \<Rightarrow> config \<Rightarrow> (service list \<times> otel_stop list) go" where
  "smee_main sdk ml c =
     (case snd (otel_Init sdk (otel_config c)) of
        Inl err \<Rightarrow> Panic (Error_text err)
      | Inr otelShutdown \<Rightarrow>
          go_bind (metric_Init []) (\<lambda>m.
          go_bind (main_start ml c) (\<lambda>services. Ret (services, otelShutdown))))"

text \<open>The goroutine of the DHCP service before it serves; \<open>newIPv4UDPConn\<close> opens the socket.\<close>

definition dhcp_service ::
  "(string \<Rightarrow> UDPAddr \<Rightarrow> go_error + 'n) \<Rightarrow> string \<Rightarrow> string \<Rightarrow> server_Handler \<Rightarrow> (server_Handler, 'n) server_DHCP go" where
  "dhcp_service newIPv4UDPConn bindAddr bindInterface dh =
     (case ParseAddrPort bindAddr of
        None \<Rightarrow> Panic (''invalid tftp address for DHCP server: '' @ Error_text (parse_error ''ParseAddrPort'' bindAddr))
      | Some (a, p) \<Rightarrow>
        (case newIPv4UDPConn bindInterface \<lparr>UDP_IP = AsSlice a, UDP_Port = p, UDP_Zone = Zone a\<rparr> of
           Inl err \<Rightarrow> Panic (Error_text err)
         | Inr conn \<Rightarrow> Ret \<lparr>srv_Handlers = [dh], srv_Conn = conn\<rparr>))"

text \<open>What \<open>main\<close> does with the first error of its goroutines.\<close>

definition main_wait :: "go_error option \<Rightarrow> unit go" where
  "main_wait err =
     (case err of
        Some e \<Rightarrow> if \<not> errors_Is e (LibraryError ''context canceled'') then Panic (Error_text e) else Ret ()
      | None \<Rightarrow> Ret ())"

lemma smee_main_untraced:
  "otel_endpoint (cfg_otel c) = [] \<Longrightarrow> smee_main sdk ml c = go_bind (main_start ml c) (\<lambda>services. Ret (services, []))"
  using metric_Init_ok by (auto simp: smee_main_def otel_Init_def otel_config_def)

lemma smee_main_services: "smee_main sdk ml c = Ret (ss, stop) \<Longrightarrow> main_start ml c = Ret ss"
  by (auto simp: smee_main_def go_bind_iffs split: sum.splits)

section \<open>What a start fixes\<close>

lemma script_route_Ret:
  "script_route ml c = Ret (c', rs) \<Longrightarrow> c' \<in> {c, disable_kube c} \<and>
     (if http_enabled (cfg_ipxeHTTPScript c) then \<exists>br. snd (config_backend ml c) = Inr br \<and> rs = [(''/'', Scripts (script_handler c br))]
      else rs = [])"
  using config_backend_fst[of ml c]
  by (auto simp: script_route_def failed_def script_handler_disable split: if_splits prod.splits sum.splits)

lemma iso_route_Ret:
  "iso_route ml c = Ret (c', rs) \<Longrightarrow> c' \<in> {c, disable_kube c} \<and> set (map fst rs) \<subseteq> {''/iso/''} \<and> distinct (map fst rs)"
  using config_backend_fst[of ml c]
  by (auto simp: iso_route_def failed_def split: if_splits prod.splits sum.splits)

text \<open>The HTTP service and the DHCP service of one start.\<close>

lemma main_start_services:
  assumes "main_start ml c = Ret ss" "HTTPService addr tp hs \<in> set ss" "DHCPService ba bi dh \<in> set ss"
  obtains c3 c' where "c3 \<in> {c, disable_kube c}" "dhcpHandler (ml ForDHCP) c3 = (c', Inr dh)"
    and "parseTrustedProxies (http_trustedProxies (cfg_ipxeHTTPScript c)) = Ret tp"
    and "distinct (map fst hs)" "set (map fst hs) \<subseteq> {''/ipxe/'', ''/'', ''/iso/''}"
    and "http_enabled (cfg_ipxeHTTPScript c) \<Longrightarrow> \<exists>br. snd (config_backend (ml ForScripts) c) = Inr br \<and> (''/'', Scripts (script_handler c br)) \<in> set hs"
proof -
  let ?bin = "if bin_enabled (cfg_ipxeHTTPBinary c) then [(''/ipxe/'', Binaries (tftp_ipxeScriptPatch (cfg_tftp c)))] else []"
  obtain tftp c1 scripts c2 images http dhcp where m:
      "start_tftp (cfg_tftp c) = Ret tftp" "script_route (ml ForScripts) c = Ret (c1, scripts)" "iso_route (ml ForISO) c1 = Ret (c2, images)"
      "start_http c2 (?bin @ scripts @ images) = Ret http" "start_dhcp (ml ForDHCP) c2 = Ret dhcp"
      "ss = (if sys_enabled (cfg_syslog c)
            then [SyslogService (host_port (sys_bindAddr (cfg_syslog c)) (sys_bindPort (cfg_syslog c))) 1] else []) @ tftp @ http @ dhcp"
    using assms(1) by (auto simp: main_start_def Let_def go_bind_iffs)
  note r = script_route_Ret[OF m(2)] iso_route_Ret[OF m(3)]
  have c2: "c2 \<in> {c, disable_kube c}" using r by auto
  have tftp: "s \<notin> set tftp" if "\<not> (\<exists>a t p b. s = TFTPService a t p b)" for s
    using m(1) that by (auto simp: start_tftp_def failed_def Let_def split: if_splits option.splits)
  have "HTTPService addr tp hs \<in> set http"
    using assms(2) m(5,6) tftp by (auto simp: start_dhcp_def failed_def split: if_splits prod.splits sum.splits)
  then have hs: "hs = ?bin @ scripts @ images" "parseTrustedProxies (http_trustedProxies (cfg_ipxeHTTPScript c)) = Ret tp"
    using m(4) c2 by (auto simp: start_http_def go_bind_iffs split: if_splits)
  have "DHCPService ba bi dh \<in> set dhcp"
    using assms(3) m(4,6) tftp by (auto simp: start_http_def go_bind_iffs split: if_splits)
  then obtain c' where "dhcpHandler (ml ForDHCP) c2 = (c', Inr dh)"
    using m(5) by (auto simp: start_dhcp_def failed_def split: if_splits prod.splits sum.splits)
  moreover have "set (map fst scripts) \<subseteq> {''/''}" "distinct (map fst scripts)" using r(1) by (auto split: if_splits)
  then have sub: "fst x = ''/''" if "x \<in> set scripts" for x using that by auto
  have "fst x = ''/iso/''" if "x \<in> set images" for x using that r(2) by auto
  from sub this have disj: "fst x \<noteq> fst y" if "x \<in> set scripts" "y \<in> set images" for x y using that by simp
  have "distinct (map fst hs)" "set (map fst hs) \<subseteq> {''/ipxe/'', ''/'', ''/iso/''}"
    using r(2) \<open>distinct (map fst scripts)\<close> \<open>set (map fst scripts) \<subseteq> {''/''}\<close> disj by (fastforce simp: hs(1))+
  moreover have "\<exists>br. snd (config_backend (ml ForScripts) c) = Inr br \<and> (''/'', Scripts (script_handler c br)) \<in> set hs"
    if "http_enabled (cfg_ipxeHTTPScript c)" using r(1) that by (auto simp: hs(1))
  ultimately show ?thesis using that c2 hs(2) by blast
qed

section \<open>The path of a machine's script\<close>

definition machine_script :: "bytes \<Rightarrow> string" where
  "machine_script mac = ''/'' @ HardwareAddr_String mac @ ''/auto.ipxe''"

lemma machine_path:
  assumes "length mac \<in> {6, 8, 20}"
  shows "path_Join [''/'', HardwareAddr_String mac, ''auto.ipxe''] = machine_script mac"
    and "cleanPath (machine_script mac) = machine_script mac"
    and "machine_script mac ! 3 = CHR '':''" "7 < length (machine_script mac)"
    and "url_escape (machine_script mac) encodePath = machine_script mac"
proof -
  let ?p = "machine_script mac"
  let ?es = "[HardwareAddr_String mac, ''auto.ipxe'']"
  have plain: "\<forall>e \<in> set ?es. plain_elem e"
    using HardwareAddr_String_plain[of mac] assms auto_ipxe_plain(1) by (cases mac) auto
  show "path_Join [''/'', HardwareAddr_String mac, ''auto.ipxe''] = ?p"
    using path_Join_plain[OF _ plain] by (simp add: machine_script_def)
  have "rooted_path ?es False = ?p" by (simp add: rooted_path_def machine_script_def)
  with cleanPath_rooted[of ?es False] plain plain_clean_elem show "cleanPath ?p = ?p" by metis
  have "\<not> shouldEscape (CHR ''/'') encodePath" by (simp add: shouldEscape_def)
  with Join_plain_bytes(2)[OF plain] have "\<forall>c \<in> set ?p. \<not> shouldEscape c encodePath" by (auto simp: machine_script_def)
  then show "url_escape ?p encodePath = ?p" by (rule escape_plain)
  have "2 \<le> length mac" using assms by auto
  then have "HardwareAddr_String mac ! 2 = CHR '':''" "2 < length (HardwareAddr_String mac)"
    using HardwareAddr_String_third HardwareAddr_String_length[of mac] by (cases mac; auto)+
  then show "?p ! 3 = CHR '':''" "7 < length ?p" by (simp_all add: machine_script_def nth_append numeral_eq_Suc)
qed

text \<open>Among the routes of a start, the path of a machine's script belongs to the scripts.\<close>

lemma machine_route:
  assumes "length mac \<in> {6, 8, 20}" "distinct (map fst mux)" "(''/'', r) \<in> set mux"
    and "set (map fst mux) \<subseteq> {''/ipxe/'', ''/'', ''/iso/'', ''/metrics'', ''/healthcheck''}"
  shows "mux_find mux meth (machine_script mac) = Routed r"
proof -
  let ?p = "machine_script mac"
  have third: "?p ! 3 = CHR '':''" "(?p @ ''/'') ! 3 = CHR '':''"
    using machine_path(3,4)[OF assms(1)] by (simp_all only: nth_append) simp_all
  have other: "q \<in> {''/ipxe/'', ''/iso/'', ''/metrics'', ''/healthcheck''} \<Longrightarrow> q ! 3 \<noteq> CHR '':'' \<and> 4 < length q" for q by auto
  have "?p @ ''/'' \<notin> set (map fst mux)"
  proof
    assume "?p @ ''/'' \<in> set (map fst mux)"
    moreover have "?p @ ''/'' \<noteq> ''/''" by (simp add: machine_script_def)
    ultimately have "?p @ ''/'' \<in> {''/ipxe/'', ''/iso/'', ''/metrics'', ''/healthcheck''}" using assms(4) by blast
    with other third(2) show False by blast
  qed
  moreover have "mux_match mux ?p = Some (''/'', r)"
  proof (rule mux_match_eqI[OF assms(2,3)])
    show "pattern_matches ''/'' ?p" by (simp add: machine_script_def pattern_matches_def HasSuffix_def HasPrefix_def)
  next
    fix q k assume q: "(q, k) \<in> set mux" "pattern_matches q ?p"
    have "q = ''/''"
    proof (rule ccontr)
      assume "q \<noteq> ''/''"
      with q(1) assms(4) have o: "q ! 3 \<noteq> CHR '':''" "4 < length q" using other by force+
      have "q = take (length q) ?p" using q(2) by (rule pattern_matches_prefix)
      from arg_cong[OF this, of "\<lambda>x. x ! 3"] have "q ! 3 = ?p ! 3" using o(2) by (simp del: nth_Cons_numeral)
      with o(1) third(1) show False by simp
    qed
    then show "length q \<le> length ''/''" by simp
  qed
  ultimately show ?thesis using mux_find_clean machine_path(2)[OF assms(1)] by metis
qed

section \<open>From the reply to the script\<close>

lemma http_handler_calls:
  "http_handler tp write h = Ret serve \<Longrightarrow> \<exists>a. fst (serve req) = snd (h (req\<lparr>Req_RemoteAddr := a\<rparr>))"
proof -
  assume serve: "http_handler tp write h = Ret serve"
  have log: "fst (logging_ServeHTTP write h r) = snd (h r)" for r
    by (simp add: logging_ServeHTTP_def Let_def rw_fold_passed_on case_prod_beta)
  from serve consider x where "serve = xff_Handler x (logging_ServeHTTP write h)" | "serve = logging_ServeHTTP write h"
    by (auto simp: http_handler_def split: if_splits sum.splits)
  then show ?thesis
  proof cases
    case 1
    then show ?thesis by (intro exI) (simp add: xff_Handler_def log)
  next
    case 2
    then show ?thesis by (intro exI[of _ "Req_RemoteAddr req"]) (simp add: log)
  qed
qed

text \<open>The handler of the server over the routes of a start.\<close>

lemma server_handler_routes:
  assumes "parseTrustedProxies s = Ret (TrustedProxies cfg)" "distinct (map fst hs)"
    and "set (map fst hs) \<subseteq> {''/ipxe/'', ''/'', ''/iso/''}"
  obtains serve where "server_handler env cfg run hs = Ret serve"
    and "\<And>req. \<exists>a. fst (serve req) = snd (mux_ServeHTTP env cfg run
      (map (\<lambda>(p, h). (p, App h)) hs @ [(''/metrics'', MetricsRoute), (''/healthcheck'', HealthRoute)]) (req\<lparr>Req_RemoteAddr := a\<rparr>))"
proof -
  let ?mux = "map (\<lambda>(p, h). (p, App h)) hs"
  have names: "map fst ?mux = map fst hs" by (induction hs) auto
  have "''/metrics'' \<notin> set (map fst hs)" "''/healthcheck'' \<notin> set (map fst hs)" using assms(3) by auto
  moreover have "mux_register [] ?mux = Ret ?mux" using assms(2) by (simp add: mux_register_Ret names del: map_map)
  ultimately have "server_handler env cfg run hs =
      http_handler (TrustedProxies cfg) (he_write env) (mux_ServeHTTP env cfg run (?mux @ [(''/metrics'', MetricsRoute), (''/healthcheck'', HealthRoute)]))"
    by (simp add: server_handler_def mux_Handle_def names del: map_map set_map)
  moreover obtain serve where serve: "http_handler (TrustedProxies cfg) (he_write env)
      (mux_ServeHTTP env cfg run (?mux @ [(''/metrics'', MetricsRoute), (''/healthcheck'', HealthRoute)])) = Ret serve"
    using trusted_proxies_accepted[OF assms(1)] by blast
  ultimately have "server_handler env cfg run hs = Ret serve" by simp
  then show ?thesis using http_handler_calls[OF serve] by (rule that)
qed

text \<open>
  C39. The chain from the DHCP reply to the boot script, through both servers of one start, with the hardware address
  put into the default path of the script: the reply to a machine that runs Tinkerbell's iPXE and may boot
  names a URL at the configured host, with the path of that machine, the HTTP server started beside the DHCP server comes up, and it answers every request for that
  URL's path, whatever its method, client, trusted proxies and other routes, with the script of exactly that
  machine, as the backend of the script server, which is an instance of its own, knows it when asked.
\<close>

theorem machine_boots:
  assumes start: "smee_main sdk ml c = Ret (ss, stop)" "DHCPService ba bi (ReservationHandler h) \<in> set ss"
      "HTTPService addr (TrustedProxies cfg) hs \<in> set ss" "http_enabled (cfg_ipxeHTTPScript c)"
    and paths: "dhcp_httpIpxeScriptURL (cfg_dhcp c) = []" "injectMacAddress (dhcp_httpIpxeScript (cfg_dhcp c))"
      "ub_Path (dhcp_httpIpxeScript (cfg_dhcp c)) = ''/auto.ipxe''"
    and machine: "length mac \<in> {6, 8, 20}" "AllowNetboot n" "IPXEScriptURL n = None"
    and client: "dhcpv4_laws lib" "netboot_client lib p" "ClientHWAddr p = Some mac" "ArchToBootFile (Arch lib p) \<noteq> None"
      "Options p OptionUserClassInformation = Some (Some ''Tinkerbell'')"
    and reply: "updateMsg lib ot h ctx p d n mt = Some r"
    and known: "snd (config_backend (ml ForScripts) c) = Inr br" "GetByMac br mac = Ret (Inr (Some d', Some n'))"
      "AllowNetboot n'" "IPXEScriptURL n' = None"
  shows "\<exists>u serve. BootFileName r = URL_String u \<and> Host u = script_host (dhcp_httpIpxeScript (cfg_dhcp c)) \<and> Path u = machine_script mac \<and>
     server_handler env cfg (run_app env sc binaries images) hs = Ret serve \<and>
     (\<forall>req. Path (request_URL env req) = Path u \<and> RawPath (request_URL env req) = [] \<and> Req_RequestURI req \<noteq> ''*'' \<longrightarrow>
        fst (serve req) =
          [RW_Write (if IPXEScript n' \<noteq> [] then custom_text (IPXEScript n') else hook_text (hook_of (script_handler c br) sc d' n'))])"
proof -
  obtain c3 c' where s: "c3 \<in> {c, disable_kube c}" "dhcpHandler (ml ForDHCP) c3 = (c', Inr (ReservationHandler h))"
      "parseTrustedProxies (http_trustedProxies (cfg_ipxeHTTPScript c)) = Ret (TrustedProxies cfg)"
      "distinct (map fst hs)" "set (map fst hs) \<subseteq> {''/ipxe/'', ''/'', ''/iso/''}"
      "(''/'', Scripts (script_handler c br)) \<in> set hs"
    using main_start_services[OF smee_main_services[OF start(1)] start(3,2)] start(4) known(1) by (metis sum.inject(2))
  have same: "cfg_dhcp c3 = cfg_dhcp c" using s(1) by auto
  have root: "path_Dir ''/auto.ipxe'' = ''/''" by code_simp
  have path: "path_Join [path_Dir (ub_Path (dhcp_httpIpxeScript (cfg_dhcp c))), HardwareAddr_String mac, ''auto.ipxe''] = machine_script mac"
    using machine_path(1)[OF machine(1)] by (simp add: paths(3) root)
  have prefix: "ub_Path (dhcp_httpIpxeScript (cfg_dhcp c3)) = [] @ ''/auto.ipxe''" "HasPrefix (ub_Path (dhcp_httpIpxeScript (cfg_dhcp c3))) ''/''"
    "dhcp_httpIpxeScriptURL (cfg_dhcp c3) = []" "injectMacAddress (dhcp_httpIpxeScript (cfg_dhcp c3))"
    by (simp_all add: same paths HasPrefix_def)
  obtain u where u: "BootFileName r = URL_String u" "Host u = script_host (dhcp_httpIpxeScript (cfg_dhcp c))" "Path u = machine_script mac"
    using reply_names_script[OF s(2) prefix(3,4,1,2) machine client reply] unfolding same path by blast
  let ?body = "[RW_Write (if IPXEScript n' \<noteq> [] then custom_text (IPXEScript n') else hook_text (hook_of (script_handler c br) sc d' n'))]"
  have "backend_reader br" using backend_lawful[of "ml ForScripts" c _ br] known(1) by (metis prod.collapse)
  moreover have "s_Backend (script_handler c br) = Some br" by (simp add: script_handler_def Let_def)
  ultimately have served: "script_HandlerFunc we (script_handler c br) sc (machine_script mac) remote = Ret ?body" for we remote
    using machine_script_served[OF _ _ machine(1) known(2-4), of "script_handler c br" we sc "[]" remote] by (simp add: machine_script_def)
  let ?mux = "map (\<lambda>(p, h). (p, App h)) hs @ [(''/metrics'', MetricsRoute), (''/healthcheck'', HealthRoute)]"
  obtain serve where serve: "server_handler env cfg (run_app env sc binaries images) hs = Ret serve"
      "\<And>req. \<exists>a. fst (serve req) = snd (mux_ServeHTTP env cfg (run_app env sc binaries images) ?mux (req\<lparr>Req_RemoteAddr := a\<rparr>))"
    using server_handler_routes[OF s(3-5)] by blast
  have names: "map fst ?mux = map fst hs @ [''/metrics'', ''/healthcheck'']" by (induction hs) auto
  have "distinct (map fst ?mux)" "(''/'', App (Scripts (script_handler c br))) \<in> set ?mux"
    "set (map fst ?mux) \<subseteq> {''/ipxe/'', ''/'', ''/iso/'', ''/metrics'', ''/healthcheck''}"
    unfolding names using s(4-6) by auto
  note route = machine_route[OF machine(1) this]
  have "fst (serve req) = ?body"
    if req: "Path (request_URL env req) = Path u" "RawPath (request_URL env req) = []" "Req_RequestURI req \<noteq> ''*''" for req
  proof -
    obtain a where a: "fst (serve req) = snd (mux_ServeHTTP env cfg (run_app env sc binaries images) ?mux (req\<lparr>Req_RemoteAddr := a\<rparr>))"
      using serve(2) by blast
    have same_URL: "request_URL env (req\<lparr>Req_RemoteAddr := a\<rparr>) = request_URL env req" by (simp add: request_URL_def)
    have "machine_script mac \<noteq> ''*''" by (simp add: machine_script_def)
    then have "EscapedPath (request_URL env req) = machine_script mac"
      using req(1,2) u(3) machine_path(5)[OF machine(1)] by (simp add: EscapedPath_def)
    then show ?thesis
      unfolding a by (simp add: mux_ServeHTTP_def same_URL req(1,3) u(3) route run_route_def run_app_def run_script_def served del: map_append)
  qed
  with u serve(1) show ?thesis by blast
qed

theorem machine_boots_witness:
  "\<exists>sdk ss h d r u (serve :: Request \<Rightarrow> rw_call list \<times> log_entry option) body. smee_main sdk (\<lambda>_. sample_file_main) sample_file_config = Ret (ss, []) \<and> length ss = 4 \<and>
     updateMsg sample_lib noop_otel h () sample_discover d (new_Netboot\<lparr>AllowNetboot := True\<rparr>) MessageTypeOffer = Some r \<and>
     BootFileName r = URL_String u \<and>
     fst (serve \<lparr>Req_Method = ''GET'', Req_RequestURI = Path u, Req_RemoteAddr = ''10.0.0.1:4711'', Req_Header = Map.empty\<rparr>) = [RW_Write body]"
proof -
  let ?h = "default_handler sample_file_backend ''abcd''"
  let ?n = "new_Netboot\<lparr>AllowNetboot := True\<rparr>"
  let ?hs = "[(''/ipxe/'', Binaries []), (''/'', Scripts (script_handler sample_file_config sample_file_backend))]"
  obtain c where c: "config_backend sample_file_main sample_file_config = (c, Inr sample_file_backend)"
    using sample_file_config_backend by blast
  have urls: "default_urls (ml_values sample_file_main) ''abcd''" using sample_main_urls by (simp add: sample_file_main_def)
  have "length ''abcd'' = 4" by simp
  note services = default_services[of "''abcd''" "\<lambda>_. sample_file_main", OF this urls c c sample_file_config_def]
  let ?sdk = "\<lparr>sdk_resource_New = (\<lambda>s. None), sdk_exporter_New = (\<lambda>opts. None)\<rparr>"
  have "otel_endpoint (cfg_otel sample_file_config) = []" by (simp add: sample_file_config_def default_config_def)
  note ss = smee_main_untraced[OF this, of ?sdk "\<lambda>_. sample_file_main", unfolded services go_bind.simps]
  have known: "snd (config_backend ((\<lambda>_. sample_file_main) ForScripts) sample_file_config) = Inr sample_file_backend" by (simp add: c)
  obtain d where d: "GetByMac sample_file_backend sample_mac = Ret (Inr (Some d, Some ?n))" using sample_file_machine by blast
  obtain r where r: "updateMsg sample_lib noop_otel ?h () sample_discover d ?n MessageTypeOffer = Some r"
    using updateMsg_lease_reply[OF sample_laws, of noop_otel ?h "()" sample_discover d ?n MessageTypeOffer] by blast
  have mac: "length sample_mac \<in> {6, 8, 20}" "ClientHWAddr sample_discover = Some sample_mac"
    by (simp_all add: sample_mac_def sample_discover_def)
  let ?cfg = "\<lparr>GitRev = [], StartTime = 0, TrustedProxies = []\<rparr>"
  let ?run = "run_app sample_http_env \<lparr>TraceID = [], SpanID = [], IsSampled = False\<rparr> (\<lambda>b req. (Map.empty, [])) (\<lambda>i req. (Map.empty, []))"
  let ?body = "if IPXEScript ?n \<noteq> [] then custom_text (IPXEScript ?n)
     else hook_text (hook_of (script_handler sample_file_config sample_file_backend) \<lparr>TraceID = [], SpanID = [], IsSampled = False\<rparr> d ?n)"
  have "\<exists>u serve. BootFileName r = URL_String u \<and> Host u = script_host (dhcp_httpIpxeScript (cfg_dhcp sample_file_config)) \<and>
     Path u = machine_script sample_mac \<and> server_handler sample_http_env ?cfg ?run ?hs = Ret serve \<and>
     (\<forall>req. Path (request_URL sample_http_env req) = Path u \<and> RawPath (request_URL sample_http_env req) = [] \<and> Req_RequestURI req \<noteq> ''*'' \<longrightarrow>
        fst (serve req) = [RW_Write ?body])"
    by (rule machine_boots[OF ss _ _ _ _ _ _ mac(1) _ _ sample_laws sample_discover_netboot mac(2) sample_discover_binary
          sample_discover_user r known d])
      (simp_all add: sample_file_config_def default_config_def new_Netboot_def)
  then obtain u and serve :: "Request \<Rightarrow> rw_call list \<times> log_entry option" where b: "BootFileName r = URL_String u" "Path u = machine_script sample_mac"
    "\<forall>req. Path (request_URL sample_http_env req) = Path u \<and> RawPath (request_URL sample_http_env req) = [] \<and> Req_RequestURI req \<noteq> ''*'' \<longrightarrow>
       fst (serve req) = [RW_Write ?body]" by blast
  let ?req = "\<lparr>Req_Method = ''GET'', Req_RequestURI = Path u, Req_RemoteAddr = ''10.0.0.1:4711'', Req_Header = Map.empty\<rparr>"
  have "request_URL sample_http_env ?req = empty_URL\<lparr>Path := Path u\<rparr>" by (simp add: request_URL_def sample_http_env_def)
  moreover have "Path u \<noteq> ''*''" by (simp add: b(2) machine_script_def)
  ultimately have "fst (serve ?req) = [RW_Write ?body]" using b(3)[rule_format, of ?req] by (simp add: empty_URL_def)
  with ss r b(1) show ?thesis by fastforce
qed

end
