(* ===== verification/Spec2Isabelle.thy ===== *)
theory Spec2Isabelle
  imports DHCP_Server ISO_Patch Syslog_Receiver Backend_File Backend_Kube IPXE_Script Reverse_Proxy Switch_Protocol
    CLI_Usage Smee_Boot
begin

text \<open>
  Smee is Tinkerbell's network boot service: one process that answers DHCP requests (as a DHCP server for reserved
  addresses, or as a proxy beside another DHCP server), hands iPXE binaries and scripts to the machines it
  answered, serves a boot ISO that it patches on the way, and collects the syslog messages of the machines. This
  development translates the Go code under \<open>src/cmd/smee\<close> and \<open>src/internal\<close> into HOL and proves what makes
  it correct. Definitions keep the names of the code; where two packages share a name, or HOL has it already,
  the package is put in front (\<open>reservation_Handle\<close>, \<open>proxy_Handle\<close>, \<open>file_GetByMac\<close>).

  \<^bold>\<open>How the program works\<close>

  \<open>main\<close> reads its flags (\<open>flag.go\<close>), makes a backend that knows the machines (\<open>backend.go\<close>: the Kubernetes
  cluster, a YAML file, or none), and starts up to four services in one group of goroutines. The DHCP
  server reads datagrams and starts its handler on each in a goroutine of its own; the handler asks the backend
  about the machine and replies with an address, a boot file or the URL of a script. A machine that follows
  the reply loads an iPXE binary by TFTP or HTTP, asks again by DHCP as iPXE, and then fetches its script from
  the HTTP server, which asks a backend of the same configuration: each service makes its own. The HTTP server also serves the ISO through a reverse proxy whose
  transport and copy patch it. The syslog receiver is independent of the others. The first service that fails
  ends the program.

  \<^bold>\<open>Theories and sources\<close>

  Vocabulary and libraries:
  \<^item> \<^theory_text>\<open>Smee_Prelude\<close> Go's bytes, strings, nillable slices and fixed-width integers, its string functions, panics
    (\<open>'a go\<close>: \<open>Ret\<close> or \<open>Panic\<close>), and the locale of invariants of transition systems.
  \<^item> \<^theory_text>\<open>Go_Net\<close> \<open>net\<close> and \<open>net/netip\<close>: addresses, their parsers and printers, networks, host and port.
  \<^item> \<^theory_text>\<open>Go_URL\<close> \<open>path\<close> and \<open>net/url\<close>: lexical paths, escaping, \<open>URL.String\<close>, \<open>JoinPath\<close>.
  \<^item> \<^theory_text>\<open>DHCPv4_Package\<close> the interface to \<open>insomniacslk/dhcp\<close> and its laws.

  DHCP, \<open>internal/dhcp\<close>:
  \<^item> \<^theory_text>\<open>DHCP_Data\<close> \<open>data/data.go\<close>, \<open>handler/handler.go\<close>, \<open>backend/noop\<close>: the records and the contract of a backend, the
    locale \<open>backend_reader\<close>, interpreted for each backend of the program.
  \<^item> \<^theory_text>\<open>DHCP_Info\<close> \<open>dhcp.go\<close>: architecture, user class, client type, the check of a netboot client, boot file.
  \<^item> \<^theory_text>\<open>DHCP_Handler\<close>, \<^theory_text>\<open>DHCP_Reservation\<close>, \<^theory_text>\<open>DHCP_Proxy\<close> \<open>handler/reservation\<close> and \<open>handler/proxy\<close>: a handler maps a packet to its
    effects in order (spans, attributes, datagrams) or a panic. The locale \<open>dhcp_handler\<close> is what the server relies on,
    interpreted for both.
  \<^item> \<^theory_text>\<open>DHCP_Server\<close> \<open>server/dhcp.go\<close>: the loop over the reads of the socket and the goroutines it starts.
  \<^item> \<^theory_text>\<open>DHCP_Otel\<close>, \<^theory_text>\<open>Otel_Setup\<close> \<open>dhcp/otel/otel.go\<close> and \<open>internal/otel/otel.go\<close>: telemetry attributes, trace parents, set-up.

  Backends, \<open>internal/backend\<close>:
  \<^item> \<^theory_text>\<open>Backend_Values\<close>, \<^theory_text>\<open>Backend_File\<close>, \<^theory_text>\<open>Backend_Kube\<close> \<open>file/file.go\<close> with its watcher, \<open>kube\<close> with its indexes.

  HTTP, \<open>internal/ipxe\<close> and \<open>internal/iso\<close>:
  \<^item> \<^theory_text>\<open>HTTP_Server\<close> \<open>ipxe/http/xff.go\<close> and \<open>middleware.go\<close>: the client's address behind trusted proxies, logging. A handler that looks at
    what its writes, flushes and hijacks return is a \<open>handler_run\<close>.
  \<^item> \<^theory_text>\<open>HTTP_Routes\<close> \<open>ipxe/http/http.go\<close>: the routes, the health check, and how a request finds its route.
  \<^item> \<^theory_text>\<open>IPXE_Script\<close> \<open>ipxe/script\<close>: the handler of scripts and its three templates, as the trees Go parses them into.
  \<^item> \<^theory_text>\<open>Metric\<close> \<open>metric/metric.go\<close>: the metrics and the series they start with.
  \<^item> \<^theory_text>\<open>ISO_Patch\<close> \<open>iso/iso.go\<close> and \<open>ipam.go\<close>: the round tripper that guards the ISO and the copy that patches it.
  \<^item> \<^theory_text>\<open>Proxy_Headers\<close>, \<^theory_text>\<open>Proxy_Copy\<close>, \<^theory_text>\<open>Reverse_Proxy\<close>, \<^theory_text>\<open>Switch_Protocol\<close> \<open>iso/internal\<close>: the reverse proxy, in the order headers,
    copying with the writer that bounds the latency, one request from end to end, and the connection after a
    switch of protocols.

  Syslog, \<open>internal/syslog\<close>:
  \<^item> \<^theory_text>\<open>Syslog_Message\<close> \<open>message.go\<close>, \<open>facility_string.go\<close>, \<open>severity_string.go\<close> and \<open>parse\<close>: one datagram, parsed in place.
  \<^item> \<^theory_text>\<open>Syslog_Receiver\<close> \<open>receiver.go\<close>: reader, parsers, channel, pool and shutdown as one transition system.

  The program, \<open>cmd/smee\<close>:
  \<^item> \<^theory_text>\<open>Smee_Config\<close>, \<^theory_text>\<open>CLI_Usage\<close> \<open>flag.go\<close> and the records of \<open>main.go\<close>: flags, defaults, usage, the detected address.
  \<^item> \<^theory_text>\<open>Smee_Main\<close>, \<^theory_text>\<open>Smee_Boot\<close> \<open>main.go\<close>, \<open>backend.go\<close>: backend, handler, routes and services from a configuration, and the
    servers running together.

  \<^bold>\<open>How it is modelled\<close>

  A struct is a record, a closed set of alternatives a datatype. Go's errors are values of \<open>go_error\<close>, kept as far as
  the code distinguishes them; a result with an error is a sum, and every early return is a branch. Panics are values,
  so that a nil dereference, an index out of range or an explicit \<open>panic\<close> can be excluded or exhibited. Integers have
  their width where it matters: the priority of a message is a byte, a lease is cut to 32 bits. Code that runs in
  several goroutines is a step relation whose steps are what the code does between two points of synchronisation: the
  syslog receiver, the latency writer and the copies after a switch of protocols. Handlers, whose effects do not
  depend on one another, are functions to the list of their effects.

  There is no fuel. Loops over the network are recursions over the finite list of what the network gives: the reads of the
  DHCP socket, the events of the file watcher, the chunks of a body, and for the timer of the latency writer whether it is
  due at each step. As these lists are arbitrary, every finite part of an endless run is covered. The loops of the parsers
  recurse over their text or have a measure. The step relations have no bound: their invariants hold for every
  reachable state, and \<open>switch_protocol_ends\<close> bounds the length of every run by the bytes that are sent.

  Code outside the repository is a parameter, with the laws that the properties need as hypotheses. The laws of the DHCP
  package are \<open>dhcpv4_laws\<close>: updating an option changes that option only, a reply is the one made from the request
  with the modifiers applied in order and, as the package does it, the op code of a reply only for a packet with that of a request, a
  netmask is cut to four bytes. A listing of the cluster may fail. Each service makes its backend by a call of its own,
  so \<open>smee_main\<close> takes the surroundings of each call (\<open>backend_call\<close>). Records hold the other libraries: \<open>otel_lib\<close>, \<open>otel_sdk\<close>, \<open>time_lib\<close>, \<open>value_lib\<close>,
  \<open>cluster_lib\<close>, \<open>proxy_lib\<close>, \<open>http_env\<close>, \<open>proxy_env\<close>, \<open>os_net\<close>, \<open>usage_lib\<close> and \<open>main_lib\<close>; the YAML and JSON parsers, the
  transport of the proxy and what fsnotify reports are arguments. Every property with such a hypothesis has a witness
  with concrete functions for the parameters.

  \<^bold>\<open>What is shown\<close>

  Reservations and proxy: a reserved machine gets exactly one reply, to the prescribed address, with the options of its
  reservation; neither handler panics over a lawful backend, and the cases in which they stay silent are listed; the
  proxy never hands out an address; a machine that runs Tinkerbell's iPXE is never sent back to a binary. The tests of the netboot
  check are given in full and compared with its comment, the architectures with their binaries by their tables. Server: it hands every datagram that parses to every handler,
  keeps reading, and every datagram its handlers send answers one that was read.

  Backends: the file backend does not depend on the order of a Go map; its data is always that of the last
  successful read; a lookup in the cluster returns the interface asked for, an error (a failed listing among them), or panics on an interface without DHCP data.

  Middleware: which of the addresses in X-Forwarded-For counts, and what the logging middleware changes for the handler inside it
  (results of failed writes, no flushing and no hijacking), passes on, and logs.

  Scripts, routes and program: the script of each case, its text line by line, the route of each request,
  the well-formedness of every handler a configuration leads to, the services of a start without flags with their backends and URLs, and
  across both servers that the URL of a DHCP reply leads to the script of that machine (\<open>machine_boots\<close>).

  ISO and proxy: which requests reach the source and with which header fields, the status of every other, that patching keeps every length and replaces
  one magic string per chunk, each of the nine values of the address configuration read back from its place, what the client gets on each branch of a
  protocol switch, and that such a session ends with nothing left behind. The latency writer flushes what it wrote and
  writes nothing after it was stopped; \<open>copyResponse\<close> refines its transition system.

  Syslog: both formats are parsed back into their fields, the panics of the parser are characterised, messages are
  delivered in the order in which they were taken from the channel and owned by one goroutine at a time, and from every
  reachable state that has not crashed the parsers log all queued messages in a bounded number of steps, unless one of these makes
  the parser panic (\<open>receiver_drains\<close>).

  \<^bold>\<open>What the code does not do as meant\<close>

  Theorems exhibit: a datagram without \<open>>\<close> that panics on what a reused buffer still holds, and in general the panics of
  the parser; a legacy time corrected by nanoseconds instead of hours; a read error that always ends the
  receiver; a shutdown that can send on a closed channel; a magic string that two reads share, which is not patched, and a
  patch longer than it, which overwrites the image; an interface without DHCP data, on which the cluster lookup panics;
  a protocol error answered twice; a DHCP packet with the op code of a reply, which the reservation handler answers with the
  op code of a request; a response writer of the logging middleware that cannot be flushed or hijacked, so that the ISO proxy's
  flushes are lost and it can never switch protocols; a netboot client in an undocumented format, which is accepted; the header X-Forwarded, which
  a comment counts among the removed, passing to the source; a static script that ignores the configured retries; and lease times whose default of a
  week is used only for values that do not fit.

  \<^bold>\<open>Not modelled\<close>

  Log lines and the values of metrics, which nothing in the program reads. Opening sockets, TLS, signals and the scheduler,
  which are calls into the runtime; the random choice of which requests to log. Parsing the command line, the environment
  and Go templates, which libraries do; the templates are constants. In the reverse proxy the cancellation of a
  request through \<open>CloseNotify\<close>, closing bodies, and the buffer pool, which is not configured. The stringer's
  compile-time checks of its tables, of which the tables themselves are proved to name each constant.
\<close>

end
